(* ===== verification/Prelude.thy ===== *)
theory Prelude
  imports Main "HOL-Library.AList" "HOL-Library.List_Lexorder" "HOL-Library.Char_ord"
    "HOL-Library.Sublist"
begin

text \<open>
  Shared vocabulary of the development: the Python string, dictionary and integer-parsing
  operations the sources use (\<open>str.split\<close>, \<open>str.partition\<close>, \<open>str.rpartition\<close>, \<open>str.strip\<close>,
  \<open>int(...)\<close>, dictionary merge), the JSON values that cross process boundaries, and the rule
  collections every component adds its facts to. Strings are character lists: one \<open>char\<close> stands
  for one code point below 256, which is the range every literal of the sources lies in.
\<close>

named_theorems hoare \<open>rules of the all-environments judgement\<close>

section \<open>Python strings\<close>

definition startswith :: "string \<Rightarrow> string \<Rightarrow> bool" where
  "startswith s p \<longleftrightarrow> take (length p) s = p"

definition endswith :: "string \<Rightarrow> string \<Rightarrow> bool" where
  "endswith s p \<longleftrightarrow> startswith (rev s) (rev p)"

lemma startswith_append [simp]: "startswith (p @ s) p"
  by (simp add: startswith_def)

lemma startswith_Nil [simp]: "startswith s []"
  by (simp add: startswith_def)

lemma startswith_iff: "startswith s p \<longleftrightarrow> (\<exists>r. s = p @ r)"
  unfolding startswith_def by (metis append_eq_conv_conj append_take_drop_id)

lemma startswith_prefix: "startswith s p \<longleftrightarrow> prefix p s"
  by (simp add: startswith_iff prefix_def)

lemma endswith_iff: "endswith s p \<longleftrightarrow> (\<exists>r. s = r @ p)"
proof -
  have "endswith s p \<longleftrightarrow> (\<exists>r. rev s = rev p @ r)"
    by (simp add: endswith_def startswith_iff)
  also have "\<dots> \<longleftrightarrow> (\<exists>r. s = r @ p)"
    by (metis rev_append rev_rev_ident)
  finally show ?thesis .
qed

text \<open>The first occurrence of a separator, as the text before and after it.\<close>

fun find_sep :: "string \<Rightarrow> string \<Rightarrow> (string \<times> string) option" where
  "find_sep sep [] = (if sep = [] then Some ([], []) else None)"
| "find_sep sep (c # cs) =
     (if startswith (c # cs) sep then Some ([], drop (length sep) (c # cs))
      else map_option (\<lambda>(a, b). (c # a, b)) (find_sep sep cs))"

lemma find_sep_Some: "find_sep sep s = Some (a, b) \<Longrightarrow> s = a @ sep @ b"
  by (induction sep s arbitrary: a b rule: find_sep.induct)
    (auto simp: startswith_iff split: if_splits)

lemma find_sep_length: "find_sep sep s = Some (a, b) \<Longrightarrow> sep \<noteq> [] \<Longrightarrow> length b < length s"
  using find_sep_Some by fastforce

lemma find_sep_None: "find_sep sep s = None \<Longrightarrow> s \<noteq> a @ sep @ b"
proof (induction sep s arbitrary: a rule: find_sep.induct)
  case (1 sep)
  then show ?case by (auto split: if_splits)
next
  case (2 sep c cs)
  show ?case
  proof (cases a)
    case Nil
    with 2 show ?thesis by (auto simp: startswith_iff split: if_splits)
  next
    case (Cons x a')
    with 2 show ?thesis by (auto split: if_splits)
  qed
qed

text \<open>\<open>s.partition(sep)\<close> and \<open>s.rpartition(sep)\<close>, without the middle component.\<close>

definition partition :: "string \<Rightarrow> string \<Rightarrow> string \<times> string" where
  "partition s sep = (case find_sep sep s of None \<Rightarrow> (s, []) | Some ab \<Rightarrow> ab)"

definition rpartition :: "string \<Rightarrow> string \<Rightarrow> string \<times> string" where
  "rpartition s sep = (case find_sep (rev sep) (rev s) of None \<Rightarrow> ([], s)
                       | Some (b, a) \<Rightarrow> (rev a, rev b))"

text \<open>\<open>s.split(sep)\<close>. Every separator of the sources is a non-empty literal.\<close>

function (sequential) split :: "string \<Rightarrow> string \<Rightarrow> string list" where
  "split s sep = (if sep = [] then [s]
     else case find_sep sep s of None \<Rightarrow> [s] | Some (a, b) \<Rightarrow> a # split b sep)"
  by pat_completeness auto
termination
  by (relation "measure (\<lambda>(s, sep). length s)") (auto dest: find_sep_length)

declare split.simps [simp del]

lemma split_code [code]: "split s sep = (case sep of [] \<Rightarrow> [s]
    | _ \<Rightarrow> (case find_sep sep s of None \<Rightarrow> [s] | Some (a, b) \<Rightarrow> a # split b sep))"
  by (subst split.simps) (simp split: list.split)

fun join :: "string \<Rightarrow> string list \<Rightarrow> string" where
  "join sep [] = []"
| "join sep [s] = s"
| "join sep (s # ss) = s @ sep @ join sep ss"

lemma join_Cons: "ss \<noteq> [] \<Longrightarrow> join sep (s # ss) = s @ sep @ join sep ss"
  by (cases ss) auto

lemma split_not_Nil [simp]: "split s sep \<noteq> []"
  by (subst split.simps) (auto split: option.splits)

lemma find_sep_char: "find_sep [x] (c # t) =
    (if c = x then Some ([], t) else map_option (\<lambda>(a, b). (c # a, b)) (find_sep [x] t))"
  by (simp add: startswith_def)

lemma split_char_Nil [simp]: "split [] [x] = [[]]"
  by (subst split.simps) simp

lemma split_char_Cons: "split (c # t) [x] =
    (if c = x then [] # split t [x] else (c # hd (split t [x])) # tl (split t [x]))"
proof (cases "c = x")
  case True
  then show ?thesis by (subst split.simps) (simp add: find_sep_char del: find_sep.simps)
next
  case False
  show ?thesis
  proof (cases "find_sep [x] t")
    case None
    with False show ?thesis by (simp add: split.simps [of "c # t"] split.simps [of t] find_sep_char del: find_sep.simps)
  next
    case (Some ab)
    with False show ?thesis
      by (cases ab) (simp add: split.simps [of "c # t"] split.simps [of t] find_sep_char del: find_sep.simps)
  qed
qed

lemma split_char_append: "x \<notin> set s \<Longrightarrow> split (s @ x # t) [x] = s # split t [x]"
  by (induction s) (auto simp: split_char_Cons)

lemma split_char_fresh: "x \<notin> set s \<Longrightarrow> split s [x] = [s]"
  by (induction s) (auto simp: split_char_Cons)

lemma split_join_char:
  "ss \<noteq> [] \<Longrightarrow> \<forall>s \<in> set ss. x \<notin> set s \<Longrightarrow> split (join [x] ss) [x] = ss"
proof (induction ss)
  case (Cons s ss)
  then show ?case by (cases ss) (auto simp: split_char_append split_char_fresh join_Cons)
qed simp

lemma partition_char: "x \<notin> set s \<Longrightarrow> partition (s @ x # t) [x] = (s, t)"
proof -
  have "find_sep [x] (s @ x # t) = Some (s, t)" if "x \<notin> set s"
    using that by (induction s) (auto simp: find_sep_char simp del: find_sep.simps)
  then show "x \<notin> set s \<Longrightarrow> partition (s @ x # t) [x] = (s, t)" by (simp add: partition_def)
qed

lemma partition_char_fresh: "x \<notin> set s \<Longrightarrow> partition s [x] = (s, [])"
proof -
  have "find_sep [x] s = None" if "x \<notin> set s"
    using that by (induction s) (auto simp: find_sep_char simp del: find_sep.simps(2))
  then show "x \<notin> set s \<Longrightarrow> partition s [x] = (s, [])" by (simp add: partition_def)
qed

lemma join_split: "join sep (split s sep) = s"
proof (induction s sep rule: split.induct)
  case (1 s sep)
  show ?case
  proof (cases "sep = [] \<or> find_sep sep s = None")
    case True
    then show ?thesis by (subst split.simps) auto
  next
    case False
    then obtain a b where ab: "find_sep sep s = Some (a, b)" by auto
    with 1 False have "join sep (split b sep) = b" by auto
    with False ab show ?thesis
      using find_sep_Some [OF ab] by (subst split.simps) (simp add: join_Cons)
  qed
qed

definition replace_str :: "string \<Rightarrow> string \<Rightarrow> string \<Rightarrow> string" where
  "replace_str s old new = join new (split s old)"

definition py_space :: "char \<Rightarrow> bool" where
  "py_space c \<longleftrightarrow> (let n = of_char c :: nat
     in (9 \<le> n \<and> n \<le> 13) \<or> (28 \<le> n \<and> n \<le> 32) \<or> n = 133 \<or> n = 160)"

definition lstrip :: "string \<Rightarrow> string" where
  "lstrip = dropWhile py_space"

definition rstrip :: "string \<Rightarrow> string" where
  "rstrip s = rev (dropWhile py_space (rev s))"

definition strip :: "string \<Rightarrow> string" where
  "strip s = rstrip (lstrip s)"

definition rstrip_char :: "char \<Rightarrow> string \<Rightarrow> string" where
  "rstrip_char c s = rev (dropWhile (\<lambda>x. x = c) (rev s))"

definition lower_char :: "char \<Rightarrow> char" where
  "lower_char c = (let n = of_char c :: nat in if 65 \<le> n \<and> n \<le> 90 then char_of (n + 32) else c)"

definition upper_char :: "char \<Rightarrow> char" where
  "upper_char c = (let n = of_char c :: nat in if 97 \<le> n \<and> n \<le> 122 then char_of (n - 32) else c)"

definition lower :: "string \<Rightarrow> string" where
  "lower = map lower_char"

definition upper :: "string \<Rightarrow> string" where
  "upper = map upper_char"

definition capitalize :: "string \<Rightarrow> string" where
  "capitalize s = (case s of [] \<Rightarrow> [] | c # cs \<Rightarrow> upper_char c # lower cs)"

lemma length_lower [simp]: "length (lower s) = length s"
  by (simp add: lower_def)

section \<open>Decimal and hexadecimal integers\<close>

definition digit_value :: "nat \<Rightarrow> char \<Rightarrow> nat option" where
  "digit_value base c = (let n = of_char c :: nat;
       d = (if 48 \<le> n \<and> n \<le> 57 then n - 48
            else if 97 \<le> n \<and> n \<le> 122 then n - 87
            else if 65 \<le> n \<and> n \<le> 90 then n - 55 else 36)
     in if d < base then Some d else None)"

text \<open>
  The digits of Python's \<open>int(s, base)\<close>: at least one, with single underscores allowed
  between two digits. The flag says whether an underscore may come next.
\<close>

fun digits_value :: "nat \<Rightarrow> bool \<Rightarrow> nat \<Rightarrow> string \<Rightarrow> nat option" where
  "digits_value base ok acc [] = (if ok then Some acc else None)"
| "digits_value base ok acc (c # cs) =
     (if c = CHR ''_'' then (if ok then digits_value base False acc cs else None)
      else case digit_value base c of None \<Rightarrow> None
           | Some d \<Rightarrow> digits_value base True (acc * base + d) cs)"

text \<open>
  With base 16 the prefix \<open>0x\<close> is optional, and an underscore may follow it.
\<close>

definition unsigned_value :: "nat \<Rightarrow> string \<Rightarrow> nat option" where
  "unsigned_value base s =
     (if base = 16 \<and> (startswith s ''0x'' \<or> startswith s ''0X'')
      then (case drop 2 s of [] \<Rightarrow> None
            | c # cs \<Rightarrow> digits_value base False 0 (if c = CHR ''_'' then cs else c # cs))
      else digits_value base False 0 s)"

definition py_int :: "nat \<Rightarrow> string \<Rightarrow> int option" where
  "py_int base s = (case strip s of [] \<Rightarrow> None
     | c # cs \<Rightarrow> if c = CHR ''-'' then map_option (\<lambda>n. - int n) (unsigned_value base cs)
                else if c = CHR ''+'' then map_option int (unsigned_value base cs)
                else map_option int (unsigned_value base (c # cs)))"

abbreviation int_of_str :: "string \<Rightarrow> int option" where
  "int_of_str \<equiv> py_int 10"

text \<open>\<open>str(n)\<close> of a natural number.\<close>

definition digit_char :: "nat \<Rightarrow> char" where
  "digit_char d = char_of (48 + d)"

fun str_nat :: "nat \<Rightarrow> string" where
  "str_nat n = (if n < 10 then [digit_char n] else str_nat (n div 10) @ [digit_char (n mod 10)])"

declare str_nat.simps [simp del]

lemma str_nat_code [code]: "str_nat n = (case n < 10 of True \<Rightarrow> [digit_char n]
    | False \<Rightarrow> str_nat (n div 10) @ [digit_char (n mod 10)])"
  by (subst str_nat.simps) (simp split: bool.split)

definition str_int :: "int \<Rightarrow> string" where
  "str_int i = (if i < 0 then CHR ''-'' # str_nat (nat (- i)) else str_nat (nat i))"


lemma digit_value_digit_char [simp]: "d < 10 \<Longrightarrow> digit_value 10 (digit_char d) = Some d"
  by (simp add: digit_value_def digit_char_def Let_def)

lemma digit_char_plain:
  assumes "d < 10"
  shows "\<not> py_space (digit_char d)" "digit_char d \<noteq> CHR ''-''" "digit_char d \<noteq> CHR ''+''"
    "digit_char d \<noteq> CHR ''_''"
proof -
  have n: "(of_char (digit_char d) :: nat) = 48 + d"
    using assms by (simp add: digit_char_def)
  show "\<not> py_space (digit_char d)"
    using assms by (simp add: py_space_def Let_def n)
  show "digit_char d \<noteq> CHR ''-''" "digit_char d \<noteq> CHR ''+''" "digit_char d \<noteq> CHR ''_''"
    using n assms by (auto dest: arg_cong [where f = "of_char :: char \<Rightarrow> nat"])
qed

lemma digits_value_snoc:
  "digits_value base ok acc xs = Some v \<Longrightarrow> digit_value base c = Some d \<Longrightarrow> c \<noteq> CHR ''_'' \<Longrightarrow>
    digits_value base ok acc (xs @ [c]) = Some (v * base + d)"
  by (induction base ok acc xs rule: digits_value.induct) (auto split: if_splits option.splits)

lemma str_nat_digits: "\<forall>c \<in> set (str_nat n). \<exists>d < 10. c = digit_char d"
proof (induction n rule: str_nat.induct)
  case (1 n)
  have "\<exists>d<10. digit_char (n mod 10) = digit_char d"
    by (rule exI [of _ "n mod 10"]) simp
  with 1 show ?case by (subst str_nat.simps) auto
qed

lemma str_nat_not_Nil [simp]: "str_nat n \<noteq> []"
  by (subst str_nat.simps) simp

lemma digits_value_str_nat: "digits_value 10 False 0 (str_nat n) = Some n"
proof (induction n rule: str_nat.induct)
  case (1 n)
  show ?case
  proof (cases "n < 10")
    case True
    then show ?thesis by (subst str_nat.simps) (simp add: digit_char_plain)
  next
    case False
    with 1 have "digits_value 10 False 0 (str_nat (n div 10)) = Some (n div 10)" by simp
    then have "digits_value 10 False 0 (str_nat (n div 10) @ [digit_char (n mod 10)])
        = Some (n div 10 * 10 + n mod 10)"
      by (rule digits_value_snoc) (simp_all add: digit_char_plain)
    with False show ?thesis by (subst str_nat.simps) simp
  qed
qed

lemma strip_no_space: "\<forall>c \<in> set s. \<not> py_space c \<Longrightarrow> strip s = s"
proof -
  assume a: "\<forall>c \<in> set s. \<not> py_space c"
  have "dropWhile py_space t = t" if "\<forall>c \<in> set t. \<not> py_space c" for t
    using that by (cases t) auto
  from this [of s] this [of "rev s"] a show ?thesis
    by (simp add: strip_def lstrip_def rstrip_def)
qed

lemma int_of_str_str_nat [simp]: "int_of_str (str_nat n) = Some (int n)"
proof -
  have s: "strip (str_nat n) = str_nat n"
    by (rule strip_no_space) (use str_nat_digits [of n] in \<open>auto simp: digit_char_plain\<close>)
  obtain c cs where c: "str_nat n = c # cs" by (cases "str_nat n") auto
  then have "c \<noteq> CHR ''-''" "c \<noteq> CHR ''+''"
    using str_nat_digits [of n] by (auto simp: digit_char_plain)
  moreover have "unsigned_value 10 (c # cs) = Some n"
    using digits_value_str_nat [of n] by (simp add: unsigned_value_def c)
  ultimately show ?thesis using s by (simp add: py_int_def c)
qed

section \<open>Dictionaries and JSON values\<close>

text \<open>
  A Python dictionary keeps the insertion order of its keys; assigning to a key that is present
  keeps the key's place. \<open>AList.update\<close> has this behaviour.
\<close>

type_synonym 'v dict = "(string \<times> 'v) list"

definition dict_set :: "string \<Rightarrow> 'v \<Rightarrow> 'v dict \<Rightarrow> 'v dict" where
  "dict_set = AList.update"

definition dict_merge :: "'v dict \<Rightarrow> 'v dict \<Rightarrow> 'v dict" where
  "dict_merge d e = fold (\<lambda>(k, v). dict_set k v) e d"

lemma map_of_dict_set: "map_of (dict_set k v d) = (map_of d)(k \<mapsto> v)"
  by (simp add: dict_set_def update_conv')

lemma distinct_dict_set: "distinct (map fst d) \<Longrightarrow> distinct (map fst (dict_set k v d))"
  by (simp add: dict_set_def distinct_update)

lemma dict_merge_Nil [simp]: "dict_merge d [] = d"
  by (simp add: dict_merge_def)

lemma dict_merge_Cons [simp]: "dict_merge d ((k, v) # e) = dict_merge (dict_set k v d) e"
  by (simp add: dict_merge_def)

lemma map_of_dict_merge: "distinct (map fst e) \<Longrightarrow> map_of (dict_merge d e) = map_of d ++ map_of e"
proof (induction e arbitrary: d)
  case Nil
  then show ?case by simp
next
  case (Cons p e)
  obtain k v where p: "p = (k, v)" by (cases p)
  with Cons.prems have "map_of e k = None" by (simp add: map_of_eq_None_iff)
  with Cons p show ?case
    by (auto simp: map_of_dict_set map_add_def fun_eq_iff split: option.splits)
qed

lemma distinct_dict_merge: "distinct (map fst d) \<Longrightarrow> distinct (map fst (dict_merge d e))"
  by (induction e arbitrary: d) (auto simp: distinct_dict_set)

datatype json = JNull | JBool bool | JInt int | JStr string | JList "json list"
  | JObj "(string \<times> json) list"

text \<open>\<open>value[key]\<close>: \<open>None\<close> where Python raises (no such key, or not an object).\<close>

fun jget :: "json \<Rightarrow> string \<Rightarrow> json option" where
  "jget (JObj d) k = map_of d k"
| "jget _ _ = None"

fun jstr :: "json \<Rightarrow> string option" where
  "jstr (JStr s) = Some s"
| "jstr _ = None"

text \<open>Truth of a value in a Python condition.\<close>

fun jtrue :: "json \<Rightarrow> bool" where
  "jtrue JNull = False"
| "jtrue (JBool b) = b"
| "jtrue (JInt i) = (i \<noteq> 0)"
| "jtrue (JStr s) = (s \<noteq> [])"
| "jtrue (JList l) = (l \<noteq> [])"
| "jtrue (JObj d) = (d \<noteq> [])"


section \<open>URL quoting\<close>

definition unreserved :: "char \<Rightarrow> bool" where
  "unreserved c \<longleftrightarrow> (let n = of_char c :: nat in (48 \<le> n \<and> n \<le> 57) \<or> (65 \<le> n \<and> n \<le> 90) \<or>
     (97 \<le> n \<and> n \<le> 122) \<or> c \<in> set ''_.-~'')"

definition hex_char :: "nat \<Rightarrow> char" where
  "hex_char d = char_of (if d < 10 then 48 + d else 55 + d)"

text \<open>\<open>urllib.parse.quote(s, safe=safe)\<close> and \<open>urllib.parse.unquote(s)\<close>.\<close>

fun quote :: "string \<Rightarrow> string \<Rightarrow> string" where
  "quote safe [] = []"
| "quote safe (c # cs) =
     (if unreserved c \<or> c \<in> set safe then [c]
      else (let n = of_char c in [CHR ''%'', hex_char (n div 16), hex_char (n mod 16)])) @ quote safe cs"

fun unquote :: "string \<Rightarrow> string" where
  "unquote (c # a # b # cs) =
     (if c = CHR ''%'' then
        (case (digit_value 16 a, digit_value 16 b) of
           (Some x, Some y) \<Rightarrow> char_of (16 * x + y) # unquote cs
         | _ \<Rightarrow> c # unquote (a # b # cs))
      else c # unquote (a # b # cs))"
| "unquote cs = cs"

lemma digit_value_hex_char: "d < 16 \<Longrightarrow> digit_value 16 (hex_char d) = Some d"
  by (cases "d < 10") (simp_all add: digit_value_def hex_char_def Let_def)

lemma unquote_plain: "c \<noteq> CHR ''%'' \<Longrightarrow> unquote (c # cs) = c # unquote cs"
  by (cases cs rule: remdups_adj.cases) simp_all

lemma unquote_quote: "CHR ''%'' \<notin> set safe \<Longrightarrow> unquote (quote safe s) = s"
proof (induction s)
  case Nil
  then show ?case by simp
next
  case (Cons c cs)
  show ?case
  proof (cases "unreserved c \<or> c \<in> set safe")
    case True
    then have "c \<noteq> CHR ''%''" using Cons.prems by (auto simp: unreserved_def Let_def)
    with True Cons show ?thesis by (simp add: unquote_plain)
  next
    case False
    have "(of_char c :: nat) < 256" by (rule nat_of_char_less_256)
    then have "(of_char c :: nat) div 16 < 16" by (simp only: less_mult_imp_div_less)
    moreover have "16 * ((of_char c :: nat) div 16) + of_char c mod 16 = of_char c" by simp
    ultimately show ?thesis using False Cons by (simp add: Let_def digit_value_hex_char)
  qed
qed

section \<open>Base 64\<close>

definition b64_char :: "nat \<Rightarrow> char" where
  "b64_char n = ''ABCDEFGHIJKLMNOPQRSTUVWXYZabcdefghijklmnopqrstuvwxyz0123456789+/'' ! n"

fun b64encode :: "string \<Rightarrow> string" where
  "b64encode [] = []"
| "b64encode [a] = (let x = of_char a in
     [b64_char (x div 4), b64_char (x mod 4 * 16), CHR ''='', CHR ''=''])"
| "b64encode [a, b] = (let x = of_char a; y = of_char b in
     [b64_char (x div 4), b64_char (x mod 4 * 16 + y div 16), b64_char (y mod 16 * 4), CHR ''=''])"
| "b64encode (a # b # c # r) = (let x = of_char a; y = of_char b; z = of_char c in
     [b64_char (x div 4), b64_char (x mod 4 * 16 + y div 16), b64_char (y mod 16 * 4 + z div 64),
      b64_char (z mod 64)] @ b64encode r)"

definition encode_ascii :: "string \<Rightarrow> string option" where
  "encode_ascii s = (if list_all (\<lambda>c. (of_char c :: nat) < 128) s then Some s else None)"

section \<open>Sequences\<close>

text \<open>\<open>xs[i]\<close> with Python's negative indices; \<open>None\<close> where Python raises \<open>IndexError\<close>.\<close>

definition py_index :: "'a list \<Rightarrow> int \<Rightarrow> 'a option" where
  "py_index xs i = (let n = int (length xs); j = (if i < 0 then n + i else i)
     in if 0 \<le> j \<and> j < n then Some (xs ! nat j) else None)"

end
