(* ===== verification/Env.thy ===== *)
theory Env
  imports Prelude
begin

text \<open>
  \<open>dataworkspace/utils.py\<close>: the flat environment variables of the process, with paths such as
  \<open>HAWK_SENDERS__1__id\<close> in their names, become the nested lists and dictionaries that the proxy and
  the Django settings read.
\<close>

datatype env_val = EStr string | EList "env_val list" | EDict "(string \<times> env_val) list"

definition separator :: string where
  "separator = ''__''"

definition get_first_component :: "string \<Rightarrow> string" where
  "get_first_component key = hd (split key separator)"

definition get_later_components :: "string \<Rightarrow> string" where
  "get_later_components key = join separator (tl (split key separator))"

definition without_more_components :: "(string \<times> 'v) list \<Rightarrow> (string \<times> 'v) list" where
  "without_more_components kvs = filter (\<lambda>(k, v). get_later_components k = []) kvs"

definition with_more_components :: "(string \<times> 'v) list \<Rightarrow> (string \<times> 'v) list" where
  "with_more_components kvs = filter (\<lambda>(k, v). get_later_components k \<noteq> []) kvs"

text \<open>
  \<open>itertools.groupby\<close>: maximal runs of items with the same key. The sorting before it makes
  the runs the classes of equal first component.
\<close>

function groupby :: "('x \<Rightarrow> 'k) \<Rightarrow> 'x list \<Rightarrow> ('k \<times> 'x list) list" where
  "groupby f [] = []"
| "groupby f (x # xs) =
     (f x, x # takeWhile (\<lambda>y. f y = f x) xs) # groupby f (dropWhile (\<lambda>y. f y = f x) xs)"
  by pat_completeness auto
termination
  by (relation "measure (\<lambda>(f, xs). length xs)") (auto simp: le_imp_less_Suc length_dropWhile_le)

definition grouped_by_first_component ::
  "(string \<times> 'v) list \<Rightarrow> (string \<times> (string \<times> 'v) list) list" where
  "grouped_by_first_component items =
     groupby (\<lambda>(k, v). get_first_component k) (sort_key (\<lambda>(k, v). get_first_component k) items)"

definition items_with_first_component ::
  "(string \<times> 'v) list \<Rightarrow> string \<Rightarrow> (string \<times> 'v) list" where
  "items_with_first_component items first =
     dict_merge [] (map (\<lambda>(k, v). (get_later_components k, v))
       (filter (\<lambda>(k, v). get_first_component k = first) items))"

definition all_keys_are_ints :: "(string \<times> 'v) list \<Rightarrow> bool" where
  "all_keys_are_ints d = list_all (\<lambda>(k, v). int_of_str k \<noteq> None) d"

definition list_sorted_by_int_key :: "(string \<times> 'v) list \<Rightarrow> 'v list" where
  "list_sorted_by_int_key d = map snd (sort_key (\<lambda>(k, v). the (int_of_str k)) d)"

definition build_level :: "(string \<times> env_val) list \<Rightarrow> env_val" where
  "build_level d = (if all_keys_are_ints d then EList (list_sorted_by_int_key d) else EDict d)"

section \<open>Keys get shorter\<close>

lemma key_components:
  "get_later_components k \<noteq> [] \<Longrightarrow>
    k = get_first_component k @ separator @ get_later_components k"
proof -
  assume later: "get_later_components k \<noteq> []"
  have "split k separator = get_first_component k # tl (split k separator)"
    by (simp add: get_first_component_def)
  moreover have "tl (split k separator) \<noteq> []"
    using later by (auto simp: get_later_components_def)
  ultimately have "join separator (split k separator)
      = get_first_component k @ separator @ get_later_components k"
    by (metis get_later_components_def join_Cons)
  then show ?thesis by (simp add: join_split)
qed

lemma key_later_shorter: "get_later_components k \<noteq> [] \<Longrightarrow> length (get_later_components k) < length k"
proof -
  assume "get_later_components k \<noteq> []"
  from arg_cong [OF key_components [OF this], of length]
  show ?thesis by (simp add: separator_def)
qed

definition max_key :: "(string \<times> 'v) list \<Rightarrow> nat" where
  "max_key kvs = foldr (\<lambda>(k, v) n. max (length k) n) kvs 0"

lemma max_key_ge: "(k, v) \<in> set kvs \<Longrightarrow> length k \<le> max_key kvs"
  by (induction kvs) (auto simp: max_key_def)

lemma max_key_less: "\<forall>(k, v) \<in> set kvs. length k < n \<Longrightarrow> 0 < n \<Longrightarrow> max_key kvs < n"
  by (induction kvs) (auto simp: max_key_def)

lemma groupby_set:
  "(g, xs) \<in> set (groupby f ys) \<Longrightarrow> xs \<noteq> [] \<and> set xs \<subseteq> set ys \<and> (\<forall>x \<in> set xs. f x = g)"
proof (induction f ys rule: groupby.induct)
  case (1 f)
  then show ?case by simp
next
  case (2 f x zs)
  from "2.prems" consider "g = f x" "xs = x # takeWhile (\<lambda>y. f y = f x) zs"
    | "(g, xs) \<in> set (groupby f (dropWhile (\<lambda>y. f y = f x) zs))" by auto
  then show ?case
  proof cases
    case 1
    then show ?thesis by (auto dest: set_takeWhileD)
  next
    case 2
    from "2.IH" [OF this] show ?thesis by (meson set_dropWhileD set_subset_Cons subset_iff)
  qed
qed

lemma groupby_fst: "fst ` set (groupby f ys) = f ` set ys"
proof (induction f ys rule: groupby.induct)
  case (1 f)
  then show ?case by simp
next
  case (2 f x xs)
  have "f ` set xs = f ` set (takeWhile (\<lambda>y. f y = f x) xs) \<union> f ` set (dropWhile (\<lambda>y. f y = f x) xs)"
    by (metis image_Un set_append takeWhile_dropWhile_id)
  moreover have "f ` set (takeWhile (\<lambda>y. f y = f x) xs) \<subseteq> {f x}"
    by (auto dest: set_takeWhileD)
  ultimately show ?case using 2 by auto
qed

lemma dict_merge_subset: "set (dict_merge d e) \<subseteq> set d \<union> set e"
proof (induction e arbitrary: d)
  case Nil
  then show ?case by simp
next
  case (Cons p e)
  obtain k v where p: "p = (k, v)" by (cases p)
  have "set (dict_set k v d) \<subseteq> insert (k, v) (set d)"
    unfolding dict_set_def by (induction d) auto
  with Cons [of "dict_set k v d"] p show ?case by auto
qed

lemma grouped_set:
  assumes "(g, items) \<in> set (grouped_by_first_component kvs)"
  shows "items \<noteq> []" and "set items \<subseteq> set kvs" and "\<forall>(k, v) \<in> set items. get_first_component k = g"
  using groupby_set [OF assms [unfolded grouped_by_first_component_def]] by (auto simp: case_prod_beta)

lemma items_shorter:
  assumes "(g, items) \<in> set (grouped_by_first_component (with_more_components kvs))"
  shows "max_key (items_with_first_component items g) < max_key kvs"
proof -
  from grouped_set [OF assms]
  have ne: "items \<noteq> []" and sub: "set items \<subseteq> set (with_more_components kvs)" by auto
  have short: "length (get_later_components k) < max_key kvs" if "(k, v) \<in> set items" for k v
  proof -
    from that sub have "(k, v) \<in> set kvs" "get_later_components k \<noteq> []"
      by (auto simp: with_more_components_def)
    with key_later_shorter [of k] max_key_ge [of k v kvs] show ?thesis by simp
  qed
  obtain k v where kv: "(k, v) \<in> set items" using ne by (cases items) auto
  show ?thesis
  proof (rule max_key_less)
    have "set (items_with_first_component items g) \<subseteq> (\<lambda>(k, v). (get_later_components k, v)) ` set items"
      unfolding items_with_first_component_def using dict_merge_subset by fastforce
    with short show "\<forall>(k', v') \<in> set (items_with_first_component items g). length k' < max_key kvs"
      by auto
  qed (use short [OF kv] in simp)
qed

section \<open>The conversion\<close>

function normalise_environment :: "(string \<times> string) list \<Rightarrow> env_val" where
  "normalise_environment key_values = build_level
     (dict_merge (map (\<lambda>(k, v). (k, EStr v)) (without_more_components key_values))
       (map (\<lambda>(first, items). (first, normalise_environment (items_with_first_component items first)))
         (grouped_by_first_component (with_more_components key_values))))"
  by pat_completeness auto
termination
  by (relation "measure max_key") (auto intro: items_shorter)

declare normalise_environment.simps [simp del]


section \<open>One level of the result\<close>

definition nested_items :: "(string \<times> string) list \<Rightarrow> string \<Rightarrow> (string \<times> string) list" where
  "nested_items kvs first = items_with_first_component (with_more_components kvs) first"

lemma drop_run_above:
  assumes "sorted (map f (x # zs))" and "y \<in> set (dropWhile (\<lambda>y. f y = f x) zs)"
  shows "f x < f y"
  using assms
proof (induction zs)
  case Nil
  then show ?case by simp
next
  case (Cons z zs)
  then show ?case by (cases "f z = f x") (auto simp: order.strict_iff_order)
qed

lemma sorted_drop_run: "sorted (map f zs) \<Longrightarrow> sorted (map f (dropWhile P zs))"
  by (induction zs) auto

lemma groupby_sorted:
  "sorted (map f ys) \<Longrightarrow> (g, xs) \<in> set (groupby f ys) \<Longrightarrow> xs = filter (\<lambda>y. f y = g) ys"
proof (induction f ys rule: groupby.induct)
  case (1 f)
  then show ?case by simp
next
  case (2 f x zs)
  let ?l = "takeWhile (\<lambda>y. f y = f x) zs" and ?r = "dropWhile (\<lambda>y. f y = f x) zs"
  have srt: "sorted (map f ?r)"
    using "2.prems"(1) by (intro sorted_drop_run) simp
  have above: "\<forall>y \<in> set ?r. f y \<noteq> f x"
    using drop_run_above [OF "2.prems"(1)] by fastforce
  have zs: "filter P zs = filter P ?l @ filter P ?r" for P
    by (metis filter_append takeWhile_dropWhile_id)
  have l: "\<forall>y \<in> set ?l. f y = f x" by (auto dest: set_takeWhileD)
  from "2.prems"(2) consider "g = f x" "xs = x # ?l" | "(g, xs) \<in> set (groupby f ?r)" by auto
  then show ?case
  proof cases
    case 1
    from l have "filter (\<lambda>y. f y = f x) ?l = ?l" unfolding filter_id_conv .

    moreover have "filter (\<lambda>y. f y = f x) ?r = []" using above unfolding filter_empty_conv .
    ultimately show ?thesis using 1 by (simp add: zs)
  next
    case 2
    with groupby_fst [of f ?r] have "g \<in> f ` set ?r" by (metis fst_conv image_eqI)
    have "g \<noteq> f x"
    proof
      assume "g = f x"
      with \<open>g \<in> f ` set ?r\<close> obtain y where "y \<in> set ?r" "f y = f x" by (metis imageE)
      with above show False by blast
    qed
    moreover have "filter (\<lambda>y. f y = g) ?l = []"
    proof (rule filter_False, rule ballI)
      fix y assume "y \<in> set ?l"
      with l have "f y = f x" by (rule bspec)
      with \<open>g \<noteq> f x\<close> show "f y \<noteq> g" by simp
    qed
    ultimately show ?thesis using "2.IH" [OF srt 2] by (simp add: zs)
  qed
qed

lemma groupby_distinct: "sorted (map f ys) \<Longrightarrow> distinct (map fst (groupby f ys))"
proof (induction f ys rule: groupby.induct)
  case (1 f)
  then show ?case by simp
next
  case (2 f x zs)
  let ?r = "dropWhile (\<lambda>y. f y = f x) zs"
  have srt: "sorted (map f ?r)"
    using "2.prems"(1) by (intro sorted_drop_run) simp
  have "f x \<notin> f ` set ?r"
    using drop_run_above [OF "2.prems"(1)] by fastforce
  then have "f x \<notin> fst ` set (groupby f ?r)" by (simp add: groupby_fst)
  with "2.IH" [OF srt] show ?case by simp
qed

lemma grouped_items:
  assumes "(g, items) \<in> set (grouped_by_first_component kvs)"
  shows "items_with_first_component items g = items_with_first_component kvs g"
proof -
  let ?f = "\<lambda>(k :: string, v). get_first_component k"
  have "items = filter (\<lambda>y. ?f y = g) (sort_key ?f kvs)"
    using assms unfolding grouped_by_first_component_def
    by (intro groupby_sorted) (simp_all add: sorted_sort_key)
  also have "\<dots> = filter (\<lambda>y. ?f y = g) kvs" by (rule sort_key_stable)
  finally have "items = filter (\<lambda>(k, v). get_first_component k = g) kvs"
    by (simp add: case_prod_beta')
  then show ?thesis by (simp add: items_with_first_component_def)
qed

definition level :: "(string \<times> string) list \<Rightarrow> (string \<times> env_val) list" where
  "level kvs = dict_merge (map (\<lambda>(k, v). (k, EStr v)) (without_more_components kvs))
     (map (\<lambda>(first, items). (first, normalise_environment (items_with_first_component items first)))
       (grouped_by_first_component (with_more_components kvs)))"

lemma normalise_level: "normalise_environment kvs = build_level (level kvs)"
  by (subst normalise_environment.simps) (simp add: level_def)

lemma map_of_map_val: "map_of (map (\<lambda>(k, v). (k, h v)) d) k = map_option h (map_of d k)"
  by (induction d) auto

lemma map_of_level:
  "map_of (level kvs) first =
     (if \<exists>(k, v) \<in> set kvs. get_later_components k \<noteq> [] \<and> get_first_component k = first
      then Some (normalise_environment (nested_items kvs first))
      else map_option EStr (map_of (without_more_components kvs) first))"
proof -
  let ?w = "with_more_components kvs"
  let ?G = "grouped_by_first_component ?w"
  let ?N = "map (\<lambda>(first, items). (first, normalise_environment (items_with_first_component items first))) ?G"
  have fsts: "map fst ?N = map fst ?G" by auto
  have d: "distinct (map fst ?G)"
    unfolding grouped_by_first_component_def by (rule groupby_distinct) (simp add: sorted_sort_key)
  have G: "fst ` set ?G = get_first_component ` fst ` set ?w"
    unfolding grouped_by_first_component_def by (simp add: groupby_fst image_image case_prod_beta')
  have mem: "first \<in> fst ` set ?G \<longleftrightarrow>
      (\<exists>(k, v) \<in> set kvs. get_later_components k \<noteq> [] \<and> get_first_component k = first)"
    unfolding G by (force simp: with_more_components_def)
  have Some: "map_of ?N first = Some (normalise_environment (nested_items kvs first))"
    if "first \<in> fst ` set ?G"
  proof -
    from that obtain items where it: "(first, items) \<in> set ?G" by auto
    then have "(first, normalise_environment (items_with_first_component items first)) \<in> set ?N" by force
    then have "map_of ?N first = Some (normalise_environment (items_with_first_component items first))"
      using d unfolding fsts [symmetric] by (intro map_of_is_SomeI) simp_all
    then show ?thesis by (simp add: nested_items_def grouped_items [OF it])
  qed
  have None: "map_of ?N first = None" if "first \<notin> fst ` set ?G"
    using that by (simp add: map_of_eq_None_iff image_image case_prod_beta')
  have "map_of (level kvs) = map_of (map (\<lambda>(k, v). (k, EStr v)) (without_more_components kvs)) ++ map_of ?N"
    unfolding level_def using d unfolding fsts [symmetric] by (rule map_of_dict_merge)
  then show ?thesis using Some None mem by (auto simp: map_add_def map_of_map_val)
qed

section \<open>Reading a variable at its path\<close>

function key_path :: "string \<Rightarrow> string list" where
  "key_path k = (if get_later_components k = [] then [k]
             else get_first_component k # key_path (get_later_components k))"
  by pat_completeness auto
termination
  by (relation "measure length") (auto intro: key_later_shorter)

declare key_path.simps [simp del]

lemma key_path_code [code]:
  "key_path k = (case get_later_components k of [] \<Rightarrow> [k]
             | c # cs \<Rightarrow> get_first_component k # key_path (c # cs))"
  by (subst key_path.simps) (simp split: list.split)


lemma key_path_later: "get_later_components k \<noteq> [] \<Longrightarrow>
    key_path k = get_first_component k # key_path (get_later_components k)"
  by (subst key_path.simps) simp

lemma key_path_leaf: "get_later_components k = [] \<Longrightarrow> key_path k = [k]"
  by (subst key_path.simps) simp

lemma key_path_not_Nil [simp]: "key_path k \<noteq> []"
  by (subst key_path.simps) simp

lemma key_path_join: "join separator (key_path k) = k"
proof (induction k rule: key_path.induct)
  case (1 k)
  then show ?case
    by (cases "get_later_components k = []")
      (simp_all add: key_path_leaf key_path_later join_Cons key_components [symmetric])
qed

lemma key_path_inj: "key_path k = key_path k' \<Longrightarrow> k = k'"
  by (metis key_path_join)









section \<open>Properties\<close>



text \<open>
  The dictionaries and the lists of the result. At each level, the entry of a first component
  is the conversion of the variables nested below it when there are any (they win over a plain
  variable of the same name), the plain value otherwise; and the level is a list, in the order of
  the integers its keys denote, exactly when every one of its keys denotes an integer.
\<close>

theorem level_structure:
  "\<exists>d. normalise_environment key_values =
      (if all_keys_are_ints d
       then EList (map snd (sort_key (\<lambda>(k, v). the (int_of_str k)) d)) else EDict d) \<and>
    map_of d = (\<lambda>first.
      if \<exists>(k, v) \<in> set key_values. get_later_components k \<noteq> [] \<and> get_first_component k = first
      then Some (normalise_environment (nested_items key_values first))
      else map_option EStr (map_of (without_more_components key_values) first))"
proof (intro exI conjI)
  show "normalise_environment key_values =
      (if all_keys_are_ints (level key_values)
       then EList (map snd (sort_key (\<lambda>(k, v). the (int_of_str k)) (level key_values)))
       else EDict (level key_values))"
    unfolding normalise_level build_level_def list_sorted_by_int_key_def by simp
  show "map_of (level key_values) = (\<lambda>first.
      if \<exists>(k, v) \<in> set key_values. get_later_components k \<noteq> [] \<and> get_first_component k = first
      then Some (normalise_environment (nested_items key_values first))
      else map_option EStr (map_of (without_more_components key_values) first))"
    by (rule ext) (rule map_of_level)
qed

lemma normalise_step:
  assumes "map (\<lambda>(k, v). (k, EStr v)) (without_more_components kvs) = plain"
    and "map (\<lambda>(first, items). (first, items_with_first_component items first))
      (grouped_by_first_component (with_more_components kvs)) = groups"
  shows "normalise_environment kvs =
    build_level (dict_merge plain (map (\<lambda>(first, l). (first, normalise_environment l)) groups))"
  by (subst normalise_environment.simps) (simp add: case_prod_beta' comp_def flip: assms)

text \<open>
  The example of the function's documentation string. The second group's first key is \<open>FOO\<close>, so
  the result holds it under \<open>FOO\<close>; the documentation prints it under \<open>BAR\<close>, with the wrong key
  for the value that follows.
\<close>

lemma documentation_example:
  "normalise_environment
    [(''FOO__1__BAR'', ''setting-1''), (''FOO__1__BAZ'', ''setting-2''),
     (''FOO__2__FOO'', ''setting-3''), (''FOO__2__BAR'', ''setting-4''), (''FIZZ'', ''setting-5'')] =
    EDict [(''FIZZ'', EStr ''setting-5''), (''FOO'', EList
      [EDict [(''BAR'', EStr ''setting-1''), (''BAZ'', EStr ''setting-2'')],
       EDict [(''FOO'', EStr ''setting-3''), (''BAR'', EStr ''setting-4'')]])]"
proof -
  have a: "normalise_environment [(''BAR'', ''setting-1''), (''BAZ'', ''setting-2'')] =
      build_level (dict_merge [(''BAR'', EStr ''setting-1''), (''BAZ'', EStr ''setting-2'')]
        (map (\<lambda>(first, l). (first, normalise_environment l)) []))"
    by (rule normalise_step) code_simp+
  have b: "normalise_environment [(''FOO'', ''setting-3''), (''BAR'', ''setting-4'')] =
      build_level (dict_merge [(''FOO'', EStr ''setting-3''), (''BAR'', EStr ''setting-4'')]
        (map (\<lambda>(first, l). (first, normalise_environment l)) []))"
    by (rule normalise_step) code_simp+
  have c: "normalise_environment [(''1__BAR'', ''setting-1''), (''1__BAZ'', ''setting-2''),
       (''2__FOO'', ''setting-3''), (''2__BAR'', ''setting-4'')] =
      build_level (dict_merge [] (map (\<lambda>(first, l). (first, normalise_environment l))
        [(''1'', [(''BAR'', ''setting-1''), (''BAZ'', ''setting-2'')]),
         (''2'', [(''FOO'', ''setting-3''), (''BAR'', ''setting-4'')])]))"
    by (rule normalise_step) code_simp+
  have d: "normalise_environment
    [(''FOO__1__BAR'', ''setting-1''), (''FOO__1__BAZ'', ''setting-2''),
     (''FOO__2__FOO'', ''setting-3''), (''FOO__2__BAR'', ''setting-4''), (''FIZZ'', ''setting-5'')] =
      build_level (dict_merge [(''FIZZ'', EStr ''setting-5'')]
        (map (\<lambda>(first, l). (first, normalise_environment l))
        [(''FOO'', [(''1__BAR'', ''setting-1''), (''1__BAZ'', ''setting-2''),
       (''2__FOO'', ''setting-3''), (''2__BAR'', ''setting-4'')])]))"
    by (rule normalise_step) code_simp+
  have i: "int_of_str ''FOO'' = None" "int_of_str ''BAR'' = None" "int_of_str ''FIZZ'' = None"
    "int_of_str ''1'' = Some 1" "int_of_str ''2'' = Some 2" by code_simp+
  show ?thesis
    by (simp add: d c a b build_level_def all_keys_are_ints_def list_sorted_by_int_key_def i
      dict_set_def)
qed

end
