(* ===== verification/ProxyIO.thy ===== *)
theory ProxyIO
  imports Prelude
begin

text \<open>
  The language the proxy's coroutines are translated into. A coroutine of \<open>proxy.py\<close> or
  \<open>proxy_session.py\<close> is a value of type \<open>'a pio\<close>: it ends with a result or an exception, or it
  performs one effect and continues with the answer of its environment. The effects are the ones
  the sources use: HTTP requests to upstream servers (awaited, or started in a task of their own),
  Redis commands, random tokens, the clock, writing to the client, connecting the two ends of a web
  socket and pumping messages between them, and the closure variables
  \<open>cookie_value\<close> and \<open>to_set\<close> of the session middleware, which survive exceptions.
\<close>

section \<open>Messages\<close>

type_synonym headers = "(string \<times> string) list"

text \<open>Case-insensitive lookup in a multi-dictionary: the first entry wins.\<close>

fun hget :: "headers \<Rightarrow> string \<Rightarrow> string option" where
  "hget [] k = None"
| "hget ((k', v) # hs) k = (if lower k' = lower k then Some v else hget hs k)"

definition hget_default :: "headers \<Rightarrow> string \<Rightarrow> string \<Rightarrow> string" where
  "hget_default hs k d = (case hget hs k of None \<Rightarrow> d | Some v \<Rightarrow> v)"

lemma hget_append: "hget (xs @ ys) k = (case hget xs k of None \<Rightarrow> hget ys k | Some v \<Rightarrow> Some v)"
  by (induction xs k rule: hget.induct) auto

lemma hget_None: "hget hs k = None \<longleftrightarrow> lower k \<notin> (\<lambda>(k', v). lower k') ` set hs"
  by (induction hs k rule: hget.induct) auto

text \<open>Downstream requests, as the handlers see them.\<close>

record request =
  rq_method :: string
  rq_scheme :: string
  rq_host :: string
  rq_port :: int
  rq_path :: string
  rq_path_qs :: string
  rq_query :: headers
  rq_headers :: headers
  rq_cookies :: headers
  rq_body :: string
  rq_at_eof :: bool

datatype payload = Bytes string | Stream string | Form headers | JsonBody json

datatype timeout = Default_timeout | Spawning_timeout | Library_timeout

record http_request =
  hr_method :: string
  hr_url :: string
  hr_params :: headers
  hr_headers :: headers
  hr_data :: payload
  hr_allow_redirects :: bool
  hr_timeout :: timeout

text \<open>
  A reply: the body arrives in chunks, and \<open>hp_complete\<close> says whether the connection stays up
  until the last one. A request that gets no reply at all (refused, timed out) answers \<open>None\<close>.
\<close>

record http_reply =
  hp_status :: int
  hp_headers :: headers
  hp_json :: "json option"
  hp_chunks :: "string list"
  hp_complete :: bool

record response =
  rs_status :: int
  rs_headers :: headers
  rs_streamed :: bool

datatype exn = UserException string int | OtherError string

section \<open>Programs\<close>

record session =
  cookie_value :: "string option"
  to_set :: "string dict"

datatype 'a pio =
    Ret 'a
  | Raise exn
  | Fetch http_request "http_reply option \<Rightarrow> 'a pio"
  | Background http_request "'a pio"
  | RedisGet string "string option \<Rightarrow> 'a pio"
  | RedisSet string string nat bool "bool \<Rightarrow> 'a pio"
  | Token nat "string \<Rightarrow> 'a pio"
  | GmTime nat "string \<Rightarrow> 'a pio"
  | GetSession "session \<Rightarrow> 'a pio"
  | PutSession session "'a pio"
  | Prepare int headers "bool \<Rightarrow> 'a pio"
  | Write string "bool \<Rightarrow> 'a pio"
  | Upgrade string headers "string list" "bool \<Rightarrow> 'a pio"
  | Pump "bool \<Rightarrow> 'a pio"

primrec pbind :: "'a pio \<Rightarrow> ('a \<Rightarrow> 'b pio) \<Rightarrow> 'b pio" where
  "pbind (Ret x) f = f x"
| "pbind (Raise e) f = Raise e"
| "pbind (Fetch q k) f = Fetch q (\<lambda>r. pbind (k r) f)"
| "pbind (Background q m) f = Background q (pbind m f)"
| "pbind (RedisGet key k) f = RedisGet key (\<lambda>r. pbind (k r) f)"
| "pbind (RedisSet key v ttl nx k) f = RedisSet key v ttl nx (\<lambda>r. pbind (k r) f)"
| "pbind (Token n k) f = Token n (\<lambda>r. pbind (k r) f)"
| "pbind (GmTime n k) f = GmTime n (\<lambda>r. pbind (k r) f)"
| "pbind (GetSession k) f = GetSession (\<lambda>r. pbind (k r) f)"
| "pbind (PutSession s m) f = PutSession s (pbind m f)"
| "pbind (Prepare st hs k) f = Prepare st hs (\<lambda>r. pbind (k r) f)"
| "pbind (Write c k) f = Write c (\<lambda>r. pbind (k r) f)"
| "pbind (Upgrade u hs ps k) f = Upgrade u hs ps (\<lambda>r. pbind (k r) f)"
| "pbind (Pump k) f = Pump (\<lambda>r. pbind (k r) f)"

text \<open>\<open>try: m except Exception as e: h e\<close>.\<close>

primrec pcatch :: "'a pio \<Rightarrow> (exn \<Rightarrow> 'a pio) \<Rightarrow> 'a pio" where
  "pcatch (Ret x) h = Ret x"
| "pcatch (Raise e) h = h e"
| "pcatch (Fetch q k) h = Fetch q (\<lambda>r. pcatch (k r) h)"
| "pcatch (Background q m) h = Background q (pcatch m h)"
| "pcatch (RedisGet key k) h = RedisGet key (\<lambda>r. pcatch (k r) h)"
| "pcatch (RedisSet key v ttl nx k) h = RedisSet key v ttl nx (\<lambda>r. pcatch (k r) h)"
| "pcatch (Token n k) h = Token n (\<lambda>r. pcatch (k r) h)"
| "pcatch (GmTime n k) h = GmTime n (\<lambda>r. pcatch (k r) h)"
| "pcatch (GetSession k) h = GetSession (\<lambda>r. pcatch (k r) h)"
| "pcatch (PutSession s m) h = PutSession s (pcatch m h)"
| "pcatch (Prepare st hs k) h = Prepare st hs (\<lambda>r. pcatch (k r) h)"
| "pcatch (Write c k) h = Write c (\<lambda>r. pcatch (k r) h)"
| "pcatch (Upgrade u hs ps k) h = Upgrade u hs ps (\<lambda>r. pcatch (k r) h)"
| "pcatch (Pump k) h = Pump (\<lambda>r. pcatch (k r) h)"

text \<open>\<open>try: m except: h else: f\<close>: the handler does not see exceptions of the else part.\<close>

primrec ptry_else :: "'a pio \<Rightarrow> (exn \<Rightarrow> 'b pio) \<Rightarrow> ('a \<Rightarrow> 'b pio) \<Rightarrow> 'b pio" where
  "ptry_else (Ret x) h f = f x"
| "ptry_else (Raise e) h f = h e"
| "ptry_else (Fetch q k) h f = Fetch q (\<lambda>r. ptry_else (k r) h f)"
| "ptry_else (Background q m) h f = Background q (ptry_else m h f)"
| "ptry_else (RedisGet key k) h f = RedisGet key (\<lambda>r. ptry_else (k r) h f)"
| "ptry_else (RedisSet key v ttl nx k) h f = RedisSet key v ttl nx (\<lambda>r. ptry_else (k r) h f)"
| "ptry_else (Token n k) h f = Token n (\<lambda>r. ptry_else (k r) h f)"
| "ptry_else (GmTime n k) h f = GmTime n (\<lambda>r. ptry_else (k r) h f)"
| "ptry_else (GetSession k) h f = GetSession (\<lambda>r. ptry_else (k r) h f)"
| "ptry_else (PutSession s m) h f = PutSession s (ptry_else m h f)"
| "ptry_else (Prepare st hs k) h f = Prepare st hs (\<lambda>r. ptry_else (k r) h f)"
| "ptry_else (Write c k) h f = Write c (\<lambda>r. ptry_else (k r) h f)"
| "ptry_else (Upgrade u hs ps k) h f = Upgrade u hs ps (\<lambda>r. ptry_else (k r) h f)"
| "ptry_else (Pump k) h f = Pump (\<lambda>r. ptry_else (k r) h f)"

text \<open>A value the sources index or convert without a guard: its absence is an exception.\<close>

definition need :: "string \<Rightarrow> 'b option \<Rightarrow> ('b \<Rightarrow> 'a pio) \<Rightarrow> 'a pio" where
  "need e x f = (case x of None \<Rightarrow> Raise (OtherError e) | Some v \<Rightarrow> f v)"

lemma need_simps [simp]: "need e None f = Raise (OtherError e)" "need e (Some v) f = f v"
  by (simp_all add: need_def)

text \<open>An awaited request: no reply is the exception of the HTTP client.\<close>

definition fetch :: "http_request \<Rightarrow> (http_reply \<Rightarrow> 'a pio) \<Rightarrow> 'a pio" where
  "fetch q f = Fetch q (\<lambda>r. need ''ClientError'' r f)"

lemma pbind_need [simp]: "pbind (need e x f) g = need e x (\<lambda>v. pbind (f v) g)"
  by (simp add: need_def split: option.split)

lemma pbind_fetch [simp]: "pbind (fetch q f) g = fetch q (\<lambda>v. pbind (f v) g)"
  by (simp add: fetch_def)

section \<open>Execution\<close>

datatype pevent = EvFetch http_request | EvBackground http_request
  | EvRedisSet string string nat bool | EvPrepare int headers | EvWrite string
  | EvUpgrade string headers

text \<open>
  The environment answers from the history of the run; Redis is a store with expiry times, and
  \<open>now\<close> is the time of the run in seconds.
\<close>

record penv =
  pe_reply :: "pevent list \<Rightarrow> http_request \<Rightarrow> http_reply option"
  pe_token :: "pevent list \<Rightarrow> nat \<Rightarrow> string"
  pe_gmtime :: "nat \<Rightarrow> string"
  pe_client_up :: "pevent list \<Rightarrow> bool"
  pe_ws_up :: "pevent list \<Rightarrow> bool"
  pe_now :: nat

type_synonym redis = "string \<rightharpoonup> string \<times> nat"

record pstate =
  ps_redis :: redis
  ps_session :: session
  ps_trace :: "pevent list"

definition redis_get :: "nat \<Rightarrow> redis \<Rightarrow> string \<Rightarrow> string option" where
  "redis_get now r key = (case r key of None \<Rightarrow> None
     | Some (v, expires) \<Rightarrow> if now < expires then Some v else None)"

definition redis_set :: "nat \<Rightarrow> redis \<Rightarrow> string \<Rightarrow> string \<Rightarrow> nat \<Rightarrow> bool \<Rightarrow> bool \<times> redis" where
  "redis_set now r key v ttl nx =
     (if nx \<and> redis_get now r key \<noteq> None then (False, r) else (True, r(key \<mapsto> (v, now + ttl))))"

definition record_event :: "pevent \<Rightarrow> pstate \<Rightarrow> pstate" where
  "record_event e st = st\<lparr>ps_trace := ps_trace st @ [e]\<rparr>"

primrec run :: "'a pio \<Rightarrow> penv \<Rightarrow> pstate \<Rightarrow> (exn + 'a) \<times> pstate" where
  "run (Ret x) env st = (Inr x, st)"
| "run (Raise e) env st = (Inl e, st)"
| "run (Fetch q k) env st =
     run (k (pe_reply env (ps_trace st) q)) env (record_event (EvFetch q) st)"
| "run (Background q m) env st = run m env (record_event (EvBackground q) st)"
| "run (RedisGet key k) env st = run (k (redis_get (pe_now env) (ps_redis st) key)) env st"
| "run (RedisSet key v ttl nx k) env st =
     run (k (fst (redis_set (pe_now env) (ps_redis st) key v ttl nx))) env
       (record_event (EvRedisSet key v ttl nx)
         (st\<lparr>ps_redis := snd (redis_set (pe_now env) (ps_redis st) key v ttl nx)\<rparr>))"
| "run (Token n k) env st = run (k (pe_token env (ps_trace st) n)) env st"
| "run (GmTime n k) env st = run (k (pe_gmtime env (pe_now env + n))) env st"
| "run (GetSession k) env st = run (k (ps_session st)) env st"
| "run (PutSession s m) env st = run m env (st\<lparr>ps_session := s\<rparr>)"
| "run (Prepare s hs k) env st =
     run (k (pe_client_up env (ps_trace st))) env (record_event (EvPrepare s hs) st)"
| "run (Write c k) env st =
     run (k (pe_client_up env (ps_trace st))) env (record_event (EvWrite c) st)"
| "run (Upgrade u hs ps k) env st =
     run (k (pe_ws_up env (ps_trace st))) env (record_event (EvUpgrade u hs) st)"
| "run (Pump k) env st = run (k (pe_client_up env (ps_trace st))) env st"

lemma run_pbind: "run (pbind m f) env st =
    (case run m env st of (Inl e, st') \<Rightarrow> (Inl e, st') | (Inr x, st') \<Rightarrow> run (f x) env st')"
  by (induction m arbitrary: st) auto

lemma run_pcatch: "run (pcatch m h) env st =
    (case run m env st of (Inl e, st') \<Rightarrow> run (h e) env st' | (Inr x, st') \<Rightarrow> (Inr x, st'))"
  by (induction m arbitrary: st) auto

lemma run_ptry_else: "run (ptry_else m h f) env st =
    (case run m env st of (Inl e, st') \<Rightarrow> run (h e) env st' | (Inr x, st') \<Rightarrow> run (f x) env st')"
  by (induction m arbitrary: st) auto

section \<open>Judgements over every environment\<close>

text \<open>
  \<open>always P Q E m\<close>: whatever the environment answers, every event of the program satisfies \<open>P\<close>,
  its result (if it returns) satisfies \<open>Q\<close>, and its exception (if it raises) satisfies \<open>E\<close>.
\<close>

primrec always :: "(pevent \<Rightarrow> bool) \<Rightarrow> ('a \<Rightarrow> bool) \<Rightarrow> (exn \<Rightarrow> bool) \<Rightarrow> 'a pio \<Rightarrow> bool" where
  "always P Q E (Ret x) = Q x"
| "always P Q E (Raise e) = E e"
| "always P Q E (Fetch q k) = (P (EvFetch q) \<and> (\<forall>r. always P Q E (k r)))"
| "always P Q E (Background q m) = (P (EvBackground q) \<and> always P Q E m)"
| "always P Q E (RedisGet key k) = (\<forall>r. always P Q E (k r))"
| "always P Q E (RedisSet key v ttl nx k) =
     (P (EvRedisSet key v ttl nx) \<and> (\<forall>r. always P Q E (k r)))"
| "always P Q E (Token n k) = (\<forall>r. always P Q E (k r))"
| "always P Q E (GmTime n k) = (\<forall>r. always P Q E (k r))"
| "always P Q E (GetSession k) = (\<forall>r. always P Q E (k r))"
| "always P Q E (PutSession s m) = always P Q E m"
| "always P Q E (Prepare st hs k) = (P (EvPrepare st hs) \<and> (\<forall>r. always P Q E (k r)))"
| "always P Q E (Write c k) = (P (EvWrite c) \<and> (\<forall>r. always P Q E (k r)))"
| "always P Q E (Upgrade u hs ps k) = (P (EvUpgrade u hs) \<and> (\<forall>r. always P Q E (k r)))"
| "always P Q E (Pump k) = (\<forall>r. always P Q E (k r))"

lemma always_pbind [hoare]:
  "always P (\<lambda>x. always P Q E (f x)) E m \<Longrightarrow> always P Q E (pbind m f)"
  by (induction m) auto

lemma always_pcatch [hoare]:
  "always P Q (\<lambda>e. always P Q E (h e)) m \<Longrightarrow> always P Q E (pcatch m h)"
  by (induction m) auto

lemma always_ptry_else [hoare]:
  "always P (\<lambda>x. always P Q E (f x)) (\<lambda>e. always P Q E (h e)) m \<Longrightarrow> always P Q E (ptry_else m h f)"
  by (induction m) auto

lemma always_mono:
  "always P Q E m \<Longrightarrow> (\<And>e. P e \<Longrightarrow> P' e) \<Longrightarrow> (\<And>x. Q x \<Longrightarrow> Q' x) \<Longrightarrow> (\<And>e. E e \<Longrightarrow> E' e) \<Longrightarrow>
    always P' Q' E' m"
  by (induction m) auto

lemma always_need [hoare]:
  "E (OtherError e) \<Longrightarrow> (\<And>v. x = Some v \<Longrightarrow> always P Q E (f v)) \<Longrightarrow> always P Q E (need e x f)"
  by (simp add: need_def split: option.split)

lemma always_fetch [hoare]:
  "P (EvFetch q) \<Longrightarrow> E (OtherError ''ClientError'') \<Longrightarrow> (\<And>r. always P Q E (f r)) \<Longrightarrow>
    always P Q E (fetch q f)"
  by (simp add: fetch_def need_def split: option.split)

text \<open>The judgement is sound for every run.\<close>

definition ends_with :: "(pevent \<Rightarrow> bool) \<Rightarrow> ('a \<Rightarrow> bool) \<Rightarrow> (exn \<Rightarrow> bool) \<Rightarrow> pevent list \<Rightarrow>
    (exn + 'a) \<times> pstate \<Rightarrow> bool" where
  "ends_with P Q E tr r \<longleftrightarrow> (\<exists>es. ps_trace (snd r) = tr @ es \<and> (\<forall>e \<in> set es. P e)) \<and>
     (case fst r of Inl e \<Rightarrow> E e | Inr x \<Rightarrow> Q x)"

lemma ends_with_snoc: "ends_with P Q E (tr @ [e]) r \<Longrightarrow> P e \<Longrightarrow> ends_with P Q E tr r"
  unfolding ends_with_def by auto

lemma always_run: "always P Q E m \<Longrightarrow> ends_with P Q E (ps_trace st) (run m env st)"
proof (induction m arbitrary: st)
  case (Ret x)
  then show ?case by (simp add: ends_with_def)
next
  case (Raise e)
  then show ?case by (simp add: ends_with_def)
next
  case (Fetch q k)
  from Fetch.prems Fetch.IH [OF rangeI, of _ "record_event (EvFetch q) st"]
  show ?case by (auto simp: record_event_def intro: ends_with_snoc)
next
  case (Background q m)
  from Background.prems Background.IH [of "record_event (EvBackground q) st"]
  show ?case by (auto simp: record_event_def intro: ends_with_snoc)
next
  case (RedisGet key k)
  then show ?case by simp
next
  case (RedisSet key v ttl nx k)
  let ?s = "record_event (EvRedisSet key v ttl nx)
         (st\<lparr>ps_redis := snd (redis_set (pe_now env) (ps_redis st) key v ttl nx)\<rparr>)"
  from RedisSet.prems RedisSet.IH [OF rangeI, of _ ?s]
  show ?case by (auto simp: record_event_def intro: ends_with_snoc)
next
  case (PutSession s m)
  from PutSession.prems PutSession.IH [of "st\<lparr>ps_session := s\<rparr>"]
  show ?case by simp
next
  case (Prepare s hs k)
  from Prepare.prems Prepare.IH [OF rangeI, of _ "record_event (EvPrepare s hs) st"]
  show ?case by (auto simp: record_event_def intro: ends_with_snoc)
next
  case (Write c k)
  from Write.prems Write.IH [OF rangeI, of _ "record_event (EvWrite c) st"]
  show ?case by (auto simp: record_event_def intro: ends_with_snoc)
next
  case (Upgrade u hs ps k)
  from Upgrade.prems Upgrade.IH [OF rangeI, of _ "record_event (EvUpgrade u hs) st"]
  show ?case by (auto simp: record_event_def intro: ends_with_snoc)
qed simp_all

end
