(* ===== verification/ProxyConfig.thy ===== *)
theory ProxyConfig
  imports Env ProxyIO "HOL-Library.Monad_Syntax"
begin

text \<open>
  \<open>dataworkspace/proxy.py\<close>, the start of \<open>async_main\<close>: the settings read from the normalised
  environment, and the content security policies that the handlers attach to responses.
\<close>

text \<open>
  Code outside the repository is a parameter, collected in a record: the URL library (\<open>yarl\<close>), the
  JSON codec and the address tables of \<open>ipaddress\<close>.
\<close>

record libs =
  y_host :: "string \<Rightarrow> string"
  y_scheme :: "string \<Rightarrow> string"
  y_port :: "string \<Rightarrow> string"
  y_with_path :: "string \<Rightarrow> string \<Rightarrow> string"
  y_with_port :: "string \<Rightarrow> int \<Rightarrow> string"
  y_with_query :: "string \<Rightarrow> headers \<Rightarrow> string"
  y_build :: "string \<Rightarrow> int option \<Rightarrow> string \<Rightarrow> string \<Rightarrow> string"
  y_with_scheme :: "request \<Rightarrow> string \<Rightarrow> string"
  y_ip_is_private :: "string \<Rightarrow> bool option"
  json_loads :: "string \<Rightarrow> json option"
  json_dumps :: "json \<Rightarrow> string"

record config =
  is_local :: bool
  cookie_name :: string
  port :: int
  admin_root :: string
  superset_root :: string
  hawk_senders :: "env_val"
  sso_base_url :: string
  sso_host :: string
  sso_client_id :: string
  sso_client_secret :: string
  redis_url :: string
  root_domain :: string
  basic_auth_user :: string
  basic_auth_password :: string
  x_forwarded_for_trusted_hops :: int
  application_ip_whitelist :: "env_val"
  ga_tracking_id :: "string option"
  mirror_remote_root :: string
  root_domain_no_port :: string
  root_port :: "int option"
  urls :: libs

section \<open>Settings\<close>

fun env_item :: "env_val \<Rightarrow> string \<Rightarrow> env_val option" where
  "env_item (EDict d) k = map_of d k"
| "env_item e k = None"

fun env_str :: "env_val \<Rightarrow> string option" where
  "env_str (EStr s) = Some s"
| "env_str e = None"

definition env_text :: "env_val \<Rightarrow> string \<Rightarrow> string option" where
  "env_text e k = Option.bind (env_item e k) env_str"

text \<open>\<open>x in value\<close>, for the three shapes a value of the environment can have.\<close>

fun env_contains :: "string \<Rightarrow> env_val \<Rightarrow> bool" where
  "env_contains x (EStr s) = (find_sep x s \<noteq> None)"
| "env_contains x (EList l) = (EStr x \<in> set l)"
| "env_contains x (EDict d) = (x \<in> fst ` set d)"

definition mirror_local_root :: string where
  "mirror_local_root = ''/__mirror/''"

definition required_admin_headers :: "string list" where
  "required_admin_headers = [''cookie'', ''host'', ''x-csrftoken'',
     ''x-data-workspace-no-modify-application-instance'', ''x-scheme'', ''x-forwarded-proto'',
     ''referer'', ''user-agent'']"

definition embed_path :: string where
  "embed_path = ''/visualisations/link''"

definition read_config :: "libs \<Rightarrow> env_val \<Rightarrow> config option" where
  "read_config yl env = do {
     allowed_hosts \<leftarrow> env_item env ''ALLOWED_HOSTS'';
     let local = env_contains ''dataworkspace.test'' allowed_hosts;
     let cookie = (if \<not> local then ''__Secure-'' else []) @ ''data_workspace_session'';
     port_str \<leftarrow> env_text env ''PROXY_PORT'';
     port \<leftarrow> int_of_str port_str;
     admin \<leftarrow> env_text env ''UPSTREAM_ROOT'';
     superset \<leftarrow> env_text env ''SUPERSET_ROOT'';
     hawk \<leftarrow> env_item env ''HAWK_SENDERS'';
     sso \<leftarrow> env_text env ''AUTHBROKER_URL'';
     client_id \<leftarrow> env_text env ''AUTHBROKER_CLIENT_ID'';
     client_secret \<leftarrow> env_text env ''AUTHBROKER_CLIENT_SECRET'';
     redis \<leftarrow> env_text env ''REDIS_URL'';
     root \<leftarrow> env_text env ''APPLICATION_ROOT_DOMAIN'';
     user \<leftarrow> env_text env ''METRICS_SERVICE_DISCOVERY_BASIC_AUTH_USER'';
     password \<leftarrow> env_text env ''METRICS_SERVICE_DISCOVERY_BASIC_AUTH_PASSWORD'';
     hops_str \<leftarrow> env_text env ''X_FORWARDED_FOR_TRUSTED_HOPS'';
     hops \<leftarrow> int_of_str hops_str;
     whitelist \<leftarrow> env_item env ''APPLICATION_IP_WHITELIST'';
     mirror \<leftarrow> env_text env ''MIRROR_REMOTE_ROOT'';
     let (no_port, port_text) = partition root '':'';
     Some \<lparr>is_local = local, cookie_name = cookie, port = port, admin_root = admin,
       superset_root = superset, hawk_senders = hawk, sso_base_url = sso,
       sso_host = y_host yl sso, sso_client_id = client_id, sso_client_secret = client_secret,
       redis_url = redis, root_domain = root, basic_auth_user = user,
       basic_auth_password = password, x_forwarded_for_trusted_hops = hops,
       application_ip_whitelist = whitelist, ga_tracking_id = env_text env ''GA_TRACKING_ID'',
       mirror_remote_root = mirror, root_domain_no_port = no_port,
       root_port = int_of_str port_text, urls = yl\<rparr>
   }"

section \<open>Content security policies\<close>

definition csp_common :: "config \<Rightarrow> string" where
  "csp_common cf = ''object-src 'none';'' @
     (if root_domain cf \<notin> {''dataworkspace.test:8000''} then ''upgrade-insecure-requests;'' else [])"

definition csp_application_spawning :: "config \<Rightarrow> string" where
  "csp_application_spawning cf = csp_common cf @
     ''default-src '' @ root_domain cf @ '';'' @
     ''base-uri '' @ root_domain cf @ '';'' @
     ''font-src '' @ root_domain cf @ '' data:  https://fonts.gstatic.com;'' @
     ''form-action '' @ root_domain cf @ '' *.'' @ root_domain cf @ '';'' @
     ''frame-ancestors '' @ root_domain cf @ '';'' @
     ''img-src '' @ root_domain cf @ '' data: https://www.googletagmanager.com https://www.google-analytics.com https://ssl.gstatic.com https://www.gstatic.com;'' @
     ''script-src 'unsafe-inline' '' @ root_domain cf @ '' https://www.googletagmanager.com https://www.google-analytics.com https://tagmanager.google.com;'' @
     ''style-src 'unsafe-inline' '' @ root_domain cf @ '' https://tagmanager.google.com https://fonts.googleapis.com;'' @
     ''connect-src '' @ root_domain cf @ '' 'self';''"

definition csp_application_running_wrapped :: "config \<Rightarrow> string \<Rightarrow> string" where
  "csp_application_running_wrapped cf direct_host = csp_common cf @
     ''default-src 'none';'' @
     ''base-uri '' @ root_domain cf @ '';'' @
     ''form-action 'none';'' @
     ''frame-ancestors 'none';'' @
     ''frame-src '' @ direct_host @ '' '' @ sso_host cf @ '' https://www.googletagmanager.com;'' @
     ''img-src '' @ root_domain cf @ '' https://www.googletagmanager.com https://www.google-analytics.com https://ssl.gstatic.com https://www.gstatic.com;'' @
     ''font-src '' @ root_domain cf @ '' data: https://fonts.gstatic.com;'' @
     ''script-src 'unsafe-inline' https://www.googletagmanager.com https://www.google-analytics.com https://tagmanager.google.com;'' @
     ''style-src 'unsafe-inline' '' @ root_domain cf @ '' https://tagmanager.google.com https://fonts.googleapis.com;''"

definition csp_application_running_direct :: "config \<Rightarrow> string \<Rightarrow> string \<Rightarrow> string" where
  "csp_application_running_direct cf host public_host = csp_common cf @
     ''default-src 'self';'' @
     ''base-uri 'self';'' @
     ''connect-src 'self' wss://'' @ host @ '';'' @
     ''font-src 'self' data:;'' @
     ''form-action 'self';'' @
     ''frame-ancestors 'self' '' @ root_domain cf @ '' '' @ public_host @ ''.'' @ root_domain cf @ '';'' @
     ''img-src 'self' data: blob:;'' @
     ''script-src 'unsafe-inline' 'unsafe-eval' 'self' data:;'' @
     ''style-src 'unsafe-inline' 'self' data:;'' @
     ''worker-src 'self' blob:;''"

end
