(* ===== verification/IpAddress.thy ===== *)
theory IpAddress
  imports Prelude "HOL-Library.Word"
begin

text \<open>
  The part of Python's \<open>ipaddress\<close> module (as of Python 3.7, the version of the image) that the
  proxy's whitelist relies on: parsing dotted addresses and subnets, and membership. Addresses are
  32-bit words.
\<close>

unbundle bit_operations_syntax

type_synonym ip4 = "32 word"

definition decimal_digits :: "string \<Rightarrow> bool" where
  "decimal_digits s \<longleftrightarrow> list_all (\<lambda>c. c \<in> set ''0123456789'') s"

definition parse_octet :: "string \<Rightarrow> nat option" where
  "parse_octet s =
     (if s = [] \<or> \<not> decimal_digits s \<or> 3 < length s then None
      else case digits_value 10 False 0 s of None \<Rightarrow> None
        | Some n \<Rightarrow> if (7 < n \<and> hd s = CHR ''0'') \<or> 255 < n then None else Some n)"

definition ip_of_octets :: "nat \<Rightarrow> nat \<Rightarrow> nat \<Rightarrow> nat \<Rightarrow> ip4" where
  "ip_of_octets a b c d = of_nat (((a * 256 + b) * 256 + c) * 256 + d)"

definition ipv4_address :: "string \<Rightarrow> ip4 option" where
  "ipv4_address s = (case map parse_octet (split s ''.'') of
       [Some a, Some b, Some c, Some d] \<Rightarrow> Some (ip_of_octets a b c d)
     | _ \<Rightarrow> None)"

text \<open>The netmask of a prefix length: that many leading ones.\<close>

definition netmask :: "nat \<Rightarrow> ip4" where
  "netmask n = push_bit (32 - n) (- 1)"

definition prefix_from_ip :: "ip4 \<Rightarrow> nat option" where
  "prefix_from_ip m = List.find (\<lambda>n. netmask n = m) [0..<33]"

definition make_prefix :: "string \<Rightarrow> nat option" where
  "make_prefix s = (case (if s \<noteq> [] \<and> decimal_digits s then digits_value 10 False 0 s else None) of
       Some n \<Rightarrow> if n \<le> 32 then Some n else None
     | None \<Rightarrow> (case ipv4_address s of None \<Rightarrow> None
         | Some m \<Rightarrow> (case prefix_from_ip m of Some n \<Rightarrow> Some n | None \<Rightarrow> prefix_from_ip (NOT m))))"

text \<open>\<open>IPv4Network(s)\<close>: the network address and prefix length; host bits must not be set.\<close>

definition ipv4_network :: "string \<Rightarrow> (ip4 \<times> nat) option" where
  "ipv4_network s = (case split s ''/'' of
       [a] \<Rightarrow> map_option (\<lambda>ip. (ip, 32)) (ipv4_address a)
     | [a, m] \<Rightarrow> (case (ipv4_address a, make_prefix m) of
           (Some ip, Some n) \<Rightarrow> if ip AND netmask n = ip then Some (ip, n) else None
         | _ \<Rightarrow> None)
     | _ \<Rightarrow> None)"

text \<open>Membership: between the network address and the broadcast address.\<close>

definition in_network :: "ip4 \<Rightarrow> ip4 \<times> nat \<Rightarrow> bool" where
  "in_network ip nw = (case nw of (net, n) \<Rightarrow> net \<le> ip \<and> ip \<le> net OR NOT (netmask n))"

section \<open>Membership is agreement on the prefix\<close>

lemma bit_netmask: "n \<le> 32 \<Longrightarrow> bit (netmask n) i \<longleftrightarrow> 32 - n \<le> i \<and> i < 32"
  by (auto simp: netmask_def bit_simps)

lemma netmask_drop:
  fixes ip :: ip4
  assumes "n \<le> 32"
  shows "ip AND netmask n = push_bit (32 - n) (drop_bit (32 - n) ip)"
  using assms by (intro bit_eqI) (auto simp: bit_simps bit_netmask)

lemma unat_network:
  fixes ip :: ip4
  assumes "n \<le> 32"
  shows "unat (ip AND netmask n) = unat ip div 2 ^ (32 - n) * 2 ^ (32 - n)"
proof -
  have ip32: "unat ip < 2 ^ 32" using unsigned_less [of ip, where 'a = nat] by simp
  have "unat (push_bit (32 - n) (drop_bit (32 - n) ip)) =
      take_bit 32 (push_bit (32 - n) (drop_bit (32 - n) (unat ip)))"
    using take_bit_nat_eq_self [OF ip32]
    by (simp add: unsigned_push_bit_eq unsigned_drop_bit_eq)
  also have "\<dots> = push_bit (32 - n) (drop_bit (32 - n) (unat ip))"
  proof (rule take_bit_nat_eq_self)
    have "push_bit (32 - n) (drop_bit (32 - n) (unat ip)) \<le> unat ip"
      by (simp add: push_bit_eq_mult drop_bit_eq_div)
    then show "push_bit (32 - n) (drop_bit (32 - n) (unat ip)) < 2 ^ 32"
      using ip32 by simp
  qed
  finally show ?thesis
    by (simp add: netmask_drop [OF assms] push_bit_eq_mult drop_bit_eq_div)
qed

lemma unat_hostmask: "n \<le> 32 \<Longrightarrow> unat (NOT (netmask n)) = mask (32 - n)"
  by (rule bit_eqI) (auto simp: bit_simps bit_netmask)

lemma unat_broadcast:
  fixes net :: ip4
  assumes "n \<le> 32" and "net AND netmask n = net"
  shows "unat (net OR NOT (netmask n)) = unat net + (2 ^ (32 - n) - 1)"
proof -
  have "unat net AND mask (32 - n) = 0"
  proof (rule bit_eqI)
    fix i
    have "bit (net AND netmask n) i = bit net i" using assms(2) by simp
    then show "bit (unat net AND mask (32 - n)) i = bit (0 :: nat) i"
      using assms(1) by (auto simp: bit_simps bit_netmask)
  qed
  then have "unat net OR mask (32 - n) = unat net + mask (32 - n)"
    by (simp add: disjunctive_add_eq_or)
  then show ?thesis
    using assms(1) by (simp add: unsigned_or_eq unat_hostmask mask_eq_exp_minus_1)
qed

lemma div_block:
  fixes a b k :: nat
  assumes "0 < k"
  shows "a div k = b \<longleftrightarrow> b * k \<le> a \<and> a \<le> b * k + (k - 1)"
proof
  assume "a div k = b"
  then have "b * k + a mod k = a" using div_mult_mod_eq [of a k] by simp
  moreover have "a mod k < k" using assms by simp
  ultimately show "b * k \<le> a \<and> a \<le> b * k + (k - 1)" by linarith
next
  assume b: "b * k \<le> a \<and> a \<le> b * k + (k - 1)"
  show "a div k = b"
  proof (rule div_nat_eqI)
    show "k * b \<le> a" using b by (simp add: mult.commute)
    have "a < b * k + k" using b assms by linarith
    then show "a < k * Suc b" by (simp add: mult.commute)
  qed
qed

lemma in_network_prefix:
  assumes "n \<le> 32" and "net AND netmask n = net"
  shows "in_network ip (net, n) \<longleftrightarrow> drop_bit (32 - n) ip = drop_bit (32 - n) net"
proof -
  let ?k = "2 ^ (32 - n) :: nat"
  have k: "0 < ?k" by simp
  have net: "unat net = unat net div ?k * ?k"
    using unat_network [OF assms(1), of net] assms(2) by simp
  have "in_network ip (net, n) \<longleftrightarrow> unat net \<le> unat ip \<and> unat ip \<le> unat net + (?k - 1)"
    by (simp add: in_network_def word_le_nat_alt unat_broadcast [OF assms])
  also have "\<dots> \<longleftrightarrow> unat ip div ?k = unat net div ?k"
    using div_block [OF k, of "unat ip" "unat net div ?k"] net by simp
  also have "\<dots> \<longleftrightarrow> drop_bit (32 - n) ip = drop_bit (32 - n) net"
    unfolding word_unat_eq_iff unat_drop_bit_eq by (simp add: drop_bit_eq_div)
  finally show ?thesis .
qed

end
