(* ===== verification/ProxyRequest.thy ===== *)
theory ProxyRequest
  imports ProxyConfig IpAddress
begin

text \<open>
  \<open>dataworkspace/proxy.py\<close>: the predicates that classify a request (which decide both how it is
  authenticated and which handler takes it), the peer's address, and the header filters.
\<close>

section \<open>Classification\<close>

definition is_service_discovery :: "config \<Rightarrow> request \<Rightarrow> bool" where
  "is_service_discovery cf rq \<longleftrightarrow> rq_path rq = ''/api/v1/application'' \<and>
     rq_host rq = root_domain_no_port cf \<and> rq_method rq = ''GET''"

definition is_superset_requested :: "config \<Rightarrow> request \<Rightarrow> bool" where
  "is_superset_requested cf rq \<longleftrightarrow> rq_host rq = ''superset.'' @ root_domain_no_port cf \<or>
     rq_host rq = ''superset-edit.'' @ root_domain_no_port cf \<or>
     rq_host rq = ''superset-admin.'' @ root_domain_no_port cf"

definition is_data_explorer_requested :: "config \<Rightarrow> request \<Rightarrow> bool" where
  "is_data_explorer_requested cf rq \<longleftrightarrow> startswith (rq_path rq) ''/data-explorer/'' \<and>
     rq_host rq = root_domain_no_port cf"

definition is_app_requested :: "config \<Rightarrow> request \<Rightarrow> bool" where
  "is_app_requested cf rq \<longleftrightarrow> endswith (rq_host rq) (''.'' @ root_domain_no_port cf) \<and>
     \<not> startswith (rq_path rq) mirror_local_root \<and> \<not> is_superset_requested cf rq"

definition is_mirror_requested :: "config \<Rightarrow> request \<Rightarrow> bool" where
  "is_mirror_requested cf rq \<longleftrightarrow> startswith (rq_path rq) mirror_local_root"

definition is_requesting_credentials :: "config \<Rightarrow> request \<Rightarrow> bool" where
  "is_requesting_credentials cf rq \<longleftrightarrow> rq_host rq = root_domain_no_port cf \<and>
     rq_path rq = ''/api/v1/aws_credentials''"

definition is_requesting_files :: "config \<Rightarrow> request \<Rightarrow> bool" where
  "is_requesting_files cf rq \<longleftrightarrow> rq_host rq = root_domain_no_port cf \<and> rq_path rq = ''/files''"

definition is_dataset_requested :: "config \<Rightarrow> request \<Rightarrow> bool" where
  "is_dataset_requested cf rq \<longleftrightarrow>
     (startswith (rq_path rq) ''/api/v1/dataset/'' \<or>
      startswith (rq_path rq) ''/api/v1/reference-dataset/'' \<or>
      startswith (rq_path rq) ''/api/v1/eventlog/'' \<or>
      startswith (rq_path rq) ''/api/v1/account/'' \<or>
      startswith (rq_path rq) ''/api/v1/application-instance/'' \<or>
      startswith (rq_path rq) ''/api/v1/core/'') \<and> rq_host rq = root_domain_no_port cf"

definition is_hawk_auth_required :: "config \<Rightarrow> request \<Rightarrow> bool" where
  "is_hawk_auth_required cf rq \<longleftrightarrow> is_dataset_requested cf rq"

definition is_healthcheck_requested :: "config \<Rightarrow> request \<Rightarrow> bool" where
  "is_healthcheck_requested cf rq \<longleftrightarrow> rq_path rq = ''/healthcheck'' \<and> rq_method rq = ''GET'' \<and>
     \<not> is_app_requested cf rq"

definition is_table_requested :: "config \<Rightarrow> request \<Rightarrow> bool" where
  "is_table_requested cf rq \<longleftrightarrow> startswith (rq_path rq) ''/api/v1/table/'' \<and>
     rq_host rq = root_domain_no_port cf \<and> rq_method rq = ''POST''"

definition is_sso_auth_required :: "config \<Rightarrow> request \<Rightarrow> bool" where
  "is_sso_auth_required cf rq \<longleftrightarrow> \<not> is_healthcheck_requested cf rq \<and>
     \<not> is_service_discovery cf rq \<and> \<not> is_table_requested cf rq \<and> \<not> is_dataset_requested cf rq"

definition ip_whitelist_required :: "config \<Rightarrow> request \<Rightarrow> bool" where
  "ip_whitelist_required cf rq \<longleftrightarrow> is_app_requested cf rq \<or> is_superset_requested cf rq \<or>
     is_mirror_requested cf rq \<or> is_requesting_credentials cf rq \<or> is_requesting_files cf rq \<or>
     is_data_explorer_requested cf rq"

lemmas request_class_defs = is_service_discovery_def is_superset_requested_def
  is_data_explorer_requested_def is_app_requested_def is_mirror_requested_def
  is_requesting_credentials_def is_requesting_files_def is_dataset_requested_def
  is_hawk_auth_required_def is_healthcheck_requested_def is_table_requested_def

section \<open>The peer's address\<close>

text \<open>
  \<open>None\<close> is the exception of a missing header or of an index out of range. Whether the address
  is private is asked of the \<open>ipaddress\<close> tables, a parameter: no caller uses the answer.
\<close>

definition get_peer_ip :: "config \<Rightarrow> request \<Rightarrow> (string \<times> bool) option" where
  "get_peer_ip cf rq = do {
     forwarded \<leftarrow> hget (rq_headers rq) ''x-forwarded-for'';
     hop \<leftarrow> py_index (split forwarded '','') (- x_forwarded_for_trusted_hops cf);
     let peer_ip = strip hop;
     Some (peer_ip, case y_ip_is_private (urls cf) peer_ip of None \<Rightarrow> False | Some b \<Rightarrow> b)
   }"

fun env_iter :: "env_val \<Rightarrow> env_val list" where
  "env_iter (EList l) = l"
| "env_iter (EDict d) = map (EStr \<circ> fst) d"
| "env_iter (EStr s) = map (\<lambda>c. EStr [c]) s"

text \<open>
  \<open>any(IPv4Address(peer_ip) in IPv4Network(x) for x in ...)\<close>: entries are parsed as they are
  reached, so a malformed entry raises (\<open>None\<close>) only when no earlier entry matched.
\<close>

fun ip_in_whitelist :: "string \<Rightarrow> env_val list \<Rightarrow> bool option" where
  "ip_in_whitelist peer_ip [] = Some False"
| "ip_in_whitelist peer_ip (x # xs) = do {
     ip \<leftarrow> ipv4_address peer_ip;
     text \<leftarrow> env_str x;
     network \<leftarrow> ipv4_network text;
     if in_network ip network then Some True else ip_in_whitelist peer_ip xs
   }"

section \<open>Scheme and URL of the request\<close>

definition request_scheme :: "request \<Rightarrow> string" where
  "request_scheme rq = hget_default (rq_headers rq) ''x-forwarded-proto'' (rq_scheme rq)"

definition request_url :: "config \<Rightarrow> request \<Rightarrow> string" where
  "request_url cf rq = y_with_scheme (urls cf) rq (request_scheme rq)"

section \<open>Headers for the upstream servers\<close>

definition without_transfer_encoding :: "headers \<Rightarrow> headers" where
  "without_transfer_encoding hs = filter (\<lambda>(key, value). lower key \<noteq> ''transfer-encoding'') hs"

definition admin_headers_request :: "headers \<Rightarrow> request \<Rightarrow> headers" where
  "admin_headers_request sso rq =
     filter (\<lambda>(key, value). lower key \<in> set required_admin_headers) (rq_headers rq) @ sso"

definition admin_headers_proxy :: "headers \<Rightarrow> request \<Rightarrow> headers" where
  "admin_headers_proxy sso rq =
     filter (\<lambda>(key, value).
       lower key \<in> set (required_admin_headers @ [''content-length'', ''content-type''])) (rq_headers rq) @ sso"

definition mirror_headers :: "request \<Rightarrow> headers" where
  "mirror_headers rq =
     filter (\<lambda>(key, value). lower key \<notin> {''host'', ''transfer-encoding''}) (rq_headers rq)"

definition application_headers :: "headers \<Rightarrow> request \<Rightarrow> headers" where
  "application_headers sso rq = without_transfer_encoding (rq_headers rq) @
     (case hget (rq_headers rq) ''x-forwarded-proto'' of
        Some proto \<Rightarrow> [(''x-scheme'', proto)] | None \<Rightarrow> []) @ sso"

text \<open>Converts \<open>multi_word_header\<close> to \<open>Multi-Word-Header\<close>.\<close>

definition standardise_header :: "string \<Rightarrow> string" where
  "standardise_header header = join ''-'' (map capitalize (split (replace_str header ''_'' ''-'') ''-''))"

definition superset_header_list :: "headers \<Rightarrow> request \<Rightarrow> headers \<Rightarrow> string list \<Rightarrow> headers" where
  "superset_header_list sso rq credentials dashboards =
     without_transfer_encoding (rq_headers rq) @
     map (\<lambda>(k, v). (''Credentials-'' @ standardise_header k, v)) credentials @
     [(''Dashboards'', join '','' dashboards)] @ sso"

end
