(* ===== verification/ProxySession.thy ===== *)
theory ProxySession
  imports ProxyRequest
begin

text \<open>
  \<open>dataworkspace/proxy_session.py\<close>: the addition-only session in Redis. A value is stored under a
  Redis key of its own, made of the cookie and the session key, so requests that run concurrently
  add to the same session without a read-modify-write cycle.
\<close>

definition COOKIE_MAX_AGE :: nat where
  "COOKIE_MAX_AGE = 60 * 60 * 10"

definition REDIS_KEY_PREFIX :: string where
  "REDIS_KEY_PREFIX = ''data_workspace_session___cookie''"

definition REDIS_MAX_AGE :: nat where
  "REDIS_MAX_AGE = 60 * 60 * 9"

definition session_redis_key :: "string \<Rightarrow> string \<Rightarrow> string" where
  "session_redis_key cookie key = REDIS_KEY_PREFIX @ ''___'' @ cookie @ ''___'' @ key"

section \<open>The closures handed to the handlers\<close>

text \<open>\<open>if not cookie_value\<close>: neither absent nor empty.\<close>

definition has_cookie :: "session \<Rightarrow> bool" where
  "has_cookie s \<longleftrightarrow> (case cookie_value s of None \<Rightarrow> False | Some c \<Rightarrow> c \<noteq> [])"

definition the_cookie :: "session \<Rightarrow> string" where
  "the_cookie s = (case cookie_value s of None \<Rightarrow> [] | Some c \<Rightarrow> c)"

definition get_session_value :: "string \<Rightarrow> string option pio" where
  "get_session_value key = GetSession (\<lambda>s.
     if \<not> has_cookie s then Ret None
     else need ''UnicodeEncodeError'' (encode_ascii (session_redis_key (the_cookie s) key)) (\<lambda>redis_key.
       RedisGet redis_key (\<lambda>raw. case raw of None \<Rightarrow> Ret None
         | Some v \<Rightarrow> need ''UnicodeDecodeError'' (encode_ascii v) (\<lambda>text. Ret (Some text)))))"

definition set_session_value :: "string \<Rightarrow> string \<Rightarrow> unit pio" where
  "set_session_value key value =
     GetSession (\<lambda>s. PutSession (s\<lparr>to_set := dict_set key value (to_set s)\<rparr>) (Ret ()))"

fun store_values :: "string \<Rightarrow> string dict \<Rightarrow> unit pio" where
  "store_values cookie [] = Ret ()"
| "store_values cookie ((key, value) # rest) =
     need ''UnicodeEncodeError'' (encode_ascii (session_redis_key cookie key)) (\<lambda>redis_key.
       need ''UnicodeEncodeError'' (encode_ascii value) (\<lambda>redis_value.
         RedisSet redis_key redis_value REDIS_MAX_AGE False (\<lambda>_. store_values cookie rest)))"

definition cookie_header :: "config \<Rightarrow> request \<Rightarrow> string \<Rightarrow> string \<Rightarrow> string" where
  "cookie_header cf rq cookie expires =
     (let secure = (if hget_default (rq_headers rq) ''x-forwarded-proto'' (rq_scheme rq) = ''https''
                    then ''; Secure'' else []);
          is_embed = startswith (rq_path rq) (embed_path @ ''/'');
          (path, same_site) = (if is_embed then (embed_path, ''None'') else (''/'', ''Lax''))
      in cookie_name cf @ ''='' @ cookie @ ''; domain='' @ root_domain_no_port cf @
         ''; expires='' @ expires @ ''; Max-Age='' @ str_nat COOKIE_MAX_AGE @
         ''; HttpOnly; Path='' @ path @ ''; SameSite='' @ same_site @ secure)"

definition with_session_cookie :: "config \<Rightarrow> request \<Rightarrow> response \<Rightarrow> response pio" where
  "with_session_cookie cf rq resp =
     pbind (GetSession (\<lambda>s. if has_cookie s then Ret s
        else Token 64 (\<lambda>t. PutSession (s\<lparr>cookie_value := Some t\<rparr>) (Ret (s\<lparr>cookie_value := Some t\<rparr>)))))
      (\<lambda>s. pbind (store_values (the_cookie s) (to_set s))
        (\<lambda>_. GmTime COOKIE_MAX_AGE (\<lambda>expires.
           Ret (resp\<lparr>rs_headers := rs_headers resp @
             [(''set-cookie'', cookie_header cf rq (the_cookie s) expires)]\<rparr>))))"

definition with_new_session_cookie :: "config \<Rightarrow> request \<Rightarrow> response \<Rightarrow> response pio" where
  "with_new_session_cookie cf rq resp = GetSession (\<lambda>s. Token 64 (\<lambda>t.
     PutSession (s\<lparr>cookie_value := Some t\<rparr>) (with_session_cookie cf rq resp)))"

text \<open>
  The middleware: every request starts with the cookie it sent and with nothing to set, and the
  handler runs with the closures over these two variables.
\<close>

definition redis_session_middleware ::
  "config \<Rightarrow> (request \<Rightarrow> response pio) \<Rightarrow> request \<Rightarrow> response pio" where
  "redis_session_middleware cf handler rq =
     PutSession \<lparr>cookie_value = hget (rq_cookies rq) (cookie_name cf), to_set = []\<rparr> (handler rq)"

section \<open>What storing does to Redis\<close>

fun stored :: "nat \<Rightarrow> string \<Rightarrow> string dict \<Rightarrow> redis \<Rightarrow> redis" where
  "stored now cookie [] r = r"
| "stored now cookie ((key, value) # rest) r =
     stored now cookie rest (r(session_redis_key cookie key \<mapsto> (value, now + REDIS_MAX_AGE)))"

definition ascii :: "string \<Rightarrow> bool" where
  "ascii s \<longleftrightarrow> list_all (\<lambda>c. (of_char c :: nat) < 128) s"

lemma encode_ascii_eq: "encode_ascii s = (if ascii s then Some s else None)"
  by (simp add: encode_ascii_def ascii_def)

lemma ascii_append [simp]: "ascii (a @ b) \<longleftrightarrow> ascii a \<and> ascii b"
  by (simp add: ascii_def)

lemma ascii_Cons: "ascii (c # s) \<longleftrightarrow> (of_char c :: nat) < 128 \<and> ascii s"
  by (simp add: ascii_def)

lemma ascii_Nil [simp]: "ascii []"
  by (simp add: ascii_def)

lemma ascii_prefix [simp]: "ascii REDIS_KEY_PREFIX"
  by (simp add: ascii_def REDIS_KEY_PREFIX_def)

lemma ascii_session_key [simp]: "ascii (session_redis_key c k) \<longleftrightarrow> ascii c \<and> ascii k"
  by (simp add: session_redis_key_def ascii_Cons)

lemma session_key_inj_key [simp]: "session_redis_key c k = session_redis_key c k' \<longleftrightarrow> k = k'"
  by (simp add: session_redis_key_def)

lemma run_store_values:
  assumes "ascii cookie" and "\<forall>(k, v) \<in> set d. ascii k \<and> ascii v"
  shows "fst (run (store_values cookie d) env st) = Inr () \<and>
    ps_redis (snd (run (store_values cookie d) env st)) = stored (pe_now env) cookie d (ps_redis st) \<and>
    ps_session (snd (run (store_values cookie d) env st)) = ps_session st"
  using assms
  by (induction cookie d arbitrary: st rule: store_values.induct)
    (auto simp: encode_ascii_eq redis_set_def record_event_def)

lemma stored_lookup:
  "distinct (map fst d) \<Longrightarrow> stored now cookie d r (session_redis_key cookie key) =
     (case map_of d key of Some v \<Rightarrow> Some (v, now + REDIS_MAX_AGE)
      | None \<Rightarrow> r (session_redis_key cookie key))"
proof (induction d arbitrary: r)
  case Nil
  then show ?case by simp
next
  case (Cons p rest)
  obtain k v where p: "p = (k, v)" by (cases p)
  with Cons.prems have d: "distinct (map fst rest)" and none: "map_of rest k = None"
    by (simp_all add: map_of_eq_None_iff)
  show ?case
    unfolding p stored.simps Cons.IH [OF d] by (simp add: none split: option.split)
qed

lemma stored_other: "\<forall>k. rkey \<noteq> session_redis_key cookie k \<Longrightarrow> stored now cookie d r rkey = r rkey"
  by (induction now cookie d r rule: stored.induct) auto

end
