(* ===== verification/ProxyHandlers.thy ===== *)
theory ProxyHandlers
  imports ProxySession
begin

text \<open>
  \<open>dataworkspace/proxy.py\<close>: the handlers. \<open>handle\<close> chooses one by the class of the request; the
  application handler starts, polls, wraps or proxies a user's tool or visualisation; all of them end
  in \<open>handle_http\<close>, which streams an upstream response back to the client. The second argument of a
  handler is the list of SSO profile headers the authentication middleware found.
\<close>

section \<open>Streaming a response\<close>

fun write_chunks :: "string list \<Rightarrow> 'a pio \<Rightarrow> 'a pio" where
  "write_chunks [] m = m"
| "write_chunks (c # cs) m =
     Write c (\<lambda>up. if up then write_chunks cs m else Raise (OtherError ''ConnectionResetError''))"

definition handle_http ::
  "config \<Rightarrow> request \<Rightarrow> string \<Rightarrow> headers \<Rightarrow> string \<Rightarrow> headers \<Rightarrow> payload \<Rightarrow> timeout \<Rightarrow> headers \<Rightarrow>
    response pio" where
  "handle_http cf rq upstream_method upstream_headers upstream_url upstream_query upstream_data
     tmo response_headers =
     fetch \<lparr>hr_method = upstream_method, hr_url = upstream_url, hr_params = upstream_query,
        hr_headers = upstream_headers, hr_data = upstream_data, hr_allow_redirects = False,
        hr_timeout = tmo\<rparr> (\<lambda>upstream_response.
       pbind (with_session_cookie cf rq
          \<lparr>rs_status = hp_status upstream_response,
           rs_headers = without_transfer_encoding (hp_headers upstream_response) @ response_headers,
           rs_streamed = True\<rparr>) (\<lambda>downstream_response.
         Prepare (rs_status downstream_response) (rs_headers downstream_response) (\<lambda>up.
           if \<not> up then Raise (OtherError ''ConnectionResetError'')
           else write_chunks (hp_chunks upstream_response)
             (if hp_complete upstream_response then Ret downstream_response
              else Raise (OtherError ''ClientPayloadError'')))))"

definition get_data :: "request \<Rightarrow> payload" where
  "get_data rq =
     (if hget (rq_headers rq) ''content-length'' = None \<and>
         lower (hget_default (rq_headers rq) ''transfer-encoding'' []) \<noteq> ''chunked'' then Bytes []
      else if rq_at_eof rq then Bytes (rq_body rq) else Stream (rq_body rq))"

text \<open>A request of the proxy's own to the admin application.\<close>

definition admin_api_request :: "string \<Rightarrow> string \<Rightarrow> headers \<Rightarrow> request \<Rightarrow> http_request" where
  "admin_api_request method url sso rq =
     \<lparr>hr_method = method, hr_url = url, hr_params = [], hr_headers = admin_headers_request sso rq,
      hr_data = Bytes [], hr_allow_redirects = True, hr_timeout = Library_timeout\<rparr>"

section \<open>Admin, mirror and Superset\<close>

definition handle_admin ::
  "config \<Rightarrow> request \<Rightarrow> string \<Rightarrow> headers \<Rightarrow> string \<Rightarrow> headers \<Rightarrow> payload \<Rightarrow> response pio" where
  "handle_admin cf rq method hs path query data =
     handle_http cf rq method hs (y_with_path (urls cf) (admin_root cf) path) query data
       Default_timeout []"

definition handle_mirror :: "config \<Rightarrow> request \<Rightarrow> string \<Rightarrow> string \<Rightarrow> response pio" where
  "handle_mirror cf rq method path =
     (let mirror_path = drop (length mirror_local_root) path
      in handle_http cf rq method (mirror_headers rq) (mirror_remote_root cf @ mirror_path) []
           (get_data rq) Default_timeout [])"

fun json_strings :: "json list \<Rightarrow> string list option" where
  "json_strings [] = Some []"
| "json_strings (JStr s # xs) = map_option ((#) s) (json_strings xs)"
| "json_strings (_ # xs) = None"

fun json_items :: "(string \<times> json) list \<Rightarrow> headers option" where
  "json_items [] = Some []"
| "json_items ((k, JStr s) # xs) = map_option ((#) (k, s)) (json_items xs)"
| "json_items (_ # xs) = None"

fun jstrings :: "json \<Rightarrow> string list option" where
  "jstrings (JList xs) = json_strings xs"
| "jstrings _ = None"

fun jitems :: "json \<Rightarrow> headers option" where
  "jitems (JObj d) = json_items d"
| "jitems _ = None"

definition superset_headers :: "config \<Rightarrow> headers \<Rightarrow> request \<Rightarrow> string \<Rightarrow> headers pio" where
  "superset_headers cf sso rq path =
     pbind (if startswith path ''/static/'' then Ret ([], [])
        else fetch (admin_api_request ''GET''
            (admin_root cf @ ''/api/v1/core/get-superset-role-credentials'') sso rq) (\<lambda>response.
          if hp_status response = 200 then
            need ''ContentTypeError'' (hp_json response) (\<lambda>response_json.
              need ''KeyError'' (Option.bind (jget response_json ''credentials'') jitems) (\<lambda>credentials.
                need ''KeyError'' (Option.bind (jget response_json ''dashboards'') jstrings) (\<lambda>dashboards.
                  Ret (credentials, dashboards))))
          else Raise (UserException ''Unable to fetch credentials for superset'' (hp_status response))))
       (\<lambda>(credentials, dashboards). Ret (superset_header_list sso rq credentials dashboards))"

definition handle_superset :: "config \<Rightarrow> headers \<Rightarrow> request \<Rightarrow> string \<Rightarrow> string \<Rightarrow> headers \<Rightarrow> response pio" where
  "handle_superset cf sso rq method path query =
     need ''KeyError'' (hget (rq_headers rq) ''host'') (\<lambda>host.
       pbind (superset_headers cf sso rq path) (\<lambda>hs.
         handle_http cf rq method hs (y_with_path (urls cf) (superset_root cf) path) query
           (get_data rq) Default_timeout
           [(''content-security-policy'', csp_application_running_direct cf host ''superset'')]))"

section \<open>Applications\<close>

text \<open>The public host of an application, and the port when the host ends in \<open>--<port>\<close>.\<close>

definition public_host_and_port :: "config \<Rightarrow> string \<Rightarrow> string \<times> int option" where
  "public_host_and_port cf host =
     (let public_host = fst (partition host (''.'' @ root_domain_no_port cf));
          (possible_public_host, public_host_or_port_override) = rpartition public_host ''--''
      in case int_of_str public_host_or_port_override of
           None \<Rightarrow> (public_host, None)
         | Some port_override \<Rightarrow>
             if 1 \<le> port_override \<and> port_override \<le> 65535
             then (possible_public_host, Some port_override) else (public_host, None))"

definition application_upstream :: "config \<Rightarrow> string \<Rightarrow> string \<Rightarrow> int option \<Rightarrow> string" where
  "application_upstream cf proxy_url path port_override =
     (case port_override of
        None \<Rightarrow> y_with_path (urls cf) proxy_url path
      | Some p \<Rightarrow> y_with_port (urls cf) (y_with_path (urls cf) proxy_url path) p)"

text \<open>The page of the admin application that polls while an application starts.\<close>

definition spawning_page :: "config \<Rightarrow> headers \<Rightarrow> request \<Rightarrow> string \<Rightarrow> response pio" where
  "spawning_page cf sso rq host_html_path =
     handle_http cf rq ''GET'' (admin_headers_request sso rq)
       (admin_root cf @ host_html_path @ ''/spawning'') [] (Bytes []) Default_timeout
       [(''content-security-policy'', csp_application_spawning cf)]"

definition handle_application_http_spawning ::
  "config \<Rightarrow> headers \<Rightarrow> request \<Rightarrow> string \<Rightarrow> string \<Rightarrow> headers \<Rightarrow> string \<Rightarrow> string \<Rightarrow> string \<Rightarrow>
    response pio" where
  "handle_application_http_spawning cf sso rq method upstream_url query host_html_path host_api_url
     public_host =
     need ''KeyError'' (hget (rq_headers rq) ''host'') (\<lambda>host.
       ptry_else
         (handle_http cf rq method (application_headers sso rq) upstream_url query (get_data rq)
            Spawning_timeout
            [(''content-security-policy'', csp_application_running_direct cf host public_host)])
         (\<lambda>_. spawning_page cf sso rq host_html_path)
         (\<lambda>response. Background
            ((admin_api_request ''PATCH'' host_api_url sso rq)
               \<lparr>hr_data := JsonBody (JObj [(''state'', JStr ''RUNNING'')]), hr_timeout := Default_timeout\<rparr>)
            (Ret response)))"

definition handle_application_http_running_wrapped ::
  "config \<Rightarrow> headers \<Rightarrow> request \<Rightarrow> string \<Rightarrow> string \<Rightarrow> string \<Rightarrow> response pio" where
  "handle_application_http_running_wrapped cf sso rq upstream_url host_html_path public_host =
     (let direct_host = public_host @ ''--'' @ y_port (urls cf) upstream_url @ ''.'' @ root_domain cf
      in handle_http cf rq ''GET'' (admin_headers_request sso rq)
           (admin_root cf @ host_html_path @ ''/running'') [] (Bytes []) Default_timeout
           [(''content-security-policy'', csp_application_running_wrapped cf direct_host)])"

text \<open>\<open>os.path.splitext(path)[1]\<close>: leading dots of the last component belong to the stem.\<close>

definition extension :: "string \<Rightarrow> string" where
  "extension path =
     (let file = rev (takeWhile (\<lambda>c. c \<noteq> CHR ''/'') (rev path));
          stem_ext = dropWhile (\<lambda>c. c = CHR ''.'') file
      in case find_sep ''.'' (rev stem_ext) of None \<Rightarrow> []
         | Some (ext, _) \<Rightarrow> CHR ''.'' # rev ext)"

definition page_extensions :: "string set" where
  "page_extensions = {[], ''.doc'', ''.docx'', ''.html'', ''.pdf'', ''.ppt'', ''.pptx'', ''.xlsx''}"

definition analytics_request :: "request \<Rightarrow> string \<Rightarrow> string \<Rightarrow> string \<Rightarrow> http_request" where
  "analytics_request rq tracking_id cid peer_ip =
     \<lparr>hr_method = ''POST'', hr_url = ''https://www.google-analytics.com/collect'', hr_params = [],
      hr_headers = [],
      hr_data = Form [(''v'', ''1''), (''tid'', tracking_id), (''cid'', cid), (''t'', ''pageview''),
        (''uip'', peer_ip), (''dh'', rq_host rq), (''dp'', rq_path_qs rq),
        (''ds'', ''data-workspace-server''),
        (''dr'', hget_default (rq_headers rq) ''referer'' []),
        (''ua'', hget_default (rq_headers rq) ''user-agent'' [])],
      hr_allow_redirects = True, hr_timeout = Default_timeout\<rparr>"

text \<open>
  The analytics request runs in a task of its own; an exception while it is prepared ends only
  that task.
\<close>

definition send_to_google_analytics :: "config \<Rightarrow> request \<Rightarrow> unit pio" where
  "send_to_google_analytics cf rq =
     (case ga_tracking_id cf of
        None \<Rightarrow> Ret ()
      | Some tracking_id \<Rightarrow>
          if tracking_id = [] \<or> extension (rq_path rq) \<notin> page_extensions then Ret ()
          else (case get_peer_ip cf rq of
              None \<Rightarrow> Ret ()
            | Some (peer_ip, _) \<Rightarrow> Token 16 (\<lambda>cid.
                Background (analytics_request rq tracking_id cid peer_ip) (Ret ()))))"

definition handle_application_http_running_direct ::
  "config \<Rightarrow> headers \<Rightarrow> request \<Rightarrow> string \<Rightarrow> string \<Rightarrow> headers \<Rightarrow> string \<Rightarrow> response pio" where
  "handle_application_http_running_direct cf sso rq method upstream_url query public_host =
     need ''KeyError'' (hget (rq_headers rq) ''host'') (\<lambda>host.
       pbind (send_to_google_analytics cf rq) (\<lambda>_.
         handle_http cf rq method (application_headers sso rq) upstream_url query (get_data rq)
           Default_timeout
           [(''content-security-policy'', csp_application_running_direct cf host public_host)]))"

definition handle_websocket :: "config \<Rightarrow> request \<Rightarrow> headers \<Rightarrow> string \<Rightarrow> response pio" where
  "handle_websocket cf rq upstream_headers upstream_url =
     (let protocols = (case hget (rq_headers rq) ''Sec-WebSocket-Protocol'' of
            None \<Rightarrow> [] | Some p \<Rightarrow> if p = [] then [] else [p])
      in Upgrade upstream_url upstream_headers protocols (\<lambda>up.
           if \<not> up then Raise (OtherError ''ClientError'')
           else pbind (with_session_cookie cf rq \<lparr>rs_status = 101, rs_headers = [], rs_streamed = True\<rparr>)
             (\<lambda>downstream_ws. Prepare 101 (rs_headers downstream_ws) (\<lambda>ok.
                if \<not> ok then Raise (OtherError ''ConnectionResetError'')
                else Pump (\<lambda>_. Ret downstream_ws)))))"

definition handle_application_websocket ::
  "config \<Rightarrow> headers \<Rightarrow> request \<Rightarrow> string \<Rightarrow> string \<Rightarrow> headers \<Rightarrow> int option \<Rightarrow> response pio" where
  "handle_application_websocket cf sso rq proxy_url path query port_override =
     handle_websocket cf rq (application_headers sso rq)
       (y_with_query (urls cf) (application_upstream cf proxy_url path port_override) query)"

definition active_states :: "string list" where
  "active_states = [''SPAWNING'', ''RUNNING'']"

definition no_modify_header :: string where
  "no_modify_header = ''x-data-workspace-no-modify-application-instance''"

definition application_api_url :: "config \<Rightarrow> string \<Rightarrow> string" where
  "application_api_url cf public_host = admin_root cf @ ''/api/v1/application/'' @ public_host"

definition may_modify :: "request \<Rightarrow> bool" where
  "may_modify rq \<longleftrightarrow> hget (rq_headers rq) no_modify_header = None"

text \<open>What to do with an application that the admin application reports as started.\<close>

definition handle_started_application ::
  "config \<Rightarrow> headers \<Rightarrow> bool \<Rightarrow> request \<Rightarrow> string \<Rightarrow> string \<Rightarrow> headers \<Rightarrow> string \<Rightarrow> int option \<Rightarrow> json \<Rightarrow>
    json \<Rightarrow> response pio" where
  "handle_started_application cf sso is_websocket rq method path query public_host port_override
     state application =
     (let host_api_url = application_api_url cf public_host;
          host_html_path = ''/tools/'' @ public_host
      in need ''KeyError'' (jget application ''proxy_url'') (\<lambda>proxy_url_json.
        if \<not> jtrue proxy_url_json then spawning_page cf sso rq host_html_path
        else need ''TypeError'' (jstr proxy_url_json) (\<lambda>proxy_url.
          if is_websocket
          then handle_application_websocket cf sso rq proxy_url path query port_override
          else if state = JStr ''SPAWNING''
          then handle_application_http_spawning cf sso rq method
                 (application_upstream cf proxy_url path port_override) query host_html_path
                 host_api_url public_host
          else need ''KeyError'' (jget application ''wrap'') (\<lambda>wrap.
            if state = JStr ''RUNNING'' \<and> wrap \<noteq> JStr ''NONE'' \<and> port_override = None
            then handle_application_http_running_wrapped cf sso rq
                   (application_upstream cf proxy_url path port_override) host_html_path public_host
            else handle_application_http_running_direct cf sso rq method
                   (application_upstream cf proxy_url path port_override) query public_host))))"

definition is_active :: "json \<Rightarrow> bool" where
  "is_active state \<longleftrightarrow> state \<in> JStr ` set active_states"

text \<open>\<open>raise UserException(what + state, 500)\<close>: the concatenation needs a string.\<close>

definition raise_with_state :: "string \<Rightarrow> json \<Rightarrow> 'a pio" where
  "raise_with_state what state =
     need ''TypeError'' (jstr state) (\<lambda>s. Raise (UserException (what @ s) 500))"

definition check_started :: "http_reply \<Rightarrow> json \<Rightarrow> (json \<Rightarrow> 'a pio) \<Rightarrow> 'a pio" where
  "check_started response application f =
     (if hp_status response \<noteq> 200
      then Raise (UserException ''Unable to start the application'' (hp_status response))
      else need ''KeyError'' (jget application ''state'') (\<lambda>state.
        if \<not> is_active state
        then raise_with_state ''Attempted to start the application, but it '' state
        else f state))"

definition handle_application ::
  "config \<Rightarrow> headers \<Rightarrow> bool \<Rightarrow> request \<Rightarrow> string \<Rightarrow> string \<Rightarrow> headers \<Rightarrow> response pio" where
  "handle_application cf sso is_websocket rq method path query =
     (let (public_host, port_override) = public_host_and_port cf (rq_host rq);
          host_api_url = application_api_url cf public_host;
          started = (\<lambda>response application. check_started response application (\<lambda>state.
            handle_started_application cf sso is_websocket rq method path query public_host
              port_override state application))
      in fetch (admin_api_request ''GET'' host_api_url sso rq) (\<lambda>response.
        need ''ContentTypeError'' (hp_json response) (\<lambda>application.
          if hp_status response \<noteq> 200 \<and> hp_status response \<noteq> 404
          then Raise (UserException ''Unable to start the application'' (hp_status response))
          else if hp_status response = 200 then
            need ''KeyError'' (jget application ''state'') (\<lambda>state.
              if \<not> is_active state then
                (if may_modify rq then
                   fetch (admin_api_request ''DELETE'' host_api_url sso rq) (\<lambda>_.
                     raise_with_state ''Application '' state)
                 else raise_with_state ''Application '' state)
              else started response application)
          else if may_modify rq then
            fetch (admin_api_request ''PUT'' host_api_url sso rq) (\<lambda>response.
              need ''ContentTypeError'' (hp_json response) (\<lambda>application.
                started response application))
          else Raise (UserException ''Application stopped while starting'' 500))))"

section \<open>Dispatch\<close>

definition is_websocket_request :: "request \<Rightarrow> bool" where
  "is_websocket_request rq \<longleftrightarrow> lower (hget_default (rq_headers rq) ''connection'' []) = ''upgrade'' \<and>
     lower (hget_default (rq_headers rq) ''upgrade'' []) = ''websocket''"

definition handle :: "config \<Rightarrow> headers \<Rightarrow> request \<Rightarrow> response pio" where
  "handle cf sso rq =
     (let method = rq_method rq; path = rq_path rq; query = rq_query rq;
          is_websocket = is_websocket_request rq
      in pcatch
        (if is_app_requested cf rq
         then handle_application cf sso is_websocket rq method path query
         else if is_mirror_requested cf rq then handle_mirror cf rq method path
         else if is_superset_requested cf rq then handle_superset cf sso rq method path query
         else handle_admin cf rq method (admin_headers_proxy sso rq) path query (get_data rq))
        (\<lambda>e. if is_websocket then Raise e
          else (let (params, status) = (case e of
                    UserException message st \<Rightarrow> ([(''message'', message)], st)
                  | OtherError _ \<Rightarrow> ([], 500))
            in handle_http cf rq ''GET'' (admin_headers_request sso rq)
                 (y_with_path (urls cf) (admin_root cf) (''/error_'' @ str_int status)) params
                 (Bytes []) Default_timeout [])))"

end
