(* ===== verification/ProxyAuth.thy ===== *)
theory ProxyAuth
  imports ProxyHandlers
begin

text \<open>
  \<open>dataworkspace/proxy.py\<close>: the authentication middlewares, in the order in which a request passes
  them: the staff single sign-on (SSO), HTTP basic authentication of the metrics service discovery,
  Hawk authentication of the dataset API, and the IP whitelist.
\<close>

type_synonym handler = "headers \<Rightarrow> request \<Rightarrow> response pio"

definition PROFILE_CACHE_PREFIX :: string where
  "PROFILE_CACHE_PREFIX = ''data_workspace_profile''"

section \<open>Staff SSO\<close>

definition redirect_from_sso_path :: string where
  "redirect_from_sso_path = ''/__redirect_from_sso''"

definition session_token_key :: string where
  "session_token_key = ''staff_sso_access_token''"

definition get_redirect_uri_callback :: "config \<Rightarrow> string \<Rightarrow> string" where
  "get_redirect_uri_callback cf scheme =
     y_build (urls cf) (root_domain_no_port cf) (root_port cf) scheme redirect_from_sso_path"

definition sso_state_of :: "string \<Rightarrow> string \<Rightarrow> string" where
  "sso_state_of session_key redirect_uri_final = quote [] (session_key @ ''_'' @ redirect_uri_final)"

definition set_redirect_uri_final :: "string \<Rightarrow> string pio" where
  "set_redirect_uri_final redirect_uri_final = Token 32 (\<lambda>session_key.
     pbind (set_session_value session_key redirect_uri_final) (\<lambda>_.
       Ret (sso_state_of session_key redirect_uri_final)))"

definition get_redirect_uri_authenticate :: "config \<Rightarrow> string \<Rightarrow> string pio" where
  "get_redirect_uri_authenticate cf redirect_uri_final =
     (let scheme = y_scheme (urls cf) redirect_uri_final
      in pbind (set_redirect_uri_final redirect_uri_final) (\<lambda>sso_state.
        Ret (sso_base_url cf @ ''o/authorize/'' @ ''?scope='' @ ''read write'' @ ''&state='' @ sso_state @ ''&'' @
          ''redirect_uri='' @ quote [] (get_redirect_uri_callback cf scheme) @ ''&'' @
          ''response_type='' @ ''code'' @ ''&client_id='' @ sso_client_id cf)))"

text \<open>The final URL according to the state parameter, and according to the session.\<close>

definition get_redirect_uri_final :: "string \<Rightarrow> (string \<times> string option) pio" where
  "get_redirect_uri_final sso_state =
     (let (session_key, state_redirect_url) = partition (unquote sso_state) ''_''
      in pbind (get_session_value session_key) (\<lambda>v. Ret (state_redirect_url, v)))"

definition redirection_to_sso :: "config \<Rightarrow> request \<Rightarrow> string \<Rightarrow> response pio" where
  "redirection_to_sso cf rq redirect_uri_final =
     pbind (get_redirect_uri_authenticate cf redirect_uri_final) (\<lambda>location.
       with_new_session_cookie cf rq
         \<lparr>rs_status = 302, rs_headers = [(''Location'', location)], rs_streamed = False\<rparr>)"

definition sso_token_request :: "config \<Rightarrow> request \<Rightarrow> string \<Rightarrow> http_request" where
  "sso_token_request cf rq code =
     \<lparr>hr_method = ''POST'', hr_url = sso_base_url cf @ ''o/token/'', hr_params = [], hr_headers = [],
      hr_data = Form [(''grant_type'', ''authorization_code''), (''code'', code),
        (''client_id'', sso_client_id cf), (''client_secret'', sso_client_secret cf),
        (''redirect_uri'', get_redirect_uri_callback cf (request_scheme rq))],
      hr_allow_redirects = True, hr_timeout = Library_timeout\<rparr>"

definition redirect_from_sso :: "config \<Rightarrow> request \<Rightarrow> response pio" where
  "redirect_from_sso cf rq =
     need ''KeyError'' (map_of (rq_query rq) ''code'') (\<lambda>code.
       need ''KeyError'' (map_of (rq_query rq) ''state'') (\<lambda>sso_state.
         pbind (get_redirect_uri_final sso_state) (\<lambda>(from_url, from_session).
           if Some from_url \<noteq> from_session then redirection_to_sso cf rq from_url
           else fetch (sso_token_request cf rq code) (\<lambda>sso_response.
             need ''ContentTypeError'' (hp_json sso_response) (\<lambda>sso_response_json.
               need ''KeyError'' (Option.bind (jget sso_response_json ''access_token'') jstr) (\<lambda>access_token.
                 pbind (set_session_value session_token_key access_token) (\<lambda>_.
                   with_new_session_cookie cf rq
                     \<lparr>rs_status = 302, rs_headers = [(''Location'', from_url)],
                      rs_streamed = False\<rparr>)))))))"

text \<open>\<open>me_profile.get(key, default)\<close>.\<close>

definition jget_default :: "json \<Rightarrow> string \<Rightarrow> json \<Rightarrow> json" where
  "jget_default v k d = (case jget v k of None \<Rightarrow> d | Some x \<Rightarrow> x)"

text \<open>
  The headers that tell the upstream servers who the user is. A missing key raises; so does a
  value that is no string, at the latest when the header is sent.
\<close>

definition sso_profile_headers :: "json \<Rightarrow> headers option" where
  "sso_profile_headers me_profile = do {
     email \<leftarrow> Option.bind (jget me_profile ''email'') jstr;
     contact_email \<leftarrow> jstr (jget_default me_profile ''contact_email'' (JStr []));
     related_emails \<leftarrow> jstrings (jget_default me_profile ''related_emails'' (JList []));
     user_id \<leftarrow> Option.bind (jget me_profile ''user_id'') jstr;
     first_name \<leftarrow> Option.bind (jget me_profile ''first_name'') jstr;
     last_name \<leftarrow> Option.bind (jget me_profile ''last_name'') jstr;
     Some [(''sso-profile-email'', email), (''sso-profile-contact-email'', contact_email),
       (''sso-profile-related-emails'', join '','' related_emails), (''sso-profile-user-id'', user_id),
       (''sso-profile-first-name'', first_name), (''sso-profile-last-name'', last_name)]
   }"

text \<open>The part of the SSO profile that is cached.\<close>

definition cached_profile :: "json \<Rightarrow> json option" where
  "cached_profile full = do {
     email \<leftarrow> jget full ''email'';
     related_emails \<leftarrow> jget full ''related_emails'';
     contact_email \<leftarrow> jget full ''contact_email'';
     user_id \<leftarrow> jget full ''user_id'';
     first_name \<leftarrow> jget full ''first_name'';
     last_name \<leftarrow> jget full ''last_name'';
     Some (JObj [(''email'', email), (''related_emails'', related_emails),
       (''contact_email'', contact_email), (''user_id'', user_id), (''first_name'', first_name),
       (''last_name'', last_name)])
   }"

definition redis_profile_key :: "string \<Rightarrow> string" where
  "redis_profile_key token = PROFILE_CACHE_PREFIX @ ''___'' @ session_token_key @ ''___'' @ token"

definition sso_me_request :: "config \<Rightarrow> string \<Rightarrow> http_request" where
  "sso_me_request cf token =
     \<lparr>hr_method = ''GET'', hr_url = sso_base_url cf @ ''api/v1/user/me/'', hr_params = [],
      hr_headers = [(''Authorization'', ''Bearer '' @ token)], hr_data = Bytes [],
      hr_allow_redirects = True, hr_timeout = Library_timeout\<rparr>"

definition handler_with_sso_headers :: "handler \<Rightarrow> request \<Rightarrow> json \<Rightarrow> response pio" where
  "handler_with_sso_headers handler rq me_profile =
     need ''KeyError'' (sso_profile_headers me_profile) (\<lambda>sso. handler sso rq)"

definition with_profile :: "config \<Rightarrow> handler \<Rightarrow> request \<Rightarrow> string \<Rightarrow> response pio" where
  "with_profile cf handler rq token =
     need ''UnicodeEncodeError'' (encode_ascii (redis_profile_key token)) (\<lambda>profile_key.
       RedisGet profile_key (\<lambda>me_profile_raw.
         pbind (case me_profile_raw of None \<Rightarrow> Ret JNull
             | Some raw \<Rightarrow> if raw = [] then Ret JNull
                 else need ''JSONDecodeError'' (json_loads (urls cf) raw) Ret) (\<lambda>me_profile.
           if jtrue me_profile then handler_with_sso_headers handler rq me_profile
           else fetch (sso_me_request cf token) (\<lambda>me_response.
             pbind (if hp_status me_response = 200
                    then need ''ContentTypeError'' (hp_json me_response) Ret else Ret JNull)
               (\<lambda>me_profile_full.
                 if \<not> jtrue me_profile_full then redirection_to_sso cf rq (request_url cf rq)
                 else need ''KeyError'' (cached_profile me_profile_full) (\<lambda>me_profile.
                   RedisSet profile_key (json_dumps (urls cf) me_profile) 60 False (\<lambda>_.
                     handler_with_sso_headers handler rq me_profile)))))))"

definition authenticate_by_staff_sso :: "config \<Rightarrow> handler \<Rightarrow> request \<Rightarrow> response pio" where
  "authenticate_by_staff_sso cf handler rq =
     (if \<not> is_sso_auth_required cf rq then handler [] rq
      else pbind (get_session_value session_token_key) (\<lambda>token.
        if rq_path rq = redirect_from_sso_path then redirect_from_sso cf rq
        else case token of
          None \<Rightarrow> redirection_to_sso cf rq (request_url cf rq)
        | Some t \<Rightarrow> with_profile cf handler rq t))"

section \<open>Basic authentication\<close>

definition unauthorized :: response where
  "unauthorized = \<lparr>rs_status = 401, rs_headers = [], rs_streamed = False\<rparr>"

definition basic_auth_accepts :: "config \<Rightarrow> string \<Rightarrow> bool" where
  "basic_auth_accepts cf authorization \<longleftrightarrow> strip (drop (length ''Basic '') authorization) =
     b64encode (basic_auth_user cf @ '':'' @ basic_auth_password cf)"

definition authenticate_by_basic_auth :: "config \<Rightarrow> handler \<Rightarrow> handler" where
  "authenticate_by_basic_auth cf handler sso rq =
     (if \<not> is_service_discovery cf rq then handler sso rq
      else case hget (rq_headers rq) ''Authorization'' of
          None \<Rightarrow> Ret unauthorized
        | Some authorization \<Rightarrow>
            need ''UnicodeEncodeError'' (encode_ascii (strip (drop (length ''Basic '') authorization))) (\<lambda>_.
              need ''UnicodeEncodeError''
                (encode_ascii (basic_auth_user cf @ '':'' @ basic_auth_password cf)) (\<lambda>_.
                  if \<not> basic_auth_accepts cf authorization then Ret unauthorized
                  else handler sso rq)))"

section \<open>Hawk\<close>

fun find_sender :: "string \<Rightarrow> env_val list \<Rightarrow> env_val option pio" where
  "find_sender sender_id [] = Ret None"
| "find_sender sender_id (hawk_sender # rest) =
     need ''KeyError'' (env_item hawk_sender ''id'') (\<lambda>i.
       if i = EStr sender_id then Ret (Some hawk_sender) else find_sender sender_id rest)"

definition lookup_credentials :: "config \<Rightarrow> string \<Rightarrow> env_val option pio" where
  "lookup_credentials cf sender_id = find_sender sender_id (env_iter (hawk_senders cf))"

definition nonce_key :: "string \<Rightarrow> string \<Rightarrow> string" where
  "nonce_key nonce sender_id = ''nonce-'' @ sender_id @ ''-'' @ nonce"

definition seen_nonce :: "string \<Rightarrow> string \<Rightarrow> bool pio" where
  "seen_nonce nonce sender_id = RedisSet (nonce_key nonce sender_id) ''1'' 60 True (\<lambda>ok. Ret (\<not> ok))"

text \<open>
  The Hawk library is not part of the repository: it is a program that may call the two callbacks,
  and ends with an error message, or with none and the sender's credentials.
\<close>

type_synonym hawk_library =
  "(string \<Rightarrow> env_val option pio) \<Rightarrow> (string \<Rightarrow> string \<Rightarrow> bool pio) \<Rightarrow> nat \<Rightarrow> string \<Rightarrow> string \<Rightarrow> string \<Rightarrow>
    int \<Rightarrow> string \<Rightarrow> string \<Rightarrow> string \<Rightarrow> (string option \<times> env_val option) pio"

definition authenticate_by_hawk_auth :: "hawk_library \<Rightarrow> config \<Rightarrow> handler \<Rightarrow> handler" where
  "authenticate_by_hawk_auth authenticate_hawk_header cf handler sso rq =
     (if \<not> is_hawk_auth_required cf rq then handler sso rq
      else case hget (rq_headers rq) ''Authorization'' of
          None \<Rightarrow> Ret unauthorized
        | Some authorization_header \<Rightarrow>
            need ''KeyError'' (hget (rq_headers rq) ''Content-Type'') (\<lambda>content_type.
              pbind (authenticate_hawk_header (lookup_credentials cf) seen_nonce 15
                  authorization_header (rq_method rq) (rq_host rq) (rq_port rq) (rq_path_qs rq)
                  content_type (rq_body rq)) (\<lambda>(error_message, creds).
                if error_message \<noteq> None then Ret unauthorized else handler sso rq)))"

section \<open>IP whitelist\<close>

definition authenticate_by_ip_whitelist :: "config \<Rightarrow> handler \<Rightarrow> handler" where
  "authenticate_by_ip_whitelist cf handler sso rq =
     (if \<not> ip_whitelist_required cf rq then handler sso rq
      else need ''KeyError'' (get_peer_ip cf rq) (\<lambda>(peer_ip, _).
        need ''AddressValueError'' (ip_in_whitelist peer_ip (env_iter (application_ip_whitelist cf)))
          (\<lambda>peer_ip_in_whitelist.
            if \<not> peer_ip_in_whitelist
            then handle_admin cf rq ''GET'' (admin_headers_request sso rq) ''/error_403'' [] (Bytes [])
            else handler sso rq)))"

section \<open>The application\<close>

definition routed_methods :: "string list" where
  "routed_methods = [''DELETE'', ''GET'', ''HEAD'', ''OPTIONS'', ''PATCH'', ''POST'', ''PUT'']"

text \<open>The web framework answers 405 itself when no route has the request's method.\<close>

definition route :: "config \<Rightarrow> handler" where
  "route cf sso rq =
     (if rq_method rq \<in> set routed_methods then handle cf sso rq
      else Ret \<lparr>rs_status = 405, rs_headers = [], rs_streamed = False\<rparr>)"

definition proxy_app :: "hawk_library \<Rightarrow> config \<Rightarrow> request \<Rightarrow> response pio" where
  "proxy_app hawk cf =
     redis_session_middleware cf
       (authenticate_by_staff_sso cf
         (authenticate_by_basic_auth cf
           (authenticate_by_hawk_auth hawk cf
             (authenticate_by_ip_whitelist cf (route cf)))))"

end
