(* ===== verification/ProxyGates.thy ===== *)
theory ProxyGates
  imports ProxyAuth
begin

text \<open>
  What the authentication middlewares of \<open>dataworkspace/proxy.py\<close> guarantee, for every inner handler
  and every behaviour of the environment: which requests reach the handler, with which identity, and
  what the proxy does for the requests that do not.
\<close>

section \<open>Effects of the session primitives\<close>

definition session_lookup :: "nat \<Rightarrow> pstate \<Rightarrow> string \<Rightarrow> exn + string option" where
  "session_lookup now st key =
     (if \<not> has_cookie (ps_session st) then Inr None
      else case encode_ascii (session_redis_key (the_cookie (ps_session st)) key) of
          None \<Rightarrow> Inl (OtherError ''UnicodeEncodeError'')
        | Some redis_key \<Rightarrow> (case redis_get now (ps_redis st) redis_key of
            None \<Rightarrow> Inr None
          | Some v \<Rightarrow> (case encode_ascii v of
              None \<Rightarrow> Inl (OtherError ''UnicodeDecodeError'')
            | Some text \<Rightarrow> Inr (Some text))))"

lemma run_get_session_value:
  "run (get_session_value key) env st = (session_lookup (pe_now env) st key, st)"
  by (simp add: get_session_value_def session_lookup_def need_def split: option.split)

definition sso_event :: "config \<Rightarrow> pevent \<Rightarrow> bool" where
  "sso_event cf e = (case e of EvFetch q \<Rightarrow> startswith (hr_url q) (sso_base_url cf)
     | EvRedisSet key v ttl nx \<Rightarrow> True | _ \<Rightarrow> False)"

lemma sso_event_simps [simp]:
  "sso_event cf (EvFetch (sso_token_request cf rq code))"
  "sso_event cf (EvFetch (sso_me_request cf token))"
  "sso_event cf (EvRedisSet key v ttl nx)"
  by (simp_all add: sso_event_def sso_token_request_def sso_me_request_def)

abbreviation anyhow :: "'a \<Rightarrow> bool" where
  "anyhow x \<equiv> True"

text \<open>Storing session values is the only effect of sending the session cookie.\<close>

definition store_event :: "pevent \<Rightarrow> bool" where
  "store_event e = (case e of EvRedisSet key v ttl nx \<Rightarrow> True | _ \<Rightarrow> False)"

lemma store_event_simps [simp]: "store_event (EvRedisSet key v ttl nx)"
  by (simp add: store_event_def)

lemma store_event_sso: "store_event e \<Longrightarrow> sso_event cf e"
  by (simp add: store_event_def sso_event_def split: pevent.splits)

lemma always_store_values: "always store_event anyhow anyhow (store_values c d)"
  by (induction c d rule: store_values.induct) (auto intro!: always_need)

lemma always_set_session_value: "always P anyhow E (set_session_value k v)"
  by (simp add: set_session_value_def)

lemma always_get_session_value: "always P anyhow anyhow (get_session_value k)"
  by (auto simp: get_session_value_def intro!: always_need split: option.splits)

lemma always_with_session_cookie:
  "always store_event (\<lambda>r. rs_status r = rs_status resp) anyhow (with_session_cookie cf rq resp)"
  unfolding with_session_cookie_def
  by (auto intro!: always_pbind always_mono [OF always_store_values])

lemma always_with_new_session_cookie:
  "always store_event (\<lambda>r. rs_status r = rs_status resp) anyhow (with_new_session_cookie cf rq resp)"
  by (simp add: with_new_session_cookie_def always_with_session_cookie)

lemma always_redirection_to_sso:
  "always (sso_event cf) (\<lambda>r. rs_status r = 302) anyhow (redirection_to_sso cf rq url)"
proof -
  have "always (sso_event cf) (\<lambda>r. rs_status r = 302) anyhow (with_new_session_cookie cf rq
         \<lparr>rs_status = 302, rs_headers = hs, rs_streamed = False\<rparr>)" for hs
    by (rule always_mono [OF always_with_new_session_cookie]) (simp_all add: store_event_sso)
  then show ?thesis
    by (simp add: redirection_to_sso_def get_redirect_uri_authenticate_def
        set_redirect_uri_final_def Let_def set_session_value_def)
qed

lemma always_new_cookie_302:
  "always (sso_event cf) (\<lambda>r. rs_status r = 302) anyhow (with_new_session_cookie cf rq
     \<lparr>rs_status = 302, rs_headers = hs, rs_streamed = False\<rparr>)"
  by (rule always_mono [OF always_with_new_session_cookie]) (simp_all add: store_event_sso)

lemma always_redirect_from_sso:
  "always (sso_event cf) (\<lambda>r. rs_status r = 302) anyhow (redirect_from_sso cf rq)"
proof -
  let ?A = "always (sso_event cf) (\<lambda>r. rs_status r = 302) anyhow"
  have tok: "?A (fetch (sso_token_request cf rq code) (\<lambda>sso_response.
      need ''ContentTypeError'' (hp_json sso_response) (\<lambda>js.
        need ''KeyError'' (Option.bind (jget js ''access_token'') jstr) (\<lambda>access_token.
          pbind (set_session_value session_token_key access_token) (\<lambda>_.
            with_new_session_cookie cf rq
              \<lparr>rs_status = 302, rs_headers = [(''Location'', url)], rs_streamed = False\<rparr>)))))"
    for code url
    by (intro always_fetch always_need)
      (simp_all add: set_session_value_def always_new_cookie_302)
  show ?thesis
    unfolding redirect_from_sso_def get_redirect_uri_final_def Let_def
    apply (intro always_need always_pbind)
      apply (simp_all split: prod.split)
    apply (intro allI impI)
    apply (rule always_pbind, rule always_mono [OF always_get_session_value])
      apply (simp_all add: tok always_redirection_to_sso)
    done
qed

section \<open>Single sign-on\<close>

text \<open>
  The profile a session token stands for: the one cached in Redis, or else the one the SSO server
  returns for it. \<open>None\<close> when neither exists.
\<close>

definition sso_answer :: "config \<Rightarrow> penv \<Rightarrow> pstate \<Rightarrow> string \<Rightarrow> json option" where
  "sso_answer cf env st token = do {
     reply \<leftarrow> pe_reply env (ps_trace st) (sso_me_request cf token);
     full \<leftarrow> (if hp_status reply = 200 then hp_json reply else None);
     if jtrue full then cached_profile full else None
   }"

definition known_profile :: "config \<Rightarrow> penv \<Rightarrow> pstate \<Rightarrow> string \<Rightarrow> json option" where
  "known_profile cf env st token =
     (case redis_get (pe_now env) (ps_redis st) (redis_profile_key token) of
        None \<Rightarrow> sso_answer cf env st token
      | Some raw \<Rightarrow> if raw = [] then sso_answer cf env st token
          else (case json_loads (urls cf) raw of None \<Rightarrow> None
            | Some profile \<Rightarrow> if jtrue profile then Some profile else sso_answer cf env st token))"

text \<open>The identity of a request: the profile headers of the user its session belongs to.\<close>

definition request_identity :: "config \<Rightarrow> penv \<Rightarrow> pstate \<Rightarrow> headers option" where
  "request_identity cf env st = (case session_lookup (pe_now env) st session_token_key of
      Inr (Some token) \<Rightarrow> Option.bind (known_profile cf env st token) sso_profile_headers
    | _ \<Rightarrow> None)"

lemma ends_with_always: "always P Q E m \<Longrightarrow> ends_with P anyhow anyhow (ps_trace st) (run m env st)"
  by (rule always_run) (erule always_mono; simp)

text \<open>Reaching the inner handler after nothing but exchanges with the SSO server.\<close>

definition reaches :: "config \<Rightarrow> penv \<Rightarrow> pstate \<Rightarrow> response pio \<Rightarrow> (exn + response) \<times> pstate \<Rightarrow> bool" where
  "reaches cf env st m r \<longleftrightarrow> (\<exists>st' es. r = run m env st' \<and> ps_session st' = ps_session st \<and>
     ps_trace st' = ps_trace st @ es \<and> (\<forall>e \<in> set es. sso_event cf e))"

lemma reaches_refl: "reaches cf env st m (run m env st)"
  unfolding reaches_def by (intro exI [of _ st] exI [of _ "[]"]) simp

lemma ends_refl [simp]: "ends_with P anyhow anyhow (ps_trace st) (r, st)"
  by (auto simp: ends_with_def split: sum.split)

text \<open>An event of the exchange in front of what follows.\<close>

lemma ends_with_step:
  "P e \<Longrightarrow> ps_trace st' = ps_trace st @ [e] \<Longrightarrow>
     ends_with P anyhow anyhow (ps_trace st') r \<Longrightarrow> ends_with P anyhow anyhow (ps_trace st) r"
  by (metis ends_with_snoc)

lemma reaches_step:
  "sso_event cf e \<Longrightarrow> ps_trace st' = ps_trace st @ [e] \<Longrightarrow> ps_session st' = ps_session st \<Longrightarrow>
     reaches cf env st' m r \<Longrightarrow> reaches cf env st m r"
  unfolding reaches_def by fastforce

text \<open>
  The outcome of a gate: with an identity, the handler runs with it; without one, nothing happens
  beyond exchanges with the SSO server.
\<close>

definition gated :: "config \<Rightarrow> penv \<Rightarrow> pstate \<Rightarrow> handler \<Rightarrow> request \<Rightarrow> headers option \<Rightarrow>
    (exn + response) \<times> pstate \<Rightarrow> bool" where
  "gated cf env st handler rq sso r = (case sso of
      Some hs \<Rightarrow> reaches cf env st (handler hs rq) r
    | None \<Rightarrow> ends_with (sso_event cf) anyhow anyhow (ps_trace st) r)"

lemma gated_step:
  "sso_event cf e \<Longrightarrow> ps_trace st' = ps_trace st @ [e] \<Longrightarrow> ps_session st' = ps_session st \<Longrightarrow>
     gated cf env st' h rq sso r \<Longrightarrow> gated cf env st h rq sso r"
  unfolding gated_def by (auto split: option.splits intro: reaches_step ends_with_step)

lemma gated_profile:
  "gated cf env st h rq (sso_profile_headers p) (run (handler_with_sso_headers h rq p) env st)"
  by (auto simp: gated_def handler_with_sso_headers_def need_def reaches_refl split: option.split)

lemma gated_None:
  "ends_with (sso_event cf) anyhow anyhow (ps_trace st) r \<Longrightarrow> gated cf env st h rq None r"
  by (simp add: gated_def)

text \<open>What \<open>with_profile\<close> does when the cache has no profile.\<close>

definition ask_sso :: "config \<Rightarrow> handler \<Rightarrow> request \<Rightarrow> string \<Rightarrow> string \<Rightarrow> response pio" where
  "ask_sso cf handler rq token profile_key = fetch (sso_me_request cf token) (\<lambda>me_response.
             pbind (if hp_status me_response = 200
                    then need ''ContentTypeError'' (hp_json me_response) Ret else Ret JNull)
               (\<lambda>me_profile_full.
                 if \<not> jtrue me_profile_full then redirection_to_sso cf rq (request_url cf rq)
                 else need ''KeyError'' (cached_profile me_profile_full) (\<lambda>me_profile.
                   RedisSet profile_key (json_dumps (urls cf) me_profile) 60 False (\<lambda>_.
                     handler_with_sso_headers handler rq me_profile))))"

lemma gated_ask_sso:
  "gated cf env st h rq (Option.bind (sso_answer cf env st token) sso_profile_headers)
     (run (ask_sso cf h rq token key) env st)"
proof (cases "pe_reply env (ps_trace st) (sso_me_request cf token)")
  case None
  then show ?thesis
    by (simp add: ask_sso_def fetch_def sso_answer_def)
      (rule gated_None, simp add: ends_with_def record_event_def)
next
  case (Some reply)
  let ?st = "record_event (EvFetch (sso_me_request cf token)) st"
  have tr: "ps_trace ?st = ps_trace st @ [EvFetch (sso_me_request cf token)]" "ps_session ?st = ps_session st"
    by (simp_all add: record_event_def)
  show ?thesis
  proof (rule gated_step [OF sso_event_simps(2) tr])
    show "gated cf env ?st h rq (Option.bind (sso_answer cf env st token) sso_profile_headers)
       (run (ask_sso cf h rq token key) env st)"
    proof (cases "hp_status reply = 200")
      case False
      then show ?thesis
        using Some ends_with_always [OF always_redirection_to_sso, of cf ?st rq "request_url cf rq" env]
        by (simp add: ask_sso_def fetch_def sso_answer_def gated_None)
    next
      case True
      show ?thesis
      proof (cases "hp_json reply")
        case None
        then show ?thesis using Some True
          by (simp add: ask_sso_def fetch_def sso_answer_def gated_None)
      next
        case js: (Some full)
        show ?thesis
        proof (cases "jtrue full \<and> cached_profile full \<noteq> None")
          case False
          then show ?thesis using Some True js
            ends_with_always [OF always_redirection_to_sso, of cf ?st rq "request_url cf rq" env]
            by (auto simp: ask_sso_def fetch_def sso_answer_def gated_None)
        next
          case ok: True
          then obtain p where p: "cached_profile full = Some p" by auto
          show ?thesis
            using Some True js ok p
            by (simp add: ask_sso_def fetch_def sso_answer_def)
              (rule gated_step [OF _ _ _ gated_profile], auto simp: record_event_def)
        qed
      qed
    qed
  qed
qed

lemma with_profile_cases: "with_profile cf h rq token =
   need ''UnicodeEncodeError'' (encode_ascii (redis_profile_key token)) (\<lambda>profile_key.
       RedisGet profile_key (\<lambda>me_profile_raw. case me_profile_raw of
          None \<Rightarrow> ask_sso cf h rq token profile_key
        | Some raw \<Rightarrow> if raw = [] then ask_sso cf h rq token profile_key
            else need ''JSONDecodeError'' (json_loads (urls cf) raw) (\<lambda>p.
              if jtrue p then handler_with_sso_headers h rq p else ask_sso cf h rq token profile_key)))"
  unfolding with_profile_def ask_sso_def
  by (intro arg_cong [where f = "need _ _"] ext arg_cong [where f = "RedisGet _"])
    (auto split: option.split intro!: arg_cong [where f = "need _ _"])

lemma gated_with_profile:
  assumes "encode_ascii (redis_profile_key token) \<noteq> None"
  shows "gated cf env st h rq (Option.bind (known_profile cf env st token) sso_profile_headers)
     (run (with_profile cf h rq token) env st)"
  using assms
  by (auto simp: with_profile_cases known_profile_def gated_ask_sso gated_profile encode_ascii_eq
      gated_None split: option.split if_splits)

lemma ascii_token: "session_lookup now st key = Inr (Some t) \<Longrightarrow> ascii t"
  by (auto simp: session_lookup_def encode_ascii_eq split: if_splits option.splits)

lemma ascii_profile_key: "ascii t \<Longrightarrow> encode_ascii (redis_profile_key t) = Some (redis_profile_key t)"
  by (simp add: encode_ascii_eq redis_profile_key_def PROFILE_CACHE_PREFIX_def session_token_key_def
      ascii_def)

lemma sso_gate:
  assumes "is_sso_auth_required cf rq" and "rq_path rq \<noteq> redirect_from_sso_path"
  shows "gated cf env st h rq (request_identity cf env st)
    (run (authenticate_by_staff_sso cf h rq) env st)"
proof -
  consider (raises) e where "session_lookup (pe_now env) st session_token_key = Inl e"
    | (absent) "session_lookup (pe_now env) st session_token_key = Inr None"
    | (token) t where "session_lookup (pe_now env) st session_token_key = Inr (Some t)"
    by (cases "session_lookup (pe_now env) st session_token_key") auto
  then show ?thesis
  proof cases
    case raises
    then show ?thesis using assms
      by (simp add: authenticate_by_staff_sso_def run_pbind run_get_session_value
          request_identity_def gated_None)
  next
    case absent
    then show ?thesis using assms ends_with_always [OF always_redirection_to_sso, of cf st]
      by (simp add: authenticate_by_staff_sso_def run_pbind run_get_session_value
          request_identity_def gated_None)
  next
    case token
    from ascii_profile_key [OF ascii_token [OF token]]
    have "encode_ascii (redis_profile_key t) \<noteq> None" by simp
    from gated_with_profile [OF this] show ?thesis using token assms
      by (simp add: authenticate_by_staff_sso_def run_pbind run_get_session_value
          request_identity_def)
  qed
qed

lemma sso_gate_redirect:
  assumes "is_sso_auth_required cf rq" and "rq_path rq = redirect_from_sso_path"
  shows "ends_with (sso_event cf) anyhow anyhow (ps_trace st)
    (run (authenticate_by_staff_sso cf h rq) env st)"
  using assms
  by (intro ends_with_always [where Q = "\<lambda>r. rs_status r = 302" and E = anyhow])
    (auto simp: authenticate_by_staff_sso_def
      intro!: always_pbind always_mono [OF always_get_session_value] always_redirect_from_sso)

section \<open>The IP whitelist\<close>

text \<open>The answer to the client: the session cookie's values, the head and the chunks of the body.\<close>

definition client_event :: "pevent \<Rightarrow> bool" where
  "client_event e = (case e of EvRedisSet key v ttl nx \<Rightarrow> True | EvPrepare st hs \<Rightarrow> True
     | EvWrite c \<Rightarrow> True | _ \<Rightarrow> False)"

lemma client_event_simps [simp]:
  "client_event (EvPrepare s hs)" "client_event (EvWrite c)" "client_event (EvRedisSet key v ttl nx)"
  "\<not> client_event (EvFetch q)" "\<not> client_event (EvBackground q)" "\<not> client_event (EvUpgrade u hs)"
  by (simp_all add: client_event_def)

lemma store_event_client: "store_event e \<Longrightarrow> client_event e"
  by (simp add: store_event_def client_event_def split: pevent.splits)

lemma always_write_chunks:
  "always client_event Q E m \<Longrightarrow> E (OtherError ''ConnectionResetError'') \<Longrightarrow>
     always client_event Q E (write_chunks cs m)"
  by (induction cs) auto

lemma always_mono_event: "always P Q E m \<Longrightarrow> (\<And>e. P e \<Longrightarrow> P' e) \<Longrightarrow> always P' Q E m"
  by (rule always_mono)

text \<open>Streaming a response makes the one request it was told to make.\<close>

lemma always_handle_http:
  assumes "P (EvFetch \<lparr>hr_method = method, hr_url = url, hr_params = query, hr_headers = hs,
    hr_data = data, hr_allow_redirects = False, hr_timeout = tmo\<rparr>)"
    and "\<And>e. client_event e \<Longrightarrow> P e"
  shows "always P anyhow anyhow (handle_http cf rq method hs url query data tmo extra)"
proof -
  have body: "always P anyhow anyhow (write_chunks cs m)" if "m = Ret r \<or> m = Raise e" for cs m r e
    using that
    by (auto intro!: always_mono_event [OF always_write_chunks assms(2)])
  have cookie: "always P anyhow anyhow (with_session_cookie cf rq resp)" for resp
    by (rule always_mono [OF always_with_session_cookie])
      (simp_all add: assms(2) store_event_client)
  show ?thesis
    unfolding handle_http_def
    by (intro always_fetch assms(1) always_pbind always_mono [OF cookie])
      (auto simp: assms(2) intro!: body)
qed

definition refusal_event :: "config \<Rightarrow> pevent \<Rightarrow> bool" where
  "refusal_event cf e = (client_event e \<or> (case e of
      EvFetch q \<Rightarrow> hr_method q = ''GET'' \<and> hr_url q = y_with_path (urls cf) (admin_root cf) ''/error_403''
    | _ \<Rightarrow> False))"

definition peer_allowed :: "config \<Rightarrow> request \<Rightarrow> bool" where
  "peer_allowed cf rq = (case get_peer_ip cf rq of None \<Rightarrow> False
     | Some (peer_ip, private) \<Rightarrow>
         ip_in_whitelist peer_ip (env_iter (application_ip_whitelist cf)) = Some True)"

lemma whitelist_refuses:
  assumes "ip_whitelist_required cf rq" and "\<not> peer_allowed cf rq"
  shows "always (refusal_event cf) anyhow anyhow (authenticate_by_ip_whitelist cf h sso rq)"
proof -
  have "always (refusal_event cf) anyhow anyhow
      (handle_admin cf rq ''GET'' hs ''/error_403'' [] (Bytes []))" for hs
    unfolding handle_admin_def by (rule always_handle_http) (simp_all add: refusal_event_def)
  with assms show ?thesis
    by (auto simp: authenticate_by_ip_whitelist_def peer_allowed_def need_def split: option.splits)
qed

lemma whitelist_admits:
  "peer_allowed cf rq \<Longrightarrow> authenticate_by_ip_whitelist cf h sso rq = h sso rq"
  by (auto simp: authenticate_by_ip_whitelist_def peer_allowed_def split: option.splits)

text \<open>The whitelist admits exactly the addresses that share the prefix of one of its networks.\<close>

fun networks :: "env_val list \<Rightarrow> (ip4 \<times> nat) list option" where
  "networks [] = Some []"
| "networks (x # xs) = do {
     text \<leftarrow> env_str x;
     network \<leftarrow> ipv4_network text;
     rest \<leftarrow> networks xs;
     Some (network # rest)
   }"

lemma prefix_range: "make_prefix s = Some n \<Longrightarrow> n \<le> 32"
proof -
  have "prefix_from_ip m = Some n \<Longrightarrow> n \<le> 32" for m
    by (auto simp: prefix_from_ip_def find_Some_iff simp del: upt_Suc)
  then show "make_prefix s = Some n \<Longrightarrow> n \<le> 32"
    by (auto simp: make_prefix_def split: option.splits if_splits)
qed

lemma network_wf:
  assumes "ipv4_network s = Some (net, n)"
  shows "n \<le> 32 \<and> net AND netmask n = net"
proof -
  have "netmask 32 = - 1" by (simp add: netmask_def)
  with assms show ?thesis
    by (auto simp: ipv4_network_def dest: prefix_range split: list.splits option.splits if_splits)
qed

lemma whitelist_prefixes:
  "networks xs = Some ns \<Longrightarrow> ipv4_address peer_ip = Some ip \<Longrightarrow>
    ip_in_whitelist peer_ip xs =
      Some (\<exists>(net, n) \<in> set ns. drop_bit (32 - n) ip = drop_bit (32 - n) net)"
proof (induction xs arbitrary: ns)
  case Nil
  then show ?case by simp
next
  case (Cons x xs)
  from Cons.prems(1) obtain s net n ms where x: "env_str x = Some s" "ipv4_network s = Some (net, n)"
      "networks xs = Some ms" "ns = (net, n) # ms"
    by (auto split: bind_splits)
  from Cons.IH [OF x(3) Cons.prems(2)] x Cons.prems(2) network_wf [OF x(2)] show ?case
    by (simp add: in_network_prefix)
qed

section \<open>The chain of middlewares\<close>

lemma whitelisted_classes:
  assumes "ip_whitelist_required cf rq" and "rq_path rq \<noteq> ''/healthcheck''"
  shows "is_sso_auth_required cf rq" and "\<not> is_service_discovery cf rq"
    and "\<not> is_hawk_auth_required cf rq"
proof -
  have host: "rq_host rq = root_domain_no_port cf \<Longrightarrow>
      \<not> is_app_requested cf rq \<and> \<not> is_superset_requested cf rq"
    by (auto simp: is_app_requested_def is_superset_requested_def endswith_iff dest: arg_cong [of _ _ length])
  have path: "startswith (rq_path rq) mirror_local_root \<or> startswith (rq_path rq) ''/data-explorer/'' \<or>
      rq_path rq = ''/api/v1/aws_credentials'' \<or> rq_path rq = ''/files'' \<Longrightarrow>
      rq_path rq \<noteq> ''/api/v1/application'' \<and> \<not> startswith (rq_path rq) ''/api/v1/table/'' \<and>
      \<not> startswith (rq_path rq) ''/api/v1/dataset/'' \<and> \<not> startswith (rq_path rq) ''/api/v1/reference-dataset/'' \<and>
      \<not> startswith (rq_path rq) ''/api/v1/eventlog/'' \<and> \<not> startswith (rq_path rq) ''/api/v1/account/'' \<and>
      \<not> startswith (rq_path rq) ''/api/v1/application-instance/'' \<and> \<not> startswith (rq_path rq) ''/api/v1/core/''"
    by (auto simp: startswith_iff mirror_local_root_def)
  from assms host path
  show "is_sso_auth_required cf rq" "\<not> is_service_discovery cf rq" "\<not> is_hawk_auth_required cf rq"
    by (auto simp: ip_whitelist_required_def is_sso_auth_required_def is_service_discovery_def
        is_hawk_auth_required_def is_dataset_requested_def is_table_requested_def
        is_healthcheck_requested_def is_mirror_requested_def is_requesting_credentials_def
        is_requesting_files_def is_data_explorer_requested_def)
qed

text \<open>The state in which the middleware chain starts: the request's cookie, and nothing to store.\<close>

definition with_request_cookie :: "config \<Rightarrow> request \<Rightarrow> pstate \<Rightarrow> pstate" where
  "with_request_cookie cf rq st =
     st\<lparr>ps_session := \<lparr>cookie_value = hget (rq_cookies rq) (cookie_name cf), to_set = []\<rparr>\<rparr>"

definition inner_chain :: "hawk_library \<Rightarrow> config \<Rightarrow> handler" where
  "inner_chain hawk cf = authenticate_by_basic_auth cf
     (authenticate_by_hawk_auth hawk cf (authenticate_by_ip_whitelist cf (route cf)))"

lemma run_proxy_app: "run (proxy_app hawk cf rq) env st =
   run (authenticate_by_staff_sso cf (inner_chain hawk cf) rq) env (with_request_cookie cf rq st)"
  by (simp add: proxy_app_def redis_session_middleware_def with_request_cookie_def inner_chain_def)

lemma inner_chain_whitelisted:
  assumes "ip_whitelist_required cf rq" and "rq_path rq \<noteq> ''/healthcheck''"
  shows "inner_chain hawk cf sso rq = authenticate_by_ip_whitelist cf (route cf) sso rq"
  using whitelisted_classes [OF assms]
  by (simp add: inner_chain_def authenticate_by_basic_auth_def authenticate_by_hawk_auth_def)

lemma reaches_ends:
  assumes "reaches cf env st m r" and "always P anyhow anyhow m" and "\<And>e. sso_event cf e \<Longrightarrow> P e"
  shows "ends_with P anyhow anyhow (ps_trace st) r"
proof -
  obtain st' es where r: "r = run m env st'" and es: "ps_trace st' = ps_trace st @ es"
      "\<forall>e \<in> set es. sso_event cf e"
    using assms(1) by (auto simp: reaches_def)
  obtain fs where fs: "ps_trace (snd r) = ps_trace st' @ fs" "\<forall>e \<in> set fs. P e"
    using always_run [OF assms(2), of st' env] by (auto simp: ends_with_def r)
  have "ps_trace (snd r) = ps_trace st @ (es @ fs)" "\<forall>e \<in> set (es @ fs). P e"
    using es fs assms(3) by auto
  then show ?thesis unfolding ends_with_def by (auto split: sum.split)
qed

end
