(* ===== verification/ProxyGuards.thy ===== *)
theory ProxyGuards
  imports ProxyGates
begin

text \<open>
  The contract the middlewares behind single sign-on share, as a locale, its interpretations for HTTP
  basic authentication and for the IP whitelist, and the properties of the whole chain.
\<close>

section \<open>The contract of a middleware\<close>

text \<open>
  A middleware guards the requests of a class: those it admits reach the handler untouched, and for
  the others only the events of a refusal happen, whatever the handler would do.
\<close>

locale middleware =
  fixes guard :: "handler \<Rightarrow> handler"
    and guards :: "request \<Rightarrow> bool"
    and admits :: "request \<Rightarrow> bool"
    and refusal :: "pevent \<Rightarrow> bool"
  assumes skips: "\<not> guards rq \<Longrightarrow> guard h sso rq = h sso rq"
    and passes: "guards rq \<Longrightarrow> admits rq \<Longrightarrow> guard h sso rq = h sso rq"
    and refuses: "guards rq \<Longrightarrow> \<not> admits rq \<Longrightarrow> always refusal anyhow anyhow (guard h sso rq)"
begin

lemma guard_iff: "guards rq \<longrightarrow> admits rq \<Longrightarrow> guard h sso rq = h sso rq"
  using skips passes by metis

lemma guard_always:
  assumes "always P anyhow anyhow (h sso rq)" and "\<And>e. refusal e \<Longrightarrow> P e"
  shows "always P anyhow anyhow (guard h sso rq)"
proof (cases "guards rq \<longrightarrow> admits rq")
  case True
  then show ?thesis using assms(1) by (simp add: guard_iff)
next
  case False
  then show ?thesis using always_mono_event [OF refuses assms(2)] by simp
qed

text \<open>What a refused request does not depend on: the handler.\<close>

lemma handler_irrelevant_events:
  assumes "guards rq" and "\<not> admits rq"
  shows "ends_with refusal anyhow anyhow (ps_trace st) (run (guard h sso rq) env st)"
  by (rule ends_with_always [OF refuses [OF assms]])

end

text \<open>Two middlewares in a row guard both classes.\<close>

locale middleware_chain = outer: middleware guard1 guards1 admits1 refusal1 +
  inner: middleware guard2 guards2 admits2 refusal2
  for guard1 guards1 admits1 refusal1 guard2 guards2 admits2 refusal2
begin

lemma chain_admitted:
  "guards1 rq \<longrightarrow> admits1 rq \<Longrightarrow> guards2 rq \<longrightarrow> admits2 rq \<Longrightarrow>
     guard1 (guard2 h) sso rq = h sso rq"
  by (simp add: outer.guard_iff inner.guard_iff)

lemma chain_refused:
  assumes "(guards1 rq \<and> \<not> admits1 rq) \<or> (guards2 rq \<and> \<not> admits2 rq)"
  shows "always (\<lambda>e. refusal1 e \<or> refusal2 e) anyhow anyhow (guard1 (guard2 h) sso rq)"
proof (cases "guards1 rq \<and> \<not> admits1 rq")
  case True
  then show ?thesis by (auto intro: always_mono_event [OF outer.refuses])
next
  case False
  with assms have "always refusal2 anyhow anyhow (guard2 h sso rq)" by (intro inner.refuses) auto
  with False show ?thesis by (auto simp: outer.guard_iff intro: always_mono_event)
qed

end

section \<open>The middlewares of the proxy\<close>

definition basic_auth_admits :: "config \<Rightarrow> request \<Rightarrow> bool" where
  "basic_auth_admits cf rq = (case hget (rq_headers rq) ''Authorization'' of None \<Rightarrow> False
     | Some authorization \<Rightarrow> ascii (strip (drop (length ''Basic '') authorization)) \<and>
         ascii (basic_auth_user cf @ '':'' @ basic_auth_password cf) \<and>
         basic_auth_accepts cf authorization)"

lemma basic_middleware: "middleware (authenticate_by_basic_auth cf) (is_service_discovery cf)
   (basic_auth_admits cf) (\<lambda>e. False)"
  by unfold_locales
    (auto simp: authenticate_by_basic_auth_def basic_auth_admits_def encode_ascii_eq
      split: option.splits)

interpretation basic: middleware "authenticate_by_basic_auth cf" "is_service_discovery cf"
  "basic_auth_admits cf" "\<lambda>e. False" for cf
  by (rule basic_middleware)

lemma whitelist_middleware: "middleware (authenticate_by_ip_whitelist cf) (ip_whitelist_required cf)
   (peer_allowed cf) (refusal_event cf)"
  by unfold_locales
    (simp_all add: whitelist_refuses whitelist_admits, simp add: authenticate_by_ip_whitelist_def)

interpretation whitelist: middleware "authenticate_by_ip_whitelist cf" "ip_whitelist_required cf"
  "peer_allowed cf" "refusal_event cf" for cf
  by (rule whitelist_middleware)

interpretation basic_whitelist: middleware_chain "authenticate_by_basic_auth cf"
  "is_service_discovery cf" "basic_auth_admits cf" "\<lambda>e. False" "authenticate_by_ip_whitelist cf"
  "ip_whitelist_required cf" "peer_allowed cf" "refusal_event cf" for cf
  by (rule middleware_chain.intro [OF basic_middleware whitelist_middleware])

section \<open>Properties of the chain\<close>

lemma outer_ends:
  "ends_with P anyhow anyhow (ps_trace st) r \<Longrightarrow> (\<And>e. P e \<Longrightarrow> P' e) \<Longrightarrow>
     ends_with P' anyhow anyhow (ps_trace st) r"
  unfolding ends_with_def by (auto split: sum.splits)

lemma protected_classes:
  assumes "ip_whitelist_required cf rq" and "rq_path rq \<noteq> ''/healthcheck''"
    and "request_identity cf env (with_request_cookie cf rq st) = None \<or> \<not> peer_allowed cf rq"
  shows "ends_with (\<lambda>e. sso_event cf e \<or> refusal_event cf e) anyhow anyhow (ps_trace st)
     (run (proxy_app hawk cf rq) env st)"
proof -
  let ?st = "with_request_cookie cf rq st"
  let ?r = "run (proxy_app hawk cf rq) env st"
  let ?P = "\<lambda>e. sso_event cf e \<or> refusal_event cf e"
  have tr: "ps_trace ?st = ps_trace st" by (simp add: with_request_cookie_def)
  note needed = whitelisted_classes [OF assms(1,2)]
  show ?thesis
  proof (cases "rq_path rq = redirect_from_sso_path")
    case True
    from sso_gate_redirect [OF needed(1) this, of ?st "inner_chain hawk cf" env]
    show ?thesis by (simp add: run_proxy_app flip: tr) (erule outer_ends, simp)
  next
    case path: False
    from sso_gate [OF needed(1) path, of env ?st "inner_chain hawk cf"]
    have gate: "gated cf env ?st (inner_chain hawk cf) rq (request_identity cf env ?st) ?r"
      by (simp add: run_proxy_app)
    show ?thesis
    proof (cases "request_identity cf env ?st")
      case None
      with gate show ?thesis by (auto simp: gated_def simp flip: tr intro: outer_ends)
    next
      case (Some sso)
      with assms(3) have no: "\<not> peer_allowed cf rq" by simp
      have "always ?P anyhow anyhow (inner_chain hawk cf sso rq)"
        using whitelist.refuses [OF assms(1) no]
        by (auto simp: inner_chain_whitelisted [OF assms(1,2)] intro: always_mono_event)
      with gate Some show ?thesis
        by (auto simp: gated_def simp flip: tr intro: reaches_ends)
    qed
  qed
qed

lemma admitted_classes:
  assumes "ip_whitelist_required cf rq" and "rq_path rq \<notin> {''/healthcheck'', redirect_from_sso_path}"
    and "request_identity cf env (with_request_cookie cf rq st) = Some sso" and "peer_allowed cf rq"
  shows "reaches cf env (with_request_cookie cf rq st) (route cf sso rq)
     (run (proxy_app hawk cf rq) env st)"
proof -
  have "inner_chain hawk cf sso rq = route cf sso rq"
    using assms(1,2,4) by (simp add: inner_chain_whitelisted whitelist.passes)
  with sso_gate [of cf rq env "with_request_cookie cf rq st" "inner_chain hawk cf"] assms
    whitelisted_classes [OF assms(1)] show ?thesis
    by (simp add: gated_def run_proxy_app)
qed

end
