(* ===== verification/ProxyHandling.thy ===== *)
theory ProxyHandling
  imports ProxyGuards
begin

text \<open>
  What the handlers of \<open>dataworkspace/proxy.py\<close> do for a request that passed authentication: whose
  identity the requests to the admin application carry, when an application instance is started,
  stopped or marked as running, how failures end, and how the port of a host is read.
\<close>

section \<open>Whose identity a request carries\<close>

definition identity_headers :: "headers \<Rightarrow> headers" where
  "identity_headers hs = filter (\<lambda>(key, value). startswith (lower key) ''sso-profile-'') hs"

lemma admin_names: "k \<in> set (required_admin_headers @ [''content-length'', ''content-type'']) \<Longrightarrow>
   \<not> startswith k ''sso-profile-''"
  by (auto simp: required_admin_headers_def startswith_def)

lemma identity_dropped:
  assumes "\<And>k. k \<in> S \<Longrightarrow> \<not> startswith k ''sso-profile-''"
  shows "identity_headers (filter (\<lambda>(key, value). lower key \<in> S) hs) = []"
  using assms by (auto simp: identity_headers_def filter_empty_conv)

lemma identity_admin_request [simp]: "identity_headers (admin_headers_request sso rq) = identity_headers sso"
  using identity_dropped [of "set required_admin_headers" "rq_headers rq"] admin_names
  by (auto simp: admin_headers_request_def identity_headers_def)

lemma identity_admin_proxy [simp]: "identity_headers (admin_headers_proxy sso rq) = identity_headers sso"
  using identity_dropped [of "set (required_admin_headers @ [''content-length'', ''content-type''])"
      "rq_headers rq"] admin_names
  by (auto simp: admin_headers_proxy_def identity_headers_def)

text \<open>
  A request that states the verified user and no other, an application's own traffic, and the
  fixed analytics request.
\<close>

definition verified_event :: "headers \<Rightarrow> pevent \<Rightarrow> bool" where
  "verified_event sso e = (client_event e \<or> (case e of
      EvFetch q \<Rightarrow> identity_headers (hr_headers q) = identity_headers sso
    | EvBackground q \<Rightarrow> identity_headers (hr_headers q) = identity_headers sso
    | _ \<Rightarrow> False))"

definition application_traffic :: "headers \<Rightarrow> request \<Rightarrow> pevent \<Rightarrow> bool" where
  "application_traffic sso rq e = (case e of
      EvFetch q \<Rightarrow> hr_headers q = application_headers sso rq \<and> \<not> hr_allow_redirects q
    | EvUpgrade url hs \<Rightarrow> hs = application_headers sso rq
    | EvBackground q \<Rightarrow> hr_url q = ''https://www.google-analytics.com/collect'' \<and> hr_headers q = []
    | _ \<Rightarrow> False)"

lemma verified_simps [simp]:
  "client_event e \<Longrightarrow> verified_event sso e"
  "verified_event sso (EvFetch q) \<longleftrightarrow> identity_headers (hr_headers q) = identity_headers sso"
  "verified_event sso (EvBackground q) \<longleftrightarrow> identity_headers (hr_headers q) = identity_headers sso"
  by (simp_all add: verified_event_def)

lemma admin_request_headers [simp]: "hr_headers (admin_api_request method url sso rq) = admin_headers_request sso rq"
  by (simp add: admin_api_request_def)

lemma always_error_page:
  "always (verified_event sso) anyhow anyhow (handle_http cf rq ''GET'' (admin_headers_request sso rq)
     url params data tmo extra)"
  by (rule always_handle_http) simp_all

section \<open>The requests of the application handler\<close>

definition application_event :: "headers \<Rightarrow> request \<Rightarrow> pevent \<Rightarrow> bool" where
  "application_event sso rq e \<longleftrightarrow> verified_event sso e \<or> application_traffic sso rq e"

text \<open>
  Once the instance is known to be started, the admin application's API is no longer awaited: every
  awaited request is a proxied one, which does not follow redirects.
\<close>

definition proxied_event :: "headers \<Rightarrow> request \<Rightarrow> pevent \<Rightarrow> bool" where
  "proxied_event sso rq e \<longleftrightarrow> application_event sso rq e \<and>
     (case e of EvFetch q \<Rightarrow> \<not> hr_allow_redirects q | _ \<Rightarrow> True)"

lemma client_proxied: "client_event e \<Longrightarrow> proxied_event sso rq e"
  by (auto simp: proxied_event_def application_event_def split: pevent.split)

lemma proxied_application: "proxied_event sso rq e \<Longrightarrow> application_event sso rq e"
  by (simp add: proxied_event_def)

lemma application_event_verified: "verified_event sso e \<Longrightarrow> application_event sso rq e"
  by (simp add: application_event_def)

lemma always_admin_page: "always (proxied_event sso rq) anyhow anyhow
   (handle_http cf rq ''GET'' (admin_headers_request sso rq) url params data tmo extra)"
  by (rule always_handle_http) (simp_all add: client_proxied, simp add: proxied_event_def application_event_def)

lemma always_spawning_page: "always (proxied_event sso rq) anyhow anyhow (spawning_page cf sso rq p)"
  unfolding spawning_page_def
  by (rule always_admin_page)

lemma always_application_http:
  "always (proxied_event sso rq) anyhow anyhow
     (handle_http cf rq method (application_headers sso rq) url query data tmo extra)"
  by (rule always_handle_http) (simp_all add: client_proxied, simp add: proxied_event_def application_event_def application_traffic_def)

lemma always_analytics: "always (proxied_event sso rq) anyhow anyhow (send_to_google_analytics cf rq)"
  by (auto simp: send_to_google_analytics_def proxied_event_def application_event_def application_traffic_def
      analytics_request_def split: option.split prod.split)

lemma always_websocket:
  "always (proxied_event sso rq) anyhow anyhow
     (handle_application_websocket cf sso rq url path query po)"
proof -
  have cookie: "always (proxied_event sso rq) anyhow anyhow (with_session_cookie cf rq resp)" for resp
    by (rule always_mono [OF always_with_session_cookie])
      (simp_all add: store_event_client client_proxied)
  have "proxied_event sso rq (EvPrepare s hs)" "proxied_event sso rq (EvUpgrade u (application_headers sso rq))"
    for s hs u by (simp_all add: proxied_event_def application_event_def application_traffic_def)
  then show ?thesis
    by (auto simp: handle_application_websocket_def handle_websocket_def Let_def
        intro!: always_pbind always_mono [OF cookie])
qed

lemma always_started:
  "always (proxied_event sso rq) anyhow anyhow
     (handle_started_application cf sso ws rq method path query host po state app)"
proof -
  have patch: "proxied_event sso rq (EvBackground
      ((admin_api_request ''PATCH'' url sso rq)\<lparr>hr_data := d, hr_timeout := t\<rparr>))" for url d t
    by (simp add: proxied_event_def application_event_def)
  have spawning: "always (proxied_event sso rq) anyhow anyhow
      (handle_application_http_spawning cf sso rq method u query p api host)" for u p api
    unfolding handle_application_http_spawning_def
    by (intro always_need always_ptry_else always_mono [OF always_application_http])
      (simp_all add: always_spawning_page patch)
  have direct: "always (proxied_event sso rq) anyhow anyhow
      (handle_application_http_running_direct cf sso rq method u query host)" for u
    unfolding handle_application_http_running_direct_def
    by (intro always_need always_pbind always_mono [OF always_analytics])
      (simp_all add: always_application_http)
  have wrapped: "always (proxied_event sso rq) anyhow anyhow
      (handle_application_http_running_wrapped cf sso rq u p host)" for u p
    unfolding handle_application_http_running_wrapped_def Let_def
    by (rule always_admin_page)
  show ?thesis
    unfolding handle_started_application_def Let_def
    by (intro always_need)
      (auto intro!: always_need simp: always_spawning_page always_websocket spawning direct wrapped)
qed

lemma always_raise_with_state: "always P anyhow anyhow (raise_with_state what state)"
  by (auto simp: raise_with_state_def intro!: always_need)

lemma always_check_started:
  "(\<And>state. always P anyhow anyhow (f state)) \<Longrightarrow> always P anyhow anyhow (check_started response app f)"
  by (auto simp: check_started_def always_raise_with_state intro!: always_need)

lemma always_handle_application:
  "always (application_event sso rq) anyhow anyhow (handle_application cf sso ws rq method path query)"
proof -
  have api: "application_event sso rq (EvFetch (admin_api_request m url sso rq))" for m url
    by (simp add: application_event_verified)
  show ?thesis
    unfolding handle_application_def Let_def
    by (auto split: prod.split intro!: always_fetch always_need api always_check_started
        simp: always_raise_with_state always_mono_event [OF always_started proxied_application])
qed

section \<open>When an application instance is started or stopped\<close>

definition api_url :: "config \<Rightarrow> request \<Rightarrow> string" where
  "api_url cf rq = application_api_url cf (fst (public_host_and_port cf (rq_host rq)))"

definition api_events :: "config \<Rightarrow> headers \<Rightarrow> request \<Rightarrow> string \<Rightarrow> pevent list \<Rightarrow> pevent list" where
  "api_events cf sso rq method es =
     filter (\<lambda>e. e = EvFetch (admin_api_request method (api_url cf rq) sso rq)) es"

lemma admin_request_eq [simp]:
  "admin_api_request m url sso rq = admin_api_request m' url sso rq \<longleftrightarrow> m = m'"
  by (auto simp: admin_api_request_def)

lemma api_events_simps [simp]:
  "api_events cf sso rq m [] = []"
  "api_events cf sso rq m (EvFetch (admin_api_request m' (api_url cf rq) sso rq) # es) =
     (if m' = m then [EvFetch (admin_api_request m' (api_url cf rq) sso rq)] else []) @
       api_events cf sso rq m es"
  by (simp_all add: api_events_def)

lemma api_events_proxied: "\<forall>e \<in> set es. proxied_event sso rq e \<Longrightarrow> api_events cf sso rq m es = []"
  by (auto simp: api_events_def filter_empty_conv proxied_event_def admin_api_request_def)

definition reported :: "config \<Rightarrow> headers \<Rightarrow> request \<Rightarrow> penv \<Rightarrow> pstate \<Rightarrow> http_reply option" where
  "reported cf sso rq env st = pe_reply env (ps_trace st) (admin_api_request ''GET'' (api_url cf rq) sso rq)"

definition reported_stopped :: "http_reply \<Rightarrow> bool" where
  "reported_stopped reply \<longleftrightarrow> hp_status reply = 200 \<and>
     (case Option.bind (hp_json reply) (\<lambda>app. jget app ''state'') of None \<Rightarrow> False
      | Some state \<Rightarrow> \<not> is_active state)"

definition reported_absent :: "http_reply \<Rightarrow> bool" where
  "reported_absent reply \<longleftrightarrow> hp_status reply = 404 \<and> hp_json reply \<noteq> None"

text \<open>The events after the first request to the API.\<close>

definition decided :: "config \<Rightarrow> headers \<Rightarrow> request \<Rightarrow> http_reply option \<Rightarrow> pevent list \<Rightarrow>
    exn + response \<Rightarrow> bool" where
  "decided cf sso rq reply es res \<longleftrightarrow>
     (let gone = (\<exists>r. reply = Some r \<and> reported_stopped r) \<and> may_modify rq;
          absent = (\<exists>r. reply = Some r \<and> reported_absent r) \<and> may_modify rq
      in length (api_events cf sso rq ''DELETE'' es) = (if gone then 1 else 0) \<and>
         length (api_events cf sso rq ''PUT'' es) = (if absent then 1 else 0) \<and>
         (gone \<longrightarrow> isl res))"

lemma decided_none: "decided cf sso rq reply es res" if
  "api_events cf sso rq ''DELETE'' es = []" "api_events cf sso rq ''PUT'' es = []"
  "\<not> may_modify rq \<or> reply = None \<or> (\<exists>r. reply = Some r \<and> \<not> reported_stopped r \<and> \<not> reported_absent r)"
  using that by (auto simp: decided_def)

lemma quiet_run:
  assumes "always (proxied_event sso rq) anyhow anyhow m" and "run m env st = (res, st')"
  shows "\<exists>es. ps_trace st' = ps_trace st @ es \<and> (\<forall>meth. api_events cf sso rq meth es = [])"
  using always_run [OF assms(1), of st env] assms(2)
  by (auto simp: ends_with_def intro: api_events_proxied)

lemma run_raise_with_state:
  "\<exists>e. run (raise_with_state w s) env st = (Inl e, st)"
  by (auto simp: raise_with_state_def need_def split: option.split)

lemma decides_known:
  assumes "run (handle_application cf sso ws rq m p q) env st = (res, st')"
    and hp: "public_host_and_port cf (rq_host rq) = (host, po)"
    and Some: "reported cf sso rq env st = Some reply" and js: "hp_json reply = Some app"
    and known: "hp_status reply = 200"
  shows "\<exists>es. ps_trace st' = ps_trace st @ es \<and> decided cf sso rq (reported cf sso rq env st) es res"
proof -
  let ?get = "EvFetch (admin_api_request ''GET'' (api_url cf rq) sso rq)"
  let ?st = "record_event ?get st"
  have st: "ps_trace ?st = ps_trace st @ [?get]" by (simp add: record_event_def)
  have api: "application_api_url cf host = api_url cf rq" by (simp add: api_url_def hp)
  show ?thesis
  proof (cases "jget app ''state''")
    case None
    with assms st Some js known show ?thesis
      by (auto simp: handle_application_def Let_def hp api fetch_def reported_def
        reported_stopped_def reported_absent_def intro!: decided_none)
  next
    case state: (Some s)
    show ?thesis
    proof (cases "is_active s")
      case True
      with assms Some js known state
      have "run (check_started reply app (\<lambda>state. handle_started_application cf sso ws rq m p q
          host po state app)) env ?st = (res, st')"
        by (simp add: handle_application_def Let_def hp api fetch_def reported_def)
      from quiet_run [OF always_check_started this, of sso rq cf] always_started
      obtain es where "ps_trace st' = ps_trace ?st @ es" "\<forall>meth. api_events cf sso rq meth es = []"
        by blast
      with st Some True js state known show ?thesis
        by (intro exI [of _ "?get # es"])
          (simp add: decided_def reported_stopped_def reported_absent_def)
    next
      case False
      let ?fail = "raise_with_state ''Application '' s :: response pio"
      let ?del = "EvFetch (admin_api_request ''DELETE'' (api_url cf rq) sso rq)"
      show ?thesis
      proof (cases "may_modify rq")
        case no: False
        have "run ?fail env ?st = (res, st')"
          using assms Some js known state False no
          by (simp add: handle_application_def Let_def hp api fetch_def reported_def)
        moreover obtain e where "run ?fail env ?st = (Inl e, ?st)" using run_raise_with_state by blast
        ultimately show ?thesis using st no Some js known state False
          by (intro exI [of _ "[?get]"]) (simp add: decided_def reported_absent_def)
      next
        case True
        define r where "r = pe_reply env (ps_trace ?st) (admin_api_request ''DELETE'' (api_url cf rq) sso rq)"
        let ?st2 = "record_event ?del ?st"
        have "run (need ''ClientError'' r (\<lambda>_. ?fail)) env ?st2 = (res, st')"
          using assms Some js known state False True
          by (simp add: handle_application_def Let_def hp api fetch_def reported_def r_def)
        moreover obtain e where "run ?fail env ?st2 = (Inl e, ?st2)" using run_raise_with_state by blast
        then obtain e' where "run (need ''ClientError'' r (\<lambda>_. ?fail)) env ?st2 = (Inl e', ?st2)"
          by (cases r) auto
        ultimately have "res = Inl e'" "st' = ?st2" by simp_all
        then show ?thesis using st True Some js known state False
          by (intro exI [of _ "[?get, ?del]"])
            (simp add: decided_def reported_stopped_def reported_absent_def record_event_def)
      qed
    qed
  qed
qed

lemma decides_absent:
  assumes "run (handle_application cf sso ws rq m p q) env st = (res, st')"
    and hp: "public_host_and_port cf (rq_host rq) = (host, po)"
    and Some: "reported cf sso rq env st = Some reply" and js: "hp_json reply = Some app"
    and absent: "hp_status reply = 404"
  shows "\<exists>es. ps_trace st' = ps_trace st @ es \<and> decided cf sso rq (reported cf sso rq env st) es res"
proof -
  let ?get = "EvFetch (admin_api_request ''GET'' (api_url cf rq) sso rq)"
  let ?st = "record_event ?get st"
  have st: "ps_trace ?st = ps_trace st @ [?get]" by (simp add: record_event_def)
  have api: "application_api_url cf host = api_url cf rq" by (simp add: api_url_def hp)
  let ?put = "EvFetch (admin_api_request ''PUT'' (api_url cf rq) sso rq)"
  let ?st2 = "record_event ?put ?st"
  show ?thesis
  proof (cases "may_modify rq")
    case False
    with assms st Some js absent show ?thesis
      by (auto simp: handle_application_def Let_def hp api fetch_def reported_def
        intro!: decided_none)
  next
    case True
    define r where "r = pe_reply env (ps_trace ?st) (admin_api_request ''PUT'' (api_url cf rq) sso rq)"
    let ?rest = "need ''ClientError'' r (\<lambda>response. need ''ContentTypeError'' (hp_json response)
      (\<lambda>application. check_started response application (\<lambda>state.
        handle_started_application cf sso ws rq m p q host po state application)))"
    have "run ?rest env ?st2 = (res, st')"
      using assms Some js absent True
      by (simp add: handle_application_def Let_def hp api fetch_def reported_def r_def)
    moreover have "always (proxied_event sso rq) anyhow anyhow ?rest"
      by (intro always_need always_check_started always_started) simp_all
    ultimately obtain es where "ps_trace st' = ps_trace ?st2 @ es"
        "\<forall>meth. api_events cf sso rq meth es = []"
      using quiet_run by blast
    with st Some True js absent show ?thesis
      by (intro exI [of _ "?get # ?put # es"])
        (simp add: decided_def reported_stopped_def reported_absent_def record_event_def)
  qed
qed

lemma handle_application_decides:
  assumes "run (handle_application cf sso ws rq m p q) env st = (res, st')"
  shows "\<exists>es. ps_trace st' = ps_trace st @ es \<and> decided cf sso rq (reported cf sso rq env st) es res"
proof -
  obtain host po where hp: "public_host_and_port cf (rq_host rq) = (host, po)" by fastforce
  let ?get = "EvFetch (admin_api_request ''GET'' (api_url cf rq) sso rq)"
  let ?st = "record_event ?get st"
  have st: "ps_trace ?st = ps_trace st @ [?get]" by (simp add: record_event_def)
  have api: "application_api_url cf host = api_url cf rq" by (simp add: api_url_def hp)
  show ?thesis
  proof (cases "reported cf sso rq env st")
    case None
    with assms st show ?thesis
      by (auto simp: handle_application_def Let_def hp api fetch_def reported_def intro!: decided_none)
  next
    case (Some reply)
    show ?thesis
    proof (cases "hp_json reply")
      case None
      with assms st Some show ?thesis
        by (auto simp: handle_application_def Let_def hp api fetch_def reported_def
            reported_stopped_def reported_absent_def intro!: decided_none)
    next
      case js: (Some app)
      consider (error) "hp_status reply \<noteq> 200 \<and> hp_status reply \<noteq> 404" | (known) "hp_status reply = 200"
        | (absent) "hp_status reply = 404" by blast
      then show ?thesis
      proof cases
        case error
        with assms st Some js show ?thesis
          by (auto simp: handle_application_def Let_def hp api fetch_def reported_def
            reported_stopped_def reported_absent_def intro!: decided_none)
      next
        case known
        from decides_known [OF assms hp Some js known] show ?thesis .
      next
        case absent
        from decides_absent [OF assms hp Some js absent] show ?thesis .
      qed
    qed
  qed
qed

section \<open>How a request ends\<close>

lemma always_trivial: "always anyhow anyhow anyhow m"
  by (induction m) auto

text \<open>Only the handlers raise exceptions meant for the user, and only \<open>handle\<close> turns them into pages.\<close>

definition not_for_user :: "exn \<Rightarrow> bool" where
  "not_for_user e = (case e of UserException message status \<Rightarrow> False | OtherError what \<Rightarrow> True)"

lemma not_for_user_simps [simp]: "not_for_user (OtherError e)" "\<not> not_for_user (UserException m s)"
  by (simp_all add: not_for_user_def)

lemma store_values_exn: "always anyhow anyhow not_for_user (store_values c d)"
  by (induction c d rule: store_values.induct) (auto intro!: always_need)

lemma session_cookie_exn: "always anyhow anyhow not_for_user (with_session_cookie cf rq resp)"
  unfolding with_session_cookie_def
  by (auto intro!: always_pbind always_mono [OF store_values_exn])

lemma write_chunks_exn: "always anyhow anyhow not_for_user m \<Longrightarrow>
    always anyhow anyhow not_for_user (write_chunks cs m)"
  by (induction cs) auto

lemma handle_http_exn:
  "always anyhow anyhow not_for_user (handle_http cf rq method hs url query data tmo extra)"
  unfolding handle_http_def
  by (intro always_fetch always_pbind always_mono [OF session_cookie_exn])
    (auto intro!: write_chunks_exn)

lemma handle_failures:
  "\<not> is_websocket_request rq \<Longrightarrow> always anyhow anyhow not_for_user (handle cf sso rq)"
  unfolding handle_def Let_def
  by (rule always_pcatch, rule always_mono [OF always_trivial])
    (auto simp: handle_http_exn split: exn.split)

lemma handle_application_request:
  assumes "is_app_requested cf rq"
  shows "always (application_event sso rq) anyhow anyhow (handle cf sso rq)"
proof -
  have page: "always (application_event sso rq) anyhow anyhow (handle_http cf rq ''GET''
      (admin_headers_request sso rq) url params (Bytes []) Default_timeout [])" for url params
    by (rule always_mono_event [OF always_error_page application_event_verified])
  show ?thesis
    unfolding handle_def Let_def using assms
    by (intro always_pcatch) (auto intro!: always_mono [OF always_handle_application]
        simp: page split: exn.split)
qed

lemma handle_admin_request:
  assumes "\<not> is_app_requested cf rq" "\<not> is_mirror_requested cf rq" "\<not> is_superset_requested cf rq"
  shows "always (verified_event sso) anyhow anyhow (handle cf sso rq)"
proof -
  have "always (verified_event sso) anyhow anyhow
      (handle_admin cf rq m (admin_headers_proxy sso rq) path query data)" for m path query data
    unfolding handle_admin_def by (rule always_handle_http) simp_all
  with assms show ?thesis
    unfolding handle_def Let_def
    by (intro always_pcatch) (auto intro!: always_mono simp: always_error_page split: exn.split)
qed

section \<open>The port of a host\<close>

lemma find_sep_fresh: "c \<notin> set a \<Longrightarrow> find_sep (c # sep) (a @ c # sep @ b) = Some (a, b)"
  by (induction a) (auto simp: startswith_def)

lemma rpartition_dashes:
  assumes "CHR ''-'' \<notin> set s"
  shows "rpartition (h @ ''--'' @ s) ''--'' = (h, s)"
  using assms find_sep_fresh [of "CHR ''-''" "rev s" "''-''" "rev h"] by (simp add: rpartition_def)

definition valid_port :: "int option \<Rightarrow> bool" where
  "valid_port n = (case n of None \<Rightarrow> False | Some p \<Rightarrow> 1 \<le> p \<and> p \<le> 65535)"

lemma suffix_of_host:
  assumes "CHR ''.'' \<notin> set h" "CHR ''.'' \<notin> set s" "CHR ''-'' \<notin> set s"
  shows "public_host_and_port cf (h @ ''--'' @ s @ ''.'' @ root_domain_no_port cf) =
    (if valid_port (int_of_str s) then (h, int_of_str s) else (h @ ''--'' @ s, None))"
proof -
  have "partition (h @ ''--'' @ s @ ''.'' @ root_domain_no_port cf) (''.'' @ root_domain_no_port cf) =
      (h @ ''--'' @ s, [])"
    using assms(1,2) find_sep_fresh [of "CHR ''.''" "h @ ''--'' @ s" "root_domain_no_port cf" "[]"]
    by (simp add: partition_def)
  with rpartition_dashes [OF assms(3), of h] show ?thesis
    by (auto simp: public_host_and_port_def Let_def valid_port_def split: option.splits)
qed

lemma digit_char_host: "d < 10 \<Longrightarrow> digit_char d \<noteq> CHR ''.''"
  by (auto simp: digit_char_def dest: arg_cong [where f = "of_char :: char \<Rightarrow> nat"])

lemma str_nat_host: "CHR ''.'' \<notin> set (str_nat n)" "CHR ''-'' \<notin> set (str_nat n)"
  using str_nat_digits [of n] digit_char_host digit_char_plain(2) by metis+

lemma port_override_round_trip:
  assumes "CHR ''.'' \<notin> set h" "1 \<le> p" "p \<le> 65535"
  shows "public_host_and_port cf (h @ ''--'' @ str_nat p @ ''.'' @ root_domain_no_port cf) =
    (h, Some (int p))"
  using suffix_of_host [OF assms(1) str_nat_host(1) str_nat_host(2), of cf p] assms(2,3)
  by (simp add: valid_port_def)

end
