(* ===== verification/ProxySharing.thy ===== *)
theory ProxySharing
  imports ProxyHandling
begin

text \<open>
  The session of \<open>proxy_session.py\<close> under concurrency. Requests of one browser share a Redis session
  and their coroutines interleave at every effect. The theory gives the programs a small-step
  semantics over the shared store, and shows what makes the session ``addition-only'': no step removes
  a value, and whatever the interleaving, a request that has finished has stored all its values.
\<close>

section \<open>Stores\<close>

text \<open>
  The interface of a key-value store that several writers share: what a read returns after a
  write, for the key written and for the others.
\<close>

locale shared_store =
  fixes get :: "'s \<Rightarrow> 'k \<Rightarrow> 'v option"
    and put :: "'k \<Rightarrow> 'v \<Rightarrow> 's \<Rightarrow> 's"
  assumes get_put: "get (put k v s) k = Some v"
    and get_put_other: "k' \<noteq> k \<Longrightarrow> get (put k v s) k' = get s k'"
begin

definition put_all :: "('k \<times> 'v) list \<Rightarrow> 's \<Rightarrow> 's" where
  "put_all kvs s = fold (\<lambda>(k, v). put k v) kvs s"

lemma put_all_simps [simp]:
  "put_all [] s = s" "put_all ((k, v) # kvs) s = put_all kvs (put k v s)"
  by (simp_all add: put_all_def)

lemma present_put: "get s k \<noteq> None \<Longrightarrow> get (put k' v s) k \<noteq> None"
  by (cases "k = k'") (simp_all add: get_put get_put_other)

lemma get_put_all: "distinct (map fst kvs) \<Longrightarrow>
    get (put_all kvs s) k = (case map_of kvs k of None \<Rightarrow> get s k | Some v \<Rightarrow> Some v)"
proof (induction kvs arbitrary: s)
  case (Cons p kvs)
  obtain a v where p: "p = (a, v)" by (cases p)
  with Cons.prems have none: "map_of kvs a = None" and d: "distinct (map fst kvs)"
    by (simp_all add: map_of_eq_None_iff)
  show ?case
  proof (cases "k = a")
    case True
    then show ?thesis unfolding p put_all_simps Cons.IH [OF d] by (simp add: none get_put)
  next
    case False
    then show ?thesis unfolding p put_all_simps Cons.IH [OF d] by (simp add: get_put_other split: option.split)
  qed
qed simp

text \<open>
  Two writers whose writes interleave in any order lose nothing: each key has a value that one of
  them wrote, and a key that only one of them writes has that writer's value.
\<close>

lemma interleaved_writers:
  assumes "distinct (map fst xs)" "distinct (map fst ys)" "zs \<in> shuffles xs ys"
  shows "get (put_all zs s) k \<in> (case (map_of xs k, map_of ys k) of
      (None, None) \<Rightarrow> {get s k} | (Some v, None) \<Rightarrow> {Some v} | (None, Some w) \<Rightarrow> {Some w}
    | (Some v, Some w) \<Rightarrow> {Some v, Some w})"
  using assms
proof (induction zs arbitrary: xs ys s)
  case Nil
  then show ?case by simp
next
  case (Cons z zs)
  obtain a v where z: "z = (a, v)" by (cases z)
  from Cons.prems(3) consider (left) xs' where "xs = z # xs'" "zs \<in> shuffles xs' ys"
    | (right) ys' where "ys = z # ys'" "zs \<in> shuffles xs ys'"
    by (auto simp: Cons_in_shuffles_iff neq_Nil_conv)
  then show ?case
  proof cases
    case left
    have none: "map_of xs' a = None" using Cons.prems(1) left z by (simp add: map_of_eq_None_iff)
    have "distinct (map fst xs')" using Cons.prems(1) left by simp
    from Cons.IH [OF this Cons.prems(2) left(2), of "put a v s"] show ?thesis
      using none by (cases "k = a") (auto simp: z left get_put get_put_other split: option.splits)
  next
    case right
    have none: "map_of ys' a = None" using Cons.prems(2) right z by (simp add: map_of_eq_None_iff)
    have "distinct (map fst ys')" using Cons.prems(2) right by simp
    from Cons.IH [OF Cons.prems(1) this right(2), of "put a v s"] show ?thesis
      using none by (cases "k = a") (auto simp: z right get_put get_put_other split: option.splits)
  qed
qed

end

text \<open>Redis, read and written by the session at one point of time, is such a store.\<close>

definition session_get :: "nat \<Rightarrow> string \<Rightarrow> redis \<Rightarrow> string \<Rightarrow> string option" where
  "session_get now cookie r key = redis_get now r (session_redis_key cookie key)"

definition session_put :: "nat \<Rightarrow> string \<Rightarrow> string \<Rightarrow> string \<Rightarrow> redis \<Rightarrow> redis" where
  "session_put now cookie key value r =
     snd (redis_set now r (session_redis_key cookie key) value REDIS_MAX_AGE False)"

interpretation session_store: shared_store "session_get now cookie" "session_put now cookie" for now cookie
  by unfold_locales
    (auto simp: session_get_def session_put_def redis_set_def redis_get_def REDIS_MAX_AGE_def)

interpretation dictionary: shared_store "map_of :: string dict \<Rightarrow> string \<Rightarrow> string option" dict_set
  by unfold_locales (simp_all add: map_of_dict_set)

lemma stored_put_all: "stored now cookie d r = session_store.put_all now cookie d r"
  by (induction d arbitrary: r) (auto simp: session_put_def redis_set_def)

section \<open>Interleaving coroutines\<close>

text \<open>
  One effect of one coroutine, over the shared store and the coroutine's own session variables. The
  answers of servers, clocks and clients are arbitrary.
\<close>

inductive pstep :: "nat \<Rightarrow> redis \<times> session \<times> 'a pio \<Rightarrow> redis \<times> session \<times> 'a pio \<Rightarrow> bool" for now where
  fetch_step: "pstep now (r, s, Fetch q k) (r, s, k reply)"
| background_step: "pstep now (r, s, Background q m) (r, s, m)"
| redis_get_step: "pstep now (r, s, RedisGet key k) (r, s, k (redis_get now r key))"
| redis_set_step: "redis_set now r key v ttl nx = (ok, r') \<Longrightarrow>
    pstep now (r, s, RedisSet key v ttl nx k) (r', s, k ok)"
| token_step: "pstep now (r, s, Token n k) (r, s, k token)"
| gmtime_step: "pstep now (r, s, GmTime n k) (r, s, k time)"
| get_session_step: "pstep now (r, s, GetSession k) (r, s, k s)"
| put_session_step: "pstep now (r, s, PutSession s' m) (r, s', m)"
| prepare_step: "pstep now (r, s, Prepare st hs k) (r, s, k up)"
| write_step: "pstep now (r, s, Write c k) (r, s, k up)"
| upgrade_step: "pstep now (r, s, Upgrade u hs ps k) (r, s, k up)"
| pump_step: "pstep now (r, s, Pump k) (r, s, k up)"

inductive_cases pstep_elim: "pstep now (r, s, m) (r', s', m')"

inductive concurrent_step ::
  "nat \<Rightarrow> redis \<times> (session \<times> 'a pio) list \<Rightarrow> redis \<times> (session \<times> 'a pio) list \<Rightarrow> bool" for now where
  one_of_them: "i < length ps \<Longrightarrow> ps ! i = (s, m) \<Longrightarrow> pstep now (r, s, m) (r', s', m') \<Longrightarrow>
    concurrent_step now (r, ps) (r', ps[i := (s', m')])"

inductive_simps concurrent_step_iff: "concurrent_step now (r, ps) (r', ps')"

definition interleaving :: "nat \<Rightarrow> redis \<times> (session \<times> 'a pio) list \<Rightarrow>
    redis \<times> (session \<times> 'a pio) list \<Rightarrow> bool" where
  "interleaving now = (concurrent_step now)\<^sup>*\<^sup>*"

definition present :: "nat \<Rightarrow> redis \<Rightarrow> string set" where
  "present now r = {key. redis_get now r key \<noteq> None}"

lemma present_set: "redis_set now r key v ttl nx = (ok, r') \<Longrightarrow> 0 < ttl \<Longrightarrow>
   present now r' = insert key (present now r)"
  by (auto simp: present_def redis_set_def redis_get_def split: if_splits option.splits)

text \<open>
  \<open>leaves s K m\<close>: started with the session \<open>s\<close>, the program stores all the Redis keys of \<open>K\<close>
  before it returns, and never stores a value that expires at once.
\<close>

primrec leaves :: "'a pio \<Rightarrow> session \<Rightarrow> string set \<Rightarrow> bool" where
  "leaves (Ret x) s K = (K = {})"
| "leaves (Raise e) s K = True"
| "leaves (Fetch q k) s K = (\<forall>r. leaves (k r) s K)"
| "leaves (Background q m) s K = leaves m s K"
| "leaves (RedisGet key k) s K = (\<forall>r. leaves (k r) s K)"
| "leaves (RedisSet key v ttl nx k) s K = (0 < ttl \<and> (\<forall>r. leaves (k r) s (K - {key})))"
| "leaves (Token n k) s K = (\<forall>r. leaves (k r) s K)"
| "leaves (GmTime n k) s K = (\<forall>r. leaves (k r) s K)"
| "leaves (GetSession k) s K = leaves (k s) s K"
| "leaves (PutSession s' m) s K = leaves m s' K"
| "leaves (Prepare st hs k) s K = (\<forall>r. leaves (k r) s K)"
| "leaves (Write c k) s K = (\<forall>r. leaves (k r) s K)"
| "leaves (Upgrade u hs ps k) s K = (\<forall>r. leaves (k r) s K)"
| "leaves (Pump k) s K = (\<forall>r. leaves (k r) s K)"

lemma leaves_subset: "leaves m s K \<Longrightarrow> K' \<subseteq> K \<Longrightarrow> leaves m s K'"
proof (induction m arbitrary: s K K')
  case (RedisSet key v ttl nx k)
  have "leaves (k r) s (K' - {key})" for r
    by (rule RedisSet.IH [OF rangeI, where K = "K - {key}"]) (use RedisSet.prems in auto)
  with RedisSet.prems show ?case by simp
qed (simp_all, blast+)

text \<open>The keys that a step stores itself.\<close>

definition storing :: "'a pio \<Rightarrow> string set" where
  "storing m = (case m of RedisSet key v ttl nx k \<Rightarrow> {key} | _ \<Rightarrow> {})"

lemma leaves_pstep:
  assumes "pstep now (r, s, m) (r', s', m')" and "leaves m s K"
  shows "present now r' = storing m \<union> present now r \<and> leaves m' s' (K - storing m)"
  using assms by (cases rule: pstep_elim) (auto simp: storing_def dest: present_set)

text \<open>The invariant of an interleaving: each coroutine has stored, or will store, its keys.\<close>

definition owed :: "nat \<Rightarrow> string set list \<Rightarrow> redis \<times> (session \<times> 'a pio) list \<Rightarrow> bool" where
  "owed now Ks c \<longleftrightarrow> (case c of (r, ps) \<Rightarrow> length Ks = length ps \<and>
     (\<forall>i < length ps. \<exists>K'. leaves (snd (ps ! i)) (fst (ps ! i)) K' \<and> Ks ! i \<subseteq> K' \<union> present now r))"

lemma owed_step:
  assumes "concurrent_step now (r, ps) (r', ps')" and "owed now Ks (r, ps)"
  shows "owed now Ks (r', ps') \<and> present now r \<subseteq> present now r'"
proof -
  obtain i s m s' m' where i: "i < length ps" "ps ! i = (s, m)" "pstep now (r, s, m) (r', s', m')"
      and ps': "ps' = ps[i := (s', m')]"
    using assms(1) by (auto simp: concurrent_step_iff)
  obtain K where K: "leaves m s K" "Ks ! i \<subseteq> K \<union> present now r"
    using assms(2) i(1) unfolding owed_def by (fastforce simp: i(2))
  have K': "leaves m' s' (K - storing m)" and grows: "present now r' = storing m \<union> present now r"
    using leaves_pstep [OF i(3) K(1)] by simp_all
  have "\<exists>L. leaves (snd (ps' ! j)) (fst (ps' ! j)) L \<and> Ks ! j \<subseteq> L \<union> present now r'"
    if "j < length ps'" for j
  proof (cases "j = i")
    case True
    then show ?thesis using K K' grows i(1) ps' by (intro exI [of _ "K - storing m"]) auto
  next
    case False
    with that ps' assms(2) obtain L where "leaves (snd (ps ! j)) (fst (ps ! j)) L"
        "Ks ! j \<subseteq> L \<union> present now r"
      unfolding owed_def by auto
    then show ?thesis using False ps' grows by (intro exI [of _ L]) auto
  qed
  then show ?thesis using assms(2) ps' grows unfolding owed_def by simp
qed

lemma owed_interleaving:
  "interleaving now c c' \<Longrightarrow> owed now Ks c \<Longrightarrow> owed now Ks c' \<and> present now (fst c) \<subseteq> present now (fst c')"
  unfolding interleaving_def
proof (induction rule: rtranclp_induct)
  case (step y z)
  then show ?case using owed_step [of now "fst y" "snd y" "fst z" "snd z" Ks] by auto
qed simp

lemma leaves_pbind: "leaves m s K \<Longrightarrow> (\<And>x s. leaves (f x) s {}) \<Longrightarrow> leaves (pbind m f) s K"
  by (induction m arbitrary: s K) auto

lemma leaves_store_values: "leaves (store_values c d) s (session_redis_key c ` fst ` set d)"
proof (induction c d rule: store_values.induct)
  case (2 c k v rest)
  let ?K = "session_redis_key c ` fst ` set ((k, v) # rest) - {session_redis_key c k}"
  have "leaves (store_values c rest) s ?K" if "session_redis_key c k = rk" for rk
    by (rule leaves_subset [OF 2]) auto
  then show ?case by (auto simp: need_def REDIS_MAX_AGE_def encode_ascii_eq split: option.split)
qed simp

lemma leaves_session_cookie:
  assumes "has_cookie s"
  shows "leaves (with_session_cookie cf rq resp) s (session_redis_key (the_cookie s) ` fst ` set (to_set s))"
proof -
  have "leaves (pbind (store_values (the_cookie s) (to_set s)) (\<lambda>_. GmTime COOKIE_MAX_AGE (\<lambda>expires.
       Ret (resp\<lparr>rs_headers := hs expires\<rparr>)))) s (session_redis_key (the_cookie s) ` fst ` set (to_set s))" for hs
    by (rule leaves_pbind [OF leaves_store_values]) simp
  with assms show ?thesis by (simp add: with_session_cookie_def)
qed

definition responding :: "config \<Rightarrow> (session \<times> request \<times> response) list \<Rightarrow> (session \<times> response pio) list" where
  "responding cf xs = map (\<lambda>(s, rq, resp). (s, with_session_cookie cf rq resp)) xs"

lemma no_value_lost:
  assumes "\<forall>(s, rq, resp) \<in> set xs. has_cookie s"
    and "interleaving now (r, responding cf xs) (r', ps)"
    and "i < length xs" and "ps ! i = (s', Ret resp')" and "key \<in> fst ` set (to_set (fst (xs ! i)))"
  shows "session_get now (the_cookie (fst (xs ! i))) r' key \<noteq> None"
proof -
  let ?K = "\<lambda>(s, rq, resp). session_redis_key (the_cookie s) ` fst ` set (to_set s)"
  have "owed now (map ?K xs) (r, responding cf xs)"
    unfolding owed_def
  proof (clarsimp simp: responding_def)
    fix j assume j: "j < length xs"
    obtain s rq resp where x: "xs ! j = (s, rq, resp)" by (cases "xs ! j")
    with assms(1) j have "has_cookie s" by (metis (no_types, lifting) case_prodD nth_mem)
    from leaves_session_cookie [OF this] show "\<exists>K'. leaves (snd (case xs ! j of (s, rq, resp) \<Rightarrow> (s, with_session_cookie cf rq resp)))
         (fst (case xs ! j of (s, rq, resp) \<Rightarrow> (s, with_session_cookie cf rq resp))) K' \<and>
         (case xs ! j of (s, rq, resp) \<Rightarrow> session_redis_key (the_cookie s) ` fst ` set (to_set s)) \<subseteq> K' \<union> present now r"
      by (intro exI) (auto simp: x)
  qed
  from owed_interleaving [OF assms(2) this] have o: "owed now (map ?K xs) (r', ps)" by simp
  then have "i < length ps" using assms(3) by (simp add: owed_def)
  with o obtain K' where "leaves (snd (ps ! i)) (fst (ps ! i)) K'" "map ?K xs ! i \<subseteq> K' \<union> present now r'"
    unfolding owed_def by blast
  then have "?K (xs ! i) \<subseteq> present now r'" using assms(3) by (simp add: assms(4))
  with assms(5) show ?thesis
    by (cases "xs ! i") (auto simp: present_def session_get_def)
qed

lemma nothing_removed:
  "interleaving now (r, responding cf xs) (r', ps) \<Longrightarrow> \<forall>(s, rq, resp) \<in> set xs. has_cookie s \<Longrightarrow>
     present now r \<subseteq> present now r'"
proof -
  assume "interleaving now (r, responding cf xs) (r', ps)" and c: "\<forall>(s, rq, resp) \<in> set xs. has_cookie s"
  moreover have "owed now (replicate (length xs) {}) (r, responding cf xs)"
    unfolding owed_def
  proof (clarsimp simp: responding_def)
    fix j assume j: "j < length xs"
    obtain s rq resp where x: "xs ! j = (s, rq, resp)" by (cases "xs ! j")
    with c j have "has_cookie s" by (metis (no_types, lifting) case_prodD nth_mem)
    from leaves_session_cookie [OF this] show "\<exists>K'. leaves (snd (case xs ! j of (s, rq, resp) \<Rightarrow> (s, with_session_cookie cf rq resp)))
         (fst (case xs ! j of (s, rq, resp) \<Rightarrow> (s, with_session_cookie cf rq resp))) K'"
      by (auto simp: x)
  qed
  ultimately show ?thesis using owed_interleaving by fastforce
qed

text \<open>A coroutine that runs alone is one of the interleavings.\<close>

lemma alone:
  "pstep now (r, s, m) (r', s', m') \<Longrightarrow> interleaving now (r', [(s', m')]) c \<Longrightarrow>
     interleaving now (r, [(s, m)]) c"
  using one_of_them [of 0 "[(s, m)]" s m now r r' s' m']
  by (auto simp: interleaving_def intro: converse_rtranclp_into_rtranclp)

lemma run_is_interleaving:
  "run m env st = (Inr x, st') \<Longrightarrow>
     interleaving (pe_now env) (ps_redis st, [(ps_session st, m)]) (ps_redis st', [(ps_session st', Ret x)])"
proof (induction m arbitrary: st)
  case (Ret y)
  then show ?case by (simp add: interleaving_def)
next
  case (Fetch q k)
  from Fetch.IH [OF rangeI Fetch.prems [simplified]]
  show ?case by (auto simp: record_event_def intro: alone pstep.intros)
next
  case (Background q m)
  from Background.IH [OF Background.prems [simplified]]
  show ?case by (auto simp: record_event_def intro: alone pstep.intros)
next
  case (RedisSet key v ttl nx k)
  from RedisSet.IH [OF rangeI RedisSet.prems [simplified]]
  show ?case by (simp add: record_event_def) (erule alone [OF redis_set_step, rotated], simp)
next
  case (Prepare s hs k)
  from Prepare.IH [OF rangeI Prepare.prems [simplified]]
  show ?case by (auto simp: record_event_def intro: alone pstep.intros)
next
  case (Write c k)
  from Write.IH [OF rangeI Write.prems [simplified]]
  show ?case by (auto simp: record_event_def intro: alone pstep.intros)
next
  case (Upgrade u hs ps k)
  from Upgrade.IH [OF rangeI Upgrade.prems [simplified]]
  show ?case by (auto simp: record_event_def intro: alone pstep.intros)
next
  case (PutSession s m)
  from PutSession.IH [OF PutSession.prems [simplified]]
  show ?case by (auto intro: alone pstep.intros)
qed (fastforce intro: alone pstep.intros)+

end
