(* ===== verification/ProxySso.thy ===== *)
theory ProxySso
  imports ProxySharing
begin

text \<open>
  The redirects of the single sign-on flow of \<open>dataworkspace/proxy.py\<close>, and the replay protection of
  its Hawk authentication.
\<close>

section \<open>The state parameter\<close>

text \<open>The session key and the final URL, as the callback reads them from the state.\<close>

definition read_state :: "string \<Rightarrow> string \<times> string" where
  "read_state sso_state = partition (unquote sso_state) ''_''"

lemma state_round_trip:
  "CHR ''_'' \<notin> set session_key \<Longrightarrow> read_state (sso_state_of session_key url) = (session_key, url)"
  using find_sep_fresh [of "CHR ''_''" session_key "[]" url]
  by (simp add: read_state_def sso_state_of_def unquote_quote partition_def)

lemma get_redirect_uri_final_alt:
  "get_redirect_uri_final sso_state =
     pbind (get_session_value (fst (read_state sso_state))) (\<lambda>v. Ret (snd (read_state sso_state), v))"
  by (simp add: get_redirect_uri_final_def read_state_def split: prod.split)

section \<open>Where the callback redirects to\<close>

lemma run_redirect_from_sso:
  assumes "map_of (rq_query rq) ''code'' = Some code" and "map_of (rq_query rq) ''state'' = Some sso_state"
    and "read_state sso_state = (key, url)"
    and "session_lookup (pe_now env) st key = Inr v"
  shows "run (redirect_from_sso cf rq) env st =
    run (if Some url \<noteq> v then redirection_to_sso cf rq url
         else fetch (sso_token_request cf rq code) (\<lambda>sso_response.
           need ''ContentTypeError'' (hp_json sso_response) (\<lambda>sso_response_json.
             need ''KeyError'' (Option.bind (jget sso_response_json ''access_token'') jstr) (\<lambda>access_token.
               pbind (set_session_value session_token_key access_token) (\<lambda>_.
                 with_new_session_cookie cf rq
                   \<lparr>rs_status = 302, rs_headers = [(''Location'', url)], rs_streamed = False\<rparr>))))) env st"
  using assms by (simp add: redirect_from_sso_def get_redirect_uri_final_alt run_pbind
      run_get_session_value)

text \<open>The first header of a response with a cookie is the response's own.\<close>

definition location_is :: "string \<Rightarrow> response \<Rightarrow> bool" where
  "location_is url resp \<longleftrightarrow> hget (rs_headers resp) ''Location'' = Some url"

lemma always_cookie_location:
  "always anyhow (location_is url) anyhow (with_new_session_cookie cf rq
     \<lparr>rs_status = st, rs_headers = [(''Location'', url)], rs_streamed = b\<rparr>)"
proof -
  have loc: "location_is url \<lparr>rs_status = st, rs_headers = [(''Location'', url), c], rs_streamed = b\<rparr>" for c
    by (cases c) (simp add: location_is_def)
  have "always anyhow (location_is url) anyhow (pbind (store_values c d) (\<lambda>_. GmTime COOKIE_MAX_AGE
      (\<lambda>t. Ret \<lparr>rs_status = st, rs_headers = [(''Location'', url), h t], rs_streamed = b\<rparr>)))" for c d h
    by (rule always_pbind, rule always_mono [OF always_trivial]) (simp_all add: loc)
  then show ?thesis
    by (simp add: with_new_session_cookie_def with_session_cookie_def)
qed

definition to_sso :: "config \<Rightarrow> response \<Rightarrow> bool" where
  "to_sso cf resp \<longleftrightarrow> (case hget (rs_headers resp) ''Location'' of None \<Rightarrow> False
     | Some url \<Rightarrow> startswith url (sso_base_url cf @ ''o/authorize/?scope=read write&state=''))"

lemma always_redirection_location: "always anyhow (to_sso cf) anyhow (redirection_to_sso cf rq url)"
proof -
  have "always anyhow (to_sso cf) anyhow (with_new_session_cookie cf rq
       \<lparr>rs_status = 302, rs_headers = [(''Location'', sso_base_url cf @ ''o/authorize/'' @ ''?scope='' @
          ''read write'' @ ''&state='' @ rest)], rs_streamed = False\<rparr>)" for rest
    by (rule always_mono [OF always_cookie_location])
      (auto simp: location_is_def to_sso_def startswith_iff)
  then show ?thesis
    by (simp add: redirection_to_sso_def get_redirect_uri_authenticate_def
        set_redirect_uri_final_def set_session_value_def Let_def)
qed

text \<open>
  A response of the callback sends the browser to the SSO server, or to the URL that the session
  holds under the key in the state parameter.
\<close>

lemma callback_location:
  assumes "run (redirect_from_sso cf rq) env st = (Inr resp, st')"
  shows "to_sso cf resp \<or> (\<exists>sso_state url. map_of (rq_query rq) ''state'' = Some sso_state \<and>
    location_is url resp \<and>
    session_lookup (pe_now env) st (fst (read_state sso_state)) = Inr (Some url))"
proof -
  obtain code where code: "map_of (rq_query rq) ''code'' = Some code"
    using assms by (cases "map_of (rq_query rq) ''code''") (auto simp: redirect_from_sso_def)
  obtain sso_state where state: "map_of (rq_query rq) ''state'' = Some sso_state"
    using assms code by (cases "map_of (rq_query rq) ''state''") (auto simp: redirect_from_sso_def)
  obtain key url where ku: "read_state sso_state = (key, url)" by fastforce
  obtain v where v: "session_lookup (pe_now env) st key = Inr v"
    using assms code state ku by (cases "session_lookup (pe_now env) st key")
      (auto simp: redirect_from_sso_def get_redirect_uri_final_alt run_pbind run_get_session_value)
  note run = run_redirect_from_sso [OF code state ku v, of cf]
  show ?thesis
  proof (cases "Some url = v")
    case False
    with assms run have "run (redirection_to_sso cf rq url) env st = (Inr resp, st')" by simp
    with always_run [OF always_redirection_location [of cf rq url], of st env] show ?thesis
      by (simp add: ends_with_def)
  next
    case True
    let ?rest = "fetch (sso_token_request cf rq code) (\<lambda>sso_response.
           need ''ContentTypeError'' (hp_json sso_response) (\<lambda>sso_response_json.
             need ''KeyError'' (Option.bind (jget sso_response_json ''access_token'') jstr) (\<lambda>access_token.
               pbind (set_session_value session_token_key access_token) (\<lambda>_.
                 with_new_session_cookie cf rq
                   \<lparr>rs_status = 302, rs_headers = [(''Location'', url)], rs_streamed = False\<rparr>))))"
    have "always anyhow (location_is url) anyhow ?rest"
      by (intro always_fetch always_need) (simp_all add: set_session_value_def always_cookie_location)
    from always_run [OF this, of st env] assms run True have "location_is url resp"
      by (simp add: ends_with_def)
    with state ku v True show ?thesis by auto
  qed
qed

section \<open>A state that no session knows\<close>

lemma session_lookup_stored:
  assumes "ascii cookie" "cookie \<noteq> []" "ascii key" "ascii value"
    and "cookie_value (ps_session st) = Some cookie"
    and "ps_redis st (session_redis_key cookie key) = Some (value, now + REDIS_MAX_AGE)"
  shows "session_lookup now st key = Inr (Some value)"
  using assms by (simp add: session_lookup_def has_cookie_def the_cookie_def encode_ascii_eq
      redis_get_def REDIS_MAX_AGE_def)

text \<open>Sending the browser to the SSO server remembers the final URL in a new session.\<close>

lemma redirection_remembers:
  assumes "ascii url" "ascii (pe_token env (ps_trace st) 32)" "ascii (pe_token env (ps_trace st) 64)"
    and "pe_token env (ps_trace st) 64 \<noteq> []" "to_set (ps_session st) = []"
  shows "\<exists>resp st'. run (redirection_to_sso cf rq url) env st = (Inr resp, st') \<and>
    session_lookup (pe_now env) st' (pe_token env (ps_trace st) 32) = Inr (Some url)"
proof -
  let ?key = "pe_token env (ps_trace st) 32" and ?cookie = "pe_token env (ps_trace st) 64"
  let ?s = "\<lparr>cookie_value = Some ?cookie, to_set = [(?key, url)]\<rparr>"
  let ?st = "st\<lparr>ps_session := ?s\<rparr>"
  have dict: "dict_set ?key url [] = [(?key, url)]" by (simp add: dict_set_def)
  have s: "(ps_session st)\<lparr>to_set := [(?key, url)], cookie_value := Some ?cookie\<rparr> = ?s"
    "(ps_session st)\<lparr>cookie_value := Some ?cookie, to_set := [(?key, url)]\<rparr> = ?s"
    by (cases "ps_session st"; simp)+
  from run_store_values [of ?cookie "[(?key, url)]" env ?st] assms
  obtain st2 where st2: "run (store_values ?cookie [(?key, url)]) env ?st = (Inr (), st2)"
      "ps_redis st2 = stored (pe_now env) ?cookie [(?key, url)] (ps_redis st)" "ps_session st2 = ?s"
    by (cases "run (store_values ?cookie [(?key, url)]) env ?st") auto
  obtain resp where run: "run (redirection_to_sso cf rq url) env st = (Inr resp, st2)"
    using assms st2(1)
    by (simp add: redirection_to_sso_def get_redirect_uri_authenticate_def set_redirect_uri_final_def
        set_session_value_def with_new_session_cookie_def with_session_cookie_def Let_def dict s
        has_cookie_def the_cookie_def run_pbind del: store_values.simps append_Cons)
  have "session_lookup (pe_now env) st2 ?key = Inr (Some url)"
    using session_lookup_stored [of ?cookie ?key url st2 "pe_now env"] assms st2 by simp
  with run show ?thesis by blast
qed

lemma matching_callback:
  assumes "map_of (rq_query rq) ''code'' = Some code"
    and "map_of (rq_query rq) ''state'' = Some (sso_state_of key url)" and "CHR ''_'' \<notin> set key"
    and "session_lookup (pe_now env) st key = Inr (Some url)"
    and "run (redirect_from_sso cf rq) env st = (Inr resp, st')"
  shows "location_is url resp"
proof -
  let ?rest = "fetch (sso_token_request cf rq code) (\<lambda>sso_response.
           need ''ContentTypeError'' (hp_json sso_response) (\<lambda>sso_response_json.
             need ''KeyError'' (Option.bind (jget sso_response_json ''access_token'') jstr) (\<lambda>access_token.
               pbind (set_session_value session_token_key access_token) (\<lambda>_.
                 with_new_session_cookie cf rq
                   \<lparr>rs_status = 302, rs_headers = [(''Location'', url)], rs_streamed = False\<rparr>))))"
  have "always anyhow (location_is url) anyhow ?rest"
    by (intro always_fetch always_need) (simp_all add: set_session_value_def always_cookie_location)
  from always_run [OF this, of st env] assms(5)
    run_redirect_from_sso [OF assms(1,2) state_round_trip [OF assms(3)] assms(4), of cf]
  show ?thesis by (simp add: ends_with_def)
qed

text \<open>
  A callback whose state no session knows does not redirect to the URL of the state at once, but it
  makes that URL the final URL of the flow it starts, and the next callback redirects to it: the URL
  may be any, so a link to the callback is an open redirect behind a successful sign-on.
\<close>

lemma unknown_state_is_adopted:
  assumes "map_of (rq_query rq) ''code'' = Some code" and "map_of (rq_query rq) ''state'' = Some sso_state"
    and "read_state sso_state = (key, url)" and "session_lookup (pe_now env) st key = Inr None"
    and "ascii url" "ascii (pe_token env (ps_trace st) 32)" "ascii (pe_token env (ps_trace st) 64)"
    and "pe_token env (ps_trace st) 64 \<noteq> []" "to_set (ps_session st) = []"
  shows "\<exists>resp st'. run (redirect_from_sso cf rq) env st = (Inr resp, st') \<and> to_sso cf resp \<and>
    session_lookup (pe_now env) st' (pe_token env (ps_trace st) 32) = Inr (Some url)"
proof -
  obtain resp st' where r: "run (redirection_to_sso cf rq url) env st = (Inr resp, st')"
      "session_lookup (pe_now env) st' (pe_token env (ps_trace st) 32) = Inr (Some url)"
    using redirection_remembers [OF assms(5-9)] by blast
  with always_run [OF always_redirection_location [of cf rq url], of st env]
  have "to_sso cf resp" by (simp add: ends_with_def)
  moreover have "run (redirect_from_sso cf rq) env st = (Inr resp, st')"
    using run_redirect_from_sso [OF assms(1-4), of cf] r(1) by simp
  ultimately show ?thesis using r(2) by blast
qed

section \<open>Replayed Hawk requests\<close>

lemma run_seen_nonce: "run (seen_nonce nonce sender) env st =
    (Inr (redis_get (pe_now env) (ps_redis st) (nonce_key nonce sender) \<noteq> None),
     record_event (EvRedisSet (nonce_key nonce sender) ''1'' 60 True) (st\<lparr>ps_redis :=
       snd (redis_set (pe_now env) (ps_redis st) (nonce_key nonce sender) ''1'' 60 True)\<rparr>))"
  by (simp add: seen_nonce_def redis_set_def)

text \<open>
  A request whose nonce was recorded at time \<open>t\<close> is refused until \<open>t + 60\<close>, for as long as nobody
  else writes the nonce's key.
\<close>

lemma nonce_replay:
  assumes "run (seen_nonce nonce sender) env st = (Inr False, st')"
    and "ps_redis st'' (nonce_key nonce sender) = ps_redis st' (nonce_key nonce sender)"
    and "pe_now env \<le> pe_now env'" and "pe_now env' < pe_now env + 60"
  shows "fst (run (seen_nonce nonce sender) env' st'') = Inr True"
  using assms by (auto simp: run_seen_nonce redis_set_def redis_get_def record_event_def split: if_splits)

text \<open>
  The timestamp of a Hawk request may be 15 seconds off, so a request is acceptable for 30 seconds
  at most: the nonce outlives every moment at which the same request could be accepted again.
\<close>

lemma nonce_outlives_timestamp:
  assumes "run (seen_nonce nonce sender) env st = (Inr False, st')"
    and "ps_redis st'' (nonce_key nonce sender) = ps_redis st' (nonce_key nonce sender)"
    and "\<bar>int (pe_now env) - ts\<bar> \<le> 15" and "\<bar>int (pe_now env') - ts\<bar> \<le> 15"
    and "pe_now env \<le> pe_now env'"
  shows "fst (run (seen_nonce nonce sender) env' st'') = Inr True"
  by (rule nonce_replay [OF assms(1,2,5)]) (use assms(3,4) in linarith)

lemma nonce_keys_differ:
  assumes "CHR ''-'' \<notin> set sender" "CHR ''-'' \<notin> set sender'"
  shows "nonce_key n sender = nonce_key n' sender' \<longleftrightarrow> n = n' \<and> sender = sender'"
proof
  assume eq: "nonce_key n sender = nonce_key n' sender'"
  have "takeWhile (\<lambda>c. c \<noteq> CHR ''-'') (s @ ''-'' @ m) = s" if "CHR ''-'' \<notin> set s" for s m :: string
    using that by (induction s) auto
  with eq assms have "sender = sender'"
    by (metis (no_types, lifting) nonce_key_def same_append_eq)
  with eq show "n = n' \<and> sender = sender'" by (simp add: nonce_key_def)
qed simp

end
