(* ===== verification/ProxyProperties.thy ===== *)
theory ProxyProperties
  imports ProxySso
begin

text \<open>
  The properties of the proxy (\<open>dataworkspace/proxy.py\<close>, \<open>dataworkspace/proxy_session.py\<close>), each with
  a witness at a concrete configuration, request and environment.
\<close>

section \<open>A sample deployment\<close>

definition sample_libs :: libs where
  "sample_libs = \<lparr>y_host = (\<lambda>u. u), y_scheme = (\<lambda>u. ''https''), y_port = (\<lambda>u. ''8888''),
     y_with_path = (\<lambda>u p. u @ p), y_with_port = (\<lambda>u p. u @ '':'' @ str_int p), y_with_query = (\<lambda>u q. u),
     y_build = (\<lambda>host port scheme path. scheme @ ''://'' @ host @ path),
     y_with_scheme = (\<lambda>rq scheme. scheme @ ''://'' @ rq_host rq @ rq_path rq),
     y_ip_is_private = (\<lambda>ip. Some False), json_loads = (\<lambda>s. None), json_dumps = (\<lambda>v. [])\<rparr>"

definition sample_config :: config where
  "sample_config = \<lparr>is_local = False, cookie_name = ''__Secure-data_workspace_session'', port = 8000,
     admin_root = ''http://localhost:8002'', superset_root = ''http://localhost:8008'',
     hawk_senders = EList [], sso_base_url = ''https://sso.test/'', sso_host = ''sso.test'',
     sso_client_id = ''id'', sso_client_secret = ''secret'', redis_url = ''redis://'',
     root_domain = ''dw.test'', basic_auth_user = ''u'', basic_auth_password = ''p'',
     x_forwarded_for_trusted_hops = 1, application_ip_whitelist = EList [EStr ''10.0.0.0/8''],
     ga_tracking_id = None, mirror_remote_root = ''https://mirror.test'', root_domain_no_port = ''dw.test'',
     root_port = None, urls = sample_libs\<rparr>"

definition sample_request :: request where
  "sample_request = \<lparr>rq_method = ''GET'', rq_scheme = ''https'', rq_host = ''tool-a.dw.test'', rq_port = 443,
     rq_path = ''/'', rq_path_qs = ''/'', rq_query = [(''code'', ''c''), (''state'', ''k_https%3A//dw.test/x'')],
     rq_headers = [(''x-forwarded-for'', ''10.1.2.3'')], rq_cookies = [], rq_body = [], rq_at_eof = True\<rparr>"

text \<open>Servers that answer everything with the given reply, and a client that stays connected.\<close>

definition sample_env :: "http_reply option \<Rightarrow> nat \<Rightarrow> penv" where
  "sample_env reply now = \<lparr>pe_reply = (\<lambda>tr q. reply), pe_token = (\<lambda>tr n. ''t''), pe_gmtime = (\<lambda>n. ''''),
     pe_client_up = (\<lambda>tr. True), pe_ws_up = (\<lambda>tr. True), pe_now = now\<rparr>"

definition sample_state :: pstate where
  "sample_state = \<lparr>ps_redis = Map.empty, ps_session = \<lparr>cookie_value = Some ''t'', to_set = []\<rparr>, ps_trace = []\<rparr>"

lemmas sample_defs = sample_libs_def sample_config_def sample_request_def sample_env_def sample_state_def

section \<open>Who gets through\<close>



text \<open>
  C3: A request that needs single sign-on is handled, whatever the handler, with the profile headers
  of the user its session token stands for, after nothing but exchanges with the SSO server; without
  such a user the handler does not run at all.
\<close>

theorem single_sign_on_gate:
  assumes "is_sso_auth_required cf rq" and "rq_path rq \<noteq> redirect_from_sso_path"
  shows "gated cf env st handler rq (request_identity cf env st)
    (run (authenticate_by_staff_sso cf handler rq) env st)"
  by (rule sso_gate [OF assms])

text \<open>A session with a token, and an SSO server that knows the user.\<close>

definition sample_profile :: json where
  "sample_profile = JObj [(''email'', JStr ''a@b.c''), (''related_emails'', JList []),
     (''contact_email'', JStr []), (''user_id'', JStr ''7''), (''first_name'', JStr ''A''),
     (''last_name'', JStr ''B'')]"

definition sample_login :: pstate where
  "sample_login = sample_state\<lparr>ps_redis :=
     [session_redis_key ''t'' session_token_key \<mapsto> (''token'', 100)]\<rparr>"

definition sample_me :: http_reply where
  "sample_me = \<lparr>hp_status = 200, hp_headers = [], hp_json = Some sample_profile, hp_chunks = [],
     hp_complete = True\<rparr>"

theorem single_sign_on_gate_witness:
  "gated sample_config (sample_env (Some sample_me) 0) sample_login (\<lambda>sso rq. Ret unauthorized) sample_request
     (Some [(''sso-profile-email'', ''a@b.c''), (''sso-profile-contact-email'', []),
       (''sso-profile-related-emails'', []), (''sso-profile-user-id'', ''7''),
       (''sso-profile-first-name'', ''A''), (''sso-profile-last-name'', ''B'')])
     (run (authenticate_by_staff_sso sample_config (\<lambda>sso rq. Ret unauthorized) sample_request)
       (sample_env (Some sample_me) 0) sample_login)"
proof -
  have s: "is_sso_auth_required sample_config sample_request" by code_simp
  have p: "rq_path sample_request \<noteq> redirect_from_sso_path" by code_simp
  have i: "request_identity sample_config (sample_env (Some sample_me) 0) sample_login =
     Some [(''sso-profile-email'', ''a@b.c''), (''sso-profile-contact-email'', []),
       (''sso-profile-related-emails'', []), (''sso-profile-user-id'', ''7''),
       (''sso-profile-first-name'', ''A''), (''sso-profile-last-name'', ''B'')]" by code_simp
  from single_sign_on_gate [OF s p, of "sample_env (Some sample_me) 0" sample_login "\<lambda>sso rq. Ret unauthorized"]
  show ?thesis by (simp only: i)
qed

text \<open>
  C10: The whitelist admits exactly the addresses that agree with one of its networks on the network's
  prefix.
\<close>

theorem whitelist_is_prefix_match:
  assumes "networks xs = Some ns" and "ipv4_address peer_ip = Some ip"
  shows "ip_in_whitelist peer_ip xs =
    Some (\<exists>(net, n) \<in> set ns. drop_bit (32 - n) ip = drop_bit (32 - n) net)"
  by (rule whitelist_prefixes [OF assms])

lemma sample_address: "ipv4_address ''10.1.2.3'' = Some 167838211"
proof -
  have "map parse_octet (split ''10.1.2.3'' ''.'') = [Some 10, Some 1, Some 2, Some 3]" by code_simp
  then show ?thesis by (simp add: ipv4_address_def ip_of_octets_def)
qed
lemma sample_network: "ipv4_network ''10.0.0.0/8'' = Some (167772160,8)"
proof -
  have "map parse_octet (split ''10.0.0.0'' ''.'') = [Some 10, Some 0, Some 0, Some 0]" by code_simp
  then have a: "ipv4_address ''10.0.0.0'' = Some 167772160" by (simp add: ipv4_address_def ip_of_octets_def)
  have s: "split ''10.0.0.0/8'' ''/'' = [''10.0.0.0'', ''8'']" and m: "make_prefix ''8'' = Some 8" by code_simp+
  have n: "netmask 8 = 0xFF000000" by (simp add: netmask_def push_bit_eq_mult)
  show ?thesis unfolding ipv4_network_def s by (simp add: a m n)
qed

theorem whitelist_is_prefix_match_witness:
  "ip_in_whitelist ''10.1.2.3'' [EStr ''10.0.0.0/8''] =
    Some (\<exists>(net, n) \<in> set [(167772160, 8)]. drop_bit (32 - n) (167838211 :: ip4) = drop_bit (32 - n) net)"
proof -
  have "networks [EStr ''10.0.0.0/8''] = Some [(167772160, 8)]" by (simp add: sample_network)
  from whitelist_is_prefix_match [OF this sample_address] show ?thesis .
qed

section \<open>What a handled request does\<close>

text \<open>
  C7: Every request the proxy makes to the admin application for a page or API call of its own states
  the verified user and nobody else, whatever headers the client sent.
\<close>

theorem admin_requests_state_verified_user:
  assumes "\<not> is_app_requested cf rq" "\<not> is_mirror_requested cf rq" "\<not> is_superset_requested cf rq"
  shows "ends_with (verified_event sso) anyhow anyhow (ps_trace st) (run (handle cf sso rq) env st)"
  by (rule ends_with_always [OF handle_admin_request [OF assms]])

theorem admin_requests_state_verified_user_witness:
  "ends_with (verified_event [(''sso-profile-email'', ''a@b.c'')]) anyhow anyhow []
     (run (handle sample_config [(''sso-profile-email'', ''a@b.c'')]
       (sample_request\<lparr>rq_host := ''dw.test'', rq_headers := [(''SSO-profile-email'', ''admin@b.c'')]\<rparr>))
       (sample_env (Some sample_me) 0) sample_state)"
proof -
  let ?rq = "sample_request\<lparr>rq_host := ''dw.test'', rq_headers := [(''SSO-profile-email'', ''admin@b.c'')]\<rparr>"
  have a: "\<not> is_app_requested sample_config ?rq" and b: "\<not> is_mirror_requested sample_config ?rq"
    and c: "\<not> is_superset_requested sample_config ?rq" by code_simp+
  have tr: "ps_trace sample_state = []" by code_simp
  show ?thesis
    using admin_requests_state_verified_user [OF a b c, of "[(''sso-profile-email'', ''a@b.c'')]" sample_state]
    by (simp only: tr)
qed



text \<open>
  C4: The proxy deletes an application instance exactly when the admin application reports it in a state
  that is neither spawning nor running, creates one exactly when there is none, does either at most
  once per request and never when the request forbids modifications; a request that deletes ends in
  an exception.
\<close>

theorem application_changes_are_justified:
  "case run (handle_application cf sso is_websocket rq method path query) env st of (res, st') \<Rightarrow>
     \<exists>es. ps_trace st' = ps_trace st @ es \<and> decided cf sso rq (reported cf sso rq env st) es res"
  using handle_application_decides by (auto split: prod.split)

text \<open>
  No exception meant for the user leaves the proxy unless the request is a web socket: it has become
  the error page of the admin application.
\<close>

theorem user_exceptions_become_pages:
  assumes "\<not> is_websocket_request rq"
  shows "case fst (run (handle cf sso rq) env st) of Inl e \<Rightarrow> not_for_user e | Inr resp \<Rightarrow> True"
  using always_run [OF handle_failures [OF assms, of cf sso], of st env]
  by (auto simp: ends_with_def split: sum.splits)

theorem user_exceptions_become_pages_witness:
  "case fst (run (handle sample_config [] sample_request)
      (sample_env (Some (sample_me\<lparr>hp_status := 500\<rparr>)) 0) sample_state) of
    Inl e \<Rightarrow> not_for_user e | Inr resp \<Rightarrow> True"
proof -
  have "\<not> is_websocket_request sample_request" by code_simp
  from user_exceptions_become_pages [OF this] show ?thesis .
qed

text \<open>
  The host that the wrapper page gives to a tool's frame, made of the public host and the port, is
  parsed back into that host and that port.
\<close>

theorem direct_host_round_trip:
  assumes "CHR ''.'' \<notin> set public_host" "1 \<le> p" "p \<le> 65535"
  shows "public_host_and_port cf (public_host @ ''--'' @ str_nat p @ ''.'' @ root_domain_no_port cf) =
    (public_host, Some (int p))"
  by (rule port_override_round_trip [OF assms])

theorem direct_host_round_trip_witness:
  "public_host_and_port sample_config (''rstudio-5'' @ ''--'' @ str_nat 8888 @ ''.'' @
     root_domain_no_port sample_config) = (''rstudio-5'', Some (int 8888))"
  by (rule direct_host_round_trip) (simp_all)

section \<open>Sessions\<close>






text \<open>
  When the values of two concurrent responses reach Redis in any interleaving, every key ends up
  with a value that one of them stored, with the only value stored when one of them stored it, and
  unchanged when neither did.
\<close>

theorem interleaved_session_values:
  assumes "distinct (map fst d1)" "distinct (map fst d2)" "d \<in> shuffles d1 d2"
  shows "session_get now cookie (stored now cookie d r) key \<in> (case (map_of d1 key, map_of d2 key) of
      (None, None) \<Rightarrow> {session_get now cookie r key}
    | (Some v, None) \<Rightarrow> {Some v} | (None, Some w) \<Rightarrow> {Some w} | (Some v, Some w) \<Rightarrow> {Some v, Some w})"
  unfolding stored_put_all by (rule session_store.interleaved_writers [OF assms])

theorem interleaved_session_values_witness:
  "session_get 0 ''t'' (stored 0 ''t'' [(''a'', ''1''), (''c'', ''3''), (''b'', ''2'')] Map.empty) ''c'' \<in> {Some ''3''}"
proof -
  have "[(''a'', ''1''), (''c'', ''3''), (''b'', ''2'')] \<in>
      shuffles [(''a'', ''1''), (''b'', ''2'')] [(''c'', ''3'')]"
    by (simp add: Cons_in_shuffles_iff)
  from interleaved_session_values [OF _ _ this, of 0 "''t''" Map.empty "''c''"] show ?thesis by simp
qed

section \<open>Sign-on and replay\<close>

text \<open>
  C8: The SSO callback redirects the browser to the SSO server, or to the URL that this browser's session
  stored under the key in the state parameter.
\<close>

theorem callback_redirects_to_session_url:
  assumes "run (redirect_from_sso cf rq) env st = (Inr resp, st')"
  shows "to_sso cf resp \<or> (\<exists>sso_state url. map_of (rq_query rq) ''state'' = Some sso_state \<and>
    location_is url resp \<and>
    session_lookup (pe_now env) st (fst (read_state sso_state)) = Inr (Some url))"
  by (rule callback_location [OF assms])

theorem callback_redirects_to_session_url_witness:
  "\<exists>resp st'. run (redirect_from_sso sample_config sample_request) (sample_env None 0) sample_state = (Inr resp, st') \<and>
    (to_sso sample_config resp \<or> (\<exists>sso_state url. map_of (rq_query sample_request) ''state'' = Some sso_state \<and>
      location_is url resp \<and> session_lookup 0 sample_state (fst (read_state sso_state)) = Inr (Some url)))"
proof -
  have code: "map_of (rq_query sample_request) ''code'' = Some ''c''"
    and state: "map_of (rq_query sample_request) ''state'' = Some ''k_https%3A//dw.test/x''" by code_simp+
  have read: "read_state ''k_https%3A//dw.test/x'' = (''k'', ''https://dw.test/x'')" by code_simp
  have none: "session_lookup (pe_now (sample_env None 0)) sample_state ''k'' = Inr None"
    by (simp add: session_lookup_def sample_state_def redis_get_def encode_ascii_eq has_cookie_def
        the_cookie_def ascii_Cons)
  obtain resp st' where r: "run (redirect_from_sso sample_config sample_request) (sample_env None 0) sample_state = (Inr resp, st')"
    using unknown_state_is_adopted [OF code state read none, of sample_config]
    by (auto simp: ascii_def sample_env_def sample_state_def)
  from callback_redirects_to_session_url [OF r] r show ?thesis by (auto simp: sample_env_def)
qed

text \<open>
  The callback reads from the state parameter the session key and the URL it was built from.
\<close>

theorem sso_state_round_trip:
  assumes "CHR ''_'' \<notin> set session_key"
  shows "read_state (sso_state_of session_key url) = (session_key, url)"
  by (rule state_round_trip [OF assms])

theorem sso_state_round_trip_witness:
  "read_state (sso_state_of ''0a1b'' ''https://dw.test/a_b?c=%20'') = (''0a1b'', ''https://dw.test/a_b?c=%20'')"
  by (rule sso_state_round_trip) simp

text \<open>
  C9: A Hawk request whose timestamp the library tolerates is accepted at most once: for as long as the
  same request would be in time, its nonce is remembered.
\<close>

theorem hawk_requests_are_not_replayed:
  assumes "run (seen_nonce nonce sender) env st = (Inr False, st')"
    and "ps_redis st'' (nonce_key nonce sender) = ps_redis st' (nonce_key nonce sender)"
    and "\<bar>int (pe_now env) - ts\<bar> \<le> 15" and "\<bar>int (pe_now env') - ts\<bar> \<le> 15"
    and "pe_now env \<le> pe_now env'"
  shows "fst (run (seen_nonce nonce sender) env' st'') = Inr True"
  by (rule nonce_outlives_timestamp [OF assms])

theorem hawk_requests_are_not_replayed_witness:
  "\<exists>st'. run (seen_nonce ''n'' ''s'') (sample_env None 100) sample_state = (Inr False, st') \<and>
     fst (run (seen_nonce ''n'' ''s'') (sample_env None 130) st') = Inr True"
proof -
  obtain st' where st': "run (seen_nonce ''n'' ''s'') (sample_env None 100) sample_state = (Inr False, st')"
    by (simp add: run_seen_nonce sample_state_def redis_get_def)
  have "fst (run (seen_nonce ''n'' ''s'') (sample_env None 130) st') = Inr True"
    by (rule hawk_requests_are_not_replayed [OF st' refl, of 115]) (simp_all add: sample_env_def)
  with st' show ?thesis by blast
qed

end
