(* ===== verification/Effects.thy ===== *)
theory Effects
  imports Prelude
begin

text \<open>
  Programs that call services of other parties: AWS, GitLab, PostgreSQL, the database of the admin
  application. A program of type \<open>('q, 'r, 'a) prog\<close> makes calls of type \<open>'q\<close>, each of which answers
  with a reply of type \<open>'r\<close> or an exception, and ends with a result or an exception. An exception is
  the name of its class. The history of a run is the list of its calls and their answers.
\<close>

type_synonym exc = string

datatype ('q, 'r, 'a) prog =
    Done 'a
  | Fail exc
  | Call 'q "exc + 'r \<Rightarrow> ('q, 'r, 'a) prog"

primrec seq :: "('q, 'r, 'a) prog \<Rightarrow> ('a \<Rightarrow> ('q, 'r, 'b) prog) \<Rightarrow> ('q, 'r, 'b) prog" where
  "seq (Done x) f = f x"
| "seq (Fail e) f = Fail e"
| "seq (Call q k) f = Call q (\<lambda>r. seq (k r) f)"

text \<open>\<open>try: m except e: h e\<close>, for the exceptions that satisfy the test.\<close>

primrec handling :: "('q, 'r, 'a) prog \<Rightarrow> (exc \<Rightarrow> bool) \<Rightarrow> (exc \<Rightarrow> ('q, 'r, 'a) prog) \<Rightarrow> ('q, 'r, 'a) prog" where
  "handling (Done x) c h = Done x"
| "handling (Fail e) c h = (if c e then h e else Fail e)"
| "handling (Call q k) c h = Call q (\<lambda>r. handling (k r) c h)"

text \<open>A call whose exceptions are passed on.\<close>

definition ask :: "'q \<Rightarrow> ('r \<Rightarrow> ('q, 'r, 'a) prog) \<Rightarrow> ('q, 'r, 'a) prog" where
  "ask q f = Call q (\<lambda>r. case r of Inl e \<Rightarrow> Fail e | Inr v \<Rightarrow> f v)"

abbreviation perform :: "'q \<Rightarrow> ('q, 'r, 'r) prog" where
  "perform q \<equiv> ask q Done"

text \<open>\<open>try: m finally: c\<close>, which a \<open>with\<close> block around \<open>m\<close> amounts to.\<close>

primrec ensuring :: "('q, 'r, 'a) prog \<Rightarrow> ('q, 'r, unit) prog \<Rightarrow> ('q, 'r, 'a) prog" where
  "ensuring (Done x) c = seq c (\<lambda>_. Done x)"
| "ensuring (Fail e) c = seq c (\<lambda>_. Fail e)"
| "ensuring (Call q k) c = Call q (\<lambda>r. ensuring (k r) c)"

text \<open>A value that the sources index without a guard.\<close>

definition want :: "exc \<Rightarrow> 'b option \<Rightarrow> ('b \<Rightarrow> ('q, 'r, 'a) prog) \<Rightarrow> ('q, 'r, 'a) prog" where
  "want e x f = (case x of None \<Rightarrow> Fail e | Some v \<Rightarrow> f v)"

lemma want_simps [simp]: "want e None f = Fail e" "want e (Some v) f = f v"
  by (simp_all add: want_def)

primrec for_each :: "('x \<Rightarrow> ('q, 'r, unit) prog) \<Rightarrow> 'x list \<Rightarrow> ('q, 'r, unit) prog" where
  "for_each f [] = Done ()"
| "for_each f (x # xs) = seq (f x) (\<lambda>_. for_each f xs)"

primrec collect :: "('x \<Rightarrow> ('q, 'r, 'y) prog) \<Rightarrow> 'x list \<Rightarrow> ('q, 'r, 'y list) prog" where
  "collect f [] = Done []"
| "collect f (x # xs) = seq (f x) (\<lambda>y. seq (collect f xs) (\<lambda>ys. Done (y # ys)))"

text \<open>
  \<open>for i in range(n)\<close> around \<open>try: m except c: if i == n - 1: raise\<close>, left when \<open>m\<close> succeeds. The pauses
  between the attempts are left out.
\<close>

fun attempts :: "nat \<Rightarrow> (exc \<Rightarrow> bool) \<Rightarrow> ('q, 'r, 'a) prog \<Rightarrow> ('q, 'r, 'a) prog" where
  "attempts 0 c m = Fail ''UnboundLocalError''"
| "attempts (Suc n) c m = handling m c (\<lambda>e. if n = 0 then Fail e else attempts n c m)"

section \<open>Runs\<close>

type_synonym ('q, 'r) history = "('q \<times> (exc + 'r)) list"
type_synonym ('q, 'r) services = "('q, 'r) history \<Rightarrow> 'q \<Rightarrow> exc + 'r"

primrec exec :: "('q, 'r, 'a) prog \<Rightarrow> ('q, 'r) services \<Rightarrow> ('q, 'r) history \<Rightarrow> (exc + 'a) \<times> ('q, 'r) history" where
  "exec (Done x) env h = (Inr x, h)"
| "exec (Fail e) env h = (Inl e, h)"
| "exec (Call q k) env h = exec (k (env h q)) env (h @ [(q, env h q)])"

lemma exec_seq: "exec (seq m f) env h =
    (case exec m env h of (Inl e, h') \<Rightarrow> (Inl e, h') | (Inr x, h') \<Rightarrow> exec (f x) env h')"
  by (induction m arbitrary: h) auto

lemma exec_handling: "exec (handling m c g) env h =
    (case exec m env h of (Inl e, h') \<Rightarrow> if c e then exec (g e) env h' else (Inl e, h') | (Inr x, h') \<Rightarrow> (Inr x, h'))"
  by (induction m arbitrary: h) auto

lemma exec_ask: "exec (ask q f) env h =
    (case env h q of Inl e \<Rightarrow> (Inl e, h @ [(q, Inl e)]) | Inr v \<Rightarrow> exec (f v) env (h @ [(q, Inr v)]))"
  by (simp add: ask_def split: sum.split)

lemma exec_ensuring: "exec (ensuring m c) env h =
    (case exec m env h of (r, h') \<Rightarrow> exec (seq c (\<lambda>_. case r of Inl e \<Rightarrow> Fail e | Inr x \<Rightarrow> Done x)) env h')"
  by (induction m arbitrary: h) auto

lemma exec_want: "exec (want e x f) env h = (case x of None \<Rightarrow> (Inl e, h) | Some v \<Rightarrow> exec (f v) env h)"
  by (cases x) simp_all

lemma exec_extends: "exec m env h = (r, h') \<Longrightarrow> \<exists>es. h' = h @ es"
proof (induction m arbitrary: h)
  case (Call q k)
  from Call.IH [OF rangeI] Call.prems obtain es where "h' = (h @ [(q, env h q)]) @ es" by fastforce
  then show ?case by simp
qed auto

text \<open>Runs that end with a result.\<close>

definition runs :: "('q, 'r) services \<Rightarrow> ('q, 'r, 'a) prog \<Rightarrow> ('q, 'r) history \<Rightarrow> 'a \<Rightarrow> ('q, 'r) history \<Rightarrow> bool" where
  "runs env m h x h' \<longleftrightarrow> exec m env h = (Inr x, h')"

lemma runs_Done: "runs env (Done y) h x h' \<longleftrightarrow> x = y \<and> h' = h"
  by (auto simp: runs_def)

lemma runs_Fail: "\<not> runs env (Fail e) h x h'"
  by (simp add: runs_def)

lemma runs_seq: "runs env (seq m f) h x h' \<longleftrightarrow> (\<exists>y h1. runs env m h y h1 \<and> runs env (f y) h1 x h')"
  by (auto simp: runs_def exec_seq split: prod.split sum.split)

lemma runs_ask: "runs env (ask q f) h x h' \<longleftrightarrow> (\<exists>v. env h q = Inr v \<and> runs env (f v) (h @ [(q, Inr v)]) x h')"
  by (auto simp: runs_def exec_ask split: sum.split)

lemma runs_want: "runs env (want e y f) h x h' \<longleftrightarrow> (\<exists>v. y = Some v \<and> runs env (f v) h x h')"
  by (auto simp: runs_def exec_want split: option.split)

lemma runs_ensuring: "runs env (ensuring m c) h x h' \<longleftrightarrow> (\<exists>h1. runs env m h x h1 \<and> runs env c h1 () h')"
  by (auto simp: runs_def exec_ensuring exec_seq split: prod.split sum.split)

lemmas runs_simps = runs_Done runs_Fail runs_seq runs_ask runs_want runs_ensuring

section \<open>Specifications\<close>

text \<open>
  \<open>spec P m Q\<close>: from a history that satisfies \<open>P\<close>, whatever the services answer, the program ends
  with a result and a history that satisfy \<open>Q\<close>.
\<close>

definition spec :: "(('q, 'r) history \<Rightarrow> bool) \<Rightarrow> ('q, 'r, 'a) prog \<Rightarrow>
    (exc + 'a \<Rightarrow> ('q, 'r) history \<Rightarrow> bool) \<Rightarrow> bool" where
  "spec P m Q \<longleftrightarrow> (\<forall>env h r h'. P h \<longrightarrow> exec m env h = (r, h') \<longrightarrow> Q r h')"

lemma spec_exec: "spec P m Q \<Longrightarrow> P h \<Longrightarrow> exec m env h = (r, h') \<Longrightarrow> Q r h'"
  unfolding spec_def by blast

lemma specI: "(\<And>env h r h'. P h \<Longrightarrow> exec m env h = (r, h') \<Longrightarrow> Q r h') \<Longrightarrow> spec P m Q"
  unfolding spec_def by blast

lemma spec_conseq: "spec P m Q \<Longrightarrow> (\<And>h. P' h \<Longrightarrow> P h) \<Longrightarrow> (\<And>r h. Q r h \<Longrightarrow> Q' r h) \<Longrightarrow> spec P' m Q'"
  unfolding spec_def by blast

lemma spec_Done: "(\<And>h. P h \<Longrightarrow> Q (Inr x) h) \<Longrightarrow> spec P (Done x) Q"
  by (simp add: spec_def)

lemma spec_Fail: "(\<And>h. P h \<Longrightarrow> Q (Inl e) h) \<Longrightarrow> spec P (Fail e) Q"
  by (simp add: spec_def)

lemma spec_seq:
  assumes m: "spec P m R" and f: "\<And>x. spec (R (Inr x)) (f x) Q" and e: "\<And>e h. R (Inl e) h \<Longrightarrow> Q (Inl e) h"
  shows "spec P (seq m f) Q"
proof (rule specI)
  fix env h r h'
  assume P: "P h" and ex: "exec (seq m f) env h = (r, h')"
  obtain r1 h1 where r1: "exec m env h = (r1, h1)" by fastforce
  from spec_exec [OF m P r1] have R: "R r1 h1" .
  show "Q r h'"
  proof (cases r1)
    case (Inl a)
    with ex r1 R e show ?thesis by (auto simp: exec_seq)
  next
    case (Inr x)
    with ex r1 have "exec (f x) env h1 = (r, h')" by (simp add: exec_seq)
    with R Inr spec_exec [OF f] show ?thesis by simp
  qed
qed

lemma spec_handling:
  assumes m: "spec P m R" and g: "\<And>e. c e \<Longrightarrow> spec (R (Inl e)) (g e) Q"
    and e: "\<And>e h. \<not> c e \<Longrightarrow> R (Inl e) h \<Longrightarrow> Q (Inl e) h" and x: "\<And>x h. R (Inr x) h \<Longrightarrow> Q (Inr x) h"
  shows "spec P (handling m c g) Q"
proof (rule specI)
  fix env h r h'
  assume P: "P h" and ex: "exec (handling m c g) env h = (r, h')"
  obtain r1 h1 where r1: "exec m env h = (r1, h1)" by fastforce
  from spec_exec [OF m P r1] have R: "R r1 h1" .
  show "Q r h'"
  proof (cases r1)
    case (Inl a)
    show ?thesis
    proof (cases "c a")
      case True
      with ex r1 Inl have "exec (g a) env h1 = (r, h')" by (simp add: exec_handling)
      with R Inl spec_exec [OF g [OF True]] show ?thesis by simp
    next
      case False
      with ex r1 Inl R e show ?thesis by (auto simp: exec_handling)
    qed
  next
    case (Inr y)
    with ex r1 R x show ?thesis by (auto simp: exec_handling)
  qed
qed

lemma spec_ask:
  assumes v: "\<And>v. spec (\<lambda>h'. \<exists>h. P h \<and> h' = h @ [(q, Inr v)]) (f v) Q"
    and e: "\<And>e h. P h \<Longrightarrow> Q (Inl e) (h @ [(q, Inl e)])"
  shows "spec P (ask q f) Q"
proof (rule specI)
  fix env h r h'
  assume P: "P h" and ex: "exec (ask q f) env h = (r, h')"
  show "Q r h'"
  proof (cases "env h q")
    case (Inl a)
    with ex P e show ?thesis by (auto simp: exec_ask)
  next
    case (Inr y)
    with ex have "exec (f y) env (h @ [(q, Inr y)]) = (r, h')" by (simp add: exec_ask)
    with P spec_exec [OF v] show ?thesis by blast
  qed
qed

lemma spec_want: "(\<And>h. x = None \<Longrightarrow> P h \<Longrightarrow> Q (Inl e) h) \<Longrightarrow> (\<And>v. x = Some v \<Longrightarrow> spec P (f v) Q) \<Longrightarrow> spec P (want e x f) Q"
  by (cases x) (auto simp: spec_Fail)

text \<open>An invariant of every call of a loop.\<close>

lemma spec_for_each:
  assumes "\<And>x. x \<in> set xs \<Longrightarrow> spec P (f x) (\<lambda>r h. P h)"
  shows "spec P (for_each f xs) (\<lambda>r h. P h)"
  using assms
proof (induction xs)
  case Nil
  then show ?case by (simp add: spec_Done)
next
  case (Cons x xs)
  have "spec P (for_each f xs) (\<lambda>r h. P h)" by (rule Cons.IH) (use Cons.prems in simp)
  with Cons.prems [of x] show ?case by (auto intro!: spec_seq)
qed

lemma spec_attempts:
  assumes "spec P m (\<lambda>r h. case r of Inl e \<Rightarrow> if c e then P h \<and> Q (Inl e) h else Q (Inl e) h | Inr x \<Rightarrow> Q (Inr x) h)"
    and "0 < n"
  shows "spec P (attempts n c m) Q"
  using assms(2)
proof (induction n)
  case (Suc n)
  show ?case
    unfolding attempts.simps
    by (rule spec_handling [OF assms(1)]) (use Suc in \<open>auto intro: spec_Fail spec_conseq\<close>)
qed simp

text \<open>Invariants of the history.\<close>

definition keeps :: "(('q, 'r) history \<Rightarrow> bool) \<Rightarrow> ('q, 'r, 'a) prog \<Rightarrow> bool" where
  "keeps I m \<longleftrightarrow> spec I m (\<lambda>r. I)"

lemma keeps_Done [intro]: "keeps I (Done x)"
  by (simp add: keeps_def spec_Done)

lemma keeps_Fail [intro]: "keeps I (Fail e)"
  by (simp add: keeps_def spec_Fail)

lemma keeps_seq: "keeps I m \<Longrightarrow> (\<And>x. keeps I (f x)) \<Longrightarrow> keeps I (seq m f)"
  unfolding keeps_def by (rule spec_seq) auto

lemma keeps_want: "(\<And>v. x = Some v \<Longrightarrow> keeps I (f v)) \<Longrightarrow> keeps I (want e x f)"
  by (cases x) (auto intro: keeps_Fail)

lemma keeps_handling: "keeps I m \<Longrightarrow> (\<And>e. keeps I (g e)) \<Longrightarrow> keeps I (handling m c g)"
  unfolding keeps_def by (rule spec_handling) auto

lemma keeps_ask:
  assumes "\<And>h a. I h \<Longrightarrow> I (h @ [(q, a)])" "\<And>v. spec (\<lambda>h. I h \<and> (q, Inr v) \<in> set h) (f v) (\<lambda>r. I)"
  shows "keeps I (ask q f)"
  unfolding keeps_def
proof (rule spec_ask)
  show "spec (\<lambda>h'. \<exists>h. I h \<and> h' = h @ [(q, Inr v)]) (f v) (\<lambda>r. I)" for v
    by (rule spec_conseq [OF assms(2)]) (use assms(1) in auto)
qed (rule assms(1))

lemma keeps_for_each: "(\<And>x. x \<in> set xs \<Longrightarrow> keeps I (f x)) \<Longrightarrow> keeps I (for_each f xs)"
  by (induction xs) (auto intro: keeps_seq)

lemma keeps_collect: "(\<And>x. x \<in> set xs \<Longrightarrow> keeps I (f x)) \<Longrightarrow> keeps I (collect f xs)"
  by (induction xs) (auto intro!: keeps_seq)

lemma spec_ensuring:
  assumes "spec P m (\<lambda>r. R)" "spec R c (\<lambda>r. Q)"
  shows "spec P (ensuring m c) (\<lambda>r. Q)"
proof (rule specI)
  fix env h r h'
  assume P: "P h" and x: "exec (ensuring m c) env h = (r, h')"
  obtain r1 h1 where x1: "exec m env h = (r1, h1)" by fastforce
  obtain r2 h2 where x2: "exec c env h1 = (r2, h2)" by fastforce
  have "h' = h2" using x x1 x2 by (auto simp: exec_ensuring exec_seq split: sum.splits)
  with spec_exec [OF assms(2) spec_exec [OF assms(1) P x1] x2] show "Q h'" by simp
qed

text \<open>What is called at all: a condition on the calls, for every behaviour of the services.\<close>

primrec calls_only :: "('q \<Rightarrow> bool) \<Rightarrow> ('q, 'r, 'a) prog \<Rightarrow> bool" where
  "calls_only P (Done x) = True"
| "calls_only P (Fail e) = True"
| "calls_only P (Call q k) = (P q \<and> (\<forall>r. calls_only P (k r)))"

lemma calls_only_seq: "calls_only P m \<Longrightarrow> (\<And>x. calls_only P (f x)) \<Longrightarrow> calls_only P (seq m f)"
  by (induction m) auto

lemma calls_only_handling: "calls_only P m \<Longrightarrow> (\<And>e. calls_only P (g e)) \<Longrightarrow> calls_only P (handling m c g)"
  by (induction m) auto

lemma calls_only_ensuring: "calls_only P m \<Longrightarrow> calls_only P c \<Longrightarrow> calls_only P (ensuring m c)"
  by (induction m) (auto intro: calls_only_seq)

lemma calls_only_ask: "P q \<Longrightarrow> (\<And>v. calls_only P (f v)) \<Longrightarrow> calls_only P (ask q f)"
  by (auto simp: ask_def split: sum.split)

lemma calls_only_want: "(\<And>v. x = Some v \<Longrightarrow> calls_only P (f v)) \<Longrightarrow> calls_only P (want e x f)"
  by (cases x) auto

lemma calls_only_for_each: "(\<And>x. x \<in> set xs \<Longrightarrow> calls_only P (f x)) \<Longrightarrow> calls_only P (for_each f xs)"
  by (induction xs) (auto intro: calls_only_seq)

lemma calls_only_attempts: "calls_only P m \<Longrightarrow> calls_only P (attempts n c m)"
  by (induction n) (auto intro: calls_only_handling)

lemma calls_only_exec: "calls_only P m \<Longrightarrow> exec m env h = (r, h') \<Longrightarrow>
    \<exists>es. h' = h @ es \<and> (\<forall>(q, a) \<in> set es. P q)"
proof (induction m arbitrary: h)
  case (Call q k)
  from Call.IH [OF rangeI, of "env h q" "h @ [(q, env h q)]"] Call.prems
  obtain es where "h' = (h @ [(q, env h q)]) @ es" "\<forall>(q, a) \<in> set es. P q" by auto
  with Call.prems show ?case by (intro exI [of _ "(q, env h q) # es"]) auto
qed auto

lemma keeps_calls:
  assumes "calls_only P m" "\<And>h q a. I h \<Longrightarrow> P q \<Longrightarrow> I (h @ [(q, a)])"
  shows "keeps I m"
  using assms(1)
proof (induction m)
  case (Call q k)
  have "I h'" if "I h" "exec (Call q k) env h = (r, h')" for env h r h'
  proof -
    have "keeps I (k (env h q))" using Call by auto
    moreover have "I (h @ [(q, env h q)])" using assms(2) that(1) Call.prems by simp
    ultimately show ?thesis using that(2) unfolding keeps_def by (auto elim: spec_exec)
  qed
  then show ?case unfolding keeps_def by (blast intro: specI)
qed auto

lemma keeps_ensuring: "keeps I m \<Longrightarrow> keeps I c \<Longrightarrow> keeps I (ensuring m c)"
  unfolding keeps_def by (rule spec_ensuring)

text \<open>
  Loops that follow what a service sends have fuel, and fail with an exception \<open>e\<close> of their own when it runs
  out. A program agrees with another one unless it fails with \<open>e\<close>.
\<close>

definition agrees_unless :: "exc \<Rightarrow> ('q, 'r, 'a) prog \<Rightarrow> ('q, 'r, 'a) prog \<Rightarrow> bool" where
  "agrees_unless e m m' \<longleftrightarrow> (\<forall>env h r h'. exec m env h = (r, h') \<longrightarrow> r \<noteq> Inl e \<longrightarrow> exec m' env h = (r, h'))"

lemma agrees_refl: "agrees_unless e m m"
  by (simp add: agrees_unless_def)

lemma agrees_Fail: "agrees_unless e (Fail e) m"
  by (simp add: agrees_unless_def)

lemma agrees_ask: "(\<And>v. agrees_unless e (f v) (g v)) \<Longrightarrow> agrees_unless e (ask q f) (ask q g)"
  by (auto simp: agrees_unless_def exec_ask split: sum.split)

lemma agrees_want: "(\<And>v. agrees_unless e (f v) (g v)) \<Longrightarrow> agrees_unless e (want e' x f) (want e' x g)"
  by (cases x) (auto simp: agrees_refl)

lemma agrees_if: "agrees_unless e m m' \<Longrightarrow> agrees_unless e n n' \<Longrightarrow>
    agrees_unless e (if c then m else n) (if c then m' else n')"
  by simp

lemma agrees_seq:
  assumes "\<And>x. agrees_unless e (f x) (g x)"
  shows "agrees_unless e (seq m f) (seq m g)"
  unfolding agrees_unless_def
proof (intro allI impI)
  fix env h r h'
  assume x: "exec (seq m f) env h = (r, h')" and r: "r \<noteq> Inl e"
  obtain r1 h1 where m: "exec m env h = (r1, h1)" by fastforce
  show "exec (seq m g) env h = (r, h')"
  proof (cases r1)
    case (Inr y)
    with x m have "exec (f y) env h1 = (r, h')" by (simp add: exec_seq)
    with assms r have "exec (g y) env h1 = (r, h')" unfolding agrees_unless_def by blast
    with m Inr show ?thesis by (simp add: exec_seq)
  qed (use x m in \<open>simp add: exec_seq\<close>)
qed

lemmas agrees_intros = agrees_ask agrees_want agrees_seq agrees_if agrees_refl

text \<open>How many calls at most, for every behaviour of the services.\<close>

primrec calls_at_most :: "('q, 'r, 'a) prog \<Rightarrow> nat \<Rightarrow> bool" where
  "calls_at_most (Done x) n = True"
| "calls_at_most (Fail e) n = True"
| "calls_at_most (Call q k) n = (0 < n \<and> (\<forall>r. calls_at_most (k r) (n - 1)))"

lemma calls_at_most_mono: "calls_at_most m n \<Longrightarrow> n \<le> n' \<Longrightarrow> calls_at_most m n'"
proof (induction m arbitrary: n n')
  case (Call q k)
  have "calls_at_most (k r) (n' - 1)" for r
    by (rule Call.IH [of "k r" "n - 1"]) (use Call.prems in \<open>simp_all add: diff_le_mono\<close>)
  with Call.prems show ?case by simp
qed simp_all

lemma calls_at_most_seq:
  "calls_at_most m a \<Longrightarrow> (\<And>x. calls_at_most (f x) b) \<Longrightarrow> calls_at_most (seq m f) (a + b)"
proof (induction m arbitrary: a)
  case (Done x)
  then show ?case by (auto intro: calls_at_most_mono [of "f x" b])
next
  case (Call q k)
  have "calls_at_most (seq (k r) f) (a - 1 + b)" for r
    by (rule Call.IH) (use Call.prems in auto)
  with Call.prems show ?case by auto
qed simp

lemma calls_at_most_handling:
  "calls_at_most m a \<Longrightarrow> (\<And>e. calls_at_most (g e) b) \<Longrightarrow> calls_at_most (handling m c g) (a + b)"
proof (induction m arbitrary: a)
  case (Fail e)
  then show ?case by (auto intro: calls_at_most_mono [of "g e" b])
next
  case (Call q k)
  have "calls_at_most (handling (k r) c g) (a - 1 + b)" for r
    by (rule Call.IH) (use Call.prems in auto)
  with Call.prems show ?case by auto
qed simp

lemma calls_at_most_ask: "(\<And>v. calls_at_most (f v) n) \<Longrightarrow> calls_at_most (ask q f) (Suc n)"
  by (auto simp: ask_def split: sum.split)

lemma calls_at_most_want: "(\<And>v. x = Some v \<Longrightarrow> calls_at_most (f v) n) \<Longrightarrow> calls_at_most (want e x f) n"
  by (cases x) auto

lemma calls_at_most_for_each:
  "(\<And>x. x \<in> set xs \<Longrightarrow> calls_at_most (f x) n) \<Longrightarrow> calls_at_most (for_each f xs) (length xs * n)"
proof (induction xs)
  case (Cons x xs)
  have "calls_at_most (seq (f x) (\<lambda>_. for_each f xs)) (n + length xs * n)"
    by (rule calls_at_most_seq) (use Cons in simp_all)
  then show ?case by simp
qed simp

lemma calls_at_most_attempts: "calls_at_most m a \<Longrightarrow> calls_at_most (attempts n c m) (n * a)"
proof (induction n)
  case (Suc n)
  have "calls_at_most (handling m c (\<lambda>e. if n = 0 then Fail e else attempts n c m)) (a + n * a)"
    by (rule calls_at_most_handling) (use Suc in auto)
  then show ?case by simp
qed simp

lemma calls_at_most_exec: "calls_at_most m n \<Longrightarrow> exec m env h = (r, h') \<Longrightarrow> length h' \<le> length h + n"
proof (induction m arbitrary: n h)
  case (Call q k)
  from Call.IH [OF rangeI, of "env h q" "n - 1" "h @ [(q, env h q)]"] Call.prems
  show ?case by auto
qed auto

lemmas calls_at_most_intros = calls_at_most_seq calls_at_most_handling calls_at_most_ask
  calls_at_most_want calls_at_most_for_each calls_at_most_attempts

lemmas calls_only_intros = calls_only_seq calls_only_handling calls_only_ensuring calls_only_ask calls_only_want
  calls_only_for_each calls_only_attempts

end
