(* ===== verification/Spawner.thy ===== *)
theory Spawner
  imports Effects
begin

text \<open>
  \<open>apps/applications/spawner.py\<close>: starting, observing and stopping the task of an application instance
  on AWS Fargate. ECS, ECR, GitLab, IAM and the instance's row are services; their replies are JSON
  values, and any call may raise.
\<close>

section \<open>Calls\<close>

record spawn_input =
  si_email :: string
  si_sso_id :: string
  si_efs_access_point :: "string option"
  si_is_tool :: bool
  si_commit_id :: "string option"
  si_gitlab_project :: "int option"
  si_cpu :: string
  si_memory :: string

record credentials =
  cr_memorable_name :: string
  cr_db_id :: nat
  cr_db_name :: string
  cr_db_host :: string
  cr_db_port :: string
  cr_db_user :: string
  cr_db_persistent_role :: string
  cr_db_password :: string

datatype spawner_call =
    CreateDbUser nat string string
  | CreateIamRole string string "string option"
  | EcrDescribeImages json string
  | TriggerPipeline int string json string
  | GetPipeline json
  | CancelPipeline json
  | DescribeTaskDefinition json
  | RegisterTaskDefinition json "json dict"
  | RunTask json
  | SaveSpawnerId json json
  | SaveTask json json json json json
  | RefreshState
  | SaveProxyUrl string
  | DescribeTasks json json
  | StopTask json json
  | SaveStoppedAt json
  | EcrGetImage json string
  | EcrPutImage json string json
  | StartProcess json "json dict"
  | SignalProcess json int

type_synonym 'a spawner = "(spawner_call, json, 'a) prog"

section \<open>JSON helpers\<close>

definition jfield :: "json \<Rightarrow> string \<Rightarrow> (json \<Rightarrow> 'a spawner) \<Rightarrow> 'a spawner" where
  "jfield v k f = want ''KeyError'' (jget v k) f"

fun jlist :: "json \<Rightarrow> json list option" where
  "jlist (JList l) = Some l"
| "jlist _ = None"

fun jhead :: "json \<Rightarrow> json option" where
  "jhead (JList (x # xs)) = Some x"
| "jhead _ = None"

fun jfields :: "json \<Rightarrow> json dict" where
  "jfields (JObj d) = d"
| "jfields _ = []"

definition jget_or :: "json \<Rightarrow> string \<Rightarrow> json \<Rightarrow> json" where
  "jget_or v k d = (case jget v k of None \<Rightarrow> d | Some x \<Rightarrow> x)"

section \<open>ECS\<close>

definition fargate_task_describe :: "json \<Rightarrow> json \<Rightarrow> (json option \<Rightarrow> 'a spawner) \<Rightarrow> 'a spawner" where
  "fargate_task_describe cluster_name arn f =
     ask (DescribeTasks cluster_name arn) (\<lambda>described_tasks.
       f (case jget described_tasks ''tasks'' of
            Some tasks \<Rightarrow> (if jtrue tasks then jhead tasks else jget described_tasks ''task'')
          | None \<Rightarrow> jget described_tasks ''task''))"

fun private_ips :: "json list \<Rightarrow> json list option" where
  "private_ips [] = Some []"
| "private_ips (a # as) =
     (case jget a ''name'' of None \<Rightarrow> None
      | Some n \<Rightarrow> if n = JStr ''privateIPv4Address''
          then (case jget a ''value'' of None \<Rightarrow> None | Some v \<Rightarrow> map_option ((#) v) (private_ips as))
          else private_ips as)"

definition fargate_task_ip :: "json \<Rightarrow> json \<Rightarrow> (json \<Rightarrow> 'a spawner) \<Rightarrow> 'a spawner" where
  "fargate_task_ip cluster_name arn f = fargate_task_describe cluster_name arn (\<lambda>described_task.
     case described_task of
       None \<Rightarrow> f (JStr [])
     | Some task \<Rightarrow>
         if jtrue task \<and> jtrue (jget_or task ''attachments'' JNull) then
           want ''KeyError'' (Option.bind (Option.bind (Option.bind (jget task ''attachments'') jhead)
               (\<lambda>a. jget a ''details'')) jlist) (\<lambda>details.
             want ''KeyError'' (private_ips details) (\<lambda>ips.
               f (case ips of [] \<Rightarrow> JStr [] | ip # _ \<Rightarrow> ip)))
         else f (JStr []))"

text \<open>Six attempts, with longer and longer pauses between them.\<close>

fun fargate_task_stop :: "nat \<Rightarrow> json \<Rightarrow> json \<Rightarrow> unit spawner" where
  "fargate_task_stop 0 cluster_name task_arn = Fail ''Exception''"
| "fargate_task_stop (Suc n) cluster_name task_arn =
     handling (ask (StopTask cluster_name task_arn) (\<lambda>_. Done ())) (\<lambda>e. True)
       (\<lambda>e. fargate_task_stop n cluster_name task_arn)"

text \<open>The first container with the name, with the tag on its image.\<close>

fun tag_container :: "string \<Rightarrow> string option \<Rightarrow> json list \<Rightarrow> json list option" where
  "tag_container name tag [] = None"
| "tag_container name tag (c # cs) =
     (case jget c ''name'' of None \<Rightarrow> None
      | Some n \<Rightarrow> if n = JStr name
          then (case if list_all (\<lambda>c'. jget c' ''name'' \<noteq> None) cs then Option.bind (jget c ''image'') jstr else None of
              None \<Rightarrow> None
            | Some img \<Rightarrow> Some (JObj (dict_set ''image'' (JStr (img @
                (case tag of Some (t # ts) \<Rightarrow> '':'' @ t # ts | _ \<Rightarrow> []))) (jfields c)) # cs))
          else map_option ((#) c) (tag_container name tag cs))"

definition efs_volume :: "string \<Rightarrow> string \<Rightarrow> json" where
  "efs_volume filesystem_id access_point_id = JObj [(''fileSystemId'', JStr filesystem_id),
     (''transitEncryption'', JStr ''ENABLED''),
     (''authorizationConfig'', JObj [(''accessPointId'', JStr access_point_id), (''iam'', JStr ''ENABLED'')])]"

fun mount_home :: "string \<Rightarrow> string \<Rightarrow> json list \<Rightarrow> json list option" where
  "mount_home filesystem_id access_point_id [] = None"
| "mount_home filesystem_id access_point_id (v # vs) =
     (case jget v ''name'' of None \<Rightarrow> None
      | Some n \<Rightarrow> if n = JStr ''home_directory''
          then (case jget v ''host'' of None \<Rightarrow> None
            | Some h \<Rightarrow> Some (JObj (dict_set ''efsVolumeConfiguration'' (efs_volume filesystem_id access_point_id)
                (filter (\<lambda>(k, x). k \<noteq> ''host'') (jfields v))) # vs))
          else map_option ((#) v) (mount_home filesystem_id access_point_id vs))"

definition registered_keys :: "string list" where
  "registered_keys = [''family'', ''executionRoleArn'', ''networkMode'', ''containerDefinitions'', ''volumes'',
     ''placementConstraints'', ''requiresCompatibilities'', ''cpu'', ''memory'']"

definition has_text :: "string option \<Rightarrow> bool" where
  "has_text s \<longleftrightarrow> (case s of None \<Rightarrow> False | Some t \<Rightarrow> t \<noteq> [])"

definition fargate_new_task_definition ::
  "json \<Rightarrow> string \<Rightarrow> string \<Rightarrow> string option \<Rightarrow> string \<Rightarrow> string \<Rightarrow> string option \<Rightarrow> json spawner" where
  "fargate_new_task_definition role_arn task_family container_name tag task_family_suffix
     efs_filesystem_id efs_access_point_id =
     ask (DescribeTaskDefinition (JStr task_family)) (\<lambda>response.
       jfield response ''taskDefinition'' (\<lambda>definition0.
         want ''KeyError'' (Option.bind (Option.bind (jget definition0 ''containerDefinitions'') jlist)
             (tag_container container_name tag)) (\<lambda>containers.
           let family = task_family @ (if has_text tag then ''-'' @ the tag else []) @ ''-'' @ task_family_suffix;
               definition1 = dict_set ''family'' (JStr family)
                 (dict_set ''containerDefinitions'' (JList containers) (jfields definition0))
           in want ''KeyError'' (if \<not> has_text efs_access_point_id then Some definition1
                else map_option (\<lambda>vs. dict_set ''volumes'' (JList vs) definition1)
                  (Option.bind (Option.bind (jget definition0 ''volumes'') jlist)
                    (mount_home efs_filesystem_id (the efs_access_point_id)))) (\<lambda>definition2.
                ask (RegisterTaskDefinition role_arn (filter (\<lambda>(k, v). k \<in> set registered_keys) definition2))
                  (\<lambda>registered. want ''KeyError'' (Option.bind (jget registered ''taskDefinition'')
                     (\<lambda>d. jget d ''taskDefinitionArn'')) Done)))))"

text \<open>The request that starts a task.\<close>

definition environment :: "json dict \<Rightarrow> json" where
  "environment env = JList (map (\<lambda>(k, v). JObj [(''name'', JStr k), (''value'', v)]) env)"

definition fargate_task_run ::
  "json \<Rightarrow> json \<Rightarrow> string \<Rightarrow> json \<Rightarrow> json \<Rightarrow> json \<Rightarrow> string \<Rightarrow> string \<Rightarrow> json \<Rightarrow> json dict \<Rightarrow> bool \<Rightarrow> json \<Rightarrow>
    json spawner" where
  "fargate_task_run role_arn cluster_name container_name definition_arn security_groups subnets cpu memory
     command_and_args env s3_sync platform_version =
     perform (RunTask (JObj
       [(''cluster'', cluster_name),
        (''taskDefinition'', definition_arn),
        (''overrides'', JObj
          [(''taskRoleArn'', role_arn), (''cpu'', JStr cpu), (''memory'', JStr memory),
           (''containerOverrides'', JList
             (JObj ((if jtrue command_and_args then [(''command'', command_and_args)] else []) @
                [(''environment'', environment env), (''name'', JStr container_name)]) #
              (if s3_sync then [JObj [(''name'', JStr ''s3sync''), (''environment'', environment env)]] else [])))]),
        (''launchType'', JStr ''FARGATE''),
        (''networkConfiguration'', JObj [(''awsvpcConfiguration'', JObj
          [(''assignPublicIp'', JStr ''DISABLED''), (''securityGroups'', security_groups),
           (''subnets'', subnets)])]),
        (''platformVersion'', platform_version)]))"

section \<open>Starting a task\<close>

record spawn_libs =
  sl_loads :: "string \<Rightarrow> json option"
  sl_suffix :: "string \<Rightarrow> string"
  sl_efs_id :: string
  sl_ip_port :: "json \<Rightarrow> json \<Rightarrow> string"
  sl_parse_time :: "json \<Rightarrow> int option"

definition RUNNING_PIPELINE_STATUSES :: "json list" where
  "RUNNING_PIPELINE_STATUSES = [JStr ''running'', JStr ''pending'']"

definition SUCCESS_PIPELINE_STATUSES :: "json list" where
  "SUCCESS_PIPELINE_STATUSES = [JStr ''success'']"

definition database_env :: "credentials list \<Rightarrow> json dict" where
  "database_env creds = dict_merge [] (map (\<lambda>c. (''DATABASE_DSN__'' @ cr_memorable_name c,
     JStr (''host='' @ cr_db_host c @ '' port='' @ cr_db_port c @ '' sslmode=require dbname='' @ cr_db_name c @
       '' user='' @ cr_db_user c @ '' password='' @ cr_db_password c))) creds)"

text \<open>\<open>_ecr_tag_exists\<close>: a missing image is an answer, not a failure.\<close>

definition ecr_tag_exists :: "json \<Rightarrow> string \<Rightarrow> bool spawner" where
  "ecr_tag_exists repository tag =
     handling (ask (EcrDescribeImages repository tag) (\<lambda>images.
        want ''KeyError'' (jget images ''imageDetails'') (\<lambda>details. Done (jtrue details))))
       (\<lambda>e. e = ''ImageNotFoundException'') (\<lambda>e. Done False)"

text \<open>At most 900 looks at the pipeline; then it is cancelled.\<close>

fun await_pipeline :: "nat \<Rightarrow> json \<Rightarrow> unit spawner" where
  "await_pipeline 0 pipeline_id = ask (CancelPipeline pipeline_id) (\<lambda>_. Fail ''Exception'')"
| "await_pipeline (Suc n) pipeline_id =
     ask (GetPipeline pipeline_id) (\<lambda>pipeline. jfield pipeline ''status'' (\<lambda>status.
       if status \<notin> set RUNNING_PIPELINE_STATUSES \<and> status \<notin> set SUCCESS_PIPELINE_STATUSES
       then Fail ''Exception''
       else if status \<in> set SUCCESS_PIPELINE_STATUSES then Done ()
       else await_pipeline n pipeline_id))"

text \<open>At most 60 looks at the task for its address.\<close>

fun await_ip :: "spawn_libs \<Rightarrow> nat \<Rightarrow> json \<Rightarrow> json \<Rightarrow> json \<Rightarrow> unit spawner" where
  "await_ip sl 0 cluster_name task_arn port = Fail ''Exception''"
| "await_ip sl (Suc n) cluster_name task_arn port = fargate_task_ip cluster_name task_arn (\<lambda>ip_address.
     if jtrue ip_address then ask (SaveProxyUrl (sl_ip_port sl ip_address port)) (\<lambda>_. Done ())
     else await_ip sl n cluster_name task_arn port)"

text \<open>The options of the spawner that the code reads before it does anything.\<close>

record fargate_options =
  fo_cluster_name :: json
  fo_container_name :: string
  fo_definition_arn :: string
  fo_ecr_repository_name :: json
  fo_security_groups :: json
  fo_subnets :: json
  fo_cmd :: json
  fo_env :: "json dict"
  fo_port :: json
  fo_s3_sync :: bool
  fo_s3_region :: json
  fo_s3_host :: json
  fo_s3_bucket :: json
  fo_platform_version :: json

definition read_options :: "json \<Rightarrow> fargate_options spawner" where
  "read_options options =
     jfield options ''CLUSTER_NAME'' (\<lambda>cluster_name.
     want ''KeyError'' (Option.bind (jget options ''CONTAINER_NAME'') jstr) (\<lambda>container_name.
     want ''KeyError'' (Option.bind (jget options ''DEFINITION_ARN'') jstr) (\<lambda>definition_arn.
     jfield options ''SECURITY_GROUPS'' (\<lambda>security_groups. jfield options ''SUBNETS'' (\<lambda>subnets.
     jfield options ''PORT'' (\<lambda>port. jfield options ''S3_SYNC'' (\<lambda>s3_sync.
     jfield options ''S3_REGION'' (\<lambda>s3_region. jfield options ''S3_HOST'' (\<lambda>s3_host.
     jfield options ''S3_BUCKET'' (\<lambda>s3_bucket.
       Done \<lparr>fo_cluster_name = cluster_name, fo_container_name = container_name,
         fo_definition_arn = definition_arn, fo_ecr_repository_name = jget_or options ''ECR_REPOSITORY_NAME'' JNull,
         fo_security_groups = security_groups, fo_subnets = subnets, fo_cmd = jget_or options ''CMD'' (JList []),
         fo_env = jfields (jget_or options ''ENV'' (JObj [])), fo_port = port,
         fo_s3_sync = (s3_sync = JStr ''true''), fo_s3_region = s3_region, fo_s3_host = s3_host,
         fo_s3_bucket = s3_bucket,
         fo_platform_version = jget_or options ''PLATFORM_VERSION'' (JStr ''1.3.0'')\<rparr>))))))))))"

text \<open>Everything up to the image: the database users, the role, and the trigger of a pipeline.\<close>

definition spawn_prepare ::
  "spawn_libs \<Rightarrow> spawn_input \<Rightarrow> string option \<Rightarrow> string \<Rightarrow> credentials list \<Rightarrow>
    (fargate_options \<times> json \<times> json \<times> json option) spawner" where
  "spawn_prepare sl si tag spawner_options creds =
     want ''JSONDecodeError'' (sl_loads sl spawner_options) (\<lambda>options.
     seq (read_options options) (\<lambda>fo.
     seq (for_each (\<lambda>c. ask (CreateDbUser (cr_db_id c) (cr_db_user c) (cr_db_persistent_role c)) (\<lambda>_. Done ())) creds) (\<lambda>_.
     ask (CreateIamRole (si_email si) (si_sso_id si)
         (if si_is_tool si then si_efs_access_point si else None)) (\<lambda>role.
     want ''ValueError'' (Option.bind (jget role ''role_arn'') (\<lambda>a. map_option (Pair a) (jget role ''s3_prefix'')))
       (\<lambda>(role_arn, s3_prefix).
     if jtrue (fo_ecr_repository_name fo) \<and> has_text tag \<and> has_text (si_commit_id si) \<and>
         (case si_gitlab_project si of None \<Rightarrow> False | Some p \<Rightarrow> p \<noteq> 0)
     then seq (ecr_tag_exists (fo_ecr_repository_name fo) (the tag)) (\<lambda>present.
       if present then Done (fo, role_arn, s3_prefix, None)
       else ask (TriggerPipeline (the (si_gitlab_project si)) (the (si_commit_id si))
           (fo_ecr_repository_name fo) (the tag)) (\<lambda>pipeline.
         want ''Exception'' (jget pipeline ''id'') (\<lambda>pipeline_id. Done (fo, role_arn, s3_prefix, Some pipeline_id))))
     else Done (fo, role_arn, s3_prefix, None))))))"

text \<open>The image is built and the task runs; the reply of ECS names the task.\<close>

definition spawn_run ::
  "spawn_libs \<Rightarrow> spawn_input \<Rightarrow> string option \<Rightarrow> credentials list \<Rightarrow> string \<Rightarrow> fargate_options \<Rightarrow> json \<Rightarrow>
    json \<Rightarrow> json option \<Rightarrow> json spawner" where
  "spawn_run sl si tag creds app_schema fo role_arn s3_prefix pipeline_id =
     seq (case pipeline_id of None \<Rightarrow> Done ()
          | Some p \<Rightarrow> ask (SaveSpawnerId p JNull) (\<lambda>_. await_pipeline 900 p)) (\<lambda>_.
     seq (fargate_new_task_definition role_arn (fo_definition_arn fo) (fo_container_name fo) tag
         (sl_suffix sl (si_sso_id si)) (sl_efs_id sl)
         (if si_is_tool si then si_efs_access_point si else None)) (\<lambda>definition_arn.
     let env = dict_merge (dict_merge (dict_merge
           [(''S3_PREFIX'', s3_prefix), (''S3_REGION'', fo_s3_region fo), (''S3_HOST'', fo_s3_host fo),
            (''S3_BUCKET'', fo_s3_bucket fo)] (database_env creds)) [(''APP_SCHEMA'', JStr app_schema)]) (fo_env fo)
     in seq (attempts 10 (\<lambda>e. e = ''ClientError'')
         (fargate_task_run role_arn (fo_cluster_name fo) (fo_container_name fo) definition_arn
           (fo_security_groups fo) (fo_subnets fo) (si_cpu si) (si_memory si) (fo_cmd fo) env (fo_s3_sync fo)
           (fo_platform_version fo))) (\<lambda>start_task_response.
       want ''KeyError'' (case jget start_task_response ''tasks'' of
           Some tasks \<Rightarrow> jhead tasks | None \<Rightarrow> jget start_task_response ''task'') Done)))"

text \<open>The task is recorded, and watched until it has an address.\<close>

definition spawn_watch :: "spawn_libs \<Rightarrow> fargate_options \<Rightarrow> json option \<Rightarrow> json \<Rightarrow> json \<Rightarrow> unit spawner" where
  "spawn_watch sl fo pipeline_id task task_arn =
     jfield task ''createdAt'' (\<lambda>created_at. jfield task ''cpu'' (\<lambda>cpu. jfield task ''memory'' (\<lambda>memory.
       ask (SaveTask (case pipeline_id of None \<Rightarrow> JNull | Some p \<Rightarrow> p) task_arn created_at cpu memory) (\<lambda>_.
         ask RefreshState (\<lambda>state.
           if state = JStr ''STOPPED'' then Fail ''Exception''
           else await_ip sl 60 (fo_cluster_name fo) task_arn (fo_port fo))))))"

text \<open>
  The cleanup of the exception handler: it sees the task and the pipeline as far as they are known.
\<close>

definition spawn_cleanup :: "json \<Rightarrow> json \<Rightarrow> json option \<Rightarrow> unit spawner" where
  "spawn_cleanup cluster_name task_arn pipeline_id =
     seq (if jtrue task_arn then fargate_task_stop 6 cluster_name task_arn else Done ()) (\<lambda>_.
       case pipeline_id of None \<Rightarrow> Done ()
       | Some p \<Rightarrow> if jtrue p then ask (CancelPipeline p) (\<lambda>_. Done ()) else Done ())"

text \<open>One stretch of the \<open>try\<close> block, during which the task and the pipeline known do not change.\<close>

definition stretch :: "json \<Rightarrow> json \<Rightarrow> json option \<Rightarrow> 'a spawner \<Rightarrow> ('a \<Rightarrow> unit spawner) \<Rightarrow> unit spawner" where
  "stretch cluster_name task_arn pipeline_id m rest =
     seq (handling (seq m (\<lambda>x. Done (Some x))) (\<lambda>e. True)
         (\<lambda>e. seq (spawn_cleanup cluster_name task_arn pipeline_id) (\<lambda>_. Done None)))
       (\<lambda>r. case r of None \<Rightarrow> Done () | Some x \<Rightarrow> rest x)"

definition fargate_spawn ::
  "spawn_libs \<Rightarrow> spawn_input \<Rightarrow> string option \<Rightarrow> string \<Rightarrow> credentials list \<Rightarrow> string \<Rightarrow> unit spawner" where
  "fargate_spawn sl si tag spawner_options creds app_schema =
     stretch JNull JNull None (spawn_prepare sl si tag spawner_options creds)
       (\<lambda>(fo, role_arn, s3_prefix, pipeline_id).
         stretch (fo_cluster_name fo) JNull pipeline_id
           (seq (spawn_run sl si tag creds app_schema fo role_arn s3_prefix pipeline_id) (\<lambda>task.
              jfield task ''taskArn'' (\<lambda>task_arn. Done (task, task_arn))))
           (\<lambda>(task, task_arn). stretch (fo_cluster_name fo) task_arn pipeline_id
              (spawn_watch sl fo pipeline_id task task_arn) (\<lambda>_. Done ())))"

section \<open>No task is left behind\<close>

fun is_run :: "spawner_call \<Rightarrow> bool" where
  "is_run (RunTask request) = True"
| "is_run _ = False"

text \<open>The task that a reply of ECS to a start names.\<close>

definition task_of_reply :: "json \<Rightarrow> json option" where
  "task_of_reply reply = (case jget reply ''tasks'' of Some tasks \<Rightarrow> jhead tasks | None \<Rightarrow> jget reply ''task'')"

definition started_tasks :: "(spawner_call, json) history \<Rightarrow> json set" where
  "started_tasks h = {a. \<exists>q reply. (q, Inr reply) \<in> set h \<and> is_run q \<and>
     Option.bind (task_of_reply reply) (\<lambda>task. jget task ''taskArn'') = Some a \<and> jtrue a}"

definition served :: "(spawner_call, json) history \<Rightarrow> bool" where
  "served h \<longleftrightarrow> (\<exists>u v. (SaveProxyUrl u, Inr v) \<in> set h)"

definition task_stopped :: "(spawner_call, json) history \<Rightarrow> json \<Rightarrow> bool" where
  "task_stopped h a \<longleftrightarrow> (\<exists>c v. (StopTask c a, Inr v) \<in> set h)"

lemma started_snoc: "started_tasks (h @ [(q, r)]) = started_tasks h \<union> started_tasks [(q, r)]"
  by (auto simp: started_tasks_def)

lemma started_quiet:
  assumes "calls_only (\<lambda>q. \<not> is_run q) m" "exec m env h = (r, h')"
  shows "started_tasks h' = started_tasks h"
proof -
  obtain es where "h' = h @ es" "\<forall>(q, a) \<in> set es. \<not> is_run q"
    using calls_only_exec [OF assms] by blast
  then show ?thesis by (auto simp: started_tasks_def)
qed

lemma spec_quiet: "calls_only (\<lambda>q. \<not> is_run q) m \<Longrightarrow> spec (\<lambda>h. started_tasks h = A) m (\<lambda>r h. started_tasks h = A)"
  by (rule specI) (simp add: started_quiet)

lemma quiet_describe: "(\<And>t. calls_only (\<lambda>q. \<not> is_run q) (f t)) \<Longrightarrow>
    calls_only (\<lambda>q. \<not> is_run q) (fargate_task_describe c a f)"
  unfolding fargate_task_describe_def by (auto intro: calls_only_ask)

lemma quiet_ip: "(\<And>t. calls_only (\<lambda>q. \<not> is_run q) (f t)) \<Longrightarrow>
    calls_only (\<lambda>q. \<not> is_run q) (fargate_task_ip c a f)"
  unfolding fargate_task_ip_def by (auto intro!: quiet_describe calls_only_want split: option.split)

lemma quiet_await_ip: "calls_only (\<lambda>q. \<not> is_run q) (await_ip sl n c a p)"
  by (induction sl n c a p rule: await_ip.induct) (auto intro!: quiet_ip calls_only_ask)

lemma quiet_await_pipeline: "calls_only (\<lambda>q. \<not> is_run q) (await_pipeline n p)"
  by (induction n p rule: await_pipeline.induct)
    (auto simp: jfield_def intro!: calls_only_ask calls_only_want)

lemma quiet_stop: "calls_only (\<lambda>q. \<not> is_run q) (fargate_task_stop n c a)"
  by (induction n c a rule: fargate_task_stop.induct) (auto intro!: calls_only_ask calls_only_handling)

lemma quiet_cleanup: "calls_only (\<lambda>q. \<not> is_run q) (spawn_cleanup c a p)"
  unfolding spawn_cleanup_def
  by (intro calls_only_seq) (auto simp: quiet_stop intro!: calls_only_ask split: option.split)

lemma quiet_definition: "calls_only (\<lambda>q. \<not> is_run q) (fargate_new_task_definition a b c d e f g)"
  unfolding fargate_new_task_definition_def jfield_def Let_def
  by (intro calls_only_ask calls_only_want) auto

lemma quiet_options: "calls_only (\<lambda>q. \<not> is_run q) (read_options o')"
  unfolding read_options_def jfield_def by (intro calls_only_want) simp

lemma quiet_prepare: "calls_only (\<lambda>q. \<not> is_run q) (spawn_prepare sl si tag so creds)"
proof -
  have e: "calls_only (\<lambda>q. \<not> is_run q) (ecr_tag_exists r t)" for r t
    unfolding ecr_tag_exists_def by (intro calls_only_intros) auto
  show ?thesis
    unfolding spawn_prepare_def
    by (intro calls_only_want calls_only_seq quiet_options calls_only_for_each calls_only_ask)
      (auto intro!: calls_only_seq e calls_only_ask calls_only_want)
qed

lemma quiet_watch: "calls_only (\<lambda>q. \<not> is_run q) (spawn_watch sl fo p t a)"
  unfolding spawn_watch_def jfield_def by (intro calls_only_want calls_only_ask) (auto simp: quiet_await_ip)

lemma served_snoc [simp]: "served (h @ [(SaveProxyUrl u, Inr v)])"
  by (auto simp: served_def)

lemma stopped_snoc [simp]: "task_stopped (h @ [(StopTask c a, Inr v)]) a"
  by (auto simp: task_stopped_def)

lemma stopped_mono [simp]: "task_stopped h a \<Longrightarrow> task_stopped (h @ es) a"
  by (auto simp: task_stopped_def)

lemma spec_true_ask: "(\<And>v. spec (\<lambda>h. True) (f v) Q) \<Longrightarrow> (\<And>e h. Q (Inl e) h) \<Longrightarrow> spec (\<lambda>h. True) (ask q f) Q"
  by (rule spec_ask) (auto intro: spec_conseq)

lemma stop_stops: "spec (\<lambda>h. True) (fargate_task_stop n c a) (\<lambda>r h. r = Inr () \<longrightarrow> task_stopped h a)"
proof (induction n c a rule: fargate_task_stop.induct)
  case (2 n c a)
  have "spec (\<lambda>h. True) (ask (StopTask c a) (\<lambda>_. Done ())) (\<lambda>r h. r = Inr () \<longrightarrow> task_stopped h a)"
    by (rule spec_ask) (auto intro!: spec_Done)
  then show ?case
    unfolding fargate_task_stop.simps by (rule spec_handling) (auto intro: spec_conseq [OF 2])
qed (simp add: spec_Fail)

lemma cleanup_stops: "spec (\<lambda>h. True) (spawn_cleanup c a p) (\<lambda>r h. r = Inr () \<longrightarrow> jtrue a \<longrightarrow> task_stopped h a)"
proof -
  have cancel: "spec (\<lambda>h. jtrue a \<longrightarrow> task_stopped h a)
      (case p of None \<Rightarrow> Done () | Some p \<Rightarrow> if jtrue p then ask (CancelPipeline p) (\<lambda>_. Done ()) else Done ())
      (\<lambda>r h. r = Inr () \<longrightarrow> jtrue a \<longrightarrow> task_stopped h a)"
    by (auto split: option.split intro!: spec_Done spec_ask)
  show ?thesis
    unfolding spawn_cleanup_def
    by (rule spec_seq [where R = "\<lambda>r h. r = Inr () \<longrightarrow> jtrue a \<longrightarrow> task_stopped h a"])
      (use cancel in \<open>auto intro: spec_conseq [OF stop_stops] spec_Done\<close>)
qed

lemma spec_describe: "(\<And>t. spec (\<lambda>h. True) (f t) Q) \<Longrightarrow> (\<And>e h. Q (Inl e) h) \<Longrightarrow>
    spec (\<lambda>h. True) (fargate_task_describe c a f) Q"
  unfolding fargate_task_describe_def by (rule spec_true_ask)

lemma spec_ip: "(\<And>ip. spec (\<lambda>h. True) (f ip) Q) \<Longrightarrow> (\<And>e h. Q (Inl e) h) \<Longrightarrow>
    spec (\<lambda>h. True) (fargate_task_ip c a f) Q"
  unfolding fargate_task_ip_def by (rule spec_describe) (auto intro!: spec_want split: option.split)

lemma ip_serves: "spec (\<lambda>h. True) (await_ip sl n c a p) (\<lambda>r h. r = Inr () \<longrightarrow> served h)"
proof (induction sl n c a p rule: await_ip.induct)
  case (2 sl n c a p)
  have save: "spec (\<lambda>h. True) (ask (SaveProxyUrl u) (\<lambda>_. Done ())) (\<lambda>r h. r = Inr () \<longrightarrow> served h)" for u
    by (rule spec_ask) (auto intro!: spec_Done)
  show ?case
    unfolding await_ip.simps by (rule spec_ip) (use save 2 in \<open>simp_all split: if_split\<close>)
qed (simp add: spec_Fail)

lemma watch_serves: "spec (\<lambda>h. True) (spawn_watch sl fo p t a) (\<lambda>r h. r = Inr () \<longrightarrow> served h)"
  unfolding spawn_watch_def jfield_def
  by (intro spec_want spec_true_ask) (auto intro: ip_serves spec_Fail)

lemma run_starts:
  assumes "is_run q"
  shows "spec (\<lambda>h. started_tasks h = {}) (attempts 10 c (perform q))
    (\<lambda>r h. case r of Inl e \<Rightarrow> started_tasks h = {}
       | Inr reply \<Rightarrow> \<forall>a \<in> started_tasks h. Option.bind (task_of_reply reply) (\<lambda>t. jget t ''taskArn'') = Some a)"
proof (rule spec_attempts)
  show "spec (\<lambda>h. started_tasks h = {}) (perform q)
     (\<lambda>r h. case r of Inl e \<Rightarrow> if c e then started_tasks h = {} \<and> (case Inl e of Inl e \<Rightarrow> started_tasks h = {}
         | Inr reply \<Rightarrow> \<forall>a \<in> started_tasks h. Option.bind (task_of_reply reply) (\<lambda>t. jget t ''taskArn'') = Some a)
       else (case Inl e of Inl e \<Rightarrow> started_tasks h = {}
         | Inr reply \<Rightarrow> \<forall>a \<in> started_tasks h. Option.bind (task_of_reply reply) (\<lambda>t. jget t ''taskArn'') = Some a)
     | Inr x \<Rightarrow> (case Inr x of Inl e \<Rightarrow> started_tasks h = {}
         | Inr reply \<Rightarrow> \<forall>a \<in> started_tasks h. Option.bind (task_of_reply reply) (\<lambda>t. jget t ''taskArn'') = Some a))"
    by (rule spec_ask) (auto intro!: spec_Done simp: started_snoc, auto simp: started_tasks_def)
qed simp

definition known_task :: "exc + json \<times> json \<Rightarrow> (spawner_call, json) history \<Rightarrow> bool" where
  "known_task r h \<longleftrightarrow> (case r of Inl e \<Rightarrow> started_tasks h = {} | Inr (task, a) \<Rightarrow> started_tasks h \<subseteq> {a})"

lemma run_known: "spec (\<lambda>h. started_tasks h = {})
   (seq (spawn_run sl si tag creds schema fo role pre p) (\<lambda>task.
      jfield task ''taskArn'' (\<lambda>a. Done (task, a)))) known_task"
proof -
  let ?none = "\<lambda>r h. started_tasks h = {}"
  let ?task = "\<lambda>r h. case r of Inl e \<Rightarrow> started_tasks h = {}
       | Inr task \<Rightarrow> \<forall>a \<in> started_tasks h. jget task ''taskArn'' = Some a"
  have pipeline: "spec (\<lambda>h. started_tasks h = {}) (case p of None \<Rightarrow> Done ()
          | Some p \<Rightarrow> ask (SaveSpawnerId p JNull) (\<lambda>_. await_pipeline 900 p)) ?none"
    by (rule spec_quiet) (auto simp: quiet_await_pipeline intro!: calls_only_ask split: option.split)
  have "spec (\<lambda>h. started_tasks h = {}) (spawn_run sl si tag creds schema fo role pre p) ?task"
    unfolding spawn_run_def fargate_task_run_def Let_def
  proof (rule spec_seq [OF pipeline], rule spec_seq [OF spec_quiet [OF quiet_definition]], rule spec_seq [OF run_starts])
    fix reply
    show "spec (\<lambda>h. case Inr reply of Inl e \<Rightarrow> started_tasks h = {}
         | Inr reply \<Rightarrow> \<forall>a \<in> started_tasks h. Option.bind (task_of_reply reply) (\<lambda>t. jget t ''taskArn'') = Some a)
      (want ''KeyError'' (case jget reply ''tasks'' of Some tasks \<Rightarrow> jhead tasks | None \<Rightarrow> jget reply ''task'') Done) ?task"
      unfolding task_of_reply_def [symmetric]
      by (rule spec_want) (auto intro!: spec_Done)
  qed auto
  then show ?thesis
    by (rule spec_seq) (auto simp: jfield_def known_task_def intro!: spec_want spec_Done)
qed

lemma stretch_cases: "exec (stretch c a p m rest) env h =
   (case exec m env h of
      (Inl e, h1) \<Rightarrow> exec (spawn_cleanup c a p) env h1
    | (Inr x, h1) \<Rightarrow> exec (rest x) env h1)"
  by (auto simp: stretch_def exec_seq exec_handling split: prod.split sum.split)

text \<open>
  When \<open>spawn\<close> returns, every task that ECS reported as started has its address recorded or has been
  stopped.
\<close>

lemma no_task_left_behind:
  assumes "exec (fargate_spawn sl si tag so creds schema) env [] = (Inr (), h)" and "a \<in> started_tasks h"
  shows "served h \<or> task_stopped h a"
proof -
  obtain r1 h1 where x1: "exec (spawn_prepare sl si tag so creds) env [] = (r1, h1)" by fastforce
  have s1: "started_tasks h1 = {}"
    using started_quiet [OF quiet_prepare x1] by (simp add: started_tasks_def)
  have cleaned: "started_tasks h' = started_tasks h0" if "exec (spawn_cleanup c t p) env h0 = (r, h')" for c t p h0 r h'
    using started_quiet [OF quiet_cleanup that] .
  show ?thesis
  proof (cases r1)
    case (Inl e)
    with assms(1) x1 have "exec (spawn_cleanup JNull JNull None) env h1 = (Inr (), h)"
      by (simp add: fargate_spawn_def stretch_cases)
    with cleaned s1 assms(2) show ?thesis by simp
  next
    case (Inr x)
    obtain fo role pre p where x: "x = (fo, role, pre, p)" by (cases x)
    let ?m = "seq (spawn_run sl si tag creds schema fo role pre p) (\<lambda>task.
      jfield task ''taskArn'' (\<lambda>a. Done (task, a)))"
    obtain r2 h2 where x2: "exec ?m env h1 = (r2, h2)" by fastforce
    from spec_exec [OF run_known s1 x2] have k: "known_task r2 h2" .
    show ?thesis
    proof (cases r2)
      case (Inl e)
      with assms(1) x1 x2 Inr x have "exec (spawn_cleanup (fo_cluster_name fo) JNull p) env h2 = (Inr (), h)"
        by (simp add: fargate_spawn_def stretch_cases)
      with cleaned k Inl assms(2) show ?thesis by (simp add: known_task_def)
    next
      case r2: (Inr y)
      obtain task b where y: "y = (task, b)" by (cases y)
      obtain r3 h3 where x3: "exec (spawn_watch sl fo p task b) env h2 = (r3, h3)" by fastforce
      have s3: "started_tasks h3 \<subseteq> {b}"
        using started_quiet [OF quiet_watch x3] k r2 y by (simp add: known_task_def)
      show ?thesis
      proof (cases r3)
        case (Inl e)
        with assms(1) x1 x2 x3 Inr r2 x y have c: "exec (spawn_cleanup (fo_cluster_name fo) b p) env h3 = (Inr (), h)"
          by (simp add: fargate_spawn_def stretch_cases)
        with cleaned s3 assms(2) have "a = b" by blast
        moreover have "jtrue a" using assms(2) by (auto simp: started_tasks_def)
        ultimately show ?thesis using spec_exec [OF cleanup_stops _ c] by simp
      next
        case r3: (Inr u)
        with assms(1) x1 x2 x3 Inr r2 x y have "h3 = h" by (simp add: fargate_spawn_def stretch_cases)
        with spec_exec [OF watch_serves _ x3] r3 show ?thesis by simp
      qed
    qed
  qed
qed

end
