(* ===== verification/SpawnerState.thy ===== *)
theory SpawnerState
  imports Spawner
begin

text \<open>
  \<open>apps/applications/spawner.py\<close>: what a spawner reports about an instance, how it stops one, the tags
  of its images, and the spawner for local processes. Times are seconds.
\<close>

section \<open>The state of a Fargate task\<close>

definition RUNNING_or_STOPPED :: "bool \<Rightarrow> string spawner" where
  "RUNNING_or_STOPPED b = Done (if b then ''RUNNING'' else ''STOPPED'')"

definition alive_statuses :: "json list" where
  "alive_statuses = [JStr ''PROVISIONING'', JStr ''PENDING'', JStr ''RUNNING'']"

text \<open>Once a task or a successful pipeline is known.\<close>

definition fargate_task_state ::
  "spawn_libs \<Rightarrow> int \<Rightarrow> json \<Rightarrow> int \<Rightarrow> json \<Rightarrow> json \<Rightarrow> string spawner" where
  "fargate_task_state sl now cluster_name created_date task_arn pipeline_id =
     seq (if jtrue pipeline_id
          then ask (GetPipeline pipeline_id) (\<lambda>pipeline. jfield pipeline ''finished_at'' (\<lambda>finished_at.
            want ''ValueError'' (sl_parse_time sl finished_at) Done))
          else Done created_date) (\<lambda>task_should_be_created.
       if \<not> jtrue task_arn then RUNNING_or_STOPPED (task_should_be_created > now - 60)
       else fargate_task_describe cluster_name task_arn (\<lambda>described. case described of
           None \<Rightarrow> RUNNING_or_STOPPED (task_should_be_created > now - 3 * 60)
         | Some task \<Rightarrow> if task = JNull then RUNNING_or_STOPPED (task_should_be_created > now - 3 * 60)
             else jfield task ''lastStatus'' (\<lambda>status. RUNNING_or_STOPPED (status \<in> set alive_statuses))))"

definition fargate_state_body ::
  "spawn_libs \<Rightarrow> int \<Rightarrow> json \<Rightarrow> int \<Rightarrow> json \<Rightarrow> string spawner" where
  "fargate_state_body sl now options created_date ids =
     jfield options ''CLUSTER_NAME'' (\<lambda>cluster_name.
       let task_arn = jget_or ids ''task_arn'' JNull; pipeline_id = jget_or ids ''pipeline_id'' JNull
       in if \<not> jtrue pipeline_id \<and> \<not> jtrue task_arn then RUNNING_or_STOPPED (created_date > now - 60)
          else if jtrue pipeline_id \<and> \<not> jtrue task_arn
          then ask (GetPipeline pipeline_id) (\<lambda>pipeline. jfield pipeline ''status'' (\<lambda>pipeline_status.
            if pipeline_status \<in> set RUNNING_PIPELINE_STATUSES \<and> created_date > now - 30 * 60
            then Done ''RUNNING''
            else if pipeline_status \<notin> set SUCCESS_PIPELINE_STATUSES then Done ''STOPPED''
            else fargate_task_state sl now cluster_name created_date task_arn pipeline_id))
          else fargate_task_state sl now cluster_name created_date task_arn pipeline_id)"

text \<open>
  The handler of the \<open>try\<close> block logs the parsed id, so an exception before it is parsed becomes
  another exception.
\<close>

definition fargate_state ::
  "spawn_libs \<Rightarrow> int \<Rightarrow> string \<Rightarrow> int \<Rightarrow> string \<Rightarrow> string spawner" where
  "fargate_state sl now spawner_options created_date spawner_application_id =
     want ''UnboundLocalError'' (sl_loads sl spawner_options) (\<lambda>options.
       want ''UnboundLocalError'' (sl_loads sl spawner_application_id) (\<lambda>ids.
         handling (fargate_state_body sl now options created_date ids) (\<lambda>e. True) (\<lambda>e. Done ''STOPPED'')))"

section \<open>Stopping a Fargate task\<close>

text \<open>Eight looks for the time at which the task stopped; every failure is ignored.\<close>

fun record_stopped :: "nat \<Rightarrow> json \<Rightarrow> json \<Rightarrow> unit spawner" where
  "record_stopped 0 cluster_name task_arn = Done ()"
| "record_stopped (Suc n) cluster_name task_arn =
     seq (handling (fargate_task_describe cluster_name task_arn (\<lambda>task.
           want ''TypeError'' task (\<lambda>task. case jget task ''stoppedAt'' of
               None \<Rightarrow> Done False
             | Some stopped_at \<Rightarrow> ask (SaveStoppedAt stopped_at) (\<lambda>_. Done True))))
         (\<lambda>e. True) (\<lambda>e. Done False))
       (\<lambda>finished. if finished then Done () else record_stopped n cluster_name task_arn)"

definition fargate_stop :: "spawn_libs \<Rightarrow> string \<Rightarrow> string \<Rightarrow> unit spawner" where
  "fargate_stop sl template_options spawner_application_instance_id =
     want ''JSONDecodeError'' (sl_loads sl template_options) (\<lambda>options.
       jfield options ''CLUSTER_NAME'' (\<lambda>cluster_name.
         want ''JSONDecodeError'' (sl_loads sl spawner_application_instance_id) (\<lambda>ids.
           jfield ids ''task_arn'' (\<lambda>task_arn.
             seq (fargate_task_stop 6 cluster_name task_arn) (\<lambda>_. record_stopped 8 cluster_name task_arn)))))"

section \<open>Images\<close>

definition ecr_tags_for_tag :: "json \<Rightarrow> string \<Rightarrow> json spawner" where
  "ecr_tags_for_tag repository tag =
     handling (ask (EcrDescribeImages repository tag) (\<lambda>images.
        want ''KeyError'' (Option.bind (Option.bind (jget images ''imageDetails'') jhead) (\<lambda>d. jget d ''imageTags'')) Done))
       (\<lambda>e. e = ''ImageNotFoundException'') (\<lambda>e. Done (JList []))"

definition ecr_retag :: "json \<Rightarrow> string \<Rightarrow> string \<Rightarrow> unit spawner" where
  "ecr_retag repository existing_tag new_tag =
     ask (EcrGetImage repository existing_tag) (\<lambda>images.
       want ''KeyError'' (Option.bind (Option.bind (jget images ''images'') jhead) (\<lambda>d. jget d ''imageManifest'')) (\<lambda>manifest.
         handling (ask (EcrPutImage repository new_tag manifest) (\<lambda>_. Done ()))
           (\<lambda>e. e = ''ImageAlreadyExistsException'') (\<lambda>e. Done ())))"

section \<open>Local processes\<close>

definition process_state :: "int \<Rightarrow> int \<Rightarrow> json \<Rightarrow> string \<Rightarrow> string spawner" where
  "process_state now created_date ids proxy_url =
     handling
       (if \<not> jtrue ids \<and> now - 10 < created_date then Done ''RUNNING''
        else if \<not> jtrue ids then Done ''STOPPED''
        else if proxy_url = [] \<and> now - 20 < created_date then Done ''RUNNING''
        else if proxy_url = [] then Done ''STOPPED''
        else jfield ids ''process_id'' (\<lambda>pid. ask (SignalProcess pid 0) (\<lambda>_. Done ''RUNNING'')))
       (\<lambda>e. True) (\<lambda>e. Done ''STOPPED'')"

definition process_stop :: "spawn_libs \<Rightarrow> string \<Rightarrow> unit spawner" where
  "process_stop sl spawner_application_id =
     want ''JSONDecodeError'' (sl_loads sl spawner_application_id) (\<lambda>ids.
       handling (jfield ids ''process_id'' (\<lambda>pid. ask (SignalProcess pid 9) (\<lambda>_. Done ())))
         (\<lambda>e. e = ''ProcessLookupError'') (\<lambda>e. Done ()))"

text \<open>
  The handler kills the process if there is one; before it has been started the variable that it
  looks at does not exist.
\<close>

definition process_spawn :: "spawn_libs \<Rightarrow> string \<Rightarrow> credentials list \<Rightarrow> unit spawner" where
  "process_spawn sl spawner_options creds =
     seq (handling
        (seq (for_each (\<lambda>c. ask (CreateDbUser (cr_db_id c) (cr_db_user c) (cr_db_persistent_role c)) (\<lambda>_. Done ())) creds) (\<lambda>_.
          want ''JSONDecodeError'' (sl_loads sl spawner_options) (\<lambda>options.
            jfield options ''CMD'' (\<lambda>cmd. perform (StartProcess cmd (database_env creds))))))
        (\<lambda>e. True) (\<lambda>e. Fail ''UnboundLocalError''))
      (\<lambda>pid. handling
        (ask (SaveSpawnerId JNull pid) (\<lambda>_. ask (SaveProxyUrl ''http://localhost:8888/'') (\<lambda>_. Done ())))
        (\<lambda>e. True) (\<lambda>e. ask (SignalProcess pid 9) (\<lambda>_. Done ())))"

section \<open>What a state means\<close>

definition two_states :: "exc + string \<Rightarrow> (spawner_call, json) history \<Rightarrow> bool" where
  "two_states r h \<longleftrightarrow> r = Inr ''RUNNING'' \<or> r = Inr ''STOPPED''"

definition state_or_exception :: "exc + string \<Rightarrow> (spawner_call, json) history \<Rightarrow> bool" where
  "state_or_exception r h \<longleftrightarrow> (case r of Inl e \<Rightarrow> True | Inr s \<Rightarrow> s = ''RUNNING'' \<or> s = ''STOPPED'')"

lemma state_or_exception_simps [simp]:
  "state_or_exception (Inl e) h" "state_or_exception (Inr ''RUNNING'') h" "state_or_exception (Inr ''STOPPED'') h"
  by (simp_all add: state_or_exception_def)

lemma spec_answer: "spec P (RUNNING_or_STOPPED b) state_or_exception"
  by (cases b) (simp_all add: RUNNING_or_STOPPED_def spec_Done)

lemma spec_task_state: "spec (\<lambda>h. True) (fargate_task_state sl now c d t p) state_or_exception"
proof -
  let ?R = "\<lambda>r h. True"
  have time: "spec (\<lambda>h. True) m ?R" for m :: "int spawner" by (rule specI) simp
  show ?thesis
    unfolding fargate_task_state_def jfield_def
    by (rule spec_seq [OF time])
      (auto intro!: spec_describe spec_answer spec_want split: option.split)
qed

lemma spec_state_body: "spec (\<lambda>h. True) (fargate_state_body sl now o' d i) state_or_exception"
  unfolding fargate_state_body_def jfield_def Let_def
  by (auto intro!: spec_want spec_true_ask spec_answer spec_task_state spec_Done)

lemma fargate_state_total:
  assumes "sl_loads sl options = Some o'" "sl_loads sl ids = Some i"
  shows "spec (\<lambda>h. True) (fargate_state sl now options created ids) two_states"
  unfolding fargate_state_def assms want_simps
  by (rule spec_handling [OF spec_state_body])
    (auto simp: two_states_def state_or_exception_def intro: spec_Done)

text \<open>Without a pipeline, the state of a task that ECS describes is the task's.\<close>

lemma fargate_state_of_task:
  assumes "sl_loads sl options = Some o'" "jget o' ''CLUSTER_NAME'' = Some c"
    and "sl_loads sl ids = Some i" "jget i ''task_arn'' = Some arn" "jtrue arn" "jget i ''pipeline_id'' = None"
    and "env h (DescribeTasks c arn) = Inr (JObj [(''tasks'', JList [task])])" "task \<noteq> JNull"
    and "jget task ''lastStatus'' = Some status"
  shows "fst (exec (fargate_state sl now options created ids) env h) =
    Inr (if status \<in> set alive_statuses then ''RUNNING'' else ''STOPPED'')"
  using assms
  by (simp add: fargate_state_def exec_handling fargate_state_body_def jfield_def jget_or_def
      fargate_task_state_def fargate_task_describe_def exec_ask RUNNING_or_STOPPED_def)

text \<open>With neither a pipeline nor a task, an instance counts as running for a minute.\<close>

lemma fargate_state_grace:
  assumes "sl_loads sl options = Some o'" "jget o' ''CLUSTER_NAME'' = Some c"
    and "sl_loads sl ids = Some (JObj [])"
  shows "exec (fargate_state sl now options created ids) env h =
    (Inr (if created > now - 60 then ''RUNNING'' else ''STOPPED''), h)"
  using assms by (simp add: fargate_state_def exec_handling fargate_state_body_def jfield_def jget_or_def
      RUNNING_or_STOPPED_def)

end
