(* ===== verification/AppHosts.thy ===== *)
theory AppHosts
  imports ProxyHandling
begin

text \<open>
  \<open>apps/applications/utils.py\<close>: which application a host stands for, and who may use it. A host is
  \<open>base\<close>, \<open>base-user\<close> or either of them followed by \<open>--commit\<close>, where the user and the commit are eight
  hexadecimal digits: a tool runs once per user, a visualisation once, and a commit is a preview.
\<close>

section \<open>Templates\<close>

datatype app_type = TOOL | VISUALISATION

record application_template =
  at_id :: nat
  at_name :: string
  at_visible :: bool
  at_wrap :: string
  at_host_basename :: string
  at_nice_name :: string
  at_spawner :: string
  at_spawner_time :: int
  at_spawner_options :: string
  at_type :: app_type
  at_default_memory :: string
  at_default_cpu :: string
  at_gitlab_project_id :: "int option"

datatype template_error = DoesNotExist | TooManyTemplates

section \<open>Reading a host\<close>

definition is_8_char_hex :: "string \<Rightarrow> bool" where
  "is_8_char_hex val \<longleftrightarrow> py_int 16 val \<noteq> None \<and> length val = 8"

text \<open>The part before the rightmost separator and the part after it, when that is an id.\<close>

definition split_id :: "string \<Rightarrow> string \<Rightarrow> string \<times> string option" where
  "split_id host sep =
     (let (possible_host_basename, rest) = rpartition host sep
      in if possible_host_basename \<noteq> [] \<and> is_8_char_hex rest
         then (possible_host_basename, Some rest) else (host, None))"

definition matching_templates :: "application_template list \<Rightarrow> string option \<Rightarrow> string \<Rightarrow>
    application_template list \<times> application_template list" where
  "matching_templates templates user host_basename =
     (if user \<noteq> None
      then filter (\<lambda>t. at_type t = TOOL \<and> at_host_basename t = host_basename) templates else [],
      if user = None
      then filter (\<lambda>t. at_type t = VISUALISATION \<and> at_host_basename t = host_basename) templates
      else [])"

definition application_template_tag_user_commit_from_host ::
  "application_template list \<Rightarrow> string \<Rightarrow>
     template_error + application_template \<times> string option \<times> string option \<times> string option" where
  "application_template_tag_user_commit_from_host templates public_host =
     (let (host_basename, commit_id) = split_id public_host ''--'';
          (host_basename, user) = split_id host_basename ''-'';
          (matching_tools, matching_visualisations) = matching_templates templates user host_basename;
          tag = (if matching_visualisations \<noteq> [] then Some public_host else None)
      in case matching_tools @ matching_visualisations of
           [] \<Rightarrow> Inl DoesNotExist
         | [t] \<Rightarrow> Inr (t, tag, user, commit_id)
         | _ \<Rightarrow> Inl TooManyTemplates)"

section \<open>Eight hexadecimal digits\<close>

definition hex_digit_char :: "char \<Rightarrow> bool" where
  "hex_digit_char c \<longleftrightarrow> c \<in> set ''0123456789abcdef''"

definition hex_id :: "string \<Rightarrow> bool" where
  "hex_id s \<longleftrightarrow> length s = 8 \<and> list_all hex_digit_char s"

lemma hex_digit:
  assumes "hex_digit_char c"
  shows "\<exists>d < 16. digit_value 16 c = Some d" "c \<noteq> CHR ''_''" "c \<noteq> CHR ''-''" "c \<noteq> CHR ''+''"
    "c \<noteq> CHR ''x''" "c \<noteq> CHR ''X''" "c \<noteq> CHR ''.''" "\<not> py_space c"
  using assms by (auto simp: hex_digit_char_def digit_value_def py_space_def Let_def)

lemma digits_value_hex:
  "list_all hex_digit_char s \<Longrightarrow> s \<noteq> [] \<or> ok \<Longrightarrow> \<exists>v. digits_value 16 ok acc s = Some v"
proof (induction s arbitrary: ok acc)
  case (Cons c s)
  then obtain d where d: "digit_value 16 c = Some d" "c \<noteq> CHR ''_''"
    using hex_digit(1,2) by (metis list.pred_inject(2))
  have "\<exists>v. digits_value 16 True (acc * 16 + d) s = Some v"
    by (rule Cons.IH) (use Cons.prems in simp_all)
  with d show ?case by simp
qed simp

lemma hex_id_int: "hex_id s \<Longrightarrow> is_8_char_hex s"
proof -
  assume h: "hex_id s"
  then obtain c1 c2 cs where s: "s = c1 # c2 # cs" by (cases s; cases "tl s") (auto simp: hex_id_def)
  from h have all: "list_all hex_digit_char s" by (simp add: hex_id_def)
  have c1: "hex_digit_char c1" and c2: "hex_digit_char c2"
    using all s by simp_all
  have "strip s = s" by (rule strip_no_space) (use all hex_digit(8) in \<open>auto simp: list_all_iff\<close>)
  moreover obtain v where "digits_value 16 False 0 s = Some v"
    using digits_value_hex [OF all, of False 0] s by auto
  moreover have "\<not> startswith s ''0x''" "\<not> startswith s ''0X''"
    using hex_digit(5,6) [OF c2] s by (auto simp: startswith_def)
  ultimately have "py_int 16 s = Some (int v)"
    using hex_digit(3,4) [OF c1] s by (simp add: py_int_def unsigned_value_def)
  with h show ?thesis by (simp add: is_8_char_hex_def hex_id_def)
qed

lemma hex_id_plain: "hex_id s \<Longrightarrow> CHR ''-'' \<notin> set s \<and> CHR ''.'' \<notin> set s"
  using hex_digit(3,7) by (auto simp: hex_id_def list_all_iff)

section \<open>Building a host and reading it back\<close>

lemma rpartition_single:
  assumes "CHR ''-'' \<notin> set s"
  shows "rpartition (b @ ''-'' @ s) ''-'' = (b, s)"
  using assms find_sep_fresh [of "CHR ''-''" "rev s" "[]" "rev b"] by (simp add: rpartition_def)

lemma split_commit: "b \<noteq> [] \<Longrightarrow> hex_id c \<Longrightarrow> split_id (b @ ''--'' @ c) ''--'' = (b, Some c)"
  using rpartition_dashes [of c b] by (simp add: split_id_def hex_id_plain hex_id_int)

lemma split_user: "b \<noteq> [] \<Longrightarrow> hex_id u \<Longrightarrow> split_id (b @ ''-'' @ u) ''-'' = (b, Some u)"
  using rpartition_single [of u b] by (simp add: split_id_def hex_id_plain hex_id_int)

lemma find_dashes_skip:
  assumes "CHR ''-'' \<notin> set xs" "ys = [] \<or> hd ys \<noteq> CHR ''-''"
  shows "find_sep ''--'' (xs @ CHR ''-'' # ys) = map_option (\<lambda>(a, b). (xs @ CHR ''-'' # a, b)) (find_sep ''--'' ys)"
  using assms
proof (induction xs)
  case Nil
  then show ?case by (cases ys) (auto simp: startswith_def)
next
  case (Cons x xs)
  then show ?case by (auto simp: startswith_def option.map_comp comp_def split_def)
qed

text \<open>The dash before a user is no commit separator.\<close>

lemma no_commit_after_user:
  assumes "b \<noteq> []" "last b \<noteq> CHR ''-''" "hex_id u"
  shows "split_id (b @ ''-'' @ u) ''--'' = (b @ ''-'' @ u, None)"
proof -
  have "rev b = [] \<or> hd (rev b) \<noteq> CHR ''-''" using assms(2) by (simp add: hd_rev)
  from find_dashes_skip [of "rev u", OF _ this] hex_id_plain [OF assms(3)]
  have f: "find_sep (rev ''--'') (rev (b @ ''-'' @ u)) =
      map_option (\<lambda>(a, c). (rev u @ CHR ''-'' # a, c)) (find_sep ''--'' (rev b))" by simp
  show ?thesis
  proof (cases "find_sep ''--'' (rev b)")
    case None
    with f show ?thesis by (simp add: split_id_def rpartition_def)
  next
    case (Some p)
    obtain a c where p: "p = (a, c)" by (cases p)
    have "length (rev a @ ''-'' @ u) \<noteq> 8" using assms(3) by (simp add: hex_id_def)
    with f Some p show ?thesis by (simp add: split_id_def rpartition_def is_8_char_hex_def)
  qed
qed

definition unique_hosts :: "application_template list \<Rightarrow> bool" where
  "unique_hosts templates \<longleftrightarrow> distinct (map at_host_basename templates)"

lemma unique_match:
  assumes "unique_hosts templates" "t \<in> set templates"
  shows "filter (\<lambda>x. at_type x = at_type t \<and> at_host_basename x = at_host_basename t) templates = [t]"
proof -
  have "filter (\<lambda>x. at_host_basename x = at_host_basename t) templates = [t]"
    using assms unfolding unique_hosts_def
    by (induction templates) (auto simp: filter_empty_conv, (metis image_eqI)+)
  then have "filter (\<lambda>x. at_type x = at_type t) (filter (\<lambda>x. at_host_basename x = at_host_basename t) templates) = [t]"
    by simp
  then show ?thesis by (simp only: filter_filter conj_commute)
qed

text \<open>No host ever matches two templates, as host names are unique.\<close>

lemma never_too_many:
  assumes "unique_hosts templates"
  shows "application_template_tag_user_commit_from_host templates host \<noteq> Inl TooManyTemplates"
proof -
  have one: "length (filter (\<lambda>x. at_type x = ty \<and> at_host_basename x = b) templates) \<le> 1" for ty b
  proof (cases "filter (\<lambda>x. at_type x = ty \<and> at_host_basename x = b) templates")
    case (Cons t ts)
    then have "t \<in> set templates" "at_type t = ty" "at_host_basename t = b"
      using Cons_eq_filterD [OF Cons [symmetric]] by auto
    with unique_match [OF assms] show ?thesis by fastforce
  qed simp
  have m: "length (fst (matching_templates templates user b) @ snd (matching_templates templates user b)) \<le> 1"
    for user b
    using one by (simp add: matching_templates_def)
  obtain b c where s1: "split_id host ''--'' = (b, c)" by fastforce
  obtain b' u where s2: "split_id b ''-'' = (b', u)" by fastforce
  obtain ts vs where mt: "matching_templates templates u b' = (ts, vs)" by fastforce
  with m [of u b'] have "length (ts @ vs) \<le> 1" by simp
  then consider "ts @ vs = []" | x where "ts @ vs = [x]"
    by (cases "ts @ vs" rule: remdups_adj.cases) auto
  then show ?thesis
    by cases (simp_all add: application_template_tag_user_commit_from_host_def s1 s2 mt)
qed

definition tool_host :: "string \<Rightarrow> string \<Rightarrow> string option \<Rightarrow> string" where
  "tool_host base user commit = base @ ''-'' @ user @ (case commit of None \<Rightarrow> [] | Some c \<Rightarrow> ''--'' @ c)"

lemma tool_host_read:
  assumes "unique_hosts templates" "t \<in> set templates" "at_type t = TOOL"
    and "at_host_basename t = base" "base \<noteq> []" "last base \<noteq> CHR ''-''" "hex_id user"
    and "case commit of None \<Rightarrow> True | Some c \<Rightarrow> hex_id c"
  shows "application_template_tag_user_commit_from_host templates (tool_host base user commit) =
    Inr (t, None, Some user, commit)"
proof -
  have s1: "split_id (tool_host base user commit) ''--'' = (base @ ''-'' @ user, commit)"
    using no_commit_after_user [OF assms(5-7)] split_commit [of "base @ ''-'' @ user"] assms(8)
    by (auto simp: tool_host_def split: option.splits)
  have "filter (\<lambda>x. at_type x = TOOL \<and> at_host_basename x = base) templates = [t]"
    using unique_match [OF assms(1,2)] assms(3,4) by simp
  then have "matching_templates templates (Some user) base = ([t], [])" by (simp add: matching_templates_def)
  with s1 split_user [OF assms(5,7)] show ?thesis
    by (simp add: application_template_tag_user_commit_from_host_def)
qed

lemma visualisation_preview_read:
  assumes "unique_hosts templates" "t \<in> set templates" "at_type t = VISUALISATION"
    and "at_host_basename t = base" "base \<noteq> []" "split_id base ''-'' = (base, None)" "hex_id c"
  shows "application_template_tag_user_commit_from_host templates (base @ ''--'' @ c) =
    Inr (t, Some (base @ ''--'' @ c), None, Some c)"
proof -
  have "filter (\<lambda>x. at_type x = VISUALISATION \<and> at_host_basename x = base) templates = [t]"
    using unique_match [OF assms(1,2)] assms(3,4) by simp
  then have "matching_templates templates None base = ([], [t])" by (simp add: matching_templates_def)
  with split_commit [OF assms(5,7)] assms(6) show ?thesis
    by (simp add: application_template_tag_user_commit_from_host_def)
qed

text \<open>
  The proxy asks the API about the same host, unless the commit id reads as a port: a decimal number
  from 1 to 65535, such as \<open>00012345\<close>. Then the preview's host shows the visualisation itself.
\<close>

lemma preview_host_at_proxy:
  assumes "CHR ''.'' \<notin> set base" "hex_id c"
  shows "fst (public_host_and_port cf (base @ ''--'' @ c @ ''.'' @ root_domain_no_port cf)) =
    (if valid_port (int_of_str c) then base else base @ ''--'' @ c)"
  using suffix_of_host [OF assms(1), of c cf] hex_id_plain [OF assms(2)] by simp

end
