(* ===== verification/AppInstances.thy ===== *)
theory AppInstances
  imports AppHosts
begin

text \<open>
  \<open>apps/api_v1/views.py\<close> and \<open>apps/applications/utils.py\<close>: who may use an application, and the life of its
  instances. Each request of the API reads the database and then writes it in a separate transaction,
  so the requests are modelled as small automata that interleave.
\<close>

section \<open>Access\<close>

datatype user_access_type = REQUIRES_AUTHENTICATION | REQUIRES_AUTHORIZATION | OPEN

record app_user =
  us_id :: nat
  us_sso_id :: string
  us_permissions :: "string list"
  us_visualisations :: "nat list"

record catalogue_item =
  ci_id :: nat
  ci_template :: nat
  ci_access :: user_access_type

text \<open>\<open>stable_identification_suffix\<close>, over the hexadecimal SHA-256 digest.\<close>

definition stable_identification_suffix :: "(string \<Rightarrow> string) \<Rightarrow> string \<Rightarrow> bool \<Rightarrow> string" where
  "stable_identification_suffix sha256 identifier short =
     (let digest = sha256 identifier in if short then take 8 digest else digest)"

fun catalogue_item_of :: "catalogue_item list \<Rightarrow> application_template \<Rightarrow> string + catalogue_item" where
  "catalogue_item_of items t = (case filter (\<lambda>i. ci_template i = at_id t) items of
       [] \<Rightarrow> Inl ''DoesNotExist'' | [i] \<Rightarrow> Inr i | _ \<Rightarrow> Inl ''MultipleObjectsReturned'')"

definition is_tool_and_correct_user_and_allowed_to_start ::
  "(string \<Rightarrow> string) \<Rightarrow> app_user \<Rightarrow> application_template \<Rightarrow> string option \<Rightarrow> bool" where
  "is_tool_and_correct_user_and_allowed_to_start sha256 user t host_user \<longleftrightarrow>
     at_type t = TOOL \<and> host_user = Some (stable_identification_suffix sha256 (us_sso_id user) True) \<and>
     ''applications.start_all_applications'' \<in> set (us_permissions user)"

definition is_published_visualisation_and_requires_authentication ::
  "application_template \<Rightarrow> catalogue_item option \<Rightarrow> bool \<Rightarrow> bool" where
  "is_published_visualisation_and_requires_authentication t item is_preview \<longleftrightarrow>
     \<not> is_preview \<and> at_visible t \<and>
     (case item of None \<Rightarrow> False | Some i \<Rightarrow> ci_access i \<in> {REQUIRES_AUTHENTICATION, OPEN})"

definition is_published_visualisation_and_requires_authorisation_and_has_authorisation ::
  "app_user \<Rightarrow> application_template \<Rightarrow> catalogue_item option \<Rightarrow> bool \<Rightarrow> bool" where
  "is_published_visualisation_and_requires_authorisation_and_has_authorisation user t item is_preview \<longleftrightarrow>
     \<not> is_preview \<and> at_visible t \<and>
     (case item of None \<Rightarrow> False
      | Some i \<Rightarrow> ci_access i = REQUIRES_AUTHORIZATION \<and> ci_id i \<in> set (us_visualisations user))"

definition is_visualisation_preview_and_has_gitlab_developer ::
  "(app_user \<Rightarrow> int option \<Rightarrow> bool) \<Rightarrow> app_user \<Rightarrow> application_template \<Rightarrow> catalogue_item option \<Rightarrow> bool \<Rightarrow> bool" where
  "is_visualisation_preview_and_has_gitlab_developer gitlab user t item is_preview \<longleftrightarrow>
     is_preview \<and> item \<noteq> None \<and> gitlab user (at_gitlab_project_id t)"

definition application_api_is_allowed ::
  "(string \<Rightarrow> string) \<Rightarrow> (app_user \<Rightarrow> int option \<Rightarrow> bool) \<Rightarrow> application_template list \<Rightarrow>
    catalogue_item list \<Rightarrow> app_user \<Rightarrow> string \<Rightarrow> string + bool" where
  "application_api_is_allowed sha256 gitlab templates items user public_host =
     (case application_template_tag_user_commit_from_host templates public_host of
        Inl DoesNotExist \<Rightarrow> Inr False
      | Inl TooManyTemplates \<Rightarrow> Inl ''Exception''
      | Inr (t, tag, host_user, commit_id) \<Rightarrow>
          let decide = (\<lambda>item. let is_preview = commit_id \<noteq> None in
              is_tool_and_correct_user_and_allowed_to_start sha256 user t host_user \<or>
              is_published_visualisation_and_requires_authentication t item is_preview \<or>
              is_published_visualisation_and_requires_authorisation_and_has_authorisation user t item is_preview \<or>
              is_visualisation_preview_and_has_gitlab_developer gitlab user t item is_preview)
          in if at_type t = VISUALISATION
             then (case catalogue_item_of items t of Inl e \<Rightarrow> Inl e | Inr i \<Rightarrow> Inr (decide (Some i)))
             else Inr (decide None))"

text \<open>A tool belongs to the user in its host, and a preview to the developers of its project.\<close>

lemma tool_access:
  assumes "application_template_tag_user_commit_from_host templates host = Inr (t, tag, host_user, commit)"
    and "at_type t = TOOL"
  shows "application_api_is_allowed sha256 gitlab templates items user host =
    Inr (host_user = Some (stable_identification_suffix sha256 (us_sso_id user) True) \<and>
      ''applications.start_all_applications'' \<in> set (us_permissions user))"
  using assms
  by (simp add: application_api_is_allowed_def is_tool_and_correct_user_and_allowed_to_start_def
      is_published_visualisation_and_requires_authentication_def
      is_published_visualisation_and_requires_authorisation_and_has_authorisation_def
      is_visualisation_preview_and_has_gitlab_developer_def)

lemma visualisation_access:
  assumes "application_template_tag_user_commit_from_host templates host = Inr (t, tag, host_user, commit)"
    and "at_type t = VISUALISATION" and "catalogue_item_of items t = Inr i"
  shows "application_api_is_allowed sha256 gitlab templates items user host =
    Inr (if commit \<noteq> None then gitlab user (at_gitlab_project_id t)
         else at_visible t \<and> (ci_access i = REQUIRES_AUTHORIZATION \<longrightarrow> ci_id i \<in> set (us_visualisations user)))"
  using assms
  by (cases commit; cases "ci_access i") (simp_all add: application_api_is_allowed_def
      is_tool_and_correct_user_and_allowed_to_start_def
      is_published_visualisation_and_requires_authentication_def
      is_published_visualisation_and_requires_authorisation_and_has_authorisation_def
      is_visualisation_preview_and_has_gitlab_developer_def)

section \<open>Instances in the database\<close>

datatype app_state = SPAWNING | RUNNING | STOPPED

record instance_row =
  ai_id :: string
  ai_owner :: nat
  ai_template :: nat
  ai_public_host :: string
  ai_spawner :: string
  ai_spawner_options :: string
  ai_spawner_id :: string
  ai_spawner_created_at :: "int option"
  ai_spawner_stopped_at :: "int option"
  ai_spawner_cpu :: "string option"
  ai_spawner_memory :: "string option"
  ai_state :: app_state
  ai_proxy_url :: string
  ai_cpu :: string
  ai_memory :: string
  ai_integrity :: string
  ai_commit_id :: "string option"
  ai_created :: int

type_synonym instances = "instance_row list"

definition is_visible :: "instance_row \<Rightarrow> bool" where
  "is_visible r \<longleftrightarrow> ai_state r \<in> {RUNNING, SPAWNING}"

datatype get_error = NoInstance | MultipleInstances

definition get_api_visible_application_instance_by_public_host ::
  "instances \<Rightarrow> string \<Rightarrow> get_error + instance_row" where
  "get_api_visible_application_instance_by_public_host db public_host =
     (case filter (\<lambda>r. ai_public_host r = public_host \<and> is_visible r) db of
        [] \<Rightarrow> Inl NoInstance | [r] \<Rightarrow> Inr r | _ \<Rightarrow> Inl MultipleInstances)"

text \<open>
  The constraints of the table: the primary key and the integrity key are unique. An insertion or an
  update that breaks one of them raises and changes nothing.
\<close>

definition keys_unique :: "instances \<Rightarrow> bool" where
  "keys_unique db \<longleftrightarrow> distinct (map ai_id db) \<and> distinct (map ai_integrity db)"

definition create_instance :: "instance_row \<Rightarrow> instances \<Rightarrow> instances option" where
  "create_instance r db = (if keys_unique (db @ [r]) then Some (db @ [r]) else None)"

definition save_fields :: "string \<Rightarrow> (instance_row \<Rightarrow> instance_row) \<Rightarrow> instances \<Rightarrow> instances option" where
  "save_fields i f db =
     (let db' = map (\<lambda>r. if ai_id r = i then f r else r) db in if keys_unique db' then Some db' else None)"

definition set_application_stopped :: "string \<Rightarrow> instances \<Rightarrow> instances option" where
  "set_application_stopped i = save_fields i (\<lambda>r. r\<lparr>ai_state := STOPPED, ai_integrity := i\<rparr>)"

definition set_application_running :: "string \<Rightarrow> instances \<Rightarrow> instances option" where
  "set_application_running i = save_fields i (\<lambda>r. r\<lparr>ai_state := RUNNING\<rparr>)"

section \<open>The requests of the API\<close>

text \<open>
  A request is a sequence of transactions. \<open>pr_size\<close> is the CPU and memory of the user's configuration
  of a tool, \<open>pr_options\<close> the JSON text of the template's options, and \<open>Enqueuing\<close> the \<open>spawn.delay\<close> that
  starts the new instance. \<open>Stopping\<close> is also where \<open>kill_idle_fargate\<close> continues
  with an instance it has read before.
\<close>

record put_request =
  pr_host :: string
  pr_owner :: nat
  pr_id :: string
  pr_now :: int
  pr_size :: "string \<times> string"
  pr_options :: string

datatype phase =
    Get string
  | Put put_request
  | Patch string string
  | Delete string
  | Creating instance_row "string option"
  | Enqueuing string nat "string option" string string
  | Refetching string
  | Saving string
  | Stopping string
  | Answer nat

definition new_instance :: "put_request \<Rightarrow> application_template \<Rightarrow> string option \<Rightarrow> instance_row" where
  "new_instance pr t commit_id =
     \<lparr>ai_id = pr_id pr, ai_owner = pr_owner pr, ai_template = at_id t, ai_public_host = pr_host pr,
      ai_spawner = at_spawner t, ai_spawner_options = pr_options pr, ai_spawner_id = ''{}'',
      ai_spawner_created_at = None, ai_spawner_stopped_at = None, ai_spawner_cpu = None,
      ai_spawner_memory = None, ai_state = SPAWNING, ai_proxy_url = [],
      ai_cpu = (if at_type t = TOOL then fst (pr_size pr) else at_default_cpu t),
      ai_memory = (if at_type t = TOOL then snd (pr_size pr) else at_default_memory t),
      ai_integrity = pr_host pr, ai_commit_id = commit_id, ai_created = pr_now pr\<rparr>"

text \<open>An exception that no handler catches is the answer 500.\<close>

fun api_next :: "application_template list \<Rightarrow> instances \<Rightarrow> phase \<Rightarrow> instances \<times> phase" where
  "api_next templates db (Get host) =
     (case get_api_visible_application_instance_by_public_host db host of
        Inl NoInstance \<Rightarrow> (db, Answer 404) | Inl MultipleInstances \<Rightarrow> (db, Answer 500)
      | Inr r \<Rightarrow> (db, Answer 200))"
| "api_next templates db (Put pr) =
     (case get_api_visible_application_instance_by_public_host db (pr_host pr) of
        Inr r \<Rightarrow> (db, Answer 409)
      | Inl MultipleInstances \<Rightarrow> (db, Answer 500)
      | Inl NoInstance \<Rightarrow> (case application_template_tag_user_commit_from_host templates (pr_host pr) of
            Inl DoesNotExist \<Rightarrow> (db, Answer 400)
          | Inl TooManyTemplates \<Rightarrow> (db, Answer 500)
          | Inr (t, tag, user, commit_id) \<Rightarrow> (db, Creating (new_instance pr t commit_id) tag)))"
| "api_next templates db (Patch host state) =
     (case get_api_visible_application_instance_by_public_host db host of
        Inl NoInstance \<Rightarrow> (db, Answer 404) | Inl MultipleInstances \<Rightarrow> (db, Answer 500)
      | Inr r \<Rightarrow> if state \<noteq> ''RUNNING'' then (db, Answer 400) else (db, Saving (ai_id r)))"
| "api_next templates db (Delete host) =
     (case get_api_visible_application_instance_by_public_host db host of
        Inl NoInstance \<Rightarrow> (db, Answer 200) | Inl MultipleInstances \<Rightarrow> (db, Answer 500)
      | Inr r \<Rightarrow> (db, Stopping (ai_id r)))"
| "api_next templates db (Creating r tag) =
     (case create_instance r db of
        None \<Rightarrow> (db, Refetching (ai_public_host r))
      | Some db' \<Rightarrow> (db', Enqueuing (ai_spawner r) (ai_owner r) tag (ai_id r) (ai_spawner_options r)))"
| "api_next templates db (Enqueuing spawner user tag i options) = (db, Answer 200)"
| "api_next templates db (Refetching host) =
     (case get_api_visible_application_instance_by_public_host db host of
        Inl e \<Rightarrow> (db, Answer 500) | Inr r \<Rightarrow> (db, Answer 200))"
| "api_next templates db (Saving i) =
     (case set_application_running i db of None \<Rightarrow> (db, Answer 500) | Some db' \<Rightarrow> (db', Answer 200))"
| "api_next templates db (Stopping i) =
     (case set_application_stopped i db of None \<Rightarrow> (db, Answer 500) | Some db' \<Rightarrow> (db', Answer 200))"
| "api_next templates db (Answer n) = (db, Answer n)"

text \<open>Any number of requests, one of which makes its next step.\<close>

inductive api_step :: "application_template list \<Rightarrow> instances \<times> phase list \<Rightarrow> instances \<times> phase list \<Rightarrow> bool"
  for templates where
  request_step: "i < length ps \<Longrightarrow> api_next templates db (ps ! i) = (db', p) \<Longrightarrow>
    api_step templates (db, ps) (db', ps[i := p])"
| request_arrives: "(\<And>j. p \<noteq> Saving j) \<Longrightarrow> (\<And>r tag. p \<noteq> Creating r tag) \<Longrightarrow> api_step templates (db, ps) (db, ps @ [p])"

inductive_cases api_step_elim: "api_step templates (db, ps) (db', ps')"

section \<open>At most one instance per host\<close>

definition row_ok :: "instance_row \<Rightarrow> bool" where
  "row_ok r \<longleftrightarrow> (is_visible r \<longrightarrow> ai_integrity r = ai_public_host r)"

fun phase_ok :: "phase \<Rightarrow> bool" where
  "phase_ok (Creating r tag) = row_ok r"
| "phase_ok _ = True"

definition api_ok :: "instances \<times> phase list \<Rightarrow> bool" where
  "api_ok c \<longleftrightarrow> keys_unique (fst c) \<and> list_all row_ok (fst c) \<and> list_all phase_ok (snd c)"

text \<open>
  The one step that can break the invariant: a PATCH that saves the state of an instance that has been
  stopped since the PATCH read it.
\<close>

definition stale_save :: "instances \<Rightarrow> phase \<Rightarrow> bool" where
  "stale_save db p = (case p of Saving i \<Rightarrow> \<exists>r \<in> set db. ai_id r = i \<and> \<not> is_visible r | _ \<Rightarrow> False)"

lemma save_fields_ok:
  assumes "save_fields i f db = Some db'" "list_all row_ok db"
    and "\<And>r. r \<in> set db \<Longrightarrow> ai_id r = i \<Longrightarrow> row_ok (f r)"
  shows "keys_unique db' \<and> list_all row_ok db'"
  using assms by (auto simp: save_fields_def Let_def list_all_iff split: if_splits)

lemma api_next_ok:
  assumes "api_ok (db, ps)" "p \<in> set ps" "api_next templates db p = (db', p')" "\<not> stale_save db p"
  shows "keys_unique db' \<and> list_all row_ok db' \<and> phase_ok p'"
proof -
  have db: "keys_unique db" "list_all row_ok db" and p: "phase_ok p"
    using assms(1,2) by (auto simp: api_ok_def list_all_iff)
  show ?thesis
  proof (cases p)
    case (Creating r tag)
    with assms(3) db p show ?thesis
      by (auto simp: create_instance_def split: if_splits)
  next
    case (Saving i)
    have "row_ok (r\<lparr>ai_state := RUNNING\<rparr>)" if "r \<in> set db" "ai_id r = i" for r
      using that assms(4) db(2) Saving by (auto simp: stale_save_def row_ok_def list_all_iff is_visible_def)
    with save_fields_ok [OF _ db(2), of i] assms(3) db Saving show ?thesis
      by (auto simp: set_application_running_def split: option.splits)
  next
    case (Stopping i)
    have "row_ok (r\<lparr>ai_state := STOPPED, ai_integrity := i\<rparr>)" for r
      by (simp add: row_ok_def is_visible_def)
    with save_fields_ok [OF _ db(2), of i] assms(3) db Stopping show ?thesis
      by (auto simp: set_application_stopped_def split: option.splits)
  next
    case (Put pr)
    with assms(3) db show ?thesis
      by (auto simp: new_instance_def row_ok_def split: sum.splits get_error.splits template_error.splits)
  qed (use assms(3) db in \<open>auto split: sum.splits get_error.splits if_splits\<close>)
qed

lemma api_step_ok:
  assumes "api_step templates (db, ps) (db', ps')" "api_ok (db, ps)" "\<forall>p \<in> set ps. \<not> stale_save db p"
  shows "api_ok (db', ps')"
proof -
  from assms(1) consider (step) i p where "i < length ps" "api_next templates db (ps ! i) = (db', p)" "ps' = ps[i := p]"
    | (arrives) p where "\<And>r tag. p \<noteq> Creating r tag" "db' = db" "ps' = ps @ [p]"
    by (auto elim!: api_step_elim)
  then show ?thesis
  proof cases
    case step
    with assms(2,3) api_next_ok [OF assms(2), of "ps ! i" templates db' p] show ?thesis
      by (auto simp: api_ok_def list_all_length nth_list_update)
  next
    case arrives
    with assms(2) show ?thesis by (cases p) (auto simp: api_ok_def)
  qed
qed

text \<open>Runs in which no PATCH is overtaken by a stop.\<close>

inductive live_run :: "application_template list \<Rightarrow> instances \<times> phase list \<Rightarrow> instances \<times> phase list \<Rightarrow> bool"
  for templates where
  live_start: "live_run templates c c"
| live_step: "live_run templates c (db, ps) \<Longrightarrow> \<forall>p \<in> set ps. \<not> stale_save db p \<Longrightarrow>
    api_step templates (db, ps) c' \<Longrightarrow> live_run templates c c'"

lemma live_run_ok: "live_run templates c c' \<Longrightarrow> api_ok c \<Longrightarrow> api_ok c'"
proof (induction rule: live_run.induct)
  case (live_step c db ps c')
  then show ?case using api_step_ok by (cases c') blast
qed

lemma one_visible:
  assumes "keys_unique db" "list_all row_ok db"
  shows "length (filter (\<lambda>r. ai_public_host r = host \<and> is_visible r) db) \<le> 1"
proof -
  let ?rs = "filter (\<lambda>r. ai_public_host r = host \<and> is_visible r) db"
  have "distinct (map ai_integrity ?rs)"
    using assms(1) by (simp add: keys_unique_def distinct_map_filter)
  moreover have "\<forall>r \<in> set ?rs. ai_integrity r = host"
    using assms(2) by (auto simp: row_ok_def list_all_iff)
  ultimately show ?thesis by (cases ?rs rule: remdups_adj.cases) auto
qed

lemma never_multiple:
  "keys_unique db \<Longrightarrow> list_all row_ok db \<Longrightarrow>
     get_api_visible_application_instance_by_public_host db host \<noteq> Inl MultipleInstances"
  using one_visible [of db host]
  by (auto simp: get_api_visible_application_instance_by_public_host_def split: list.splits)

section \<open>The view\<close>

text \<open>The first phase of a request, or the answer of the view itself.\<close>

definition application_api_view ::
  "string + bool \<Rightarrow> string \<Rightarrow> string \<Rightarrow> put_request \<Rightarrow> string \<Rightarrow> phase" where
  "application_api_view allowed method public_host pr state =
     (case allowed of
        Inl e \<Rightarrow> Answer 500
      | Inr False \<Rightarrow> Answer 403
      | Inr True \<Rightarrow>
          if method = ''GET'' then Get public_host
          else if method = ''PUT'' then Put (pr\<lparr>pr_host := public_host\<rparr>)
          else if method = ''PATCH'' then Patch public_host state
          else if method = ''DELETE'' then Delete public_host
          else Answer 405)"

text \<open>The state that the proxy sees: the database's only while the spawner reports a running instance.\<close>

fun state_name :: "app_state \<Rightarrow> string" where
  "state_name SPAWNING = ''SPAWNING''"
| "state_name RUNNING = ''RUNNING''"
| "state_name STOPPED = ''STOPPED''"

definition api_application_dict ::
  "(string \<Rightarrow> string) \<Rightarrow> (instance_row \<Rightarrow> string) \<Rightarrow> string \<Rightarrow> application_template \<Rightarrow> instance_row \<Rightarrow> json" where
  "api_application_dict sha256 spawner_state owner_sso_id t r =
     JObj [(''proxy_url'', JStr (ai_proxy_url r)),
       (''state'', JStr (if spawner_state r = ''RUNNING'' then state_name (ai_state r) else spawner_state r)),
       (''user'', JStr (stable_identification_suffix sha256 owner_sso_id True)),
       (''wrap'', JStr (at_wrap t)), (''name'', JStr (at_nice_name t))]"

definition application_options ::
  "(string \<Rightarrow> app_type \<Rightarrow> json dict) \<Rightarrow> (string \<Rightarrow> json dict option) \<Rightarrow> application_template \<Rightarrow> json dict option" where
  "application_options settings loads t =
     map_option (dict_merge (settings (at_spawner t) (at_type t))) (loads (at_spawner_options t))"

section \<open>A PATCH that is overtaken\<close>

text \<open>Requests that run one step each, in the order of a schedule.\<close>

fun scheduled :: "application_template list \<Rightarrow> nat list \<Rightarrow> instances \<times> phase list \<Rightarrow> instances \<times> phase list" where
  "scheduled templates [] c = c"
| "scheduled templates (i # is) (db, ps) =
     (case api_next templates db (ps ! i) of (db', p) \<Rightarrow> scheduled templates is (db', ps[i := p]))"

lemma scheduled_reachable:
  "\<forall>i \<in> set is. i < length (snd c) \<Longrightarrow> (api_step templates)\<^sup>*\<^sup>* c (scheduled templates is c)"
proof (induction "is" arbitrary: c)
  case (Cons i "is")
  obtain db ps db' p where c: "c = (db, ps)" and n: "api_next templates db (ps ! i) = (db', p)"
    by (metis surj_pair)
  have "api_step templates c (db', ps[i := p])"
    using Cons.prems c n by (auto intro: request_step)
  moreover have "(api_step templates)\<^sup>*\<^sup>* (db', ps[i := p]) (scheduled templates is (db', ps[i := p]))"
    by (rule Cons.IH) (use Cons.prems c in simp)
  ultimately show ?case using c n by (simp add: converse_rtranclp_into_rtranclp)
qed simp

definition sample_template :: application_template where
  "sample_template = \<lparr>at_id = 1, at_name = ''rstudio'', at_visible = True, at_wrap = ''NONE'',
     at_host_basename = ''rstudio'', at_nice_name = ''RStudio'', at_spawner = ''FARGATE'', at_spawner_time = 120,
     at_spawner_options = ''{}'', at_type = TOOL, at_default_memory = ''8192'', at_default_cpu = ''1024'',
     at_gitlab_project_id = None\<rparr>"

definition sample_put :: "string \<Rightarrow> put_request" where
  "sample_put i = \<lparr>pr_host = ''rstudio-0000000a'', pr_owner = 1, pr_id = i, pr_now = 0, pr_size = (''1024'', ''8192''),
     pr_options = ''{}''\<rparr>"

definition overtaken_schedule :: "nat list" where
  "overtaken_schedule = [0, 0, 1, 2, 2, 3, 3, 1, 4]"

text \<open>
  The proxy's PATCH reads the spawning instance and is overtaken by a DELETE and the PUT of a new
  instance; its save then makes the stopped instance visible again. From then on there are two
  instances at the host, and every request for it fails.
\<close>

lemma overtaken_patch:
  "\<exists>db ps. (api_step [sample_template])\<^sup>*\<^sup>*
     ([], [Put (sample_put ''a''), Patch ''rstudio-0000000a'' ''RUNNING'', Delete ''rstudio-0000000a'',
           Put (sample_put ''b''), Get ''rstudio-0000000a'']) (db, ps) \<and>
    get_api_visible_application_instance_by_public_host db ''rstudio-0000000a'' = Inl MultipleInstances \<and>
    ps ! 4 = Answer 500"
proof -
  let ?c = "([], [Put (sample_put ''a''), Patch ''rstudio-0000000a'' ''RUNNING'', Delete ''rstudio-0000000a'',
           Put (sample_put ''b''), Get ''rstudio-0000000a''])"
  have "case scheduled [sample_template] overtaken_schedule ?c of (db, ps) \<Rightarrow>
     get_api_visible_application_instance_by_public_host db ''rstudio-0000000a'' = Inl MultipleInstances \<and>
     ps ! 4 = Answer 500" by code_simp
  moreover have "(api_step [sample_template])\<^sup>*\<^sup>* ?c (scheduled [sample_template] overtaken_schedule ?c)"
    by (rule scheduled_reachable) (simp add: overtaken_schedule_def)
  ultimately show ?thesis by (auto split: prod.splits)
qed

end
