(* ===== verification/DataAccess.thy ===== *)
theory DataAccess
  imports AppInstances
begin

text \<open>
  \<open>apps/core/utils.py\<close>: the names of database users, and the tables that a user or a visualisation may
  read. The rows of the admin database are lists, in whatever order the database returns them.
\<close>

section \<open>Database users\<close>

definition user_char :: "char \<Rightarrow> bool" where
  "user_char c \<longleftrightarrow> c \<in> set ''abcdefghijklmnopqrstuvwxyz0123456789''"

text \<open>\<open>unique_enough\<close> is the random part; \<open>None\<close> is the \<open>ValueError\<close>.\<close>

definition postgres_user :: "string \<Rightarrow> string \<Rightarrow> string \<Rightarrow> string option" where
  "postgres_user unique_enough stem suf =
     (if 10 < length suf then None
      else let suf' = (if suf \<noteq> [] then ''_'' @ suf else []);
               max_email_length = 52 - length suf'
           in Some (''user_'' @ take max_email_length (map (\<lambda>c. if user_char c then c else CHR ''_'') (lower stem)) @
                ''_'' @ unique_enough @ suf'))"

lemma postgres_user_length:
  "length unique_enough = 5 \<Longrightarrow> postgres_user unique_enough stem suf = Some name \<Longrightarrow> length name \<le> 63"
  by (auto simp: postgres_user_def Let_def split: if_splits)

definition db_role_schema_suffix_for_user :: "(string \<Rightarrow> string) \<Rightarrow> string \<Rightarrow> string" where
  "db_role_schema_suffix_for_user sha256 sso_id = stable_identification_suffix sha256 sso_id True"

definition db_role_schema_suffix_for_app :: "application_template \<Rightarrow> string" where
  "db_role_schema_suffix_for_app t = ''app_'' @ at_host_basename t"

text \<open>\<open>Team.save\<close> names the schema of a team, and its role, when it has no name yet.\<close>

definition team_schema_name :: "string \<Rightarrow> string \<Rightarrow> string" where
  "team_schema_name name schema_name =
     (if schema_name \<noteq> [] then schema_name
      else ''_team_'' @ take 63 (map (\<lambda>c. if user_char c then c else CHR ''_'') (lower name)))"

section \<open>Datasets\<close>

record dataset =
  ds_id :: nat
  ds_name :: string
  ds_access :: user_access_type
  ds_published :: bool
  ds_deleted :: bool
  ds_email_domains :: "string list"
  ds_user_permissions :: "nat list"
  ds_template_permissions :: "nat list"

record source_table =
  st_id :: nat
  st_database :: nat
  st_schema :: string
  st_table :: string
  st_dataset :: dataset

record reference_dataset =
  rd_uuid :: nat
  rd_name :: string
  rd_database :: "nat option"
  rd_table_name :: string
  rd_published :: bool
  rd_deleted :: bool

record data_user =
  du_id :: nat
  du_email :: string
  du_is_superuser :: bool

text \<open>An entry of the list of tables: database, schema, table, and the dataset's id, name and access.\<close>

type_synonym table_entry = "nat \<times> string \<times> string \<times> nat \<times> string \<times> user_access_type"

definition source_entry :: "source_table \<Rightarrow> table_entry" where
  "source_entry x = (st_database x, st_schema x, st_table x, ds_id (st_dataset x), ds_name (st_dataset x),
     ds_access (st_dataset x))"

definition reference_entries :: "(reference_dataset \<Rightarrow> bool) \<Rightarrow> reference_dataset list \<Rightarrow> table_entry list" where
  "reference_entries c rs = List.map_filter (\<lambda>r. if c r
     then map_option (\<lambda>d. (d, ''public'', rd_table_name r, rd_uuid r, rd_name r, REQUIRES_AUTHENTICATION)) (rd_database r)
     else None) rs"

text \<open>The three querysets of a user, and their union.\<close>

definition req_authentication :: "dataset \<Rightarrow> bool" where
  "req_authentication d \<longleftrightarrow> ds_access d \<in> {REQUIRES_AUTHENTICATION, OPEN}"

definition req_authorization :: "data_user \<Rightarrow> dataset \<Rightarrow> bool" where
  "req_authorization user d \<longleftrightarrow> ds_access d = REQUIRES_AUTHORIZATION \<and> du_id user \<in> set (ds_user_permissions d)"

definition automatically_authorized :: "string \<Rightarrow> dataset \<Rightarrow> bool" where
  "automatically_authorized domain d \<longleftrightarrow> domain \<in> set (ds_email_domains d)"

definition listed_for :: "data_user \<Rightarrow> bool \<Rightarrow> bool \<Rightarrow> bool" where
  "listed_for user published deleted \<longleftrightarrow> \<not> deleted \<and> (du_is_superuser user \<or> published)"

definition source_tables_for_user ::
  "source_table list \<Rightarrow> reference_dataset list \<Rightarrow> data_user \<Rightarrow> table_entry list option" where
  "source_tables_for_user tables refs user =
     map_option (\<lambda>domain.
       map source_entry (filter (\<lambda>x. let d = st_dataset x in
           listed_for user (ds_published d) (ds_deleted d) \<and>
           (req_authentication d \<or> req_authorization user d \<or> automatically_authorized domain d)) tables) @
       reference_entries (\<lambda>r. listed_for user (rd_published r) (rd_deleted r)) refs)
     (py_index (split (du_email user) ''@'') 1)"

definition source_tables_for_app ::
  "source_table list \<Rightarrow> reference_dataset list \<Rightarrow> application_template \<Rightarrow> table_entry list" where
  "source_tables_for_app tables refs t =
     map source_entry (filter (\<lambda>x. let d = st_dataset x in
         ds_published d \<and> \<not> ds_deleted d \<and>
         (req_authentication d \<or>
          (ds_access d = REQUIRES_AUTHORIZATION \<and> at_id t \<in> set (ds_template_permissions d)))) tables) @
     reference_entries (\<lambda>r. rd_published r \<and> \<not> rd_deleted r) refs"

definition can_access_schema_table ::
  "source_table list \<Rightarrow> data_user \<Rightarrow> nat \<Rightarrow> string \<Rightarrow> string \<Rightarrow> bool" where
  "can_access_schema_table tables user database schema table =
     list_ex (\<lambda>x. st_schema x = schema \<and> st_table x = table \<and> st_database x = database \<and>
       (let d = st_dataset x in \<not> ds_deleted d \<and> ds_published d \<and>
          (req_authentication d \<or> du_id user \<in> set (ds_user_permissions d)))) tables"

section \<open>What the lists contain\<close>

text \<open>
  A dataset's tables are readable when it is neither deleted nor, but for superusers, unpublished, and
  when it does not ask for authorisation or the user has it in person or by email domain.
\<close>

definition readable_by :: "data_user \<Rightarrow> string \<Rightarrow> dataset \<Rightarrow> bool" where
  "readable_by user domain d \<longleftrightarrow> \<not> ds_deleted d \<and> (du_is_superuser user \<or> ds_published d) \<and>
     (ds_access d \<noteq> REQUIRES_AUTHORIZATION \<or> du_id user \<in> set (ds_user_permissions d) \<or>
      domain \<in> set (ds_email_domains d))"

lemma readable_by_alt: "listed_for user (ds_published d) (ds_deleted d) \<and>
    (req_authentication d \<or> req_authorization user d \<or> automatically_authorized domain d) \<longleftrightarrow>
   readable_by user domain d"
  by (cases "ds_access d")
    (auto simp: req_authentication_def req_authorization_def automatically_authorized_def listed_for_def
      readable_by_def)

lemma user_tables:
  "source_tables_for_user tables refs user = map_option (\<lambda>domain.
     map source_entry (filter (\<lambda>x. readable_by user domain (st_dataset x)) tables) @
     reference_entries (\<lambda>r. listed_for user (rd_published r) (rd_deleted r)) refs)
   (py_index (split (du_email user) ''@'') 1)"
  unfolding source_tables_for_user_def Let_def readable_by_alt ..

text \<open>A table that the check admits is among the user's tables.\<close>

lemma accessible_is_listed:
  assumes "source_tables_for_user tables refs user = Some entries"
    and "can_access_schema_table tables user db s t"
  shows "\<exists>i n a. (db, s, t, i, n, a) \<in> set entries"
proof -
  obtain x where x: "x \<in> set tables" "st_schema x = s" "st_table x = t" "st_database x = db"
      "\<not> ds_deleted (st_dataset x)" "ds_published (st_dataset x)"
      "req_authentication (st_dataset x) \<or> du_id user \<in> set (ds_user_permissions (st_dataset x))"
    using assms(2) by (auto simp: can_access_schema_table_def list_ex_iff Let_def)
  then have "req_authentication (st_dataset x) \<or> req_authorization user (st_dataset x)"
    by (cases "ds_access (st_dataset x)") (auto simp: req_authentication_def req_authorization_def)
  with x have "source_entry x \<in> set entries"
    using assms(1) by (auto simp: source_tables_for_user_def listed_for_def Let_def)
  with x show ?thesis by (auto simp: source_entry_def)
qed

end
