(* ===== verification/AppProperties.thy ===== *)
theory AppProperties
  imports SpawnerState DataAccess
begin

text \<open>
  The properties of applications, their instances and their tasks, and of the tables that may be read,
  each over the definitions of the component it is about.
\<close>

section \<open>Hosts and access\<close>

text \<open>
  C11: the host of a tool, built from the tool's name, the user's id and perhaps a commit, is read back
  into the same template, user and commit. Names of templates are unique and do not end in a dash.
\<close>

theorem tool_host_round_trip:
  assumes "unique_hosts templates" "t \<in> set templates" "at_type t = TOOL"
    and "at_host_basename t = base" "base \<noteq> []" "last base \<noteq> CHR ''-''" "hex_id user"
    and "case commit of None \<Rightarrow> True | Some c \<Rightarrow> hex_id c"
  shows "application_template_tag_user_commit_from_host templates (tool_host base user commit) =
    Inr (t, None, Some user, commit)"
  using assms by (rule tool_host_read)

theorem tool_host_round_trip_witness:
  "application_template_tag_user_commit_from_host [sample_template] ''rstudio-0000000a--0000000b'' =
    Inr (sample_template, None, Some ''0000000a'', Some ''0000000b'')"
  using tool_host_round_trip [of "[sample_template]" sample_template "''rstudio''" "''0000000a''" "Some ''0000000b''"]
  by (simp add: unique_hosts_def sample_template_def hex_id_def hex_digit_char_def tool_host_def)

text \<open>
  The proxy hands the whole host of a preview to the API, unless the commit id reads as a port, a
  decimal number from 1 to 65535: then it asks for the visualisation itself.
\<close>

theorem previews_behind_the_proxy:
  assumes "CHR ''.'' \<notin> set base" "hex_id c"
  shows "fst (public_host_and_port cf (base @ ''--'' @ c @ ''.'' @ root_domain_no_port cf)) =
    (if valid_port (int_of_str c) then base else base @ ''--'' @ c)"
  using assms by (rule preview_host_at_proxy)

theorem previews_behind_the_proxy_witness:
  "\<forall>cf. fst (public_host_and_port cf (''report--00000012.'' @ root_domain_no_port cf)) = ''report''"
proof
  fix cf
  have "CHR ''.'' \<notin> set ''report''" "hex_id ''00000012''" by (simp_all add: hex_id_def hex_digit_char_def)
  moreover have "valid_port (int_of_str ''00000012'')" by code_simp
  ultimately show "fst (public_host_and_port cf (''report--00000012.'' @ root_domain_no_port cf)) = ''report''"
    using previews_behind_the_proxy [of "''report''" "''00000012''" cf] by simp
qed

text \<open>
  C12: a tool is open to the user its host names, with the permission to start applications; a
  visualisation to whoever its catalogue item admits, while it is visible; a preview to the developers
  of its project; and a host without a template to nobody.
\<close>

definition may_use :: "(string \<Rightarrow> string) \<Rightarrow> (app_user \<Rightarrow> int option \<Rightarrow> bool) \<Rightarrow> app_user \<Rightarrow>
    catalogue_item option \<Rightarrow> application_template \<times> string option \<times> string option \<Rightarrow> bool" where
  "may_use sha256 gitlab user item = (\<lambda>(t, host_user, commit).
     case item of
       None \<Rightarrow> host_user = Some (take 8 (sha256 (us_sso_id user))) \<and>
         ''applications.start_all_applications'' \<in> set (us_permissions user)
     | Some i \<Rightarrow> if commit \<noteq> None then gitlab user (at_gitlab_project_id t)
         else at_visible t \<and> (ci_access i = REQUIRES_AUTHORIZATION \<longrightarrow> ci_id i \<in> set (us_visualisations user)))"

theorem access_to_applications:
  "application_api_is_allowed sha256 gitlab templates items user host =
    (case application_template_tag_user_commit_from_host templates host of
       Inl DoesNotExist \<Rightarrow> Inr False
     | Inl TooManyTemplates \<Rightarrow> Inl ''Exception''
     | Inr (t, tag, host_user, commit) \<Rightarrow>
         (case at_type t of
            TOOL \<Rightarrow> Inr (may_use sha256 gitlab user None (t, host_user, commit))
          | VISUALISATION \<Rightarrow> (case catalogue_item_of items t of
                Inl e \<Rightarrow> Inl e | Inr i \<Rightarrow> Inr (may_use sha256 gitlab user (Some i) (t, host_user, commit)))))"
proof (cases "application_template_tag_user_commit_from_host templates host")
  case (Inl e)
  then show ?thesis by (cases e) (simp_all add: application_api_is_allowed_def)
next
  case (Inr x)
  obtain t tag u c where x: "x = (t, tag, u, c)" by (cases x)
  show ?thesis
  proof (cases "at_type t")
    case TOOL
    with tool_access [of templates host t tag u c] Inr x show ?thesis
      by (simp add: may_use_def stable_identification_suffix_def)
  next
    case VISUALISATION
    show ?thesis
    proof (cases "catalogue_item_of items t")
      case (Inl e)
      with Inr x VISUALISATION show ?thesis by (simp add: application_api_is_allowed_def Let_def)
    next
      case (Inr i)
      with visualisation_access [of templates host t tag u c items i] VISUALISATION x
        \<open>application_template_tag_user_commit_from_host templates host = Inr x\<close>
      show ?thesis by (simp add: may_use_def)
    qed
  qed
qed

section \<open>Instances\<close>

text \<open>
  C13: as long as no PATCH saves an instance that was stopped after the PATCH had read it, the
  interleaved requests of the API never leave two visible instances at one host.
\<close>

theorem one_instance_per_host:
  assumes "live_run templates ([], ps) (db, ps')" "list_all phase_ok ps"
  shows "get_api_visible_application_instance_by_public_host db host \<noteq> Inl MultipleInstances"
proof -
  have "api_ok ([], ps)" using assms(2) by (simp add: api_ok_def keys_unique_def)
  from live_run_ok [OF assms(1) this] show ?thesis by (simp add: api_ok_def never_multiple)
qed

theorem one_instance_per_host_witness:
  "\<exists>db p. db \<noteq> [] \<and> live_run [sample_template] ([], [Put (sample_put ''a'')]) (db, [p]) \<and>
    get_api_visible_application_instance_by_public_host db ''rstudio-0000000a'' \<noteq> Inl MultipleInstances"
proof -
  let ?r = "new_instance (sample_put ''a'') sample_template None"
  let ?p = "Enqueuing ''FARGATE'' 1 None ''a'' ''{}''"
  have n1: "api_next [sample_template] [] (Put (sample_put ''a'')) = ([], Creating ?r None)" by code_simp
  have n2: "api_next [sample_template] [] (Creating ?r None) = ([?r], ?p)" by code_simp
  have s1: "api_step [sample_template] ([], [Put (sample_put ''a'')]) ([], [Creating ?r None])"
    using request_step [of 0 "[Put (sample_put ''a'')]" "[sample_template]" "[]" "[]" "Creating ?r None"] n1 by simp
  have s2: "api_step [sample_template] ([], [Creating ?r None]) ([?r], [?p])"
    using request_step [of 0 "[Creating ?r None]" "[sample_template]" "[]" "[?r]" ?p] n2 by simp
  have "live_run [sample_template] ([], [Put (sample_put ''a'')]) ([?r], [?p])"
    by (rule live_step [OF live_step [OF live_start _ s1] _ s2]) (simp_all add: stale_save_def)
  with one_instance_per_host [OF this] show ?thesis by (intro exI [of _ "[?r]"] exI [of _ ?p]) simp
qed

text \<open>
  Without that proviso the claim fails. The proxy's PATCH reads a spawning instance, a DELETE stops
  it, a PUT creates the next one, and the PATCH then makes the stopped instance visible again: the host
  has two instances and every request for it fails.
\<close>

theorem overtaken_patch_breaks_the_host:
  "\<exists>db ps. (api_step [sample_template])\<^sup>*\<^sup>*
     ([], [Put (sample_put ''a''), Patch ''rstudio-0000000a'' ''RUNNING'', Delete ''rstudio-0000000a'',
           Put (sample_put ''b''), Get ''rstudio-0000000a'']) (db, ps) \<and>
    get_api_visible_application_instance_by_public_host db ''rstudio-0000000a'' = Inl MultipleInstances \<and>
    ps ! 4 = Answer 500"
  by (rule overtaken_patch)

section \<open>Tasks\<close>

text \<open>
  C14: when \<open>spawn\<close> returns, every task that ECS reported as started has its address recorded or has
  been stopped, whatever the services answer and raise.
\<close>

theorem spawn_leaves_no_task_behind:
  assumes "exec (fargate_spawn sl si tag so creds schema) env [] = (Inr (), h)" and "a \<in> started_tasks h"
  shows "served h \<or> task_stopped h a"
  using assms by (rule no_task_left_behind)

text \<open>
  Services for the witness: ECS starts a task but its reply lacks the fields that are recorded next.
\<close>

definition sample_options :: json where
  "sample_options = JObj (map (\<lambda>k. (k, JStr ''x'')) [''CLUSTER_NAME'', ''CONTAINER_NAME'', ''DEFINITION_ARN'',
     ''SECURITY_GROUPS'', ''SUBNETS'', ''PORT'', ''S3_SYNC'', ''S3_REGION'', ''S3_HOST'', ''S3_BUCKET''])"

definition sample_libs :: spawn_libs where
  "sample_libs = \<lparr>sl_loads = (\<lambda>_. Some sample_options), sl_suffix = (\<lambda>s. s), sl_efs_id = ''fs'',
     sl_ip_port = (\<lambda>ip port. ''http''), sl_parse_time = (\<lambda>_. Some 0)\<rparr>"

fun sample_services :: "(spawner_call, json) services" where
  "sample_services h (CreateIamRole a b c) = Inr (JObj [(''role_arn'', JStr ''r''), (''s3_prefix'', JStr ''p'')])"
| "sample_services h (DescribeTaskDefinition d) = Inr (JObj [(''taskDefinition'', JObj [(''containerDefinitions'',
     JList [JObj [(''name'', JStr ''x''), (''image'', JStr ''i'')]])])])"
| "sample_services h (RegisterTaskDefinition r d) = Inr (JObj [(''taskDefinition'',
     JObj [(''taskDefinitionArn'', JStr ''d'')])])"
| "sample_services h (RunTask request) = Inr (JObj [(''tasks'', JList [JObj [(''taskArn'', JStr ''t'')]])])"
| "sample_services h q = Inr JNull"

definition sample_input :: spawn_input where
  "sample_input = \<lparr>si_email = ''a@b'', si_sso_id = ''s'', si_efs_access_point = None, si_is_tool = True,
     si_commit_id = None, si_gitlab_project = None, si_cpu = ''1'', si_memory = ''2''\<rparr>"

lemma started_Cons: "a \<in> started_tasks ((q, r) # h) \<longleftrightarrow>
    (is_run q \<and> (\<exists>reply. r = Inr reply \<and> Option.bind (task_of_reply reply) (\<lambda>task. jget task ''taskArn'') = Some a) \<and> jtrue a) \<or>
    a \<in> started_tasks h"
  by (auto simp: started_tasks_def)

lemma sample_spawn:
  "\<exists>h. exec (fargate_spawn sample_libs sample_input None ''{}'' [] ''s'') sample_services [] = (Inr (), h) \<and>
     JStr ''t'' \<in> started_tasks h \<and> \<not> served h"
proof -
  let ?spawn = "fargate_spawn sample_libs sample_input None ''{}'' [] ''s''"
  obtain r h where x: "exec ?spawn sample_services [] = (r, h)" by fastforce
  have "attempts 10 c m = handling m c (\<lambda>e. attempts 9 c m)" for c and m :: "json spawner"
    by (simp add: numeral_eq_Suc)
  moreover have "fargate_task_stop 6 c t = handling (ask (StopTask c t) (\<lambda>_. Done ())) (\<lambda>e. True)
       (\<lambda>e. fargate_task_stop 5 c t)" for c t by (simp add: numeral_eq_Suc)
  ultimately have "(r, h) = (Inr (), h) \<and> JStr ''t'' \<in> started_tasks h \<and> \<not> served h"
    using x
    by (simp add: fargate_spawn_def stretch_def exec_seq exec_handling exec_ask spawn_prepare_def sample_libs_def
        sample_input_def read_options_def sample_options_def jfield_def jget_or_def spawn_run_def fargate_task_run_def Let_def
        fargate_new_task_definition_def has_text_def dict_set_def spawn_watch_def spawn_cleanup_def)
      (auto simp: started_Cons task_of_reply_def served_def)
  with x show ?thesis by auto
qed

theorem spawn_leaves_no_task_behind_witness:
  "\<exists>h. exec (fargate_spawn sample_libs sample_input None ''{}'' [] ''s'') sample_services [] = (Inr (), h) \<and>
     task_stopped h (JStr ''t'')"
  using sample_spawn spawn_leaves_no_task_behind by blast















section \<open>Data access\<close>

text \<open>
  A database user gets a name of at most 63 characters, PostgreSQL's limit, and only for a suffix
  of more than ten characters there is none.
\<close>

theorem database_user_names_fit:
  assumes "length unique_enough = 5"
  shows "case postgres_user unique_enough stem suf of
      None \<Rightarrow> 10 < length suf | Some name \<Rightarrow> length suf \<le> 10 \<and> length name \<le> 63 \<and> startswith name ''user_''"
proof (cases "postgres_user unique_enough stem suf")
  case None
  then show ?thesis by (simp add: postgres_user_def Let_def split: if_splits)
next
  case (Some name)
  with postgres_user_length [OF assms this] show ?thesis
    by (auto simp: postgres_user_def Let_def startswith_def split: if_splits)
qed

theorem database_user_names_fit_witness:
  "length (the (postgres_user ''a1b2c'' ''Some.One@example.com'' ''qs'')) \<le> 63"
  using database_user_names_fit [of "''a1b2c''" "''Some.One@example.com''" "''qs''"]
  by (simp add: postgres_user_def split: option.splits)

lemma set_reference_entries: "set (reference_entries c refs) =
    {(d, ''public'', rd_table_name r, rd_uuid r, rd_name r, REQUIRES_AUTHENTICATION) | r d.
       r \<in> set refs \<and> rd_database r = Some d \<and> c r}"
proof (induction refs)
  case (Cons r refs)
  have "reference_entries c (r # refs) = (case (if c r then rd_database r else None) of
      None \<Rightarrow> reference_entries c refs
    | Some d \<Rightarrow> (d, ''public'', rd_table_name r, rd_uuid r, rd_name r, REQUIRES_AUTHENTICATION) # reference_entries c refs)"
    by (simp add: reference_entries_def List.map_filter_simps split: option.split)
  with Cons show ?case by (auto split: if_splits option.splits)
qed (simp add: reference_entries_def List.map_filter_simps)

text \<open>
  The tables listed for a user are exactly those of the datasets that the user may read, and of the
  published reference datasets kept in an external database.
\<close>

theorem listed_tables_are_readable:
  assumes "source_tables_for_user tables refs user = Some entries"
  shows "set entries =
    {source_entry x | x. x \<in> set tables \<and> readable_by user (split (du_email user) ''@'' ! 1) (st_dataset x)} \<union>
    {(d, ''public'', rd_table_name r, rd_uuid r, rd_name r, REQUIRES_AUTHENTICATION) | r d.
       r \<in> set refs \<and> rd_database r = Some d \<and> \<not> rd_deleted r \<and> (du_is_superuser user \<or> rd_published r)}"
proof -
  let ?domain = "split (du_email user) ''@'' ! 1"
  have "entries = map source_entry (filter (\<lambda>x. readable_by user ?domain (st_dataset x)) tables) @
      reference_entries (\<lambda>r. listed_for user (rd_published r) (rd_deleted r)) refs"
    using assms by (auto simp: user_tables py_index_def Let_def split: if_splits)
  then have e: "set entries = set (map source_entry (filter (\<lambda>x. readable_by user ?domain (st_dataset x)) tables)) \<union>
      set (reference_entries (\<lambda>r. listed_for user (rd_published r) (rd_deleted r)) refs)"
    by (simp only: set_append)
  show ?thesis unfolding e set_reference_entries listed_for_def by auto
qed

text \<open>Whoever passes the check of a single table finds the table in the list.\<close>

theorem checked_tables_are_listed:
  assumes "source_tables_for_user tables refs user = Some entries"
    and "can_access_schema_table tables user db s t"
  shows "\<exists>i n a. (db, s, t, i, n, a) \<in> set entries"
  using assms by (rule accessible_is_listed)

text \<open>A dataset that asks for authorisation, which the sample user has through the domain of the address.\<close>

definition sample_dataset :: "user_access_type \<Rightarrow> dataset" where
  "sample_dataset a = \<lparr>ds_id = 1, ds_name = ''d'', ds_access = a, ds_published = True, ds_deleted = False,
     ds_email_domains = [''b''], ds_user_permissions = [], ds_template_permissions = []\<rparr>"

definition sample_table :: "user_access_type \<Rightarrow> source_table" where
  "sample_table a = \<lparr>st_id = 1, st_database = 0, st_schema = ''s'', st_table = ''t'', st_dataset = sample_dataset a\<rparr>"

definition sample_user :: data_user where
  "sample_user = \<lparr>du_id = 1, du_email = ''a@b'', du_is_superuser = False\<rparr>"

lemma sample_listed:
  "source_tables_for_user [sample_table a] [] sample_user = Some [(0, ''s'', ''t'', 1, ''d'', a)]"
proof -
  have "split ''a@b'' ''@'' = [''a'', ''b'']" by code_simp
  then show ?thesis
    by (cases a) (simp_all add: source_tables_for_user_def sample_user_def sample_table_def sample_dataset_def
      py_index_def listed_for_def req_authentication_def req_authorization_def automatically_authorized_def
      source_entry_def reference_entries_def List.map_filter_simps)
qed

theorem listed_tables_are_readable_witness:
  "\<exists>x. x \<in> set [sample_table REQUIRES_AUTHORIZATION] \<and>
    readable_by sample_user (split (du_email sample_user) ''@'' ! 1) (st_dataset x)"
proof -
  have "readable_by sample_user (split (du_email sample_user) ''@'' ! 1) (st_dataset (sample_table REQUIRES_AUTHORIZATION))"
    using listed_tables_are_readable [OF sample_listed [of REQUIRES_AUTHORIZATION]] by auto
  then show ?thesis by simp
qed

theorem checked_tables_are_listed_witness:
  "\<exists>i n a. (0, ''s'', ''t'', i, n, a) \<in> set [(0 :: nat, ''s'', ''t'', 1 :: nat, ''d'', OPEN)]"
proof -
  have "can_access_schema_table [sample_table OPEN] sample_user 0 ''s'' ''t''"
    by (simp add: can_access_schema_table_def sample_table_def sample_dataset_def req_authentication_def)
  from checked_tables_are_listed [OF sample_listed this] show ?thesis .
qed

end
