(* ===== verification/Sql.thy ===== *)
theory Sql
  imports Effects
begin

text \<open>
  What the development uses of PostgreSQL: the \<open>LIKE\<close> patterns of its queries, the statements that
  create users and change privileges, and what they do to the privileges that roles were granted. The
  statements stand for the SQL text that \<open>apps/core/utils.py\<close> composes, with identifiers quoted by
  psycopg2; their effect is PostgreSQL's documented one.
\<close>

section \<open>Patterns\<close>

text \<open>\<open>%\<close> stands for any text, \<open>_\<close> for any character, and a backslash takes away their meaning.\<close>

fun like :: "string \<Rightarrow> string \<Rightarrow> bool" where
  "like [] s = (s = [])"
| "like (p # ps) s =
     (if p = CHR ''%'' then like ps s \<or> (case s of [] \<Rightarrow> False | c # cs \<Rightarrow> like (p # ps) cs)
      else if p = CHR 92 \<and> ps \<noteq> [] then (case s of [] \<Rightarrow> False | c # cs \<Rightarrow> c = hd ps \<and> like (tl ps) cs)
      else (case s of [] \<Rightarrow> False | c # cs \<Rightarrow> (p = CHR ''_'' \<or> p = c) \<and> like ps cs))"

declare like.simps(2) [simp del]

lemma like_any: "like ''%'' s"
  by (induction s) (simp_all add: like.simps(2))

lemma like_char [simp]: "p \<noteq> CHR ''%'' \<Longrightarrow> p \<noteq> CHR ''_'' \<Longrightarrow> p \<noteq> CHR 92 \<Longrightarrow>
    like (p # ps) s \<longleftrightarrow> (\<exists>cs. s = p # cs \<and> like ps cs)"
  by (cases s) (auto simp: like.simps(2))

lemma like_one [simp]: "like (CHR ''_'' # ps) s \<longleftrightarrow> (\<exists>c cs. s = c # cs \<and> like ps cs)"
  by (cases s) (auto simp: like.simps(2))

lemma like_escape [simp]: "like (CHR 92 # p # ps) s \<longleftrightarrow> (\<exists>cs. s = p # cs \<and> like ps cs)"
  by (cases s) (auto simp: like.simps(2))

lemma like_rest [simp]: "like ''%'' s = True"
  by (simp add: like_any)

section \<open>Statements\<close>

type_synonym table_name = "string \<times> string"

datatype sql_stmt =
    ExistingTables "table_name list"
  | EnsureRole string
  | MissingRoles
  | PrivilegedTables string string
  | PrivilegedSchemas string string
  | GrantedTeams string
  | CreateUser string string string
  | CreateSchema string string
  | AlterUserSet string string string
  | RevokeOnSchemas "string list" string
  | RevokeOnTables "table_name list" string
  | GrantUsage "string list" string
  | GrantSelect "table_name list" string
  | RevokeRoles "string list" string
  | GrantRoles "string list" string
  | GrantConnect string string
  | AlterUserRole string string

text \<open>The rows of a query of two columns, those of a query of one column, or nothing.\<close>

datatype sql_reply = Rows "table_name list" | Names "string list" | Nothing

section \<open>Privileges\<close>

text \<open>
  The privileges granted in one database: to a role on a table, to a role on a schema, and the
  membership of a role in another.
\<close>

record privileges =
  pv_tables :: "(string \<times> table_name) set"
  pv_schemas :: "(string \<times> string) set"
  pv_members :: "(string \<times> string) set"

fun apply_stmt :: "sql_stmt \<Rightarrow> privileges \<Rightarrow> privileges" where
  "apply_stmt (RevokeOnSchemas ss r) P = P\<lparr>pv_schemas := pv_schemas P - {r} \<times> set ss\<rparr>"
| "apply_stmt (RevokeOnTables ts r) P = P\<lparr>pv_tables := pv_tables P - {r} \<times> set ts\<rparr>"
| "apply_stmt (GrantUsage ss r) P = P\<lparr>pv_schemas := pv_schemas P \<union> {r} \<times> set ss\<rparr>"
| "apply_stmt (GrantSelect ts r) P = P\<lparr>pv_tables := pv_tables P \<union> {r} \<times> set ts\<rparr>"
| "apply_stmt (RevokeRoles rs m) P = P\<lparr>pv_members := pv_members P - {m} \<times> set rs\<rparr>"
| "apply_stmt (GrantRoles rs m) P = P\<lparr>pv_members := pv_members P \<union> {m} \<times> set rs\<rparr>"
| "apply_stmt _ P = P"

fun changes_privileges :: "sql_stmt \<Rightarrow> bool" where
  "changes_privileges (RevokeOnSchemas ss r) = True"
| "changes_privileges (RevokeOnTables ts r) = True"
| "changes_privileges (GrantUsage ss r) = True"
| "changes_privileges (GrantSelect ts r) = True"
| "changes_privileges (RevokeRoles rs m) = True"
| "changes_privileges (GrantRoles rs m) = True"
| "changes_privileges (GrantConnect d r) = True"
| "changes_privileges _ = False"

lemma apply_quiet: "\<not> changes_privileges s \<Longrightarrow> apply_stmt s P = P"
  by (cases s) simp_all

text \<open>
  The schemas whose tables the query for existing privileges leaves out, besides the role's own: its
  patterns are not escaped, so that an underscore stands for any character.
\<close>

definition system_schema :: "string \<Rightarrow> bool" where
  "system_schema s \<longleftrightarrow> s \<in> {''information_schema'', ''pg_catalog'', ''pg_toast''} \<or>
     like ''pg_temp_%'' s \<or> like ''pg_toast_temp_%'' s"

definition hidden_tables_schema :: "string \<Rightarrow> string \<Rightarrow> bool" where
  "hidden_tables_schema own s \<longleftrightarrow> s = own \<or> system_schema s \<or> like ''_team_%'' s"

definition hidden_schema :: "string \<Rightarrow> string \<Rightarrow> bool" where
  "hidden_schema own s \<longleftrightarrow> s = own \<or> system_schema s"

text \<open>The pattern of the query for the team roles of a user, as PostgreSQL reads it.\<close>

definition team_role_pattern :: string where
  "team_role_pattern = [CHR 92, CHR ''_'', CHR ''t'', CHR ''e'', CHR ''a'', CHR ''m'', CHR 92, CHR ''_'']"

lemma team_role_pattern_exact: "like team_role_pattern s \<longleftrightarrow> s = ''_team_''"
  by (auto simp: team_role_pattern_def)

lemma team_schemas_hidden: "like ''_team_%'' (''_team_'' @ s)"
  by simp

lemma other_schemas_hidden: "like ''_team_%'' ''steam_prices''"
  by simp

end
