(* ===== verification/Credentials.thy ===== *)
theory Credentials
  imports Sql Spawner DataAccess
begin

text \<open>
  \<open>apps/core/utils.py\<close>: the temporary database users of tools and visualisations.
  \<open>new_private_database_credentials\<close> makes, in every database in which the user has tables, a user that
  is a member of the permanent role of the person or visualisation, and brings the privileges of that
  role in line with the tables allowed. The statements go to PostgreSQL, the lock to the cache.
\<close>

section \<open>The tables of each database\<close>

definition without_duplicates_preserve_order :: "'a list \<Rightarrow> 'a list" where
  "without_duplicates_preserve_order xs = rev (fold (\<lambda>x seen. if x \<in> set seen then seen else x # seen) xs [])"

lemma without_duplicates_preserve_order [simp]:
  "set (without_duplicates_preserve_order xs) = set xs" "distinct (without_duplicates_preserve_order xs)"
proof -
  have "set (fold (\<lambda>x seen. if x \<in> set seen then seen else x # seen) xs ys) = set xs \<union> set ys \<and>
      (distinct ys \<longrightarrow> distinct (fold (\<lambda>x seen. if x \<in> set seen then seen else x # seen) xs ys))" for ys
    by (induction xs arbitrary: ys) auto
  from this [of "[]"] show "set (without_duplicates_preserve_order xs) = set xs"
    "distinct (without_duplicates_preserve_order xs)"
    by (simp_all add: without_duplicates_preserve_order_def)
qed

text \<open>
  The dictionary over \<open>itertools.groupby\<close>: the list is not sorted by database, and each run of entries
  of a database replaces the one before.
\<close>

definition entry_table :: "table_entry \<Rightarrow> table_name" where
  "entry_table e = (fst (snd e), fst (snd (snd e)))"

definition database_to_tables :: "table_entry list \<Rightarrow> (nat \<times> table_name list) list" where
  "database_to_tables source_tables =
     fold (\<lambda>(database, entries). AList.update database (map entry_table entries)) (groupby fst source_tables) []"

definition with_forced_databases ::
  "nat list \<Rightarrow> (nat \<times> table_name list) list \<Rightarrow> (nat \<times> table_name list) list" where
  "with_forced_databases force_create_for_databases d =
     fold (\<lambda>extra_db d. if extra_db \<in> set (map fst d) then d else d @ [(extra_db, [])])
       force_create_for_databases d"

section \<open>What is to be revoked and granted\<close>

record grant_plan =
  gp_tables_to_revoke :: "table_name list"
  gp_tables_to_grant :: "table_name list"
  gp_schemas_to_revoke :: "string list"
  gp_schemas_to_grant :: "string list"
  gp_team_roles_to_revoke :: "string list"
  gp_team_roles_to_grant :: "string list"

definition allowed_tables_that_exist :: "table_name list \<Rightarrow> table_name list \<Rightarrow> table_name list" where
  "allowed_tables_that_exist existing tables = filter (\<lambda>t. t \<in> set existing) tables"

definition allowed_schemas_that_exist :: "table_name list \<Rightarrow> string list" where
  "allowed_schemas_that_exist allowed = without_duplicates_preserve_order (map fst allowed)"

text \<open>From the tables, the schemas and the team roles that are allowed, and those that the role has.\<close>

definition plan_grants :: "table_name list \<Rightarrow> string list \<Rightarrow> table_name list \<Rightarrow> string list \<Rightarrow> string list \<Rightarrow>
    grant_plan" where
  "plan_grants allowed db_team_roles tables_with_existing_privs schemas_with_existing_privs
     db_team_roles_previously_granted =
     (let allowed_schemas = allowed_schemas_that_exist allowed in
      \<lparr>gp_tables_to_revoke = filter (\<lambda>t. t \<notin> set allowed) tables_with_existing_privs,
       gp_tables_to_grant = filter (\<lambda>t. t \<notin> set tables_with_existing_privs) allowed,
       gp_schemas_to_revoke = filter (\<lambda>s. s \<notin> set allowed_schemas) schemas_with_existing_privs,
       gp_schemas_to_grant = filter (\<lambda>s. s \<notin> set schemas_with_existing_privs) allowed_schemas,
       gp_team_roles_to_revoke = filter (\<lambda>r. r \<notin> set db_team_roles) db_team_roles_previously_granted,
       gp_team_roles_to_grant = filter (\<lambda>r. r \<notin> set db_team_roles_previously_granted) db_team_roles\<rparr>)"

section \<open>The program\<close>

datatype credentials_call =
    Statement nat sql_stmt
  | Lock
  | Unlock
  | SaveDatabaseUser nat string
  | PutObject string string string

type_synonym 'a credentialing = "(credentials_call, sql_reply, 'a) prog"

record database_data =
  dd_memorable_name :: string
  dd_name :: string
  dd_host :: string
  dd_port :: string
  dd_user :: string

text \<open>The arguments, the random passwords and the time, and the settings of the databases.\<close>

record credentials_input =
  ni_suffix :: string
  ni_db_user :: string
  ni_teams :: "string list"
  ni_password :: "nat \<Rightarrow> string"
  ni_valid_until :: "nat \<Rightarrow> string"
  ni_databases :: "nat \<Rightarrow> database_data"
  ni_audit_scopes :: string

definition USER_SCHEMA_STEM :: string where
  "USER_SCHEMA_STEM = ''_user_''"

definition db_role :: "credentials_input \<Rightarrow> string" where
  "db_role ni = USER_SCHEMA_STEM @ ni_suffix ni"

definition execute :: "nat \<Rightarrow> sql_stmt \<Rightarrow> unit credentialing" where
  "execute db s = ask (Statement db s) (\<lambda>_. Done ())"

fun the_rows :: "sql_reply \<Rightarrow> table_name list option" where
  "the_rows (Rows ts) = Some ts"
| "the_rows _ = None"

fun the_names :: "sql_reply \<Rightarrow> string list option" where
  "the_names (Names ss) = Some ss"
| "the_names _ = None"

definition fetch_tables :: "nat \<Rightarrow> sql_stmt \<Rightarrow> (table_name list \<Rightarrow> 'a credentialing) \<Rightarrow> 'a credentialing" where
  "fetch_tables db s f = ask (Statement db s) (\<lambda>r. want ''ProgrammingError'' (the_rows r) f)"

definition fetch_names :: "nat \<Rightarrow> sql_stmt \<Rightarrow> (string list \<Rightarrow> 'a credentialing) \<Rightarrow> 'a credentialing" where
  "fetch_names db s f = ask (Statement db s) (\<lambda>r. want ''ProgrammingError'' (the_names r) f)"

text \<open>\<open>with cache.lock("database-grant-v1", ...)\<close>; not getting the lock in time is an exception.\<close>

definition locked :: "unit credentialing \<Rightarrow> unit credentialing" where
  "locked m = ask Lock (\<lambda>_. ensuring m (ask Unlock (\<lambda>_. Done ())))"

definition tables_and_views_that_exist ::
  "nat \<Rightarrow> table_name list \<Rightarrow> (table_name list \<Rightarrow> 'a credentialing) \<Rightarrow> 'a credentialing" where
  "tables_and_views_that_exist db schema_tables f =
     (if schema_tables = [] then f [] else fetch_tables db (ExistingTables schema_tables) f)"

definition ensure_roles :: "credentials_input \<Rightarrow> nat \<Rightarrow> unit credentialing" where
  "ensure_roles ni db = for_each (\<lambda>r. execute db (EnsureRole r)) (ni_teams ni @ [db_role ni])"

definition grant_missing_roles :: "credentials_input \<Rightarrow> nat \<Rightarrow> unit credentialing" where
  "grant_missing_roles ni db = fetch_names db MissingRoles (\<lambda>missing_db_roles.
     if missing_db_roles = [] then Done ()
     else locked (execute db (GrantRoles missing_db_roles (dd_user (ni_databases ni db)))))"

definition existing_privileges :: "credentials_input \<Rightarrow> nat \<Rightarrow>
    (table_name list \<Rightarrow> string list \<Rightarrow> string list \<Rightarrow> 'a credentialing) \<Rightarrow> 'a credentialing" where
  "existing_privileges ni db f =
     fetch_tables db (PrivilegedTables (db_role ni) (db_role ni)) (\<lambda>tables_with_existing_privs.
     fetch_names db (PrivilegedSchemas (db_role ni) (db_role ni)) (\<lambda>schemas_with_existing_privs.
     fetch_names db (GrantedTeams (db_role ni)) (\<lambda>db_team_roles_previously_granted.
       f tables_with_existing_privs schemas_with_existing_privs db_team_roles_previously_granted)))"

definition timeouts_and_audit :: "credentials_input \<Rightarrow> nat \<Rightarrow> string \<Rightarrow> unit credentialing" where
  "timeouts_and_audit ni db u =
     for_each (\<lambda>(k, v). execute db (AlterUserSet u k v))
       [(''idle_in_transaction_session_timeout'', ''60min''), (''statement_timeout'', ''60min''),
        (''pgaudit.log'', ni_audit_scopes ni), (''pgaudit.log_catalog'', ''off'')]"

definition create_user :: "credentials_input \<Rightarrow> nat \<Rightarrow> unit credentialing" where
  "create_user ni db =
     seq (execute db (CreateUser (ni_db_user ni) (ni_password ni db) (ni_valid_until ni db))) (\<lambda>_.
     seq (for_each (\<lambda>(r, s). execute db (CreateSchema s r))
       (zip (ni_teams ni) (ni_teams ni) @ [(db_role ni, db_role ni)])) (\<lambda>_.
     for_each (timeouts_and_audit ni db) ([db_role ni, ni_db_user ni] @ ni_teams ni)))"

definition unless_empty :: "nat \<Rightarrow> 'x list \<Rightarrow> ('x list \<Rightarrow> sql_stmt) \<Rightarrow> unit credentialing" where
  "unless_empty db xs s = (if xs = [] then Done () else execute db (s xs))"

definition change_privileges :: "credentials_input \<Rightarrow> nat \<Rightarrow> grant_plan \<Rightarrow> unit credentialing" where
  "change_privileges ni db gp = (let r = db_role ni in
     seq (unless_empty db (gp_schemas_to_revoke gp) (\<lambda>ss. RevokeOnSchemas ss r)) (\<lambda>_.
     seq (unless_empty db (gp_tables_to_revoke gp) (\<lambda>ts. RevokeOnTables ts r)) (\<lambda>_.
     seq (unless_empty db (gp_schemas_to_grant gp) (\<lambda>ss. GrantUsage ss r)) (\<lambda>_.
     seq (unless_empty db (gp_tables_to_grant gp) (\<lambda>ts. GrantSelect ts r)) (\<lambda>_.
     seq (unless_empty db (gp_team_roles_to_revoke gp) (\<lambda>rs. RevokeRoles rs r)) (\<lambda>_.
     seq (unless_empty db (gp_team_roles_to_grant gp) (\<lambda>rs. GrantRoles rs r)) (\<lambda>_.
     seq (execute db (GrantConnect (dd_name (ni_databases ni db)) r)) (\<lambda>_.
       execute db (GrantRoles [r] (ni_db_user ni))))))))))"

text \<open>The statements after the queries, and \<open>get_new_credentials\<close> as a whole.\<close>

definition change_role :: "credentials_input \<Rightarrow> nat \<Rightarrow> table_name list \<Rightarrow> table_name list \<Rightarrow> string list \<Rightarrow>
    string list \<Rightarrow> credentials credentialing" where
  "change_role ni db allowed with_tables with_schemas with_teams =
     seq (create_user ni db) (\<lambda>_.
     seq (locked (change_privileges ni db
           (plan_grants allowed (ni_teams ni) with_tables with_schemas with_teams))) (\<lambda>_.
     seq (execute db (AlterUserRole (ni_db_user ni) (db_role ni))) (\<lambda>_.
     let d = ni_databases ni db in
       Done \<lparr>cr_memorable_name = dd_memorable_name d, cr_db_id = db, cr_db_name = dd_name d,
         cr_db_host = dd_host d, cr_db_port = dd_port d, cr_db_user = ni_db_user ni,
         cr_db_persistent_role = db_role ni, cr_db_password = ni_password ni db\<rparr>)))"

definition bring_in_line :: "credentials_input \<Rightarrow> nat \<Rightarrow> table_name list \<Rightarrow> credentials credentialing" where
  "bring_in_line ni db allowed =
     seq (ensure_roles ni db) (\<lambda>_.
     seq (grant_missing_roles ni db) (\<lambda>_.
     existing_privileges ni db (change_role ni db allowed)))"

definition get_new_credentials :: "credentials_input \<Rightarrow> nat \<Rightarrow> table_name list \<Rightarrow> credentials credentialing" where
  "get_new_credentials ni db tables =
     tables_and_views_that_exist db tables (\<lambda>existing_tables_and_views.
       bring_in_line ni db (allowed_tables_that_exist existing_tables_and_views tables))"

text \<open>\<open>dw_user\<close> is the id of the owner, when there is one.\<close>

definition new_private_database_credentials ::
  "credentials_input \<Rightarrow> table_entry list \<Rightarrow> nat option \<Rightarrow> nat list \<Rightarrow> credentials list credentialing" where
  "new_private_database_credentials ni source_tables dw_user force_create_for_databases =
     seq (collect (\<lambda>(database, tables). get_new_credentials ni database tables)
       (with_forced_databases force_create_for_databases (database_to_tables source_tables))) (\<lambda>creds.
     case dw_user of None \<Rightarrow> Done creds
     | Some owner \<Rightarrow> ask (SaveDatabaseUser owner (ni_db_user ni)) (\<lambda>_. Done creds))"

text \<open>The credentials as a file in the user's folder of the bucket, when there is a bucket.\<close>

definition get_s3_prefix :: "(string \<Rightarrow> string) \<Rightarrow> string \<Rightarrow> string" where
  "get_s3_prefix sha256 user_sso_id =
     ''user/federated/'' @ stable_identification_suffix sha256 user_sso_id False @ ''/''"

definition credentials_file :: "credentials \<Rightarrow> string" where
  "credentials_file c = concat (map (\<lambda>(k, v). k @ '' '' @ v @ [CHR 10])
     [(''dbuser'', cr_db_user c), (''dbpass'', cr_db_password c), (''dbname'', cr_db_name c),
      (''dbhost'', cr_db_host c), (''dbport'', cr_db_port c), (''dbmemorablename'', cr_memorable_name c)])"

definition write_credentials_to_bucket ::
  "(string \<Rightarrow> string) \<Rightarrow> string option \<Rightarrow> string \<Rightarrow> credentials list \<Rightarrow> unit credentialing" where
  "write_credentials_to_bucket sha256 notebooks_bucket sso_id creds =
     (case notebooks_bucket of None \<Rightarrow> Done ()
      | Some bucket \<Rightarrow> for_each (\<lambda>cred. ask (PutObject bucket
            (get_s3_prefix sha256 sso_id @ ''.credentials/db_credentials_'' @ cr_db_name cred)
            (credentials_file cred)) (\<lambda>_. Done ())) creds)"

end
