(* ===== verification/CredentialsFacts.thy ===== *)
theory CredentialsFacts
  imports Credentials
begin

text \<open>
  What \<open>get_new_credentials\<close> does to the privileges of the permanent role, when PostgreSQL answers the
  queries for existing privileges truthfully; and how its statements are locked.
\<close>

section \<open>The privileges of a role\<close>

definition tables_of :: "privileges \<Rightarrow> string \<Rightarrow> table_name set" where
  "tables_of P r = {t. (r, t) \<in> pv_tables P}"

definition schemas_of :: "privileges \<Rightarrow> string \<Rightarrow> string set" where
  "schemas_of P r = {s. (r, s) \<in> pv_schemas P}"

definition roles_of :: "privileges \<Rightarrow> string \<Rightarrow> string set" where
  "roles_of P r = {x. (r, x) \<in> pv_members P}"

text \<open>The privileges of a database after the statements of a history that succeeded.\<close>

fun effect :: "nat \<Rightarrow> credentials_call \<times> (exc + sql_reply) \<Rightarrow> privileges \<Rightarrow> privileges" where
  "effect db (Statement d s, Inr v) P = (if d = db then apply_stmt s P else P)"
| "effect db _ P = P"

definition privileges_after :: "nat \<Rightarrow> privileges \<Rightarrow> (credentials_call, sql_reply) history \<Rightarrow> privileges" where
  "privileges_after db P h = fold (effect db) h P"

lemma after_append: "privileges_after db P (h @ es) = privileges_after db (privileges_after db P h) es"
  by (simp add: privileges_after_def)

lemma after_one: "privileges_after db P [e] = effect db e P"
  by (simp add: privileges_after_def)

text \<open>Everything the role holds, and the calls that leave it alone.\<close>

definition holdings :: "privileges \<Rightarrow> string \<Rightarrow> table_name set \<times> string set \<times> string set" where
  "holdings P r = (tables_of P r, schemas_of P r, roles_of P r)"

fun grantee :: "sql_stmt \<Rightarrow> string option" where
  "grantee (RevokeOnSchemas ss r) = Some r"
| "grantee (RevokeOnTables ts r) = Some r"
| "grantee (GrantUsage ss r) = Some r"
| "grantee (GrantSelect ts r) = Some r"
| "grantee (RevokeRoles rs m) = Some m"
| "grantee (GrantRoles rs m) = Some m"
| "grantee _ = None"

fun leaves_alone :: "nat \<Rightarrow> string \<Rightarrow> credentials_call \<Rightarrow> bool" where
  "leaves_alone db r (Statement d s) = (d = db \<longrightarrow> grantee s \<noteq> Some r)"
| "leaves_alone db r _ = True"

lemma apply_other: "grantee s \<noteq> Some r \<Longrightarrow> holdings (apply_stmt s P) r = holdings P r"
  by (cases s) (auto simp: holdings_def tables_of_def schemas_of_def roles_of_def)

lemma effect_other: "leaves_alone db r q \<Longrightarrow> holdings (effect db (q, a) P) r = holdings P r"
  by (cases "(db, (q, a), P)" rule: effect.cases) (auto simp: apply_other)

lemma after_others:
  "\<forall>(q, a) \<in> set es. leaves_alone db r q \<Longrightarrow> holdings (privileges_after db P es) r = holdings P r"
proof (induction es arbitrary: P)
  case (Cons e es)
  obtain q a where e: "e = (q, a)" by (cases e)
  have "privileges_after db P (e # es) = privileges_after db (effect db e P) es"
    by (simp add: privileges_after_def)
  with Cons e show ?case by (simp add: effect_other)
qed (simp add: privileges_after_def)

lemma runs_others:
  assumes "runs env m h x h'" "calls_only (leaves_alone db r) m"
  shows "holdings (privileges_after db P h') r = holdings (privileges_after db P h) r"
proof -
  obtain es where "h' = h @ es" "\<forall>(q, a) \<in> set es. leaves_alone db r q"
    using calls_only_exec [OF assms(2)] assms(1) unfolding runs_def by blast
  then show ?thesis by (simp add: after_append after_others)
qed

section \<open>The calls of each phase\<close>

lemma calls_execute: "calls_only P (execute db s) \<longleftrightarrow> P (Statement db s)"
  by (simp add: execute_def ask_def split: sum.split)

lemma calls_locked: "calls_only P (locked m) \<longleftrightarrow> P Lock \<and> calls_only P (ensuring m (ask Unlock (\<lambda>_. Done ())))"
  by (auto simp: locked_def ask_def split: sum.split)

lemma calls_ensure_roles: "(\<And>x. P (Statement db (EnsureRole x))) \<Longrightarrow> calls_only P (ensure_roles ni db)"
  unfolding ensure_roles_def by (rule calls_only_for_each) (simp add: calls_execute)

lemma calls_create_user:
  assumes "\<And>u p v. P (Statement db (CreateUser u p v))" "\<And>s r. P (Statement db (CreateSchema s r))"
    and "\<And>u k v. P (Statement db (AlterUserSet u k v))"
  shows "calls_only P (create_user ni db)"
  unfolding create_user_def timeouts_and_audit_def
  by (intro calls_only_seq calls_only_for_each) (auto simp: calls_execute assms split: prod.split)

lemma calls_fetch: "P (Statement db s) \<Longrightarrow> (\<And>x. calls_only P (f x)) \<Longrightarrow> calls_only P (fetch_names db s f)"
  "P (Statement db s) \<Longrightarrow> (\<And>x. calls_only P (g x)) \<Longrightarrow> calls_only P (fetch_tables db s g)"
  unfolding fetch_names_def fetch_tables_def by (intro calls_only_ask calls_only_want; simp)+

lemma calls_grant_missing:
  assumes "P (Statement db MissingRoles)" "P Lock" "P Unlock"
    and "\<And>rs. P (Statement db (GrantRoles rs (dd_user (ni_databases ni db))))"
  shows "calls_only P (grant_missing_roles ni db)"
  unfolding grant_missing_roles_def
  by (intro calls_fetch)
    (auto simp: assms calls_locked calls_execute intro!: calls_only_ensuring calls_only_ask)

section \<open>The change of privileges\<close>

lemma runs_execute: "runs env (execute db s) h x h' \<longleftrightarrow>
    (\<exists>v. env h (Statement db s) = Inr v \<and> h' = h @ [(Statement db s, Inr v)])"
  by (auto simp: execute_def runs_simps)

lemma runs_unless_empty:
  assumes "runs env (unless_empty db xs s) h x h'" "\<And>P. apply_stmt (s []) P = P"
  shows "privileges_after db P h' = apply_stmt (s xs) (privileges_after db P h)"
  using assms
  by (auto simp: unless_empty_def runs_simps runs_execute after_append after_one split: if_splits)

lemma runs_change:
  assumes "runs env (change_privileges ni db gp) h x h'" and "ni_db_user ni \<noteq> db_role ni"
    and "holdings (privileges_after db P h) (db_role ni) = (T, S, R)"
  shows "holdings (privileges_after db P h') (db_role ni) =
    (T - set (gp_tables_to_revoke gp) \<union> set (gp_tables_to_grant gp),
     S - set (gp_schemas_to_revoke gp) \<union> set (gp_schemas_to_grant gp),
     R - set (gp_team_roles_to_revoke gp) \<union> set (gp_team_roles_to_grant gp))"
proof -
  let ?r = "db_role ni"
  obtain h1 h2 h3 h4 h5 h6 h7 where
    h1: "runs env (unless_empty db (gp_schemas_to_revoke gp) (\<lambda>ss. RevokeOnSchemas ss ?r)) h () h1" and
    h2: "runs env (unless_empty db (gp_tables_to_revoke gp) (\<lambda>ts. RevokeOnTables ts ?r)) h1 () h2" and
    h3: "runs env (unless_empty db (gp_schemas_to_grant gp) (\<lambda>ss. GrantUsage ss ?r)) h2 () h3" and
    h4: "runs env (unless_empty db (gp_tables_to_grant gp) (\<lambda>ts. GrantSelect ts ?r)) h3 () h4" and
    h5: "runs env (unless_empty db (gp_team_roles_to_revoke gp) (\<lambda>rs. RevokeRoles rs ?r)) h4 () h5" and
    h6: "runs env (unless_empty db (gp_team_roles_to_grant gp) (\<lambda>rs. GrantRoles rs ?r)) h5 () h6" and
    h7: "runs env (execute db (GrantConnect (dd_name (ni_databases ni db)) ?r)) h6 () h7" and
    h8: "runs env (execute db (GrantRoles [?r] (ni_db_user ni))) h7 x h'"
    using assms(1) by (auto simp: change_privileges_def Let_def runs_seq)
  have "holdings (privileges_after db P h') ?r = holdings (privileges_after db P h7) ?r"
    by (rule runs_others [OF h8]) (use assms(2) in \<open>simp add: calls_execute\<close>)
  also have "\<dots> = holdings (privileges_after db P h6) ?r"
    by (rule runs_others [OF h7]) (simp add: calls_execute)
  finally have last: "holdings (privileges_after db P h') ?r = holdings (privileges_after db P h6) ?r" .
  note steps = runs_unless_empty [OF h1] runs_unless_empty [OF h2] runs_unless_empty [OF h3]
    runs_unless_empty [OF h4] runs_unless_empty [OF h5] runs_unless_empty [OF h6]
  show ?thesis
    unfolding last using assms(3)
    by (auto simp: steps holdings_def tables_of_def schemas_of_def roles_of_def)
qed

section \<open>Truthful answers\<close>

text \<open>
  PostgreSQL answers the queries for existing privileges from those that have been granted to the role,
  as the \<open>WHERE\<close> clauses select them; what the role has by other ways is not considered.
\<close>

definition truthful :: "(credentials_call, sql_reply) services \<Rightarrow> nat \<Rightarrow> privileges \<Rightarrow> string \<Rightarrow> bool" where
  "truthful env db P r \<longleftrightarrow> (\<forall>h v.
     (env h (Statement db (PrivilegedTables r r)) = Inr v \<longrightarrow>
        (\<exists>ts. v = Rows ts \<and> set ts = {(s, t) \<in> tables_of (privileges_after db P h) r. \<not> hidden_tables_schema r s})) \<and>
     (env h (Statement db (PrivilegedSchemas r r)) = Inr v \<longrightarrow>
        (\<exists>ss. v = Names ss \<and> set ss = {s \<in> schemas_of (privileges_after db P h) r. \<not> hidden_schema r s})) \<and>
     (env h (Statement db (GrantedTeams r)) = Inr v \<longrightarrow>
        (\<exists>rs. v = Names rs \<and> set rs = {x \<in> roles_of (privileges_after db P h) r. like team_role_pattern x})))"

lemma truthful_answers:
  assumes "truthful env db P r" "holdings (privileges_after db P h) r = (T, S, R)"
  shows "env h (Statement db (PrivilegedTables r r)) = Inr v \<Longrightarrow> the_rows v = Some wt \<Longrightarrow>
      set wt = {(s, t) \<in> T. \<not> hidden_tables_schema r s}"
    and "env h (Statement db (PrivilegedSchemas r r)) = Inr v \<Longrightarrow> the_names v = Some ws \<Longrightarrow>
      set ws = {s \<in> S. \<not> hidden_schema r s}"
    and "env h (Statement db (GrantedTeams r)) = Inr v \<Longrightarrow> the_names v = Some wr \<Longrightarrow>
      set wr = {x \<in> R. like team_role_pattern x}"
proof -
  have h: "T = tables_of (privileges_after db P h) r" "S = schemas_of (privileges_after db P h) r"
    "R = roles_of (privileges_after db P h) r"
    using assms(2) by (simp_all add: holdings_def)
  note t = assms(1) [unfolded truthful_def, rule_format, of h v, folded h]
  show "env h (Statement db (PrivilegedTables r r)) = Inr v \<Longrightarrow> the_rows v = Some wt \<Longrightarrow>
      set wt = {(s, t) \<in> T. \<not> hidden_tables_schema r s}" using t by fastforce
  show "env h (Statement db (PrivilegedSchemas r r)) = Inr v \<Longrightarrow> the_names v = Some ws \<Longrightarrow>
      set ws = {s \<in> S. \<not> hidden_schema r s}" using t by fastforce
  show "env h (Statement db (GrantedTeams r)) = Inr v \<Longrightarrow> the_names v = Some wr \<Longrightarrow>
      set wr = {x \<in> R. like team_role_pattern x}" using t by fastforce
qed

lemma plan_sets:
  "set (gp_tables_to_revoke (plan_grants al teams wt ws wr)) = set wt - set al"
  "set (gp_tables_to_grant (plan_grants al teams wt ws wr)) = set al - set wt"
  "set (gp_schemas_to_revoke (plan_grants al teams wt ws wr)) = set ws - fst ` set al"
  "set (gp_schemas_to_grant (plan_grants al teams wt ws wr)) = fst ` set al - set ws"
  "set (gp_team_roles_to_revoke (plan_grants al teams wt ws wr)) = set wr - set teams"
  "set (gp_team_roles_to_grant (plan_grants al teams wt ws wr)) = set teams - set wr"
  by (auto simp: plan_grants_def Let_def allowed_schemas_that_exist_def)

lemma change_role_effect:
  assumes "runs env (change_role ni db al wt ws wr) h c h'" "ni_db_user ni \<noteq> db_role ni"
    and "holdings (privileges_after db P h) (db_role ni) = (T, S, R)"
  shows "holdings (privileges_after db P h') (db_role ni) =
    (T - (set wt - set al) \<union> (set al - set wt), S - (set ws - fst ` set al) \<union> (fst ` set al - set ws),
     R - (set wr - set (ni_teams ni)) \<union> (set (ni_teams ni) - set wr))"
proof -
  let ?r = "db_role ni"
  let ?gp = "plan_grants al (ni_teams ni) wt ws wr"
  obtain h1 h2 h3 where h1: "runs env (create_user ni db) h () h1"
    and h2: "runs env (locked (change_privileges ni db ?gp)) h1 () h2"
    and h3: "runs env (execute db (AlterUserRole (ni_db_user ni) ?r)) h2 () h3" and "h' = h3"
    using assms(1) by (auto simp: change_role_def Let_def runs_seq runs_Done)
  obtain v h4 where h4: "runs env (change_privileges ni db ?gp) (h1 @ [(Lock, Inr v)]) () h4"
    and unlock: "runs env (ask Unlock (\<lambda>_. Done ())) h4 () h2"
    using h2 by (auto simp: locked_def runs_ask runs_ensuring)
  have "holdings (privileges_after db P (h1 @ [(Lock, Inr v)])) ?r = (T, S, R)"
    using runs_others [OF h1 calls_create_user] assms(3) by (simp add: after_append after_one)
  from runs_change [OF h4 assms(2) this]
  have "holdings (privileges_after db P h4) ?r =
    (T - (set wt - set al) \<union> (set al - set wt), S - (set ws - fst ` set al) \<union> (fst ` set al - set ws),
     R - (set wr - set (ni_teams ni)) \<union> (set (ni_teams ni) - set wr))" by (simp only: plan_sets)
  moreover have "holdings (privileges_after db P h2) ?r = holdings (privileges_after db P h4) ?r"
    by (rule runs_others [OF unlock]) (auto intro: calls_only_ask)
  moreover have "holdings (privileges_after db P h3) ?r = holdings (privileges_after db P h2) ?r"
    by (rule runs_others [OF h3]) (simp add: calls_execute)
  ultimately show ?thesis using \<open>h' = h3\<close> by simp
qed

text \<open>The three queries see the privileges at the time of the first.\<close>

lemma existing_privileges_truth:
  assumes "runs env (existing_privileges ni db f) h c h'" "truthful env db P (db_role ni)"
    and "holdings (privileges_after db P h) (db_role ni) = (T, S, R)"
  shows "\<exists>wt ws wr h1. runs env (f wt ws wr) h1 c h' \<and> holdings (privileges_after db P h1) (db_role ni) = (T, S, R) \<and>
    set wt = {(s, t) \<in> T. \<not> hidden_tables_schema (db_role ni) s} \<and>
    set ws = {s \<in> S. \<not> hidden_schema (db_role ni) s} \<and> set wr = {x \<in> R. like team_role_pattern x}"
proof -
  let ?r = "db_role ni"
  let ?q1 = "Statement db (PrivilegedTables ?r ?r)" and ?q2 = "Statement db (PrivilegedSchemas ?r ?r)"
    and ?q3 = "Statement db (GrantedTeams ?r)"
  obtain v1 v2 v3 wt ws wr where
    v1: "env h ?q1 = Inr v1" "the_rows v1 = Some wt" and
    v2: "env (h @ [(?q1, Inr v1)]) ?q2 = Inr v2" "the_names v2 = Some ws" and
    v3: "env (h @ [(?q1, Inr v1), (?q2, Inr v2)]) ?q3 = Inr v3" "the_names v3 = Some wr" and
    f: "runs env (f wt ws wr) (h @ [(?q1, Inr v1), (?q2, Inr v2), (?q3, Inr v3)]) c h'"
    using assms(1) by (auto simp: existing_privileges_def fetch_tables_def fetch_names_def runs_ask runs_want)
  have same: "privileges_after db P (h @ [(?q1, Inr v1)]) = privileges_after db P h"
    "privileges_after db P (h @ [(?q1, Inr v1), (?q2, Inr v2)]) = privileges_after db P h"
    "privileges_after db P (h @ [(?q1, Inr v1), (?q2, Inr v2), (?q3, Inr v3)]) = privileges_after db P h"
    by (simp_all add: privileges_after_def)
  have k: "holdings (privileges_after db P (h @ [(?q1, Inr v1)])) ?r = (T, S, R)"
    "holdings (privileges_after db P (h @ [(?q1, Inr v1), (?q2, Inr v2)])) ?r = (T, S, R)"
    "holdings (privileges_after db P (h @ [(?q1, Inr v1), (?q2, Inr v2), (?q3, Inr v3)])) ?r = (T, S, R)"
    using assms(3) same by simp_all
  note truthful_answers(1) [OF assms(2,3) v1] truthful_answers(2) [OF assms(2) k(1) v2]
    truthful_answers(3) [OF assms(2) k(2) v3]
  with f k(3) show ?thesis by blast
qed

lemma bring_in_line_effect:
  assumes run: "runs env (bring_in_line ni db al) h c h'"
    and truth: "truthful env db P (db_role ni)"
    and other: "ni_db_user ni \<noteq> db_role ni" "dd_user (ni_databases ni db) \<noteq> db_role ni"
    and before: "holdings (privileges_after db P h) (db_role ni) = (T, S, R)"
  shows "holdings (privileges_after db P h') (db_role ni) =
    (set al \<union> {(s, t) \<in> T. hidden_tables_schema (db_role ni) s},
     fst ` set al \<union> {s \<in> S. hidden_schema (db_role ni) s}, set (ni_teams ni) \<union> (R - {''_team_''}))"
proof -
  let ?r = "db_role ni"
  obtain h1 h2 where
    h1: "runs env (ensure_roles ni db) h () h1" and h2: "runs env (grant_missing_roles ni db) h1 () h2"
    and rest: "runs env (existing_privileges ni db (change_role ni db al)) h2 c h'"
    using run by (auto simp: bring_in_line_def runs_seq)
  have "holdings (privileges_after db P h1) ?r = (T, S, R)"
    using runs_others [OF h1 calls_ensure_roles] before by simp
  then have "holdings (privileges_after db P h2) ?r = (T, S, R)"
    using runs_others [OF h2 calls_grant_missing] other(2) by simp
  from existing_privileges_truth [OF rest truth this] obtain wt ws wr h3 where
    h3: "runs env (change_role ni db al wt ws wr) h3 c h'" "holdings (privileges_after db P h3) ?r = (T, S, R)" and
    sets: "set wt = {(s, t) \<in> T. \<not> hidden_tables_schema ?r s}" "set ws = {s \<in> S. \<not> hidden_schema ?r s}"
      "set wr = {x \<in> R. like team_role_pattern x}" by blast
  show ?thesis
    unfolding change_role_effect [OF h3(1) other(1) h3(2)] sets team_role_pattern_exact by auto
qed

lemma credentials_effect:
  assumes run: "runs env (get_new_credentials ni db tables) h c h'"
    and truth: "truthful env db P (db_role ni)"
    and other: "ni_db_user ni \<noteq> db_role ni" "dd_user (ni_databases ni db) \<noteq> db_role ni"
    and existing: "env h (Statement db (ExistingTables tables)) = Inr (Rows existing)"
    and before: "holdings (privileges_after db P h) (db_role ni) = (T, S, R)"
  shows "holdings (privileges_after db P h') (db_role ni) =
    (set tables \<inter> set existing \<union> {(s, t) \<in> T. hidden_tables_schema (db_role ni) s},
     fst ` (set tables \<inter> set existing) \<union> {s \<in> S. hidden_schema (db_role ni) s},
     set (ni_teams ni) \<union> (R - {''_team_''}))"
proof -
  let ?q = "Statement db (ExistingTables tables)"
  let ?al = "allowed_tables_that_exist (if tables = [] then [] else existing) tables"
  let ?h = "if tables = [] then h else h @ [(?q, Inr (Rows existing))]"
  have al: "set ?al = set tables \<inter> set existing" by (auto simp: allowed_tables_that_exist_def)
  have "runs env (bring_in_line ni db ?al) ?h c h'"
    using run existing by (auto simp: get_new_credentials_def tables_and_views_that_exist_def fetch_tables_def
        runs_ask runs_want split: if_splits)
  moreover have "holdings (privileges_after db P ?h) (db_role ni) = (T, S, R)"
    using before by (simp add: after_append after_one)
  ultimately show ?thesis
    unfolding al [symmetric] by (rule bring_in_line_effect [OF _ truth other])
qed

section \<open>The lock\<close>

text \<open>Whether the lock is held after a history, and whether all changes of privileges were made under it.\<close>

fun held :: "bool \<Rightarrow> (credentials_call, sql_reply) history \<Rightarrow> bool" where
  "held b [] = b"
| "held b ((Lock, Inr v) # h) = held True h"
| "held b ((Unlock, a) # h) = held False h"
| "held b (e # h) = held b h"

fun changes_locked :: "bool \<Rightarrow> (credentials_call, sql_reply) history \<Rightarrow> bool" where
  "changes_locked b [] = True"
| "changes_locked b ((Statement d s, a) # h) = ((changes_privileges s \<longrightarrow> b) \<and> changes_locked b h)"
| "changes_locked b (e # h) = changes_locked (held b [e]) h"

lemma held_append: "held b (h @ h') = held (held b h) h'"
  by (induction b h rule: held.induct) auto

lemma changes_locked_append: "changes_locked b (h @ h') \<longleftrightarrow> changes_locked b h \<and> changes_locked (held b h) h'"
proof (induction h arbitrary: b)
  case (Cons e h)
  obtain q a where "e = (q, a)" by (cases e)
  then show ?case using Cons by (cases q; cases a) simp_all
qed simp

definition lock_is :: "bool \<Rightarrow> (credentials_call, sql_reply) history \<Rightarrow> bool" where
  "lock_is b h \<longleftrightarrow> held False h = b \<and> changes_locked False h"

text \<open>Calls that need no lock and leave it as it is, and those that may run under it.\<close>

fun needs_no_lock :: "credentials_call \<Rightarrow> bool" where
  "needs_no_lock (Statement d s) = (\<not> changes_privileges s)"
| "needs_no_lock (SaveDatabaseUser i u) = True"
| "needs_no_lock (PutObject b k c) = True"
| "needs_no_lock q = False"

fun is_statement :: "credentials_call \<Rightarrow> bool" where
  "is_statement (Statement d s) = True"
| "is_statement q = False"

lemma keeps_unlocked: "calls_only needs_no_lock m \<Longrightarrow> keeps (lock_is False) m"
proof (erule keeps_calls)
  fix h q a
  assume "lock_is False h" "needs_no_lock q"
  then show "lock_is False (h @ [(q, a)])" by (cases q; cases a) (simp_all add: lock_is_def held_append changes_locked_append)
qed

lemma keeps_locked:
  assumes "calls_only is_statement m"
  shows "keeps (lock_is False) (locked m)"
proof -
  have "keeps (lock_is True) m"
  proof (rule keeps_calls [OF assms])
    fix h q a
    assume "lock_is True h" "is_statement q"
    then show "lock_is True (h @ [(q, a)])" by (cases q; cases a) (simp_all add: lock_is_def held_append changes_locked_append)
  qed
  moreover have "spec (lock_is True) (ask Unlock (\<lambda>_. Done ())) (\<lambda>r. lock_is False)"
    by (rule spec_ask) (auto intro!: spec_Done simp: lock_is_def held_append changes_locked_append)
  ultimately have e: "spec (lock_is True) (ensuring m (ask Unlock (\<lambda>_. Done ()))) (\<lambda>r. lock_is False)"
    unfolding keeps_def by (rule spec_ensuring)
  show ?thesis
    unfolding keeps_def locked_def
    by (rule spec_ask, rule spec_conseq [OF e]) (auto simp: lock_is_def held_append changes_locked_append)
qed

lemma keeps_quiet_ask:
  assumes "\<not> changes_privileges s" "\<And>v. keeps (lock_is False) (k v)"
  shows "keeps (lock_is False) (ask (Statement db s) k)"
  unfolding keeps_def
proof (rule spec_ask)
  have st: "lock_is False h \<Longrightarrow> lock_is False (h @ [(Statement db s, x)])" for h x
    using assms(1) by (cases x) (simp_all add: lock_is_def held_append changes_locked_append)
  show "spec (\<lambda>h'. \<exists>h. lock_is False h \<and> h' = h @ [(Statement db s, Inr v)]) (k v) (\<lambda>r. lock_is False)" for v
    by (rule spec_conseq [OF assms(2) [unfolded keeps_def]]) (auto simp: st)
  show "lock_is False h \<Longrightarrow> lock_is False (h @ [(Statement db s, Inl e)])" for h e by (rule st)
qed

lemma keeps_fetch:
  "\<not> changes_privileges s \<Longrightarrow> (\<And>x. keeps (lock_is False) (f x)) \<Longrightarrow> keeps (lock_is False) (fetch_names db s f)"
  "\<not> changes_privileges s \<Longrightarrow> (\<And>x. keeps (lock_is False) (g x)) \<Longrightarrow> keeps (lock_is False) (fetch_tables db s g)"
  unfolding fetch_names_def fetch_tables_def by (intro keeps_quiet_ask keeps_want; simp)+

lemma keeps_get_new_credentials: "keeps (lock_is False) (get_new_credentials ni db tables)"
proof -
  have change: "calls_only is_statement (change_privileges ni db gp)" for gp
    unfolding change_privileges_def Let_def unless_empty_def
    by (intro calls_only_seq) (auto simp: calls_execute)
  have role: "keeps (lock_is False) (change_role ni db al wt ws wr)" for al wt ws wr
    unfolding change_role_def Let_def
    by (intro keeps_seq keeps_Done keeps_unlocked calls_create_user keeps_locked change)
      (simp_all add: calls_execute)
  have missing: "keeps (lock_is False) (grant_missing_roles ni db)"
    unfolding grant_missing_roles_def
    by (rule keeps_fetch(1)) (auto intro: keeps_locked simp: calls_execute)
  have line: "keeps (lock_is False) (bring_in_line ni db al)" for al
    unfolding bring_in_line_def existing_privileges_def
    by (intro keeps_seq keeps_unlocked calls_ensure_roles missing keeps_fetch role) simp_all
  show ?thesis
    unfolding get_new_credentials_def tables_and_views_that_exist_def
    by (auto intro!: keeps_fetch line)
qed

lemma keeps_new_private_database_credentials:
  "keeps (lock_is False) (new_private_database_credentials ni source_tables dw_user forced)"
proof -
  have save: "keeps (lock_is False) (ask (SaveDatabaseUser i u) (\<lambda>_. Done x))" for i u and x :: "credentials list"
    by (rule keeps_unlocked) (auto intro: calls_only_ask)
  show ?thesis
    unfolding new_private_database_credentials_def
    by (rule keeps_seq, rule keeps_collect)
      (auto intro: keeps_get_new_credentials save split: option.split prod.split)
qed

section \<open>A database that answers truthfully\<close>

text \<open>The holdings of one role as lists, and a PostgreSQL server that computes its answers from them.\<close>

type_synonym holding_lists = "table_name list \<times> string list \<times> string list"

fun list_stmt :: "string \<Rightarrow> sql_stmt \<Rightarrow> holding_lists \<Rightarrow> holding_lists" where
  "list_stmt r (RevokeOnSchemas ss r') (T, S, R) = (T, if r' = r then filter (\<lambda>s. s \<notin> set ss) S else S, R)"
| "list_stmt r (RevokeOnTables ts r') (T, S, R) = (if r' = r then filter (\<lambda>t. t \<notin> set ts) T else T, S, R)"
| "list_stmt r (GrantUsage ss r') (T, S, R) = (T, if r' = r then S @ ss else S, R)"
| "list_stmt r (GrantSelect ts r') (T, S, R) = (if r' = r then T @ ts else T, S, R)"
| "list_stmt r (RevokeRoles rs r') (T, S, R) = (T, S, if r' = r then filter (\<lambda>x. x \<notin> set rs) R else R)"
| "list_stmt r (GrantRoles rs r') (T, S, R) = (T, S, if r' = r then R @ rs else R)"
| "list_stmt r _ L = L"

fun list_effect :: "nat \<Rightarrow> string \<Rightarrow> credentials_call \<times> (exc + sql_reply) \<Rightarrow> holding_lists \<Rightarrow> holding_lists" where
  "list_effect db r (Statement d s, Inr v) L = (if d = db then list_stmt r s L else L)"
| "list_effect db r _ L = L"

definition lists_after :: "nat \<Rightarrow> string \<Rightarrow> holding_lists \<Rightarrow> (credentials_call, sql_reply) history \<Rightarrow> holding_lists" where
  "lists_after db r L h = fold (list_effect db r) h L"

definition lists_hold :: "holding_lists \<Rightarrow> privileges \<Rightarrow> string \<Rightarrow> bool" where
  "lists_hold L P r \<longleftrightarrow> holdings P r = (case L of (T, S, R) \<Rightarrow> (set T, set S, set R))"

lemma list_stmt_holds: "lists_hold L P r \<Longrightarrow> lists_hold (list_stmt r s L) (apply_stmt s P) r"
  by (cases "(r, s, L)" rule: list_stmt.cases)
    (auto simp: lists_hold_def holdings_def tables_of_def schemas_of_def roles_of_def)

lemma list_effect_holds: "lists_hold L P r \<Longrightarrow> lists_hold (list_effect db r e L) (effect db e P) r"
  by (cases "(db, r, e, L)" rule: list_effect.cases) (simp_all add: list_stmt_holds)

lemma lists_after_hold: "lists_hold L P r \<Longrightarrow> lists_hold (lists_after db r L h) (privileges_after db P h) r"
proof (induction h arbitrary: L P)
  case (Cons e h)
  from Cons.IH [OF list_effect_holds [OF Cons.prems]] show ?case
    by (simp add: lists_after_def privileges_after_def)
qed (simp add: lists_after_def privileges_after_def)

fun model_postgres :: "nat \<Rightarrow> string \<Rightarrow> holding_lists \<Rightarrow> (credentials_call, sql_reply) services" where
  "model_postgres db r L h (Statement d (ExistingTables ts)) = Inr (Rows ts)"
| "model_postgres db r L h (Statement d (PrivilegedTables a b)) =
     Inr (Rows (filter (\<lambda>(s, t). \<not> hidden_tables_schema r s) (fst (lists_after db r L h))))"
| "model_postgres db r L h (Statement d (PrivilegedSchemas a b)) =
     Inr (Names (filter (\<lambda>s. \<not> hidden_schema r s) (fst (snd (lists_after db r L h)))))"
| "model_postgres db r L h (Statement d (GrantedTeams a)) =
     Inr (Names (filter (like team_role_pattern) (snd (snd (lists_after db r L h)))))"
| "model_postgres db r L h (Statement d MissingRoles) = Inr (Names [])"
| "model_postgres db r L h q = Inr Nothing"

lemma model_postgres_truthful:
  assumes "lists_hold L P r"
  shows "truthful (model_postgres db r L) db P r"
proof -
  have "tables_of (privileges_after db P h) r = set (fst (lists_after db r L h))"
    "schemas_of (privileges_after db P h) r = set (fst (snd (lists_after db r L h)))"
    "roles_of (privileges_after db P h) r = set (snd (snd (lists_after db r L h)))" for h
    using lists_after_hold [OF assms, of db h] by (simp_all add: lists_hold_def holdings_def split_def)
  then show ?thesis by (auto simp: truthful_def)
qed

end
