(* ===== verification/Streaming.thy ===== *)
theory Streaming
  imports Prelude "HOL-Library.Multiset"
begin

text \<open>
  \<open>apps/core/utils.py\<close>: downloads. A greenlet runs the query and puts the rows as CSV text into a queue
  that holds one item; the HTTP response takes them out. Text stands for the bytes it is encoded to. The
  time limits of the queue are not modelled.
\<close>

section \<open>CSV\<close>

text \<open>\<open>csv.writer\<close> with \<open>QUOTE_NONNUMERIC\<close>: everything but numbers is quoted.\<close>

datatype cell = Null | Number string | Text string

definition quotes :: char where "quotes = CHR 34"
definition CR :: char where "CR = CHR 13"
definition LF :: char where "LF = CHR 10"

definition escape_quotes :: "string \<Rightarrow> string" where
  "escape_quotes s = concat (map (\<lambda>c. if c = quotes then [c, c] else [c]) s)"

fun csv_field :: "cell \<Rightarrow> string" where
  "csv_field Null = [quotes, quotes]"
| "csv_field (Number s) = s"
| "csv_field (Text s) = quotes # escape_quotes s @ [quotes]"

definition writerow :: "cell list \<Rightarrow> string" where
  "writerow row = join '','' (map csv_field row) @ [CR, LF]"

section \<open>The greenlet\<close>

datatype item = Chunk string | Finish | Raise string

type_synonym row = "cell list"

text \<open>
  The items that the query puts, with the outcome: an exception, or the number of rows and of bytes.
  The argument lists what the calls of \<open>fetchmany\<close> give, the execution of the query included in the
  first; a cursor that is exhausted gives no rows.
\<close>

definition footer :: "nat \<Rightarrow> string" where
  "footer n = writerow [Text (''Number of rows: '' @ str_nat n)]"

definition header :: "string list \<Rightarrow> nat \<Rightarrow> item list" where
  "header columns i = (if i = 0 then [Chunk (writerow (map Text columns))] else [])"

fun stream_query_as_csv_to_queue ::
  "string list \<Rightarrow> nat \<Rightarrow> nat \<Rightarrow> (string + row list) list \<Rightarrow> item list \<times> (string + nat \<times> nat)" where
  "stream_query_as_csv_to_queue columns i total_bytes [] =
     (header columns i @ [Chunk (footer i), Finish], Inr (i, total_bytes))"
| "stream_query_as_csv_to_queue columns i total_bytes (Inl e # fetches) = ([], Inl e)"
| "stream_query_as_csv_to_queue columns i total_bytes (Inr rows # fetches) =
     (if rows = [] then (header columns i @ [Chunk (footer i), Finish], Inr (i, total_bytes))
      else let bytes_fetched = concat (map writerow rows);
               (items, r) = stream_query_as_csv_to_queue columns (i + length rows)
                 (total_bytes + length bytes_fetched) fetches
           in (header columns i @ Chunk bytes_fetched # items, r))"

record query_metrics =
  qm_bytes_downloaded :: nat
  qm_column_count :: nat
  qm_column_count_filtered :: nat
  qm_row_count :: nat
  qm_row_count_filtered :: nat

text \<open>
  \<open>run_queries\<close> and \<open>exception_callback\<close>: metrics, when they are wanted, need two queries without the
  filters; an exception at any point is put as the last item. \<open>unfiltered\<close> gives the columns and the
  number of rows of the query without filters, \<open>callback\<close> the exception of the caller's function.
\<close>

definition run_queries ::
  "string list \<Rightarrow> (string + row list) list \<Rightarrow> (string + string list \<times> nat) option \<Rightarrow>
     (query_metrics \<Rightarrow> string option) \<Rightarrow> item list \<times> query_metrics option" where
  "run_queries columns fetches unfiltered callback =
     (case stream_query_as_csv_to_queue columns 0 0 fetches of
        (items, Inl e) \<Rightarrow> (items @ [Raise e], None)
      | (items, Inr (n, total_bytes)) \<Rightarrow>
          (case unfiltered of
             None \<Rightarrow> (items, None)
           | Some (Inl e) \<Rightarrow> (items @ [Raise e], None)
           | Some (Inr (all_columns, all_rows_count)) \<Rightarrow>
               let metrics = \<lparr>qm_bytes_downloaded = total_bytes, qm_column_count = length all_columns,
                 qm_column_count_filtered = length columns, qm_row_count = all_rows_count,
                 qm_row_count_filtered = n\<rparr>
               in (items @ (case callback metrics of None \<Rightarrow> [] | Some e \<Rightarrow> [Raise e]), Some metrics)))"

section \<open>The queue\<close>

datatype reading = Reading | Finished | Failed string | Gone

record download =
  dl_todo :: "item list"
  dl_slot :: "item option"
  dl_sent :: "string list"
  dl_reader :: reading

definition start_download :: "item list \<Rightarrow> download" where
  "start_download items = \<lparr>dl_todo = items, dl_slot = None, dl_sent = [], dl_reader = Reading\<rparr>"

text \<open>\<open>csv_iterator\<close>: what the response does with an item.\<close>

fun csv_iterator :: "item \<Rightarrow> download \<Rightarrow> download" where
  "csv_iterator Finish d = d\<lparr>dl_reader := Finished\<rparr>"
| "csv_iterator (Raise e) d = d\<lparr>dl_reader := Failed e\<rparr>"
| "csv_iterator (Chunk data) d = (if data = [] then d else d\<lparr>dl_sent := dl_sent d @ [data]\<rparr>)"

inductive download_step :: "download \<Rightarrow> download \<Rightarrow> bool" where
  put: "dl_todo d = x # xs \<Longrightarrow> dl_slot d = None \<Longrightarrow> download_step d (d\<lparr>dl_todo := xs, dl_slot := Some x\<rparr>)"
| get: "dl_reader d = Reading \<Longrightarrow> dl_slot d = Some x \<Longrightarrow> download_step d (csv_iterator x (d\<lparr>dl_slot := None\<rparr>))"
| leave: "dl_reader d = Reading \<Longrightarrow> download_step d (d\<lparr>dl_reader := Gone\<rparr>)"

inductive_cases download_stepE: "download_step d d'"

section \<open>Everything arrives\<close>

text \<open>The items taken so far, those in the queue, and those to come are the items of the query.\<close>

definition waiting :: "download \<Rightarrow> item list" where
  "waiting d = (case dl_slot d of None \<Rightarrow> [] | Some x \<Rightarrow> [x]) @ dl_todo d"

fun ends_item :: "item \<Rightarrow> bool" where
  "ends_item (Chunk s) = False"
| "ends_item x = True"

text \<open>The text of the chunks before the first item that ends the download.\<close>

fun text_of :: "item list \<Rightarrow> string" where
  "text_of [] = []"
| "text_of (Chunk s # xs) = s @ text_of xs"
| "text_of (x # xs) = []"

fun outcome :: "item list \<Rightarrow> reading" where
  "outcome [] = Reading"
| "outcome (Chunk s # xs) = outcome xs"
| "outcome (Finish # xs) = Finished"
| "outcome (Raise e # xs) = Failed e"

definition download_ok :: "item list \<Rightarrow> download \<Rightarrow> bool" where
  "download_ok items d \<longleftrightarrow> (\<exists>taken. items = taken @ waiting d \<and> concat (dl_sent d) = text_of taken \<and>
     (dl_reader d = Gone \<and> outcome taken = Reading \<or> dl_reader d = outcome taken))"

lemma outcome_append: "outcome (xs @ ys) = (if outcome xs = Reading then outcome ys else outcome xs)"
  by (induction xs rule: outcome.induct) auto

lemma text_append: "text_of (xs @ ys) = text_of xs @ (if outcome xs = Reading then text_of ys else [])"
  by (induction xs rule: text_of.induct) auto

lemma download_ok_start: "download_ok items (start_download items)"
  by (auto simp: download_ok_def start_download_def waiting_def intro: exI [of _ "[]"])

lemma download_ok_step: "download_step d d' \<Longrightarrow> download_ok items d \<Longrightarrow> download_ok items d'"
proof (induction rule: download_step.induct)
  case (put d x xs)
  then show ?case by (simp add: download_ok_def waiting_def)
next
  case (get d x)
  then obtain taken where t: "items = taken @ x # dl_todo d" "concat (dl_sent d) = text_of taken" "outcome taken = Reading"
    by (auto simp: download_ok_def waiting_def)
  show ?case
    unfolding download_ok_def
    by (rule exI [of _ "taken @ [x]"]) (use t get in \<open>cases x; auto simp: waiting_def outcome_append text_append\<close>)
next
  case (leave d)
  then show ?case by (auto simp: download_ok_def waiting_def)
qed

lemma download_ok_reach: "download_step\<^sup>*\<^sup>* d d' \<Longrightarrow> download_ok items d \<Longrightarrow> download_ok items d'"
  by (induction rule: rtranclp_induct) (auto intro: download_ok_step)

text \<open>A reader that has ended on its own has read the text up to the first item that ends it.\<close>

lemma reader_ended:
  assumes "download_ok items d" "dl_reader d \<notin> {Reading, Gone}"
  shows "concat (dl_sent d) = text_of items \<and> dl_reader d = outcome items"
  using assms by (auto simp: download_ok_def outcome_append text_append)

lemma reader_prefix: "download_ok items d \<Longrightarrow> \<exists>rest. text_of items = concat (dl_sent d) @ rest"
  by (auto simp: download_ok_def text_append)

section \<open>The download ends\<close>

definition download_measure :: "download \<Rightarrow> nat" where
  "download_measure d = 2 * length (dl_todo d) + (case dl_slot d of None \<Rightarrow> 0 | Some x \<Rightarrow> 1) +
     (if dl_reader d = Reading then 1 else 0)"

lemma measure_step: "download_step d d' \<Longrightarrow> download_measure d' < download_measure d"
proof (induction rule: download_step.induct)
  case (get d x)
  then show ?case by (cases x) (auto simp: download_measure_def)
qed (auto simp: download_measure_def)

lemma steps_bounded: "(download_step ^^ n) d d' \<Longrightarrow> n + download_measure d' \<le> download_measure d"
proof (induction n arbitrary: d')
  case (Suc n)
  then obtain e where "(download_step ^^ n) d e" "download_step e d'" by auto
  with Suc.IH measure_step show ?case by fastforce
qed simp

lemma reading_moves:
  assumes "download_ok items d" "outcome items \<noteq> Reading" "dl_reader d = Reading"
  shows "\<exists>d'. download_step d d' \<and> dl_reader d' \<noteq> Gone"
proof (cases "dl_slot d")
  case None
  show ?thesis
  proof (cases "dl_todo d")
    case Nil
    with None assms show ?thesis by (auto simp: download_ok_def waiting_def outcome_append)
  next
    case (Cons x xs)
    with None put [of d x xs] assms(3) show ?thesis by (intro exI conjI) auto
  qed
next
  case (Some x)
  have "dl_reader (csv_iterator x (d\<lparr>dl_slot := None\<rparr>)) \<noteq> Gone"
    using assms(3) by (cases x) auto
  with get [OF assms(3) Some] show ?thesis by blast
qed

section \<open>The text of a query\<close>

fun fetched :: "(string + row list) list \<Rightarrow> string + row list" where
  "fetched [] = Inr []"
| "fetched (Inl e # fetches) = Inl e"
| "fetched (Inr rows # fetches) =
     (if rows = [] then Inr [] else case fetched fetches of Inl e \<Rightarrow> Inl e | Inr rows' \<Rightarrow> Inr (rows @ rows'))"

lemma fetched_rows: "fetched fetches = Inr rows \<Longrightarrow> row \<in> set rows \<Longrightarrow> \<exists>rs. Inr rs \<in> set fetches \<and> row \<in> set rs"
  by (induction fetches arbitrary: rows rule: fetched.induct) (auto split: if_splits sum.splits, blast+)

lemma stream_text:
  "stream_query_as_csv_to_queue columns i b fetches = (items, r) \<Longrightarrow>
    (case fetched fetches of
       Inl e \<Rightarrow> r = Inl e \<and> outcome items = Reading
     | Inr rows \<Rightarrow> r = Inr (i + length rows, b + length (concat (map writerow rows))) \<and> outcome items = Finished \<and>
         text_of items = text_of (header columns i) @ concat (map writerow rows) @ footer (i + length rows))"
proof (induction columns i b fetches arbitrary: items r rule: stream_query_as_csv_to_queue.induct)
  case (3 columns i b rows fetches)
  have h: "outcome (header columns i) = Reading" by (simp add: header_def)
  show ?case
  proof (cases "rows = []")
    case True
    with 3 h show ?thesis by (auto simp: outcome_append text_append)
  next
    case False
    let ?b = "b + length (concat (map writerow rows))"
    obtain items' r' where s: "stream_query_as_csv_to_queue columns (i + length rows) ?b fetches = (items', r')"
      by fastforce
    have "header columns (i + length rows) = []" using False by (simp add: header_def)
    moreover note 3
    ultimately show ?thesis using s False h
      by (auto simp: outcome_append text_append add.assoc split: sum.splits)
  qed
qed (auto simp: outcome_append text_append header_def)

lemma download_items:
  assumes "run_queries columns fetches unfiltered callback = (items, m)"
  shows "outcome items = (case fetched fetches of Inl e \<Rightarrow> Failed e | Inr rows \<Rightarrow> Finished)"
    and "fetched fetches = Inr rows \<Longrightarrow>
      text_of items = writerow (map Text columns) @ concat (map writerow rows) @ footer (length rows)"
proof -
  obtain items' r where s: "stream_query_as_csv_to_queue columns 0 0 fetches = (items', r)" by fastforce
  have i: "\<exists>rest. items = items' @ rest \<and> (\<forall>e. r = Inl e \<longrightarrow> rest = [Raise e])"
    using assms s by (auto simp: run_queries_def Let_def split: sum.splits option.splits prod.splits)
  then show "outcome items = (case fetched fetches of Inl e \<Rightarrow> Failed e | Inr rows \<Rightarrow> Finished)"
    using stream_text [OF s] by (auto simp: outcome_append split: sum.splits)
  show "fetched fetches = Inr rows \<Longrightarrow>
      text_of items = writerow (map Text columns) @ concat (map writerow rows) @ footer (length rows)"
    using stream_text [OF s] i by (auto simp: text_append header_def)
qed

section \<open>Reading the text\<close>

text \<open>A reader of comma-separated values: quoted fields may hold anything, with quotes doubled.\<close>

datatype csv_mode = Start | Plain | Quoted | Quote

fun read_csv :: "csv_mode \<Rightarrow> string \<Rightarrow> string list \<Rightarrow> string \<Rightarrow> string list list option" where
  "read_csv Quoted f fs (c # cs) =
     (if c = quotes then read_csv Quote f fs cs else read_csv Quoted (f @ [c]) fs cs)"
| "read_csv md f fs (c # cs) =
     (if c = quotes then (if md = Plain then None else read_csv Quoted (if md = Quote then f @ [c] else f) fs cs)
      else if c = CHR '','' then read_csv Start [] (fs @ [f]) cs
      else if c = CR then read_csv Start f fs cs
      else if c = LF then map_option ((#) (fs @ [f])) (read_csv Start [] [] cs)
      else if md = Quote then None else read_csv Plain (f @ [c]) fs cs)"
| "read_csv md f fs [] = (if md = Start \<and> f = [] \<and> fs = [] then Some [] else None)"

fun cell_text :: "cell \<Rightarrow> string" where
  "cell_text Null = []"
| "cell_text (Number s) = s"
| "cell_text (Text s) = s"

text \<open>Numbers are written without quotes, commas and ends of lines.\<close>

definition plain_char :: "char \<Rightarrow> bool" where
  "plain_char c \<longleftrightarrow> c \<notin> {quotes, CHR '','', CR, LF}"

fun cell_ok :: "cell \<Rightarrow> bool" where
  "cell_ok (Number s) = (s \<noteq> [] \<and> list_all plain_char s)"
| "cell_ok c = True"

lemma special_chars [simp]:
  "CR \<noteq> quotes" "LF \<noteq> quotes" "CR \<noteq> CHR '',''" "LF \<noteq> CHR '',''" "quotes \<noteq> CHR '',''" "CHR '','' \<noteq> quotes" "CR \<noteq> LF" "LF \<noteq> CR"
  "quotes \<noteq> CR" "quotes \<noteq> LF"
  by (simp_all add: CR_def LF_def quotes_def)

lemma read_quoted: "read_csv Quoted f fs (escape_quotes s @ quotes # rest) = read_csv Quote (f @ s) fs rest"
proof (induction s arbitrary: f)
  case (Cons c s)
  have "read_csv Quoted f fs (escape_quotes (c # s) @ quotes # rest) =
      read_csv Quoted (f @ [c]) fs (escape_quotes s @ quotes # rest)"
    by (simp add: escape_quotes_def)
  with Cons.IH [of "f @ [c]"] show ?case by simp
qed (simp add: escape_quotes_def)

lemma read_plain: "list_all plain_char s \<Longrightarrow> read_csv Plain f fs (s @ rest) = read_csv Plain (f @ s) fs rest"
  by (induction s arbitrary: f) (auto simp: plain_char_def)

lemma read_cell:
  assumes "cell_ok c"
  shows "read_csv Start [] fs (csv_field c @ CHR '','' # rest) = read_csv Start [] (fs @ [cell_text c]) rest"
    and "read_csv Start [] fs (csv_field c @ CR # LF # rest) =
      map_option ((#) (fs @ [cell_text c])) (read_csv Start [] [] rest)"
proof -
  have e: "escape_quotes [] = []" by (simp add: escape_quotes_def)
  show "read_csv Start [] fs (csv_field c @ CHR '','' # rest) = read_csv Start [] (fs @ [cell_text c]) rest"
  proof (cases c)
    case Null
    then show ?thesis using read_quoted [of "[]" fs "[]" "CHR '','' # rest"] by (simp add: e)
  next
    case (Number s)
    then obtain d ds where "s = d # ds" "plain_char d" "list_all plain_char ds" using assms by (cases s) auto
    with Number show ?thesis by (simp add: read_plain plain_char_def)
  next
    case (Text s)
    then show ?thesis using read_quoted [of "[]" fs s "CHR '','' # rest"] by simp
  qed
  show "read_csv Start [] fs (csv_field c @ CR # LF # rest) =
      map_option ((#) (fs @ [cell_text c])) (read_csv Start [] [] rest)"
  proof (cases c)
    case Null
    then show ?thesis using read_quoted [of "[]" fs "[]" "CR # LF # rest"] by (simp add: e)
  next
    case (Number s)
    then obtain d ds where "s = d # ds" "plain_char d" "list_all plain_char ds" using assms by (cases s) auto
    with Number show ?thesis by (simp add: read_plain plain_char_def)
  next
    case (Text s)
    then show ?thesis using read_quoted [of "[]" fs s "CR # LF # rest"] by simp
  qed
qed

lemma read_row: "list_all cell_ok row \<Longrightarrow> row \<noteq> [] \<Longrightarrow>
    read_csv Start [] fs (writerow row @ rest) = map_option ((#) (fs @ map cell_text row)) (read_csv Start [] [] rest)"
proof (induction row arbitrary: fs)
  case (Cons c row)
  show ?case
  proof (cases row)
    case Nil
    with Cons read_cell(2) [of c fs rest] show ?thesis by (simp add: writerow_def)
  next
    case (Cons d ds)
    then have "writerow (c # row) @ rest = csv_field c @ CHR '','' # (writerow row @ rest)"
      by (simp add: writerow_def)
    with Cons Cons.prems Cons.IH [of "fs @ [cell_text c]"] read_cell(1) [of c fs "writerow row @ rest"]
    show ?thesis by simp
  qed
qed simp

lemma read_rows: "\<forall>row \<in> set rows. row \<noteq> [] \<and> list_all cell_ok row \<Longrightarrow>
    read_csv Start [] [] (concat (map writerow rows)) = Some (map (map cell_text) rows)"
  by (induction rows) (auto simp: read_row)

section \<open>Samples\<close>

text \<open>
  \<open>get_random_data_sample\<close>: \<open>sample\<close> stands for \<open>random.sample\<close> and \<open>shuffle\<close> for \<open>random.shuffle\<close>;
  \<open>None\<close> rows stand for a query that fails. The sort is stable and puts the fullest rows first.
\<close>

definition non_nulls :: "row \<Rightarrow> nat" where
  "non_nulls r = length (filter (\<lambda>v. v \<noteq> Null) r)"

definition get_random_data_sample ::
  "(nat \<Rightarrow> row list \<Rightarrow> row list) \<Rightarrow> (row list \<Rightarrow> row list) \<Rightarrow> row list option \<Rightarrow> nat \<Rightarrow> row list" where
  "get_random_data_sample sample shuffle query sample_size =
     (case query of None \<Rightarrow> []
      | Some all_rows \<Rightarrow>
          let batch_size = sample_size * 100;
              minimize_nulls_sample_size = sample_size * 2;
              rows = take batch_size all_rows;
              chosen = sample (min minimize_nulls_sample_size (length rows)) rows;
              chosen = sort_key (\<lambda>r. - int (non_nulls r)) chosen
          in shuffle (take sample_size chosen))"

lemma sample_size:
  assumes "\<And>k xs. k \<le> length xs \<Longrightarrow> length (sample k xs) = k \<and> set (sample k xs) \<subseteq> set xs"
    and "\<And>xs. mset (shuffle xs) = mset xs"
  shows "length (get_random_data_sample sample shuffle (Some rows) n) = min n (length rows) \<and>
    set (get_random_data_sample sample shuffle (Some rows) n) \<subseteq> set rows"
proof -
  let ?rows = "take (n * 100) rows"
  let ?chosen = "sort_key (\<lambda>r. - int (non_nulls r)) (sample (min (n * 2) (length ?rows)) ?rows)"
  have s: "length (shuffle xs) = length xs" "set (shuffle xs) = set xs" for xs
    using assms(2) by (metis size_mset, metis set_mset_mset)
  have c: "length ?chosen = min (n * 2) (length ?rows)" "set ?chosen \<subseteq> set ?rows"
    using assms(1) [OF min.cobounded2 [of "n * 2" "length ?rows"]] unfolding length_sort set_sort by blast+
  have l: "length (take n ?chosen) = min n (length rows)" using c(1) by (simp add: min_def)
  have t: "set (take n ?chosen) \<subseteq> set rows" using c(2) by (meson set_take_subset subset_trans)
  show ?thesis
    unfolding get_random_data_sample_def option.case Let_def s using l t by simp
qed

end
