(* ===== verification/DataProperties.thy ===== *)
theory DataProperties
  imports CredentialsFacts Streaming
begin

text \<open>
  The properties of the database credentials: which tables each database gets, what the permanent role
  may do afterwards, and how the changes are locked; and of the downloads.
\<close>

section \<open>The tables of each database\<close>

text \<open>The last run of entries of a database.\<close>

definition last_run :: "nat \<Rightarrow> table_entry list \<Rightarrow> table_entry list" where
  "last_run d es = rev (takeWhile (\<lambda>e. fst e = d) (dropWhile (\<lambda>e. fst e \<noteq> d) (rev es)))"

lemma dropWhile_none: "\<forall>x \<in> set xs. \<not> P x \<Longrightarrow> dropWhile P xs = xs"
  by (cases xs) auto

lemma last_run_later:
  assumes "d \<in> fst ` set ys" "\<forall>e \<in> set xs. fst e = b" "fst (hd ys) \<noteq> b"
  shows "last_run d (xs @ ys) = last_run d ys"
proof -
  let ?zs = "dropWhile (\<lambda>e. fst e \<noteq> d) (rev ys)"
  obtain e where "e \<in> set ys" "fst e = d" using assms(1) by auto
  then have drop: "dropWhile (\<lambda>e. fst e \<noteq> d) (rev ys @ rev xs) = ?zs @ rev xs"
    by (intro dropWhile_append1 [of e]) auto
  have "takeWhile (\<lambda>e. fst e = d) (?zs @ rev xs) = takeWhile (\<lambda>e. fst e = d) ?zs"
  proof (cases "\<forall>e \<in> set ?zs. fst e = d")
    case True
    obtain us where us: "rev ys = us @ ?zs" by (metis takeWhile_dropWhile_id)
    have "?zs \<noteq> []" using \<open>e \<in> set ys\<close> \<open>fst e = d\<close> by (auto simp: dropWhile_eq_Nil_conv)
    then have "last ?zs \<in> set ?zs" "last ?zs = last (rev ys)"
      by (rule last_in_set) (subst us, rule last_appendR [symmetric], fact)
    then have "fst (last (rev ys)) = d" using True by metis
    then have "fst (hd ys) = d" by (simp add: last_rev)
    then have "b \<noteq> d" using assms(3) by simp
    then have "\<not> fst (hd (rev xs)) = d" if "xs \<noteq> []"
      using bspec [OF assms(2) last_in_set [OF that]] by (simp add: hd_rev)
    then have "takeWhile (\<lambda>e. fst e = d) (rev xs) = []"
      unfolding takeWhile_eq_Nil_iff rev_is_Nil_conv by blast
    moreover have "takeWhile (\<lambda>e. fst e = d) ?zs = ?zs" unfolding takeWhile_eq_all_conv by (rule True)
    moreover have "takeWhile (\<lambda>e. fst e = d) (?zs @ rev xs) = ?zs @ takeWhile (\<lambda>e. fst e = d) (rev xs)"
      by (rule takeWhile_append2) (rule bspec [OF True])
    ultimately show ?thesis by (simp only: append_Nil2)
  next
    case False
    then obtain z where "z \<in> set ?zs" "fst z \<noteq> d" by blast
    then show ?thesis by (rule takeWhile_append1)
  qed
  then show ?thesis unfolding last_run_def rev_append drop by (rule arg_cong)
qed

lemma groupby_fold:
  "map_of (fold (\<lambda>(b, es). AList.update b (map entry_table es)) (groupby fst xs) acc) d =
    (if d \<in> fst ` set xs then Some (map entry_table (last_run d xs)) else map_of acc d)"
proof (induction "fst :: table_entry \<Rightarrow> nat" xs arbitrary: acc rule: groupby.induct)
  case (2 x xs)
  let ?run = "x # takeWhile (\<lambda>y. fst y = fst x) xs" and ?rest = "dropWhile (\<lambda>y. fst y = fst x) xs"
  have split: "x # xs = ?run @ ?rest" by simp
  have run: "\<forall>e \<in> set ?run. fst e = fst x" by (auto dest: set_takeWhileD)
  show ?case
  proof (cases "d \<in> fst ` set ?rest")
    case True
    then have "?rest \<noteq> []" by (metis image_is_empty list.set(1) empty_iff)
    then have "fst (hd ?rest) \<noteq> fst x" by (rule hd_dropWhile)
    from last_run_later [OF True run this] have "last_run d (x # xs) = last_run d ?rest" by simp
    moreover have "d \<in> fst ` set (x # xs)" using True by (subst split, unfold set_append image_Un) blast
    ultimately show ?thesis using True unfolding groupby.simps by (simp add: 2)
  next
    case False
    have run_only: "last_run d (x # xs) = ?run" if "d = fst x"
    proof -
      have "dropWhile (\<lambda>e. fst e \<noteq> d) (rev ?rest @ rev ?run) = dropWhile (\<lambda>e. fst e \<noteq> d) (rev ?run)"
        using False by (intro dropWhile_append2) force
      also have "\<dots> = rev ?run"
        by (rule dropWhile_none) (use run in \<open>unfold that set_rev, blast\<close>)
      finally have "last_run d (?run @ ?rest) = rev (takeWhile (\<lambda>e. fst e = d) (rev ?run))"
        unfolding last_run_def rev_append by (rule arg_cong)
      also have "takeWhile (\<lambda>e. fst e = d) (rev ?run) = rev ?run"
        unfolding takeWhile_eq_all_conv set_rev that using run by blast
      finally show ?thesis by (subst split) (simp only: rev_rev_ident)
    qed
    have "fst ` set (x # xs) = fst ` set ?run \<union> fst ` set ?rest" by (metis split set_append image_Un)
    moreover have "fst ` set ?run \<subseteq> {fst x}" using run by blast
    ultimately have "d \<in> fst ` set (x # xs) \<Longrightarrow> d = fst x" using False by blast
    then have mem: "d \<in> fst ` set (x # xs) \<longleftrightarrow> d = fst x" by (rule iffI) simp_all
    have "map_of (fold (\<lambda>(b, es). AList.update b (map entry_table es)) (groupby fst (x # xs)) acc) d =
        map_of (AList.update (fst x) (map entry_table ?run) acc) d"
      using False unfolding groupby.simps by (simp add: 2)
    then show ?thesis
      unfolding mem using run_only by (auto simp: update_conv')
  qed
qed simp

text \<open>
  A database gets the tables of its last run of entries in the list. Entries of the same database
  that stand apart, as those of datasets and of reference datasets may, are lost.
\<close>

theorem tables_of_the_last_run:
  "map_of (database_to_tables entries) d =
    (if d \<in> fst ` set entries then Some (map entry_table (last_run d entries)) else None)"
  unfolding database_to_tables_def groupby_fold by simp

lemma a_table_is_lost:
  "database_to_tables [(1, ''s'', ''t1'', 1, ''d'', OPEN), (2, ''s'', ''t2'', 2, ''d'', OPEN),
      (1, ''public'', ''ref'', 3, ''r'', REQUIRES_AUTHENTICATION)] =
    [(1, [(''public'', ''ref'')]), (2, [(''s'', ''t2'')])]"
  by (simp add: database_to_tables_def entry_table_def)

section \<open>Privileges\<close>


text \<open>
  A membership in a team is never taken away: the pattern of the query for the team roles of the
  permanent role lacks its wildcard and finds at most a role with the bare name \<open>_team_\<close>.
\<close>

theorem former_teams_keep_their_roles:
  assumes "exec (get_new_credentials ni db tables) env h = (Inr c, h')"
    and "truthful env db P (db_role ni)"
    and "ni_db_user ni \<noteq> db_role ni" "dd_user (ni_databases ni db) \<noteq> db_role ni"
    and "env h (Statement db (ExistingTables tables)) = Inr (Rows existing)"
    and "team \<in> roles_of (privileges_after db P h) (db_role ni)" "team \<noteq> ''_team_''"
  shows "team \<in> roles_of (privileges_after db P h') (db_role ni)"
  using credentials_effect [OF _ assms(2-5) holdings_def, of c h'] assms(1,6,7)
  by (simp add: runs_def holdings_def)


text \<open>
  The schema of a team has a name of at most 69 characters; names of teams of up to 57 characters
  give one that fits into PostgreSQL's 63, and any longer name gives one that does not.
\<close>

theorem team_schema_names:
  "length (team_schema_name name []) = 6 + min 63 (length name) \<and>
    (length (team_schema_name name []) \<le> 63 \<longleftrightarrow> length name \<le> 57)"
  by (auto simp: team_schema_name_def)

section \<open>Downloads\<close>

text \<open>
  C19: a download that has ended has failed with the exception of the query, or it has sent a text that
  reads back as the columns, all rows in order, and their number. What fails after the last row, while
  metrics are gathered, does not reach it.
\<close>

theorem ended_downloads_are_complete:
  assumes "run_queries columns fetches unfiltered callback = (items, m)"
    and "download_step\<^sup>*\<^sup>* (start_download items) d" "dl_reader d \<notin> {Reading, Gone}"
    and "columns \<noteq> []" "\<forall>rows. Inr rows \<in> set fetches \<longrightarrow> (\<forall>row \<in> set rows. row \<noteq> [] \<and> list_all cell_ok row)"
  shows "case fetched fetches of
      Inl e \<Rightarrow> dl_reader d = Failed e
    | Inr rows \<Rightarrow> dl_reader d = Finished \<and> read_csv Start [] [] (concat (dl_sent d)) =
        Some (columns # map (map cell_text) rows @ [[''Number of rows: '' @ str_nat (length rows)]])"
proof -
  have ended: "concat (dl_sent d) = text_of items" "dl_reader d = outcome items"
    using reader_ended [OF download_ok_reach [OF assms(2) download_ok_start] assms(3)] by auto
  show ?thesis
  proof (cases "fetched fetches")
    case (Inl e)
    with ended(2) download_items(1) [OF assms(1)] show ?thesis by simp
  next
    case (Inr rows)
    let ?rows = "map Text columns # rows @ [[Text (''Number of rows: '' @ str_nat (length rows))]]"
    have sent: "concat (dl_sent d) = concat (map writerow ?rows)"
      using download_items(2) [OF assms(1) Inr] ended(1) by (simp add: footer_def)
    have "\<forall>row \<in> set rows. row \<noteq> [] \<and> list_all cell_ok row"
      using fetched_rows [OF Inr] assms(5) by blast
    moreover have "list_all cell_ok (map Text columns)" by (simp add: list_all_iff)
    ultimately have "\<forall>row \<in> set ?rows. row \<noteq> [] \<and> list_all cell_ok row" using assms(4) by auto
    from read_rows [OF this] have "read_csv Start [] [] (concat (dl_sent d)) = Some (map (map cell_text) ?rows)"
      unfolding sent .
    with Inr ended(2) download_items(1) [OF assms(1)] show ?thesis by (simp add: comp_def)
  qed
qed

text \<open>
  C20: a download makes at most two steps for each item and one more, and as long as the response reads
  it is never stuck: the greenlet or the response can go on.
\<close>

theorem downloads_end:
  assumes "run_queries columns fetches unfiltered callback = (items, m)"
    and "(download_step ^^ n) (start_download items) d"
  shows "n \<le> 2 * length items + 1 \<and>
    (dl_reader d = Reading \<longrightarrow> (\<exists>d'. download_step d d' \<and> dl_reader d' \<noteq> Gone))"
proof -
  have "download_step\<^sup>*\<^sup>* (start_download items) d" using assms(2) by (rule relpowp_imp_rtranclp)
  from download_ok_reach [OF this download_ok_start] have "download_ok items d" .
  moreover have "outcome items \<noteq> Reading"
    using download_items(1) [OF assms(1)] by (simp split: sum.split)
  ultimately show ?thesis
    using reading_moves steps_bounded [OF assms(2)]
    by (auto simp: start_download_def download_measure_def)
qed

section \<open>Witnesses\<close>

definition sample_credentials :: credentials_input where
  "sample_credentials = \<lparr>ni_suffix = ''0a'', ni_db_user = ''user_a'', ni_teams = [''_team_new''],
     ni_password = (\<lambda>_. ''p''), ni_valid_until = (\<lambda>_. ''2030''),
     ni_databases = (\<lambda>_. \<lparr>dd_memorable_name = ''my'', dd_name = ''d'', dd_host = ''h'', dd_port = ''5432'', dd_user = ''master''\<rparr>),
     ni_audit_scopes = ''ALL''\<rparr>"

definition sample_lists :: holding_lists where
  "sample_lists = ([(''s'', ''old'')], [''s''], [''_team_left''])"

definition sample_privileges :: privileges where
  "sample_privileges = \<lparr>pv_tables = {(''_user_0a'', ''s'', ''old'')}, pv_schemas = {(''_user_0a'', ''s'')},
     pv_members = {(''_user_0a'', ''_team_left'')}\<rparr>"

abbreviation sample_postgres :: "(credentials_call, sql_reply) services" where
  "sample_postgres \<equiv> model_postgres 1 ''_user_0a'' sample_lists"

lemma sample_truthful: "truthful sample_postgres 1 sample_privileges (db_role sample_credentials)"
proof -
  have "lists_hold sample_lists sample_privileges ''_user_0a''"
    by (simp add: lists_hold_def sample_lists_def sample_privileges_def holdings_def tables_of_def
        schemas_of_def roles_of_def)
  then show ?thesis
    by (simp add: db_role_def USER_SCHEMA_STEM_def sample_credentials_def model_postgres_truthful)
qed

lemma sample_names: "ni_db_user sample_credentials \<noteq> db_role sample_credentials"
  "dd_user (ni_databases sample_credentials 1) \<noteq> db_role sample_credentials"
  by (simp_all add: db_role_def USER_SCHEMA_STEM_def sample_credentials_def)

lemma sample_exec:
  "\<exists>c h. exec (get_new_credentials sample_credentials 1 [(''s'', ''t'')]) sample_postgres [] = (Inr c, h)"
proof -
  have "case exec (get_new_credentials sample_credentials 1 [(''s'', ''t'')]) sample_postgres [] of
     (Inr c, h) \<Rightarrow> True | (Inl e, h) \<Rightarrow> False" by code_simp
  then show ?thesis by (auto split: prod.splits sum.splits)
qed


theorem former_teams_keep_their_roles_witness:
  "\<exists>c h. exec (get_new_credentials sample_credentials 1 [(''s'', ''t'')]) sample_postgres [] = (Inr c, h) \<and>
    ''_team_left'' \<in> roles_of (privileges_after 1 sample_privileges h) ''_user_0a'' \<and>
    ''_team_left'' \<notin> set (ni_teams sample_credentials)"
proof -
  obtain c h where x: "exec (get_new_credentials sample_credentials 1 [(''s'', ''t'')]) sample_postgres [] = (Inr c, h)"
    using sample_exec by blast
  have r: "db_role sample_credentials = ''_user_0a''"
    by (simp add: db_role_def USER_SCHEMA_STEM_def sample_credentials_def)
  have "''_team_left'' \<in> roles_of (privileges_after 1 sample_privileges h) ''_user_0a''"
    using former_teams_keep_their_roles [OF x sample_truthful sample_names, of "[(''s'', ''t'')]" "''_team_left''"]
    by (simp add: r privileges_after_def sample_privileges_def roles_of_def)
  with x show ?thesis by (auto simp: sample_credentials_def)
qed


text \<open>A download of one row, taken step by step.\<close>

definition sample_fetches :: "(string + row list) list" where
  "sample_fetches = [Inr [[Text ''a,b'', Number ''1'']]]"

definition sample_items :: "item list" where
  "sample_items = fst (run_queries [''x'', ''y''] sample_fetches None (\<lambda>m. None))"

lemma sample_items: "sample_items = [Chunk (writerow [Text ''x'', Text ''y'']),
    Chunk (writerow [Text ''a,b'', Number ''1'']), Chunk (footer 1), Finish]"
  by (simp add: sample_items_def sample_fetches_def run_queries_def header_def Let_def)

text \<open>Putting and taking the next item.\<close>

fun sample_take :: "download \<Rightarrow> download" where
  "sample_take d = (case dl_todo d of [] \<Rightarrow> d
     | x # xs \<Rightarrow> csv_iterator x (d\<lparr>dl_todo := xs, dl_slot := None\<rparr>))"

lemma sample_take_steps:
  assumes "dl_reader d = Reading" "dl_slot d = None" "dl_todo d = x # xs"
  shows "(download_step ^^ 2) d (sample_take d)"
proof -
  let ?e = "d\<lparr>dl_todo := xs, dl_slot := Some x\<rparr>"
  have "download_step d ?e" using assms by (intro put)
  moreover have "download_step ?e (csv_iterator x (?e\<lparr>dl_slot := None\<rparr>))" using assms by (intro get) auto
  moreover have "?e\<lparr>dl_slot := None\<rparr> = d\<lparr>dl_todo := xs, dl_slot := None\<rparr>" by simp
  ultimately show ?thesis using assms(3) by (auto simp: numeral_2_eq_2)
qed

definition sample_end :: download where
  "sample_end = sample_take (sample_take (sample_take (sample_take (start_download sample_items))))"

lemma sample_end: "(download_step ^^ 8) (start_download sample_items) sample_end \<and> dl_reader sample_end = Finished"
proof -
  let ?d0 = "start_download sample_items" and ?d1 = "sample_take (start_download sample_items)"
  let ?d2 = "sample_take ?d1" let ?d3 = "sample_take ?d2"
  note f = start_download_def sample_items footer_def writerow_def
  have "(download_step ^^ 2) ?d0 ?d1" by (rule sample_take_steps) (auto simp: f)
  moreover have "(download_step ^^ 2) ?d1 ?d2" by (rule sample_take_steps) (auto simp: f)
  moreover have "(download_step ^^ 2) ?d2 ?d3" by (rule sample_take_steps) (auto simp: f)
  moreover have "(download_step ^^ 2) ?d3 sample_end"
    unfolding sample_end_def by (rule sample_take_steps) (auto simp: f)
  ultimately have "(download_step ^^ (2 + (2 + (2 + 2)))) ?d0 sample_end"
    unfolding relpowp_add by (intro relcomppI)
  moreover have "dl_reader sample_end = Finished" by (simp add: sample_end_def f)
  ultimately show ?thesis by simp
qed

theorem ended_downloads_are_complete_witness:
  "read_csv Start [] [] (concat (dl_sent sample_end)) =
    Some [[''x'', ''y''], [''a,b'', ''1''], [''Number of rows: 1'']]"
proof -
  have r: "run_queries [''x'', ''y''] sample_fetches None (\<lambda>m. None) = (sample_items, None)"
    by (simp add: sample_items sample_fetches_def run_queries_def header_def Let_def)
  have "download_step\<^sup>*\<^sup>* (start_download sample_items) sample_end" "dl_reader sample_end \<notin> {Reading, Gone}"
    using sample_end by (auto dest: relpowp_imp_rtranclp)
  moreover have "\<forall>rows. Inr rows \<in> set sample_fetches \<longrightarrow> (\<forall>row \<in> set rows. row \<noteq> [] \<and> list_all cell_ok row)"
    by (simp add: sample_fetches_def plain_char_def quotes_def CR_def LF_def)
  moreover have "str_nat 1 = ''1''" by code_simp
  ultimately show ?thesis
    using ended_downloads_are_complete [OF r] by (simp add: sample_fetches_def)
qed

theorem downloads_end_witness:
  "8 \<le> 2 * length sample_items + 1 \<and> dl_reader sample_end = Finished"
  using downloads_end [of "[''x'', ''y'']" sample_fetches None "\<lambda>m. None" sample_items None 8 sample_end] sample_end
  by (simp add: sample_items sample_fetches_def run_queries_def header_def Let_def)

end
