(* ===== verification/ToolAccess.thy ===== *)
theory ToolAccess
  imports Credentials SpawnerState
begin

text \<open>
  The tasks that start and stop an application (\<open>apps/applications/spawner.py\<close>), the AWS role of a user
  (\<open>apps/core/utils.py\<close>, \<open>apps/api_v1/views.py\<close>) and the check for a developer of a project in GitLab
  (\<open>apps/applications/gitlab.py\<close>). Pauses are left out; replies of services are JSON values.
\<close>

section \<open>The task that starts an application\<close>

record spawn_request =
  sr_spawner :: string
  sr_user :: data_user
  sr_template :: application_template
  sr_unique_enough :: string
  sr_sso_id :: string

text \<open>
  The tables, the suffix of the role, and the name of the database user: those of the user for a tool,
  those of the application for a visualisation.
\<close>

definition spawn_access :: "(string \<Rightarrow> string) \<Rightarrow> source_table list \<Rightarrow> reference_dataset list \<Rightarrow> spawn_request \<Rightarrow>
    (table_entry list \<times> string \<times> string) option" where
  "spawn_access sha256 tables refs sr =
     (if at_type (sr_template sr) = TOOL
      then Option.bind (source_tables_for_user tables refs (sr_user sr)) (\<lambda>source_tables.
        map_option (\<lambda>db_user. (source_tables, db_role_schema_suffix_for_user sha256 (sr_sso_id sr), db_user))
          (postgres_user (sr_unique_enough sr) (du_email (sr_user sr)) []))
      else map_option (\<lambda>db_user. (source_tables_for_app tables refs (sr_template sr),
          db_role_schema_suffix_for_app (sr_template sr), db_user))
        (postgres_user (sr_unique_enough sr) (at_host_basename (sr_template sr)) []))"

text \<open>What \<open>spawn\<close> calls, in this order; the calls of each part are those of its own program.\<close>

datatype spawn_call =
    NewCredentials string "table_entry list" string
  | WriteCredentials
  | RunSpawner string string
  | StopSpawner string string

definition spawn :: "(string \<Rightarrow> string) \<Rightarrow> source_table list \<Rightarrow> reference_dataset list \<Rightarrow> spawn_request \<Rightarrow>
    (spawn_call, json, unit) prog" where
  "spawn sha256 tables refs sr =
     want ''Exception'' (spawn_access sha256 tables refs sr) (\<lambda>(source_tables, db_role_schema_suffix, db_user).
       ask (NewCredentials db_role_schema_suffix source_tables db_user) (\<lambda>_.
       seq (if at_type (sr_template sr) = TOOL then ask WriteCredentials (\<lambda>_. Done ()) else Done ()) (\<lambda>_.
       if sr_spawner sr \<in> {''PROCESS'', ''FARGATE''}
       then ask (RunSpawner (sr_spawner sr) (USER_SCHEMA_STEM @ db_role_schema_suffix)) (\<lambda>_. Done ())
       else Fail ''KeyError'')))"

definition stop :: "string \<Rightarrow> string \<Rightarrow> (spawn_call, json, unit) prog" where
  "stop name application_instance_id =
     (if name \<in> {''PROCESS'', ''FARGATE''}
      then ask (StopSpawner name application_instance_id) (\<lambda>_. Done ()) else Fail ''KeyError'')"

section \<open>The AWS role of a user\<close>

datatype iam_call =
    ProfileRole string
  | CreateRole string string string
  | UpdateAssumeRolePolicy string string
  | GetRole string
  | PutRolePolicy string string string
  | SaveProfileRole string json
  | AssumeRole string string nat
  | RoleLock
  | RoleUnlock

type_synonym 'a iam = "(iam_call, json, 'a) prog"

record iam_settings =
  is_assume_role_policy_document :: string
  is_policy_name :: string
  is_policy_document_template :: string
  is_permissions_boundary_arn :: string
  is_role_prefix :: string

definition no_such_entity :: "exc \<Rightarrow> bool" where
  "no_such_entity e \<longleftrightarrow> e = ''NoSuchEntityException''"

definition role_policy :: "iam_settings \<Rightarrow> string \<Rightarrow> string option \<Rightarrow> string" where
  "role_policy se s3_prefix access_point_id =
     replace_str (replace_str (is_policy_document_template se) ''__S3_PREFIX__'' s3_prefix)
       ''__ACCESS_POINT_ID__'' (case access_point_id of None \<Rightarrow> [] | Some a \<Rightarrow> a)"

text \<open>The role is created, or the policy of the existing role is brought up to date.\<close>

definition ensure_role :: "iam_settings \<Rightarrow> string \<Rightarrow> unit iam" where
  "ensure_role se role_name =
     handling (ask (CreateRole role_name (is_assume_role_policy_document se) (is_permissions_boundary_arn se)) (\<lambda>_. Done ()))
       (\<lambda>e. e = ''EntityAlreadyExistsException'')
       (\<lambda>e. attempts 10 no_such_entity
          (ask (UpdateAssumeRolePolicy role_name (is_assume_role_policy_document se)) (\<lambda>_. Done ())))"

definition role_arn_of :: "string \<Rightarrow> json iam" where
  "role_arn_of role_name = attempts 10 no_such_entity
     (ask (GetRole role_name) (\<lambda>reply.
        want ''KeyError'' (Option.bind (jget reply ''Role'') (\<lambda>r. jget r ''Arn'')) Done))"

definition create_tools_access_iam_role ::
  "(string \<Rightarrow> string) \<Rightarrow> iam_settings \<Rightarrow> string \<Rightarrow> string \<Rightarrow> string option \<Rightarrow> (json \<times> string) iam" where
  "create_tools_access_iam_role sha256 se user_email_address user_sso_id access_point_id =
     (let s3_prefix = get_s3_prefix sha256 user_sso_id; role_name = is_role_prefix se @ user_email_address in
      ask (ProfileRole user_email_address) (\<lambda>tools_access_role_arn.
        if jtrue tools_access_role_arn then Done (tools_access_role_arn, s3_prefix)
        else seq (ensure_role se role_name) (\<lambda>_.
          seq (role_arn_of role_name) (\<lambda>role_arn.
          seq (attempts 10 no_such_entity
            (ask (PutRolePolicy role_name (is_policy_name se) (role_policy se s3_prefix access_point_id)) (\<lambda>_. Done ()))) (\<lambda>_.
          ask (SaveProfileRole user_email_address role_arn) (\<lambda>_. Done (role_arn, s3_prefix)))))))"

text \<open>The task that makes the role of a user: address, SSO id and access point, unless there is no such user.\<close>

definition do_create_tools_access_iam_role ::
  "(string \<Rightarrow> string) \<Rightarrow> iam_settings \<Rightarrow> (string \<times> string \<times> string option) option \<Rightarrow> unit iam" where
  "do_create_tools_access_iam_role sha256 se user =
     (case user of
        None \<Rightarrow> Done ()
      | Some (email, sso_id, access_point_id) \<Rightarrow>
          seq (create_tools_access_iam_role sha256 se email sso_id access_point_id) (\<lambda>_. Done ()))"

definition create_tools_access_iam_role_task ::
  "(string \<Rightarrow> string) \<Rightarrow> iam_settings \<Rightarrow> (string \<times> string \<times> string option) option \<Rightarrow> unit iam" where
  "create_tools_access_iam_role_task sha256 se user =
     ask RoleLock (\<lambda>_. ensuring (do_create_tools_access_iam_role sha256 se user) (ask RoleUnlock (\<lambda>_. Done ())))"

text \<open>The temporary credentials that the API hands out, with three attempts.\<close>

definition aws_credentials_api_GET ::
  "(string \<Rightarrow> string) \<Rightarrow> iam_settings \<Rightarrow> string \<Rightarrow> string \<Rightarrow> string option \<Rightarrow> json iam" where
  "aws_credentials_api_GET sha256 se email sso_id access_point_id =
     seq (create_tools_access_iam_role sha256 se email sso_id access_point_id) (\<lambda>(role_arn, _).
     seq (attempts 3 (\<lambda>e. True)
       (want ''ParamValidationError'' (jstr role_arn) (\<lambda>arn.
         ask (AssumeRole arn (''s3_access_'' @ sso_id) (60 * 60)) (\<lambda>reply.
           want ''KeyError'' (jget reply ''Credentials'') Done)))) (\<lambda>credentials.
     want ''KeyError'' (those (map (\<lambda>k. map_option (Pair k) (jget credentials k))
       [''AccessKeyId'', ''SecretAccessKey'', ''SessionToken'', ''Expiration'']))
       (\<lambda>fields. Done (JObj fields))))"

section \<open>Developers in GitLab\<close>

datatype gitlab_call =
    CacheGet string
  | CacheSet string json nat
  | GitlabGet string "(string \<times> json) list"
  | GrantManageUnpublished

type_synonym 'a gitlabbing = "(gitlab_call, json, 'a) prog"

definition DEVELOPER_ACCESS_LEVEL :: int where
  "DEVELOPER_ACCESS_LEVEL = 30"

fun jint :: "json \<Rightarrow> int option" where
  "jint (JInt i) = Some i"
| "jint _ = None"

definition developer_cache_key :: "int \<Rightarrow> nat \<Rightarrow> string" where
  "developer_cache_key gitlab_project_id user_id =
     ''gitlab-developer--'' @ str_int gitlab_project_id @ ''--'' @ str_nat user_id"

text \<open>\<open>any\<close> over the members of the project, from the left: a member without the fields raises.\<close>

fun any_developer :: "json \<Rightarrow> json list \<Rightarrow> bool option" where
  "any_developer gitlab_id [] = Some False"
| "any_developer gitlab_id (m # ms) =
     (case jget m ''id'' of None \<Rightarrow> None
      | Some i \<Rightarrow> if i = gitlab_id
          then (case Option.bind (jget m ''access_level'') jint of None \<Rightarrow> None
            | Some l \<Rightarrow> if l \<ge> DEVELOPER_ACCESS_LEVEL then Some True else any_developer gitlab_id ms)
          else any_developer gitlab_id ms)"

text \<open>The reply of \<open>GitlabGet\<close> is a list of the body and the status.\<close>

fun body_status :: "json \<Rightarrow> (json \<times> json) option" where
  "body_status (JList [b, s]) = Some (b, s)"
| "body_status _ = None"

definition gitlab_has_developer_access :: "nat \<Rightarrow> string \<Rightarrow> int \<Rightarrow> bool gitlabbing" where
  "gitlab_has_developer_access user_id sso_id gitlab_project_id =
     (let cache_key = developer_cache_key gitlab_project_id user_id in
      ask (CacheGet cache_key) (\<lambda>has_access.
        if jtrue has_access then Done True
        else ask (GitlabGet ''/users'' [(''extern_uid'', JStr sso_id), (''provider'', JStr ''oauth2_generic'')]) (\<lambda>reply.
          want ''JSONDecodeError'' (body_status reply) (\<lambda>(gitlab_users, status).
          if status \<noteq> JInt 200 then Fail ''Exception''
          else want ''TypeError'' (jlist gitlab_users) (\<lambda>users. case users of
            [] \<Rightarrow> Done False
          | [gitlab_user] \<Rightarrow> want ''KeyError'' (jget gitlab_user ''id'') (\<lambda>gitlab_id.
              ask (GitlabGet (''/projects/'' @ str_int gitlab_project_id @ ''/members/all'') [(''user_ids'', gitlab_id)]) (\<lambda>reply.
                want ''KeyError'' (Option.bind (body_status reply) (\<lambda>(b, _). jlist b)) (\<lambda>gitlab_project_users.
                want ''KeyError'' (any_developer gitlab_id gitlab_project_users) (\<lambda>has_access.
                  if has_access
                  then ask (CacheSet cache_key (JBool True) (60 * 60)) (\<lambda>_.
                    ask GrantManageUnpublished (\<lambda>_. Done True))
                  else Done False))))
          | _ \<Rightarrow> Fail ''Exception'')))))"

section \<open>Facts\<close>

text \<open>A role that is handed out was cached in the profile or has just been given the user's policy.\<close>

lemma any_developer_iff:
  "any_developer g ms = Some b \<Longrightarrow>
     b \<longleftrightarrow> (\<exists>m \<in> set ms. jget m ''id'' = Some g \<and> (\<exists>l. jget m ''access_level'' = Some (JInt l) \<and> 30 \<le> l))"
proof (induction g ms rule: any_developer.induct)
  case (2 g m ms)
  then show ?case
    by (auto simp: DEVELOPER_ACCESS_LEVEL_def split: option.splits if_splits bind_splits elim!: jint.elims)
qed simp

lemma runs_attempts: "runs env (attempts n c m) h x h' \<Longrightarrow> \<exists>h1. runs env m h1 x h' \<and> (\<exists>es. h1 = h @ es)"
proof (induction n arbitrary: h)
  case (Suc n)
  obtain r1 h1 where x1: "exec m env h = (r1, h1)" by fastforce
  show ?case
  proof (cases r1)
    case (Inr y)
    with Suc.prems x1 show ?thesis by (auto simp: runs_def exec_handling)
  next
    case (Inl e)
    with Suc.prems x1 have "runs env (attempts n c m) h1 x h'"
      by (auto simp: runs_def exec_handling split: if_splits)
    from Suc.IH [OF this] exec_extends [OF x1] show ?thesis by fastforce
  qed
qed (simp add: runs_simps)

lemma role_has_policy:
  assumes "runs env (create_tools_access_iam_role sha256 se email sso_id ap) [] (arn, pre) h"
  shows "pre = ''user/federated/'' @ sha256 sso_id @ ''/'' \<and>
    ((ProfileRole email, Inr arn) \<in> set h \<and> jtrue arn \<or>
     (\<exists>v. (PutRolePolicy (is_role_prefix se @ email) (is_policy_name se) (role_policy se pre ap), Inr v) \<in> set h))"
proof -
  let ?q = "PutRolePolicy (is_role_prefix se @ email) (is_policy_name se) (role_policy se pre ap)"
  have p: "pre = get_s3_prefix sha256 sso_id"
    and cases: "(ProfileRole email, Inr arn) \<in> set h \<and> jtrue arn \<or>
      (\<exists>h1 h2 h3 v. runs env (attempts 10 no_such_entity (ask ?q (\<lambda>_. Done ()))) h1 () h2 \<and> h = h2 @ h3)"
    using assms
    by (auto simp: create_tools_access_iam_role_def Let_def runs_seq runs_ask runs_Done split: if_splits)
  have "\<exists>v. (?q, Inr v) \<in> set h2" if a: "runs env (attempts 10 no_such_entity (ask ?q (\<lambda>_. Done ()))) h1 () h2" for h1 h2
    using runs_attempts [OF a] by (auto simp: runs_ask runs_Done)
  with cases have "(ProfileRole email, Inr arn) \<in> set h \<and> jtrue arn \<or> (\<exists>v. (?q, Inr v) \<in> set h)"
    by fastforce
  then show ?thesis by (simp add: p get_s3_prefix_def stable_identification_suffix_def)
qed

end
