(* ===== verification/Maintenance.thy ===== *)
theory Maintenance
  imports Complex_Main Sql Spawner AppInstances
begin

text \<open>
  \<open>apps/applications/utils.py\<close>: the tasks that run every so often and tidy up. Idle applications are
  stopped, the times of their tasks filled in, and the database users of applications that have ended
  dropped. Times are seconds; floating-point numbers are rationals.
\<close>

section \<open>Calls\<close>

text \<open>The expiry of a database user.\<close>

datatype expiry = Never | NoExpiry | At int

record pg_user =
  pu_usename :: string
  pu_valuntil :: expiry

datatype drop_stmt =
    RevokeConnect string string
  | RevokeAllOnDatabase string string
  | GrantRoleTo string string
  | ReassignOwned string string
  | DropOwned string
  | DropUser string

datatype maintenance_call =
    QueryMetrics string
  | EnqueueStop string string
  | SaveStopped string
  | DescribeTask json json
  | SaveTimes string "json option" "json option"
  | TakeLock string
  | ReleaseLock string
  | FindUsers nat
  | FindDbUsers nat
  | DropStatement nat drop_stmt
  | MarkDeleted string

text \<open>A row of \<open>ApplicationInstanceDbUsers\<close>: user, persistent role, and the state of its instance.\<close>

type_synonym db_user_row = "string \<times> string \<times> app_state"

datatype maintenance_reply = JsonReply json | UserRows "pg_user list" | DbUserRows "db_user_row list" | NoReply

type_synonym 'a maintenance = "(maintenance_call, maintenance_reply, 'a) prog"

fun the_json :: "maintenance_reply \<Rightarrow> json option" where
  "the_json (JsonReply v) = Some v"
| "the_json _ = None"

fun the_users :: "maintenance_reply \<Rightarrow> pg_user list option" where
  "the_users (UserRows us) = Some us"
| "the_users _ = None"

fun the_db_users :: "maintenance_reply \<Rightarrow> db_user_row list option" where
  "the_db_users (DbUserRows us) = Some us"
| "the_db_users _ = None"

definition silently :: "unit maintenance \<Rightarrow> unit maintenance" where
  "silently m = handling m (\<lambda>e. True) (\<lambda>e. Done ())"

text \<open>\<open>try: x = m except: continue\<close>, with what follows.\<close>

definition or_continue :: "'a maintenance \<Rightarrow> ('a \<Rightarrow> unit maintenance) \<Rightarrow> unit maintenance" where
  "or_continue m f = seq (handling (seq m (\<lambda>x. Done (Some x))) (\<lambda>e. True) (\<lambda>e. Done None))
     (\<lambda>r. case r of None \<Rightarrow> Done () | Some x \<Rightarrow> f x)"

section \<open>Idle applications\<close>

record metrics_libs =
  ml_hostname :: "string \<Rightarrow> string option"
  ml_float :: "json \<Rightarrow> rat option"

text \<open>The last of the greatest values, as a percentage of one CPU over intervals of 30 seconds.\<close>

definition percentage :: "rat \<Rightarrow> rat" where
  "percentage cpu = cpu / (1000000000 * 30) * 100"

fun peak :: "(json \<times> rat) list \<Rightarrow> rat \<times> json \<Rightarrow> rat \<times> json" where
  "peak [] best = best"
| "peak ((ts, cpu) # values) (max_cpu, ts_at_max) =
     peak values (if percentage cpu \<ge> max_cpu then (percentage cpu, ts) else (max_cpu, ts_at_max))"

fun metric_value :: "metrics_libs \<Rightarrow> json \<Rightarrow> (json \<times> rat) option" where
  "metric_value ml (JList [ts, cpu]) = map_option (Pair ts) (ml_float ml cpu)"
| "metric_value ml _ = None"

definition metric_values :: "json \<Rightarrow> json list option" where
  "metric_values response_dict =
     Option.bind (Option.bind (Option.bind (Option.bind (jget response_dict ''data'') (\<lambda>d. jget d ''result'')) jhead)
       (\<lambda>r. jget r ''values'')) jlist"

definition application_instance_max_cpu :: "metrics_libs \<Rightarrow> string option \<Rightarrow> (rat \<times> json) maintenance" where
  "application_instance_max_cpu ml proxy_url =
     want ''ExpectedMetricsException'' proxy_url (\<lambda>url.
     want ''TypeError'' (ml_hostname ml url) (\<lambda>hostname.
     seq (handling (perform (QueryMetrics (hostname @ '':8889''))) (\<lambda>e. e = ''RequestException'')
         (\<lambda>e. Fail ''UnexpectedMetricsException'')) (\<lambda>response.
     want ''JSONDecodeError'' (the_json response) (\<lambda>response_dict.
     want ''KeyError'' (jget response_dict ''status'') (\<lambda>status.
       if status \<noteq> JStr ''success'' then Fail ''UnexpectedMetricsException''
       else want ''ExpectedMetricsException'' (metric_values response_dict) (\<lambda>values.
         want ''ValueError'' (those (map (metric_value ml) values)) (\<lambda>values.
           Done (peak values (0, JInt 0)))))))))"

definition stop_spawner_and_application :: "instance_row \<Rightarrow> unit maintenance" where
  "stop_spawner_and_application r = ask (EnqueueStop (ai_spawner r) (ai_id r)) (\<lambda>_. ask (SaveStopped (ai_id r)) (\<lambda>_. Done ()))"

definition kill_one :: "metrics_libs \<Rightarrow> instance_row \<Rightarrow> unit maintenance" where
  "kill_one ml r =
     (if ai_state r = SPAWNING then stop_spawner_and_application r
      else or_continue (application_instance_max_cpu ml (Some (ai_proxy_url r))) (\<lambda>(max_cpu, ts).
        if max_cpu \<ge> 1 then Done () else silently (stop_spawner_and_application r)))"

definition idle_candidate :: "int \<Rightarrow> instance_row \<Rightarrow> bool" where
  "idle_candidate now r \<longleftrightarrow> ai_spawner r = ''FARGATE'' \<and> is_visible r \<and> ai_created r < now - 2 * 60 * 60"

definition kill_idle_fargate :: "metrics_libs \<Rightarrow> int \<Rightarrow> instances \<Rightarrow> unit maintenance" where
  "kill_idle_fargate ml now db = for_each (kill_one ml) (filter (idle_candidate now) db)"

section \<open>The times of tasks\<close>

definition needs_times :: "int \<Rightarrow> nat \<Rightarrow> instance_row \<Rightarrow> bool" where
  "needs_times now hours r \<longleftrightarrow> ai_spawner r = ''FARGATE'' \<and>
     now - (int hours + 1) * 3600 \<le> ai_created r \<and> ai_created r < now - int hours * 3600 \<and>
     (ai_spawner_created_at r = None \<or> ai_spawner_stopped_at r = None)"

definition in_hour :: "int \<Rightarrow> instances \<Rightarrow> nat \<Rightarrow> instances" where
  "in_hour now db hours = sort_key (\<lambda>r. - ai_created r) (filter (needs_times now hours) db)"

definition populate_one :: "(string \<Rightarrow> json option) \<Rightarrow> instance_row \<Rightarrow> unit maintenance" where
  "populate_one loads r =
     (case Option.bind (loads (ai_spawner_options r)) (\<lambda>options. Option.bind (jget options ''CLUSTER_NAME'') (\<lambda>cluster_name.
         Option.bind (loads (ai_spawner_id r)) (\<lambda>ids. map_option (Pair cluster_name) (jget ids ''task_arn'')))) of
        None \<Rightarrow> Done ()
      | Some (cluster_name, task_arn) \<Rightarrow>
          if \<not> jtrue task_arn then Done ()
          else or_continue (perform (DescribeTask cluster_name task_arn)) (\<lambda>reply.
            want ''AttributeError'' (the_json reply) (\<lambda>task.
            if \<not> jtrue task then Done ()
            else let created = (if ai_spawner_created_at r = None then jget task ''createdAt'' else None);
                     stopped = (if ai_spawner_stopped_at r = None then jget task ''stoppedAt'' else None)
                 in if created = None \<and> stopped = None then Done ()
                    else ask (SaveTimes (ai_id r) created stopped) (\<lambda>_. Done ()))))"

definition populate_created_stopped_fargate :: "(string \<Rightarrow> json option) \<Rightarrow> int \<Rightarrow> instances \<Rightarrow> unit maintenance" where
  "populate_created_stopped_fargate loads now db =
     for_each (\<lambda>hours. for_each (populate_one loads) (in_hour now db hours)) [0..<48]"

section \<open>Database users\<close>

definition expires :: "pg_user \<Rightarrow> bool" where
  "expires u \<longleftrightarrow> (case pu_valuntil u of At t \<Rightarrow> True | _ \<Rightarrow> False)"

definition expired :: "int \<Rightarrow> pg_user \<Rightarrow> bool" where
  "expired now u \<longleftrightarrow> (case pu_valuntil u of At t \<Rightarrow> t < now | _ \<Rightarrow> False)"

text \<open>The \<open>WHERE\<close> clause of the query for users; its underscores stand for any character.\<close>

definition maybe_unused :: "int \<Rightarrow> pg_user \<Rightarrow> bool" where
  "maybe_unused now u \<longleftrightarrow> (let n = pu_usename u in
     (expires u \<and> like ''user_%'' n \<and> \<not> like ''%_qs'' n \<and> \<not> like ''%_quicksight'' n \<and>
        \<not> like ''%_explorer'' n \<and> \<not> like ''%_superset'' n) \<or>
     (expired now u \<and> like ''user_%'' n \<and> (like ''%_qs'' n \<or> like ''%_explorer'' n \<or> like ''%_superset'' n)))"

definition in_use :: "db_user_row list \<Rightarrow> string \<Rightarrow> bool" where
  "in_use rows usename \<longleftrightarrow> list_ex (\<lambda>(u, r, st). u = usename \<and> st \<in> {RUNNING, SPAWNING}) rows"

definition persistent_roles :: "db_user_row list \<Rightarrow> string list \<Rightarrow> string dict" where
  "persistent_roles rows usenames =
     dict_merge [] (map (\<lambda>(u, r, st). (u, r)) (filter (\<lambda>(u, r, st). u \<in> set usenames) rows))"

definition drop_stmt :: "nat \<Rightarrow> drop_stmt \<Rightarrow> unit maintenance" where
  "drop_stmt db s = ask (DropStatement db s) (\<lambda>_. Done ())"

definition drop_user :: "nat \<Rightarrow> string \<Rightarrow> string \<Rightarrow> string dict \<Rightarrow> string \<Rightarrow> unit maintenance" where
  "drop_user db database_name master db_persistent_roles usename =
     or_continue
       (seq (drop_stmt db (RevokeConnect database_name usename)) (\<lambda>_.
        seq (drop_stmt db (RevokeAllOnDatabase database_name usename)) (\<lambda>_.
        seq (case map_of db_persistent_roles usename of
               None \<Rightarrow> Done ()
             | Some db_persistent_role \<Rightarrow>
                 seq (drop_stmt db (GrantRoleTo usename master)) (\<lambda>_.
                 seq (drop_stmt db (GrantRoleTo db_persistent_role master)) (\<lambda>_.
                 seq (drop_stmt db (ReassignOwned usename db_persistent_role)) (\<lambda>_.
                 drop_stmt db (DropOwned usename))))) (\<lambda>_.
        drop_stmt db (DropUser usename)))))
       (\<lambda>_. ask (MarkDeleted usename) (\<lambda>_. Done ()))"

text \<open>\<open>with cache.lock(...)\<close>: without the lock, or when it is lost, a \<open>LockError\<close> is raised.\<close>

definition with_lock :: "string \<Rightarrow> unit maintenance \<Rightarrow> unit maintenance" where
  "with_lock name m = ask (TakeLock name) (\<lambda>_. ensuring m (ask (ReleaseLock name) (\<lambda>_. Done ())))"

definition unless_locked :: "string \<Rightarrow> unit maintenance \<Rightarrow> unit maintenance" where
  "unless_locked name m = handling (with_lock name m) (\<lambda>e. e = ''LockError'') (\<lambda>e. Done ())"

definition delete_unused_in :: "int \<Rightarrow> nat \<times> string \<times> string \<Rightarrow> unit maintenance" where
  "delete_unused_in now = (\<lambda>(db, database_name, master).
     ask (FindUsers db) (\<lambda>r. want ''ProgrammingError'' (the_users r) (\<lambda>users.
       let usenames = map pu_usename (filter (maybe_unused now) users) in
       ask (FindDbUsers db) (\<lambda>r. want ''ProgrammingError'' (the_db_users r) (\<lambda>rows.
         let not_in_use_usernames = filter (\<lambda>u. \<not> in_use rows u) usenames in
         ask (FindDbUsers db) (\<lambda>r. want ''ProgrammingError'' (the_db_users r) (\<lambda>rows.
           unless_locked ''database-grant-v1''
             (for_each (drop_user db database_name master (persistent_roles rows not_in_use_usernames))
               not_in_use_usernames))))))))"

definition delete_unused_datasets_users :: "int \<Rightarrow> (nat \<times> string \<times> string) list \<Rightarrow> unit maintenance" where
  "delete_unused_datasets_users now databases =
     unless_locked ''delete_unused_datasets_users'' (for_each (delete_unused_in now) databases)"

section \<open>Only users that are not in use are dropped\<close>

type_synonym maintenance_history = "(maintenance_call, maintenance_reply) history"

definition known_unused :: "int \<Rightarrow> maintenance_history \<Rightarrow> nat \<Rightarrow> string \<Rightarrow> bool" where
  "known_unused now h db u \<longleftrightarrow> (\<exists>users rows. (FindUsers db, Inr (UserRows users)) \<in> set h \<and>
     (FindDbUsers db, Inr (DbUserRows rows)) \<in> set h \<and>
     (\<exists>x \<in> set users. pu_usename x = u \<and> maybe_unused now x) \<and> \<not> in_use rows u)"

definition drops_justified :: "int \<Rightarrow> maintenance_history \<Rightarrow> bool" where
  "drops_justified now h \<longleftrightarrow>
     (\<forall>db u a. (DropStatement db (DropUser u), a) \<in> set h \<longrightarrow> known_unused now h db u) \<and>
     (\<forall>u a. (MarkDeleted u, a) \<in> set h \<longrightarrow> (\<exists>db v. (DropStatement db (DropUser u), Inr v) \<in> set h))"

lemma known_unused_mono: "known_unused now h db u \<Longrightarrow> known_unused now (h @ es) db u"
  by (fastforce simp: known_unused_def)

fun is_drop :: "maintenance_call \<Rightarrow> bool" where
  "is_drop (DropStatement db (DropUser u)) = True"
| "is_drop (MarkDeleted u) = True"
| "is_drop q = False"

lemma justified_other: "drops_justified now h \<Longrightarrow> \<not> is_drop q \<Longrightarrow> drops_justified now (h @ [(q, a)])"
  unfolding drops_justified_def using known_unused_mono by fastforce

text \<open>While one user is dropped, it is known to be unused.\<close>

definition dropping :: "int \<Rightarrow> nat \<Rightarrow> string \<Rightarrow> maintenance_history \<Rightarrow> bool" where
  "dropping now db u h \<longleftrightarrow> drops_justified now h \<and> known_unused now h db u"

lemma dropping_other: "dropping now db u h \<Longrightarrow> \<not> is_drop q \<Longrightarrow> dropping now db u (h @ [(q, a)])"
  unfolding dropping_def by (simp add: justified_other known_unused_mono)

lemma dropping_drop: "dropping now db u h \<Longrightarrow> dropping now db u (h @ [(DropStatement db (DropUser u), a)])"
  unfolding dropping_def drops_justified_def using known_unused_mono by fastforce

lemma dropping_mark: "dropping now db u h \<Longrightarrow> (DropStatement db (DropUser u), Inr v) \<in> set h \<Longrightarrow>
    dropping now db u (h @ [(MarkDeleted u, a)])"
  unfolding dropping_def drops_justified_def using known_unused_mono by fastforce

lemma keeps_drop_user: "keeps (dropping now db u) (drop_user db name master roles u)"
proof -
  let ?I = "dropping now db u"
  let ?done = "\<lambda>h. \<exists>v. (DropStatement db (DropUser u), Inr v) \<in> set h"
  have quiet: "keeps ?I (drop_stmt db s)" if "\<not> is_drop (DropStatement db s)" for s
    unfolding drop_stmt_def by (rule keeps_ask) (use that in \<open>auto intro: dropping_other spec_Done\<close>)
  have last: "spec ?I (drop_stmt db (DropUser u)) (\<lambda>r h. ?I h \<and> (\<forall>x. r = Inr x \<longrightarrow> ?done h))"
    unfolding drop_stmt_def by (rule spec_ask) (auto intro!: spec_Done dropping_drop)
  have seq: "spec ?I (seq m f) (\<lambda>r h. ?I h \<and> (\<forall>x. r = Inr x \<longrightarrow> ?done h))"
    if "keeps ?I m" "\<And>y. spec ?I (f y) (\<lambda>r h. ?I h \<and> (\<forall>x. r = Inr x \<longrightarrow> ?done h))"
    for m :: "unit maintenance" and f
    using that unfolding keeps_def by (intro spec_seq [where R = "\<lambda>r. ?I"]) auto
  have some: "spec (\<lambda>h. ?I h \<and> (\<forall>x. (Inr () :: exc + unit) = Inr x \<longrightarrow> ?done h)) (Done (Some ()))
      (\<lambda>r h. ?I h \<and> (\<forall>x. r = Inr (Some x) \<longrightarrow> ?done h))"
    by (rule spec_Done) simp
  have "keeps ?I (case map_of roles u of None \<Rightarrow> Done () | Some r \<Rightarrow>
      seq (drop_stmt db (GrantRoleTo u master)) (\<lambda>_. seq (drop_stmt db (GrantRoleTo r master)) (\<lambda>_.
      seq (drop_stmt db (ReassignOwned u r)) (\<lambda>_. drop_stmt db (DropOwned u)))))"
    by (auto split: option.split intro!: keeps_seq quiet)
  then have body: "spec ?I (seq (drop_stmt db (RevokeConnect name u)) (\<lambda>_.
        seq (drop_stmt db (RevokeAllOnDatabase name u)) (\<lambda>_.
        seq (case map_of roles u of None \<Rightarrow> Done () | Some r \<Rightarrow>
      seq (drop_stmt db (GrantRoleTo u master)) (\<lambda>_. seq (drop_stmt db (GrantRoleTo r master)) (\<lambda>_.
      seq (drop_stmt db (ReassignOwned u r)) (\<lambda>_. drop_stmt db (DropOwned u))))) (\<lambda>_.
        drop_stmt db (DropUser u))))) (\<lambda>r h. ?I h \<and> (\<forall>x. r = Inr x \<longrightarrow> ?done h))"
    by (intro seq quiet last) simp_all
  have mark: "spec (\<lambda>h. ?I h \<and> ?done h) (ask (MarkDeleted u) (\<lambda>_. Done ())) (\<lambda>r. ?I)"
    by (rule spec_ask) (auto intro!: spec_Done dropping_mark)
  let ?R = "\<lambda>(r :: exc + unit option) h. ?I h \<and> (r = Inr (Some ()) \<longrightarrow> ?done h)"
  have "spec ?I (handling (seq (seq (drop_stmt db (RevokeConnect name u)) (\<lambda>_.
        seq (drop_stmt db (RevokeAllOnDatabase name u)) (\<lambda>_.
        seq (case map_of roles u of None \<Rightarrow> Done () | Some r \<Rightarrow>
      seq (drop_stmt db (GrantRoleTo u master)) (\<lambda>_. seq (drop_stmt db (GrantRoleTo r master)) (\<lambda>_.
      seq (drop_stmt db (ReassignOwned u r)) (\<lambda>_. drop_stmt db (DropOwned u))))) (\<lambda>_.
        drop_stmt db (DropUser u))))) (\<lambda>x. Done (Some x))) (\<lambda>e. True) (\<lambda>e. Done None)) ?R"
    by (rule spec_handling [where R = ?R], rule spec_seq [OF body]) (auto intro: spec_Done)
  then show ?thesis
    unfolding keeps_def drop_user_def or_continue_def
    by (rule spec_seq) (auto intro: spec_Done spec_conseq [OF mark] split: option.split)
qed

text \<open>The users of one database.\<close>

lemma keeps_loop: "spec (\<lambda>h. drops_justified now h \<and> (\<forall>u \<in> set us. known_unused now h db u))
    (for_each (drop_user db name master roles) us) (\<lambda>r. drops_justified now)"
proof -
  have "spec P (for_each (drop_user db name master roles) vs) (\<lambda>r. drops_justified now)"
    if "P = (\<lambda>h. drops_justified now h \<and> (\<forall>u \<in> set vs. known_unused now h db u))" for P vs
    using that
  proof (induction vs arbitrary: P)
    case Nil
    then show ?case by (simp add: spec_Done)
  next
    case (Cons u vs)
    let ?Q = "\<lambda>h. drops_justified now h \<and> (\<forall>u \<in> set vs. known_unused now h db u)"
    have "spec P (drop_user db name master roles u) (\<lambda>r. ?Q)"
    proof (rule specI)
      fix env h r h'
      assume P: "P h" and x: "exec (drop_user db name master roles u) env h = (r, h')"
      obtain es where "h' = h @ es" using exec_extends [OF x] by blast
      moreover have "dropping now db u h'"
        using spec_exec [OF keeps_drop_user [unfolded keeps_def] _ x] P Cons.prems by (simp add: dropping_def)
      ultimately show "?Q h'" using P Cons.prems by (auto simp: dropping_def intro: known_unused_mono)
    qed
    then show ?case
      by (auto intro!: spec_seq intro: Cons.IH [OF refl])
  qed
  then show ?thesis by blast
qed

lemma keeps_with_lock:
  assumes "spec P m (\<lambda>r. drops_justified now)" "\<And>h a. P h \<Longrightarrow> P (h @ [(TakeLock n, a)])"
    and "\<And>h. P h \<Longrightarrow> drops_justified now h"
  shows "spec P (unless_locked n m) (\<lambda>r. drops_justified now)"
proof -
  have release: "keeps (drops_justified now) (ask (ReleaseLock n) (\<lambda>_. Done ()))"
    by (rule keeps_ask) (auto intro: justified_other spec_Done)
  have "spec P (ensuring m (ask (ReleaseLock n) (\<lambda>_. Done ()))) (\<lambda>r. drops_justified now)"
    by (rule spec_ensuring [OF assms(1) release [unfolded keeps_def]])
  then have "spec P (with_lock n m) (\<lambda>r. drops_justified now)"
    unfolding with_lock_def
    by (intro spec_ask) (auto intro: spec_conseq assms(2,3) dest: assms(2))
  then show ?thesis
    unfolding unless_locked_def by (rule spec_handling) (auto intro: spec_Done)
qed

lemma keeps_delete_unused_in: "keeps (drops_justified now) (delete_unused_in now d)"
proof -
  obtain db name master where d: "d = (db, name, master)" by (cases d)
  let ?loop = "\<lambda>users rows rows'. unless_locked ''database-grant-v1''
      (for_each (drop_user db name master (persistent_roles rows' (filter (\<lambda>u. \<not> in_use rows u)
         (map pu_usename (filter (maybe_unused now) users)))))
        (filter (\<lambda>u. \<not> in_use rows u) (map pu_usename (filter (maybe_unused now) users))))"
  let ?K = "\<lambda>users rows h. drops_justified now h \<and> (FindUsers db, Inr (UserRows users)) \<in> set h \<and>
      (FindDbUsers db, Inr (DbUserRows rows)) \<in> set h"
  have loop: "spec (?K users rows) (?loop users rows rows') (\<lambda>r. drops_justified now)" for users rows rows'
  proof -
    let ?P = "\<lambda>h. drops_justified now h \<and> (\<forall>u \<in> set (filter (\<lambda>u. \<not> in_use rows u)
       (map pu_usename (filter (maybe_unused now) users))). known_unused now h db u)"
    have "spec ?P (?loop users rows rows') (\<lambda>r. drops_justified now)"
      by (rule keeps_with_lock [OF keeps_loop]) (auto intro: justified_other known_unused_mono)
    then show ?thesis by (rule spec_conseq) (auto simp: known_unused_def)
  qed
  have third: "spec (?K users rows) (ask (FindDbUsers db) (\<lambda>r. want e (the_db_users r) (?loop users rows)))
      (\<lambda>r. drops_justified now)" for users rows e
    by (rule spec_ask) (auto intro!: spec_want spec_conseq [OF loop] intro: justified_other)
  have second: "spec (\<lambda>h. drops_justified now h \<and> (FindUsers db, Inr (UserRows users)) \<in> set h)
      (ask (FindDbUsers db) (\<lambda>r. want e (the_db_users r) (\<lambda>rows.
        ask (FindDbUsers db) (\<lambda>r. want e (the_db_users r) (?loop users rows))))) (\<lambda>r. drops_justified now)" for users e
    by (rule spec_ask)
      (auto intro!: spec_want spec_conseq [OF third] intro: justified_other elim!: the_db_users.elims)
  show ?thesis
    unfolding keeps_def d delete_unused_in_def Let_def split_conv
    by (rule spec_ask)
      (auto intro!: spec_want spec_conseq [OF second] intro: justified_other elim!: the_users.elims)
qed

lemma drops_are_justified: "keeps (drops_justified now) (delete_unused_datasets_users now databases)"
proof -
  have "keeps (drops_justified now) (for_each (delete_unused_in now) databases)"
    by (rule keeps_for_each) (rule keeps_delete_unused_in)
  then show ?thesis
    unfolding keeps_def delete_unused_datasets_users_def
    by (rule keeps_with_lock) (auto intro: justified_other)
qed

text \<open>A user of a tool whose name happens to end in \<open>qs\<close> passes for a user of QuickSight.\<close>

lemma random_name_looks_like_quicksight:
  "maybe_unused now \<lparr>pu_usename = ''user_a_b12qs'', pu_valuntil = At t\<rparr> \<longleftrightarrow> t < now"
proof -
  have "like ''user_%'' ''user_a_b12qs''" "like ''%_qs'' ''user_a_b12qs''" by code_simp+
  then show ?thesis by (simp add: maybe_unused_def expires_def expired_def)
qed

section \<open>Only idle applications are stopped\<close>

lemma peak_ge: "fst best \<le> fst (peak vs best)"
proof (induction vs best rule: peak.induct)
  case (2 ts cpu vs m t)
  then show ?case by (cases "m \<le> percentage cpu") auto
qed simp

lemma peak_max: "(ts, cpu) \<in> set vs \<Longrightarrow> percentage cpu \<le> fst (peak vs best)"
proof (induction vs best rule: peak.induct)
  case (2 ts' cpu' vs m t)
  have "percentage cpu' \<le> fst (peak ((ts', cpu') # vs) (m, t))"
    using peak_ge [of "(percentage cpu', ts')" vs] peak_ge [of "(m, t)" vs] by (cases "m \<le> percentage cpu'") auto
  with 2 show ?case by auto
qed simp

text \<open>The metrics of an instance say that it has been idle.\<close>

definition reported_idle :: "metrics_libs \<Rightarrow> instance_row \<Rightarrow> maintenance_history \<Rightarrow> bool" where
  "reported_idle ml r h \<longleftrightarrow> (\<exists>hostname reply values values'. ml_hostname ml (ai_proxy_url r) = Some hostname \<and>
     (QueryMetrics (hostname @ '':8889''), Inr (JsonReply reply)) \<in> set h \<and> metric_values reply = Some values \<and>
     those (map (metric_value ml) values) = Some values' \<and>
     (\<forall>(ts, cpu) \<in> set values'. percentage cpu < 1))"

definition stops_justified :: "metrics_libs \<Rightarrow> int \<Rightarrow> instances \<Rightarrow> maintenance_history \<Rightarrow> bool" where
  "stops_justified ml now db h \<longleftrightarrow> (\<forall>s i a. (EnqueueStop s i, a) \<in> set h \<longrightarrow>
     (\<exists>r \<in> set db. ai_id r = i \<and> idle_candidate now r \<and> (ai_state r = SPAWNING \<or> reported_idle ml r h)))"

lemma reported_idle_mono: "reported_idle ml r h \<Longrightarrow> reported_idle ml r (h @ es)"
  by (fastforce simp: reported_idle_def)

lemma stops_other: "stops_justified ml now db h \<Longrightarrow> \<forall>s i. q \<noteq> EnqueueStop s i \<Longrightarrow> stops_justified ml now db (h @ [(q, a)])"
  unfolding stops_justified_def using reported_idle_mono by fastforce

lemma stop_keeps:
  assumes "r \<in> set db" "idle_candidate now r"
  shows "spec (\<lambda>h. stops_justified ml now db h \<and> (ai_state r = SPAWNING \<or> reported_idle ml r h))
    (stop_spawner_and_application r) (\<lambda>x. stops_justified ml now db)"
proof -
  have save: "keeps (stops_justified ml now db) (ask (SaveStopped (ai_id r)) (\<lambda>_. Done ()))"
    by (rule keeps_ask) (auto intro: stops_other spec_Done)
  have stop: "stops_justified ml now db (h @ [(EnqueueStop (ai_spawner r) (ai_id r), a)])"
    if "stops_justified ml now db h" "ai_state r = SPAWNING \<or> reported_idle ml r h" for h a
    using that assms unfolding stops_justified_def using reported_idle_mono by fastforce
  show ?thesis
    unfolding stop_spawner_and_application_def
    by (rule spec_ask) (auto intro: spec_conseq [OF save [unfolded keeps_def]] stop)
qed

lemma max_cpu_reported:
  "spec (stops_justified ml now db) (application_instance_max_cpu ml (Some (ai_proxy_url r)))
    (\<lambda>x h. stops_justified ml now db h \<and> (\<forall>m ts. x = Inr (m, ts) \<longrightarrow> m < 1 \<longrightarrow> reported_idle ml r h))"
  (is "spec ?I _ ?Q")
proof -
  have query: "spec ?I (handling (perform (QueryMetrics q)) c (\<lambda>e. Fail e'))
      (\<lambda>x h. ?I h \<and> (\<forall>v. x = Inr v \<longrightarrow> (QueryMetrics q, Inr v) \<in> set h))" for q c e'
    by (rule spec_handling [where R = "\<lambda>x h. ?I h \<and> (\<forall>v. x = Inr v \<longrightarrow> (QueryMetrics q, Inr v) \<in> set h)"], rule spec_ask)
      (auto intro!: spec_Done spec_Fail stops_other)
  have idle: "reported_idle ml r h" if "ml_hostname ml (ai_proxy_url r) = Some hostname"
    "(QueryMetrics (hostname @ '':8889''), Inr (JsonReply reply)) \<in> set h" "metric_values reply = Some us"
    "those (map (metric_value ml) us) = Some vs" "fst (peak vs (0, JInt 0)) < 1" for hostname reply us vs h
  proof -
    have "percentage cpu < 1" if "(ts, cpu) \<in> set vs" for ts cpu
      using peak_max [OF that, of "(0, JInt 0)"] \<open>fst (peak vs (0, JInt 0)) < 1\<close> by linarith
    then show ?thesis using that unfolding reported_idle_def by blast
  qed
  show ?thesis
    unfolding application_instance_max_cpu_def want_simps
    by (intro spec_want spec_seq [OF query])
      (auto intro!: spec_want spec_Fail spec_Done elim!: the_json.elims intro: idle)
qed

lemma kill_one_keeps:
  assumes "r \<in> set db" "idle_candidate now r"
  shows "keeps (stops_justified ml now db) (kill_one ml r)"
proof (cases "ai_state r = SPAWNING")
  case True
  with stop_keeps [OF assms] show ?thesis
    unfolding kill_one_def keeps_def by (auto intro: spec_conseq)
next
  case False
  let ?I = "stops_justified ml now db"
  let ?Q = "\<lambda>(x :: exc + (rat \<times> json) option) h. ?I h \<and> (\<forall>m ts. x = Inr (Some (m, ts)) \<longrightarrow> m < 1 \<longrightarrow> reported_idle ml r h)"
  have "spec ?I (handling (seq (application_instance_max_cpu ml (Some (ai_proxy_url r))) (\<lambda>x. Done (Some x)))
      (\<lambda>e. True) (\<lambda>e. Done None)) ?Q"
    by (rule spec_handling [where R = ?Q], rule spec_seq [OF max_cpu_reported]) (auto intro: spec_Done)
  moreover have "spec (?Q (Inr x)) (case x of None \<Rightarrow> Done () | Some (m, ts) \<Rightarrow>
      if m \<ge> 1 then Done () else silently (stop_spawner_and_application r)) (\<lambda>x. ?I)" for x
  proof (cases "\<exists>m ts. x = Some (m, ts) \<and> m < 1")
    case True
    then obtain m ts where x: "x = Some (m, ts)" "\<not> 1 \<le> m" "m < 1" by auto
    have "spec (?Q (Inr x)) (stop_spawner_and_application r) (\<lambda>x. ?I)"
      by (rule spec_conseq [OF stop_keeps [OF assms]]) (use x in auto)
    then show ?thesis unfolding silently_def using x(1,2) by (auto intro!: spec_handling spec_Done)
  next
    case False
    then show ?thesis by (auto split: option.split intro!: spec_Done)
  qed
  ultimately show ?thesis
    using False unfolding kill_one_def or_continue_def keeps_def by (auto intro: spec_seq)
qed

lemma kill_idle_keeps: "keeps (stops_justified ml now db) (kill_idle_fargate ml now db)"
  unfolding kill_idle_fargate_def by (rule keeps_for_each) (auto intro: kill_one_keeps)

section \<open>Every instance of the last two days is looked at once\<close>

lemma in_hour_set: "r \<in> set (in_hour now db k) \<longleftrightarrow> r \<in> set db \<and> needs_times now k r"
  by (auto simp: in_hour_def)

lemma hours_disjoint: "needs_times now j r \<Longrightarrow> needs_times now k r \<Longrightarrow> j = k"
  by (auto simp: needs_times_def)

lemma hours_cover:
  assumes "now - 48 * 3600 \<le> ai_created r" "ai_created r < now" "ai_spawner r = ''FARGATE''"
    and "ai_spawner_created_at r = None \<or> ai_spawner_stopped_at r = None"
  shows "\<exists>k < 48. needs_times now k r"
proof -
  let ?d = "now - ai_created r"
  let ?k = "nat ((?d - 1) div 3600)"
  have "0 \<le> (?d - 1) div 3600" "(?d - 1) div 3600 < 48" using assms(1,2) by auto
  then have "int ?k = (?d - 1) div 3600" "?k < 48" by auto
  moreover have "?d - 1 = (?d - 1) div 3600 * 3600 + (?d - 1) mod 3600" "0 \<le> (?d - 1) mod 3600"
      "(?d - 1) mod 3600 < 3600"
    by simp_all
  then have "(?d - 1) div 3600 * 3600 \<le> ?d - 1" "?d - 1 < (?d - 1) div 3600 * 3600 + 3600" by linarith+
  ultimately show ?thesis using assms(3,4) by (intro exI [of _ ?k]) (auto simp: needs_times_def)
qed

end
