(* ===== verification/MaintenanceProperties.thy ===== *)
theory MaintenanceProperties
  imports Maintenance
begin

text \<open>The properties of the tasks that tidy up.\<close>

text \<open>
  C21: whatever PostgreSQL, the cache and the admin database answer and raise, a database user is dropped
  only if it was found to match the query for unused users of that database and no visible instance was
  found to use it, and only users that have been dropped are marked as deleted.
\<close>

theorem only_unused_users_are_dropped:
  assumes "exec (delete_unused_datasets_users now databases) env [] = (r, h)"
  shows "(\<forall>db u a. (DropStatement db (DropUser u), a) \<in> set h \<longrightarrow>
      (\<exists>users rows. (FindUsers db, Inr (UserRows users)) \<in> set h \<and> (FindDbUsers db, Inr (DbUserRows rows)) \<in> set h \<and>
        (\<exists>x \<in> set users. pu_usename x = u \<and> maybe_unused now x) \<and> \<not> in_use rows u)) \<and>
    (\<forall>u a. (MarkDeleted u, a) \<in> set h \<longrightarrow> (\<exists>db v. (DropStatement db (DropUser u), Inr v) \<in> set h))"
proof -
  have "drops_justified now []" by (simp add: drops_justified_def)
  from spec_exec [OF drops_are_justified [unfolded keeps_def] this assms]
  show ?thesis by (simp add: drops_justified_def known_unused_def)
qed

fun sample_cleaning :: "(maintenance_call, maintenance_reply) services" where
  "sample_cleaning h (FindUsers db) = Inr (UserRows
     [\<lparr>pu_usename = ''user_a_b12cd'', pu_valuntil = At 9\<rparr>, \<lparr>pu_usename = ''user_a_e34fg'', pu_valuntil = At 9\<rparr>])"
| "sample_cleaning h (FindDbUsers db) = Inr (DbUserRows [(''user_a_e34fg'', ''_user_0a'', RUNNING)])"
| "sample_cleaning h q = Inr NoReply"

theorem only_unused_users_are_dropped_witness:
  "\<exists>r h. exec (delete_unused_datasets_users 5 [(1, ''d'', ''m'')]) sample_cleaning [] = (r, h) \<and>
    (DropStatement 1 (DropUser ''user_a_b12cd''), Inr NoReply) \<in> set h \<and> (MarkDeleted ''user_a_b12cd'', Inr NoReply) \<in> set h \<and>
    (\<exists>users rows. (FindUsers 1, Inr (UserRows users)) \<in> set h \<and> (FindDbUsers 1, Inr (DbUserRows rows)) \<in> set h \<and>
        (\<exists>x \<in> set users. pu_usename x = ''user_a_b12cd'' \<and> maybe_unused 5 x) \<and> \<not> in_use rows ''user_a_b12cd'')"
proof -
  let ?m = "delete_unused_datasets_users 5 [(1, ''d'', ''m'')]"
  obtain r h where x: "exec ?m sample_cleaning [] = (r, h)" by fastforce
  have "list_ex (\<lambda>(q, a). q = DropStatement 1 (DropUser ''user_a_b12cd'') \<and> a = Inr NoReply) (snd (exec ?m sample_cleaning []))"
    "list_ex (\<lambda>(q, a). q = MarkDeleted ''user_a_b12cd'' \<and> a = Inr NoReply) (snd (exec ?m sample_cleaning []))"
    by code_simp+
  then have "(DropStatement 1 (DropUser ''user_a_b12cd''), Inr NoReply) \<in> set h" "(MarkDeleted ''user_a_b12cd'', Inr NoReply) \<in> set h"
    using x by (auto simp: list_ex_iff)
  with x only_unused_users_are_dropped [OF x] show ?thesis by blast
qed

text \<open>
  C22: an application is told to stop only if it is a visible one on Fargate that is more than two hours
  old and still spawning, or that its metrics show to have used less than one per cent of a CPU in every
  interval; and nothing else that fails makes it stop.
\<close>

theorem only_idle_applications_are_stopped:
  assumes "exec (kill_idle_fargate ml now db) env [] = (r, h)" "(EnqueueStop s i, a) \<in> set h"
  shows "\<exists>x \<in> set db. ai_id x = i \<and> ai_spawner x = ''FARGATE'' \<and> is_visible x \<and> ai_created x < now - 2 * 60 * 60 \<and>
    (ai_state x = SPAWNING \<or> reported_idle ml x h)"
proof -
  have "stops_justified ml now db []" by (simp add: stops_justified_def)
  from spec_exec [OF kill_idle_keeps [unfolded keeps_def] this assms(1)] assms(2)
  show ?thesis by (fastforce simp: stops_justified_def idle_candidate_def)
qed

definition sample_instance :: instance_row where
  "sample_instance = (new_instance (sample_put ''a'') sample_template None)\<lparr>ai_state := RUNNING, ai_proxy_url := ''u''\<rparr>"

definition sample_metrics :: metrics_libs where
  "sample_metrics = \<lparr>ml_hostname = (\<lambda>u. Some u), ml_float = (\<lambda>v. Some 1000000)\<rparr>"

fun sample_prometheus :: "(maintenance_call, maintenance_reply) services" where
  "sample_prometheus h (QueryMetrics i) = Inr (JsonReply (JObj [(''status'', JStr ''success''),
     (''data'', JObj [(''result'', JList [JObj [(''values'', JList [JList [JInt 1, JStr ''1000000'']])]])])]))"
| "sample_prometheus h q = Inr NoReply"

theorem only_idle_applications_are_stopped_witness:
  "\<exists>r h. exec (kill_idle_fargate sample_metrics 7201 [sample_instance]) sample_prometheus [] = (r, h) \<and>
    (EnqueueStop ''FARGATE'' ''a'', Inr NoReply) \<in> set h \<and> reported_idle sample_metrics sample_instance h"
proof -
  let ?m = "kill_idle_fargate sample_metrics 7201 [sample_instance]"
  obtain r h where x: "exec ?m sample_prometheus [] = (r, h)" by fastforce
  have "(EnqueueStop ''FARGATE'' ''a'', Inr NoReply) \<in> set (snd (exec ?m sample_prometheus []))"
    by (simp add: kill_idle_fargate_def idle_candidate_def sample_instance_def new_instance_def sample_put_def
        sample_template_def is_visible_def kill_one_def or_continue_def application_instance_max_cpu_def
        sample_metrics_def metric_values_def percentage_def silently_def stop_spawner_and_application_def
        exec_seq exec_handling exec_ask)
  then have "(EnqueueStop ''FARGATE'' ''a'', Inr NoReply) \<in> set h" using x by simp
  moreover from only_idle_applications_are_stopped [OF x this] have "reported_idle sample_metrics sample_instance h"
    by (simp add: sample_instance_def)
  ultimately show ?thesis using x by blast
qed

end
