(* ===== verification/QuickSight.thy ===== *)
theory QuickSight
  imports Spawner ToolAccess
begin

text \<open>
  \<open>apps/applications/utils.py\<close>: dashboards, and the data sources that the authors of QuickSight get, one for
  each database with tables that they may read.
\<close>

section \<open>Calls\<close>

record data_source =
  so_id :: string
  so_name :: string
  so_host :: string
  so_port :: int
  so_database :: string
  so_username :: string
  so_password :: string
  so_vpc_connection_arn :: string

text \<open>A user of the admin application: what \<open>source_tables_for_user\<close> reads, and the SSO id.\<close>

type_synonym dw_user = "data_user \<times> string"

datatype quicksight_call =
    GetCallerIdentity
  | AssumeEmbedRole string string
  | RegisterReader string string
  | CreateGroupMembership string string
  | DescribeDashboard string
  | GetDashboardEmbedUrl string string
  | CreateDataSource data_source string "string list"
  | UpdateDataSource data_source
  | DeleteDataSource string
  | SyncLock string
  | SyncUnlock string
  | UpdateUser string "string option" string string
  | FirstUserWithEmail string
  | NewPrivateCredentials string "table_entry list" string dw_user nat
  | DescribeUser string
  | ListUsers json

datatype quicksight_reply = Answer json | NewCreds "credentials list" | FoundUser "dw_user option"

type_synonym 'a quicksight = "(quicksight_call, quicksight_reply, 'a) prog"

fun answered :: "quicksight_reply \<Rightarrow> json option" where
  "answered (Answer v) = Some v"
| "answered _ = None"

fun new_creds :: "quicksight_reply \<Rightarrow> credentials list option" where
  "new_creds (NewCreds cs) = Some cs"
| "new_creds _ = None"

fun found_user :: "quicksight_reply \<Rightarrow> dw_user option option" where
  "found_user (FoundUser u) = Some u"
| "found_user _ = None"

definition text_field :: "json \<Rightarrow> string \<Rightarrow> (string \<Rightarrow> 'a quicksight) \<Rightarrow> 'a quicksight" where
  "text_field v k f = want ''KeyError'' (Option.bind (jget v k) jstr) f"

record quicksight_settings =
  qs_environment :: string
  qs_vpc_arn :: string
  qs_author_custom_permissions :: string
  qs_databases :: "string list"
  qs_max_retries :: nat
  qs_user_region :: string
  qs_embed_role_arn :: string
  qs_group :: string

section \<open>Dashboards\<close>

definition after_last_slash :: "string \<Rightarrow> string option" where
  "after_last_slash s = (if CHR ''/'' \<in> set s then Some (snd (rpartition s ''/'')) else None)"

definition get_quicksight_dashboard_name_url :: "quicksight_settings \<Rightarrow> string \<Rightarrow> string \<Rightarrow> (json \<times> json) quicksight" where
  "get_quicksight_dashboard_name_url st dashboard_id email =
     want ''IndexError'' (after_last_slash (qs_embed_role_arn st)) (\<lambda>embed_role_name.
     ask GetCallerIdentity (\<lambda>identity.
     want ''KeyError'' (answered identity) (\<lambda>identity.
     ask (AssumeEmbedRole (qs_embed_role_arn st) email) (\<lambda>_.
     seq (handling (seq (perform (RegisterReader (qs_embed_role_arn st) email)) (\<lambda>_. Done ()))
         (\<lambda>e. e = ''ResourceExistsException'') (\<lambda>e. Done ())) (\<lambda>_.
     seq (attempts 5 (\<lambda>e. e = ''ResourceNotFoundException'')
         (seq (perform (CreateGroupMembership (qs_group st) (embed_role_name @ ''/'' @ email))) (\<lambda>_. Done ()))) (\<lambda>_.
     ask (DescribeDashboard dashboard_id) (\<lambda>dashboard.
     want ''KeyError'' (Option.bind (answered dashboard) (\<lambda>v. Option.bind (jget v ''Dashboard'') (\<lambda>d. jget d ''Name''))) (\<lambda>name.
     ask (GetDashboardEmbedUrl dashboard_id (''arn:aws:quicksight:'' @ qs_user_region st @ '':'' @
         (case jget identity ''Account'' of Some (JStr a) \<Rightarrow> a | _ \<Rightarrow> ''None'') @
         '':user/default/'' @ embed_role_name @ ''/'' @ email)) (\<lambda>url.
     want ''KeyError'' (Option.bind (answered url) (\<lambda>v. jget v ''EmbedUrl'')) (\<lambda>url.
       Done (name, url)))))))))))"

section \<open>Data sources\<close>

definition get_data_source_id :: "(string \<Rightarrow> string) \<Rightarrow> quicksight_settings \<Rightarrow> string \<Rightarrow> string \<Rightarrow> string" where
  "get_data_source_id sha256 st db_name quicksight_user_arn =
     ''data-workspace-'' @ lower (qs_environment st) @ ''-'' @ db_name @ ''-'' @
     stable_identification_suffix sha256 quicksight_user_arn True"

definition data_source_name :: "quicksight_settings \<Rightarrow> string \<Rightarrow> string" where
  "data_source_name st db_name = (let e = lower (qs_environment st); n = ''Data Workspace - '' @ db_name
     in if e \<noteq> ''production'' then upper e @ '' - '' @ n else n)"

definition data_source_of :: "(string \<Rightarrow> string) \<Rightarrow> quicksight_settings \<Rightarrow> string \<Rightarrow> credentials \<Rightarrow> data_source option" where
  "data_source_of sha256 st arn cred = map_option (\<lambda>port.
     \<lparr>so_id = get_data_source_id sha256 st (cr_memorable_name cred) arn,
      so_name = data_source_name st (cr_memorable_name cred), so_host = cr_db_host cred, so_port = port,
      so_database = cr_db_name cred, so_username = cr_db_user cred, so_password = cr_db_password cred,
      so_vpc_connection_arn = qs_vpc_arn st\<rparr>) (int_of_str (cr_db_port cred))"

definition qs_datasource_perms :: "string list" where
  "qs_datasource_perms = [''quicksight:DescribeDataSource'', ''quicksight:DescribeDataSourcePermissions'',
     ''quicksight:PassDataSource'']"

definition create_or_update :: "(string \<Rightarrow> string) \<Rightarrow> quicksight_settings \<Rightarrow> string \<Rightarrow> credentials \<Rightarrow> unit quicksight" where
  "create_or_update sha256 st arn cred =
     want ''ValueError'' (data_source_of sha256 st arn cred) (\<lambda>d.
       handling (ask (CreateDataSource d arn qs_datasource_perms) (\<lambda>_. Done ()))
         (\<lambda>e. e = ''ResourceExistsException'') (\<lambda>e. ask (UpdateDataSource d) (\<lambda>_. Done ())))"

definition delete_data_source :: "string \<Rightarrow> unit quicksight" where
  "delete_data_source i = handling (ask (DeleteDataSource i) (\<lambda>_. Done ()))
     (\<lambda>e. e = ''ResourceNotFoundException'') (\<lambda>e. Done ())"

text \<open>The sources to delete are a set, gone through in the order of the settings here.\<close>

definition unauthorized_data_source_ids ::
  "(string \<Rightarrow> string) \<Rightarrow> quicksight_settings \<Rightarrow> string \<Rightarrow> credentials list \<Rightarrow> string list" where
  "unauthorized_data_source_ids sha256 st arn creds =
     filter (\<lambda>i. i \<notin> set (map (\<lambda>cred. get_data_source_id sha256 st (cr_memorable_name cred) arn) creds))
       (remdups (map (\<lambda>db_name. get_data_source_id sha256 st db_name arn) (qs_databases st)))"

definition create_update_delete_quicksight_user_data_sources ::
  "(string \<Rightarrow> string) \<Rightarrow> quicksight_settings \<Rightarrow> string \<Rightarrow> credentials list \<Rightarrow> unit quicksight" where
  "create_update_delete_quicksight_user_data_sources sha256 st arn creds =
     seq (for_each (create_or_update sha256 st arn) creds) (\<lambda>_.
       for_each delete_data_source (unauthorized_data_source_ids sha256 st arn creds))"

section \<open>Users\<close>

text \<open>\<open>unique_enough\<close> is the random part of the name of the database user.\<close>

record quicksight_input =
  qi_sha256 :: "string \<Rightarrow> string"
  qi_settings :: quicksight_settings
  qi_tables :: "source_table list"
  qi_refs :: "reference_dataset list"
  qi_unique_enough :: "string \<Rightarrow> string"

definition update_quicksight_user :: "quicksight_settings \<Rightarrow> string \<Rightarrow> string \<Rightarrow> string \<Rightarrow> bool quicksight" where
  "update_quicksight_user st user_role user_username user_email =
     handling (ask (UpdateUser user_role
         (if user_role = ''ADMIN'' then None else Some (qs_author_custom_permissions st)) user_username user_email)
         (\<lambda>_. Done True))
       (\<lambda>e. e = ''ResourceNotFoundException'') (\<lambda>e. Done False)"

definition sync_data_sources :: "quicksight_input \<Rightarrow> string \<Rightarrow> string \<Rightarrow> dw_user \<Rightarrow> unit quicksight" where
  "sync_data_sources qi user_arn user_email = (\<lambda>(dw_user, sso_id).
     want ''IndexError'' (source_tables_for_user (qi_tables qi) (qi_refs qi) dw_user) (\<lambda>source_tables.
     want ''ValueError'' (postgres_user (qi_unique_enough qi user_arn) user_email ''qs'') (\<lambda>db_user.
     ask (NewPrivateCredentials (stable_identification_suffix (qi_sha256 qi) sso_id True) source_tables db_user
         (dw_user, sso_id) 7) (\<lambda>r.
     want ''TypeError'' (new_creds r) (\<lambda>creds.
       create_update_delete_quicksight_user_data_sources (qi_sha256 qi) (qi_settings qi) user_arn creds)))))"

definition sync_quicksight_user :: "quicksight_input \<Rightarrow> json \<Rightarrow> unit quicksight" where
  "sync_quicksight_user qi quicksight_user =
     text_field quicksight_user ''Arn'' (\<lambda>user_arn. text_field quicksight_user ''Email'' (\<lambda>email.
     text_field quicksight_user ''Role'' (\<lambda>user_role. text_field quicksight_user ''UserName'' (\<lambda>user_username.
       let user_email = lower email in
       if user_role \<notin> {''AUTHOR'', ''ADMIN''} then Done ()
       else handling
         (ask (SyncLock user_arn) (\<lambda>_. ensuring
           (seq (update_quicksight_user (qi_settings qi) user_role user_username user_email) (\<lambda>updated.
              if \<not> updated then Done ()
              else ask (FirstUserWithEmail user_email) (\<lambda>r. want ''TypeError'' (found_user r) (\<lambda>dw_user.
                case dw_user of None \<Rightarrow> Done () | Some u \<Rightarrow> sync_data_sources qi user_arn user_email u))))
           (ask (SyncUnlock user_arn) (\<lambda>_. Done ()))))
         (\<lambda>e. e = ''LockError'') (\<lambda>e. Done ())))))"

definition sync_quicksight_users :: "quicksight_input \<Rightarrow> json list \<Rightarrow> unit quicksight" where
  "sync_quicksight_users qi = for_each (sync_quicksight_user qi)"

text \<open>
  A user is asked for until it is found; one that is not found in all attempts is left out. The pauses and
  the log are left out.
\<close>

primrec describe_user :: "string \<Rightarrow> nat \<Rightarrow> json list quicksight" where
  "describe_user user_name 0 = Done []"
| "describe_user user_name (Suc left) =
     seq (handling (ask (DescribeUser user_name) (\<lambda>r. Done (Some r)))
         (\<lambda>e. e \<in> {''ResourceNotFoundException'', ''ThrottlingException''}) (\<lambda>e. Done None))
       (\<lambda>r. case r of None \<Rightarrow> describe_user user_name left
        | Some r \<Rightarrow> want ''KeyError'' (Option.bind (answered r) (\<lambda>v. jget v ''User'')) (\<lambda>u. Done [u]))"

text \<open>All users, page by page; the fuel bounds the number of pages.\<close>

primrec sync_all :: "quicksight_input \<Rightarrow> nat \<Rightarrow> json \<Rightarrow> unit quicksight" where
  "sync_all qi 0 next_token = Fail ''fuel''"
| "sync_all qi (Suc fuel) next_token =
     ask (ListUsers (if jtrue next_token then next_token else JNull)) (\<lambda>r.
     want ''KeyError'' (answered r) (\<lambda>list_users_response.
     want ''KeyError'' (Option.bind (jget list_users_response ''UserList'') jlist) (\<lambda>quicksight_user_list.
     let next_token = jget_or list_users_response ''NextToken'' JNull in
     seq (sync_quicksight_users qi quicksight_user_list) (\<lambda>_.
       if \<not> jtrue next_token then Done () else sync_all qi fuel next_token))))"

definition sync_quicksight_permissions :: "quicksight_input \<Rightarrow> nat \<Rightarrow> string list \<Rightarrow> bool \<Rightarrow> unit quicksight" where
  "sync_quicksight_permissions qi fuel user_sso_ids_to_update poll_for_user_creation =
     ask GetCallerIdentity (\<lambda>_.
       if user_sso_ids_to_update \<noteq> [] then
         seq (collect (\<lambda>user_sso_id. describe_user (''quicksight_federation/'' @ user_sso_id)
               (if poll_for_user_creation then 5 * 60 else qs_max_retries (qi_settings qi))) user_sso_ids_to_update)
           (\<lambda>quicksight_user_list. sync_quicksight_users qi (concat quicksight_user_list))
       else sync_all qi fuel JNull)"

text \<open>More fuel than needed makes no difference.\<close>

lemma sync_all_fuel: "n \<le> m \<Longrightarrow> agrees_unless ''fuel'' (sync_all qi n t) (sync_all qi m t)"
proof (induction n arbitrary: m t)
  case (Suc n)
  then obtain m' where m: "m = Suc m'" "n \<le> m'" by (cases m) auto
  show ?case
    unfolding m(1) sync_all.simps Let_def
    by (intro agrees_intros Suc.IH [OF m(2)])
qed (simp add: agrees_Fail)

section \<open>What becomes of the data sources\<close>

text \<open>
  The data sources of the account after a history, as AWS documents its answers: a call that succeeds is
  carried out, one that fails is not, and a source that is not found is not there.
\<close>

type_synonym data_sources = "string \<Rightarrow> data_source option"

fun after_call :: "quicksight_call \<times> (exc + quicksight_reply) \<Rightarrow> data_sources \<Rightarrow> data_sources" where
  "after_call (CreateDataSource d p as, Inr v) ds = ds(so_id d \<mapsto> d)"
| "after_call (UpdateDataSource d, Inr v) ds = ds(so_id d \<mapsto> d)"
| "after_call (DeleteDataSource i, Inr v) ds = ds(i := None)"
| "after_call (DeleteDataSource i, Inl e) ds = (if e = ''ResourceNotFoundException'' then ds(i := None) else ds)"
| "after_call _ ds = ds"

definition data_sources_after :: "(quicksight_call, quicksight_reply) history \<Rightarrow> data_sources \<Rightarrow> data_sources" where
  "data_sources_after h = fold after_call h"

lemma data_sources_after_simps [simp]:
  "data_sources_after [] ds = ds"
  "data_sources_after (h @ es) ds = fold after_call es (data_sources_after h ds)"
  by (simp_all add: data_sources_after_def)

lemma create_or_update_effect:
  assumes "exec (create_or_update sha256 st arn cred) env h = (Inr (), h')"
  shows "\<exists>d. data_source_of sha256 st arn cred = Some d \<and>
    data_sources_after h' ds = (data_sources_after h ds)(so_id d \<mapsto> d)"
proof (cases "data_source_of sha256 st arn cred")
  case None
  with assms show ?thesis by (simp add: create_or_update_def)
next
  case (Some d)
  let ?c = "CreateDataSource d arn qs_datasource_perms"
  show ?thesis
  proof (cases "env h ?c")
    case (Inr v)
    with assms Some show ?thesis by (auto simp: create_or_update_def exec_handling exec_ask)
  next
    case (Inl e)
    with assms Some have "e = ''ResourceExistsException''"
      by (simp add: create_or_update_def exec_handling exec_ask split: if_splits)
    with assms Some Inl show ?thesis
      by (auto simp: create_or_update_def exec_handling exec_ask split: sum.splits)
  qed
qed

lemma delete_data_source_effect:
  assumes "exec (delete_data_source i) env h = (Inr (), h')"
  shows "data_sources_after h' ds = (data_sources_after h ds)(i := None)"
  using assms by (auto simp: delete_data_source_def exec_handling exec_ask split: sum.splits if_splits)

lemma for_each_effect:
  assumes step: "\<And>x h h'. x \<in> set xs \<Longrightarrow> exec (f x) env h = (Inr (), h') \<Longrightarrow> g h' = upd x (g h)"
    and "exec (for_each f xs) env h = (Inr (), h')"
  shows "g h' = fold upd xs (g h)"
  using assms
proof (induction xs arbitrary: h)
  case (Cons x xs)
  from Cons.prems(2) obtain h1 where 1: "exec (f x) env h = (Inr (), h1)" "exec (for_each f xs) env h1 = (Inr (), h')"
    by (auto simp: exec_seq split: prod.splits sum.splits)
  have "g h' = fold upd xs (g h1)" by (rule Cons.IH) (use Cons.prems(1) 1(2) in auto)
  with Cons.prems(1) [OF _ 1(1)] show ?case by simp
qed simp

lemma fold_upd_same:
  "fold (\<lambda>x m. m(f x := g x)) xs m i = (case find (\<lambda>x. f x = i) (rev xs) of None \<Rightarrow> m i | Some x \<Rightarrow> g x)"
  by (induction xs arbitrary: m rule: rev_induct) auto

lemma fold_delete: "fold (\<lambda>i m. m(i := None)) is m i = (if i \<in> set is then None else m i)"
  by (induction "is" arbitrary: m) auto

lemma unauthorized_ids:
  "i \<in> set (unauthorized_data_source_ids sha256 st arn creds) \<longleftrightarrow>
     i \<in> (\<lambda>db_name. get_data_source_id sha256 st db_name arn) ` set (qs_databases st) \<and>
     find (\<lambda>c. get_data_source_id sha256 st (cr_memorable_name c) arn = i) (rev creds) = None"
proof -
  have "find (\<lambda>c. get_data_source_id sha256 st (cr_memorable_name c) arn = i) (rev creds) = None \<longleftrightarrow>
      i \<notin> (\<lambda>c. get_data_source_id sha256 st (cr_memorable_name c) arn) ` set creds"
    by (auto simp: find_None_iff)
  then show ?thesis by (auto simp: unauthorized_data_source_ids_def)
qed

lemma data_source_of_id:
  "data_source_of sha256 st arn cred = Some d \<Longrightarrow> so_id d = get_data_source_id sha256 st (cr_memorable_name cred) arn"
  by (auto simp: data_source_of_def)

lemma create_all_effect:
  assumes "exec (for_each (create_or_update sha256 st arn) creds) env h = (Inr (), h')"
  shows "data_sources_after h' ds i =
    (case find (\<lambda>c. get_data_source_id sha256 st (cr_memorable_name c) arn = i) (rev creds) of
       None \<Rightarrow> data_sources_after h ds i | Some c \<Rightarrow> data_source_of sha256 st arn c)"
proof -
  let ?id = "\<lambda>c. get_data_source_id sha256 st (cr_memorable_name c) arn"
  have "data_sources_after h' ds = (data_sources_after h ds)(?id c := data_source_of sha256 st arn c)"
    if c: "exec (create_or_update sha256 st arn c) env h = (Inr (), h')" for c h h'
    using create_or_update_effect [OF c, of ds] data_source_of_id [of sha256 st arn c] by auto
  from for_each_effect [where g = "\<lambda>h. data_sources_after h ds"
      and upd = "\<lambda>c m. m(?id c := data_source_of sha256 st arn c)", OF this assms]
  show ?thesis by (simp add: fold_upd_same)
qed

text \<open>
  C23: When the sources of a user have been brought up to date, each database with credentials has a source
  with the last credentials for it, each other database of the settings has none, and no other source has
  been touched.
\<close>

theorem quicksight_sources_match_credentials:
  assumes "exec (create_update_delete_quicksight_user_data_sources sha256 st arn creds) env h = (Inr (), h')"
  shows "data_sources_after h' ds i =
    (case find (\<lambda>c. get_data_source_id sha256 st (cr_memorable_name c) arn = i) (rev creds) of
       Some c \<Rightarrow> data_source_of sha256 st arn c
     | None \<Rightarrow> if i \<in> (\<lambda>db_name. get_data_source_id sha256 st db_name arn) ` set (qs_databases st) then None
         else data_sources_after h ds i)"
proof -
  let ?un = "unauthorized_data_source_ids sha256 st arn creds"
  from assms obtain h1 where 1: "exec (for_each (create_or_update sha256 st arn) creds) env h = (Inr (), h1)"
      "exec (for_each delete_data_source ?un) env h1 = (Inr (), h')"
    by (auto simp: create_update_delete_quicksight_user_data_sources_def exec_seq split: prod.splits sum.splits)
  have "data_sources_after h' ds = fold (\<lambda>i m. m(i := None)) ?un (data_sources_after h1 ds)"
    by (rule for_each_effect [OF _ 1(2)]) (rule delete_data_source_effect)
  then show ?thesis
    by (simp add: fold_delete unauthorized_ids create_all_effect [OF 1(1)] split: option.split)
qed

theorem quicksight_sources_match_credentials_witness:
  "let st = \<lparr>qs_environment = ''Dev'', qs_vpc_arn = ''vpc'', qs_author_custom_permissions = ''perms'',
         qs_databases = [''one'', ''two''], qs_max_retries = 3, qs_user_region = ''eu'', qs_embed_role_arn = ''a/b'',
         qs_group = ''g''\<rparr>;
       cred = \<lparr>cr_memorable_name = ''one'', cr_db_id = 1, cr_db_name = ''d'', cr_db_host = ''h'', cr_db_port = ''5432'',
         cr_db_user = ''u'', cr_db_persistent_role = ''r'', cr_db_password = ''p''\<rparr>;
       env = (\<lambda>h q. case q of CreateDataSource d a as \<Rightarrow> Inl ''ResourceExistsException'' | _ \<Rightarrow> Inr (Answer JNull));
       sha256 = (\<lambda>s. ''0123456789'');
       h' = snd (exec (create_update_delete_quicksight_user_data_sources sha256 st ''arn'' [cred]) env []);
       ds = data_sources_after h' (\<lambda>i. data_source_of sha256 st ''arn'' (cred\<lparr>cr_db_password := ''old''\<rparr>))
   in ds ''data-workspace-dev-one-01234567'' = data_source_of sha256 st ''arn'' cred \<and>
      ds ''data-workspace-dev-two-01234567'' = None"
proof -
  let ?st = "\<lparr>qs_environment = ''Dev'', qs_vpc_arn = ''vpc'', qs_author_custom_permissions = ''perms'',
         qs_databases = [''one'', ''two''], qs_max_retries = 3, qs_user_region = ''eu'', qs_embed_role_arn = ''a/b'',
         qs_group = ''g''\<rparr>"
  let ?cred = "\<lparr>cr_memorable_name = ''one'', cr_db_id = 1, cr_db_name = ''d'', cr_db_host = ''h'', cr_db_port = ''5432'',
         cr_db_user = ''u'', cr_db_persistent_role = ''r'', cr_db_password = ''p''\<rparr>"
  let ?env = "\<lambda>h q. case q of CreateDataSource d a as \<Rightarrow> Inl ''ResourceExistsException'' | _ \<Rightarrow> Inr (Answer JNull)"
  let ?sha256 = "\<lambda>s. ''0123456789''"
  let ?p = "create_update_delete_quicksight_user_data_sources ?sha256 ?st ''arn'' [?cred]"
  have "fst (exec ?p ?env []) = Inr ()" by code_simp
  then have x: "exec ?p ?env [] = (Inr (), snd (exec ?p ?env []))" by (simp add: prod_eq_iff)
  have ids: "get_data_source_id ?sha256 ?st ''one'' ''arn'' = ''data-workspace-dev-one-01234567''"
    "get_data_source_id ?sha256 ?st ''two'' ''arn'' = ''data-workspace-dev-two-01234567''" by code_simp+
  show ?thesis
    unfolding Let_def using quicksight_sources_match_credentials [OF x] ids by simp
qed

end
