(* ===== verification/Accounts.thy ===== *)
theory Accounts
  imports Effects ProxyIO
begin

text \<open>
  \<open>apps/applications/utils.py\<close> and \<open>apps/accounts/backends.py\<close>: how the identity that the proxy has
  verified, or a record of the activity stream, becomes a user of the admin application. Other requests
  may change the database between the steps.
\<close>

section \<open>Accounts\<close>

text \<open>A user with its profile.\<close>

record account =
  ac_id :: nat
  ac_username :: string
  ac_email :: string
  ac_first_name :: string
  ac_last_name :: string
  ac_usable_password :: bool
  ac_sso_id :: string
  ac_role_arn :: string
  ac_start_all_applications :: bool

type_synonym accounts = "account list"

text \<open>The constraints of the tables: ids, usernames and SSO ids are unique; addresses are not.\<close>

definition accounts_ok :: "accounts \<Rightarrow> bool" where
  "accounts_ok db \<longleftrightarrow> distinct (map ac_id db) \<and> distinct (map ac_username db) \<and> distinct (map ac_sso_id db)"

text \<open>
  \<open>save\<close> writes all fields of the object, or inserts a row when the row is gone; a constraint that fails
  raises and changes nothing.
\<close>

definition save_account :: "account \<Rightarrow> accounts \<Rightarrow> accounts option" where
  "save_account a db = (let db' = (if \<exists>b \<in> set db. ac_id b = ac_id a
       then map (\<lambda>b. if ac_id b = ac_id a then a else b) db else db @ [a])
     in if accounts_ok db' then Some db' else None)"

definition create_account :: "account \<Rightarrow> accounts \<Rightarrow> accounts option" where
  "create_account a db = (if accounts_ok (db @ [a]) then Some (db @ [a]) else None)"

fun get_by_sso_id :: "accounts \<Rightarrow> string \<Rightarrow> account option" where
  "get_by_sso_id db sso_id = find (\<lambda>a. ac_sso_id a = sso_id) db"

definition check_tools_access :: "account \<Rightarrow> nat list" where
  "check_tools_access a = (if ac_start_all_applications a \<and> ac_role_arn a = [] then [ac_id a] else [])"

section \<open>\<open>create_user_from_sso\<close>\<close>

record sso_identity =
  so_sso_id :: string
  so_primary_email :: string
  so_other_emails :: "string list"
  so_first_name :: string
  so_last_name :: string

text \<open>What is new and random: the id and the SSO id of the profile that a new user starts with.\<close>

definition new_account :: "nat \<Rightarrow> string \<Rightarrow> sso_identity \<Rightarrow> account" where
  "new_account new_id uuid so = \<lparr>ac_id = new_id, ac_username = so_primary_email so, ac_email = so_primary_email so,
     ac_first_name = [], ac_last_name = [], ac_usable_password = True, ac_sso_id = uuid, ac_role_arn = [],
     ac_start_all_applications = False\<rparr>"

definition accounts_with_email :: "string list \<Rightarrow> accounts \<Rightarrow> account list" where
  "accounts_with_email emails db = filter (\<lambda>a. ac_email a \<in> set emails) db"

text \<open>
  \<open>get_or_create\<close> looks again when it cannot create the row. The functions \<open>others\<close> say what other requests
  do before each step.
\<close>

definition get_or_create ::
  "(nat \<Rightarrow> accounts \<Rightarrow> accounts) \<Rightarrow> nat \<Rightarrow> string \<Rightarrow> sso_identity \<Rightarrow> accounts \<Rightarrow> accounts \<times> (exc + account)" where
  "get_or_create others new_id uuid so db =
     (let emails = so_primary_email so # so_other_emails so in
      case accounts_with_email emails db of
        [] \<Rightarrow> (let db1 = others 1 db in
            case create_account (new_account new_id uuid so) db1 of
              Some db2 \<Rightarrow> (db2, Inr (new_account new_id uuid so))
            | None \<Rightarrow> (let db2 = others 2 db1 in
                case accounts_with_email emails db2 of
                  [] \<Rightarrow> (db2, Inl ''IntegrityError'')
                | [a] \<Rightarrow> (db2, Inr a)
                | _ \<Rightarrow> (db2, Inl ''MultipleObjectsReturned'')))
      | [a] \<Rightarrow> (db, Inr a)
      | _ \<Rightarrow> (db, Inl ''MultipleObjectsReturned''))"

definition with_identity :: "sso_identity \<Rightarrow> account \<Rightarrow> account" where
  "with_identity so a = a\<lparr>ac_username := so_primary_email so, ac_email := so_primary_email so,
     ac_first_name := so_first_name so, ac_last_name := so_last_name so, ac_usable_password := False\<rparr>"

text \<open>The fields are compared one by one, and the user is saved when one of them has changed.\<close>

definition update_account :: "sso_identity \<Rightarrow> account \<Rightarrow> accounts \<Rightarrow> accounts \<times> (exc + account)" where
  "update_account so a db =
     (if with_identity so a = a then (db, Inr a)
      else case save_account (with_identity so a) db of
          None \<Rightarrow> (db, Inl ''IntegrityError'') | Some db' \<Rightarrow> (db', Inr (with_identity so a)))"

text \<open>
  The user is saved, then saved with the SSO id; when another user has the SSO id by now, that user is taken
  instead.
\<close>

definition set_sso_id :: "(nat \<Rightarrow> accounts \<Rightarrow> accounts) \<Rightarrow> string \<Rightarrow> account \<Rightarrow> accounts \<Rightarrow> accounts \<times> (exc + account)" where
  "set_sso_id others sso_id a db =
     (case save_account a db of
        None \<Rightarrow> (db, Inl ''IntegrityError'')
      | Some db1 \<Rightarrow> (let db2 = others 4 db1; a' = a\<lparr>ac_sso_id := sso_id\<rparr> in
          case save_account a' db2 of
            Some db3 \<Rightarrow> (db3, Inr a')
          | None \<Rightarrow> (case get_by_sso_id (others 5 db2) sso_id of
                None \<Rightarrow> (others 5 db2, Inl ''DoesNotExist'') | Some b \<Rightarrow> (others 5 db2, Inr b))))"

text \<open>The result comes with the users that \<open>create_tools_access_iam_role_task\<close> is queued for.\<close>

definition create_user_from_sso ::
  "(nat \<Rightarrow> accounts \<Rightarrow> accounts) \<Rightarrow> nat \<Rightarrow> string \<Rightarrow> sso_identity \<Rightarrow> bool \<Rightarrow> accounts \<Rightarrow>
     accounts \<times> (exc + account) \<times> nat list" where
  "create_user_from_sso others new_id uuid so check_tools_access_if_user_exists db =
     (case get_by_sso_id db (so_sso_id so) of
        Some a \<Rightarrow> (case update_account so a (others 6 db) of
            (db', r) \<Rightarrow> (db', r, if check_tools_access_if_user_exists then check_tools_access a else []))
      | None \<Rightarrow> (case get_or_create others new_id uuid so (others 0 db) of
            (db1, Inl e) \<Rightarrow> (db1, Inl e, [])
          | (db1, Inr a) \<Rightarrow> (case set_sso_id others (so_sso_id so) a (others 3 db1) of
                (db2, Inl e) \<Rightarrow> (db2, Inl e, [])
              | (db2, Inr a') \<Rightarrow> (case update_account so a' (others 6 db2) of
                    (db3, r) \<Rightarrow> (db3, r, check_tools_access a')))))"

text \<open>The backend reads the identity from the headers that the proxy sets.\<close>

definition authenticate :: "(string \<Rightarrow> string option) \<Rightarrow> sso_identity option" where
  "authenticate header =
     Option.bind (header ''sso-profile-email'') (\<lambda>email.
     Option.bind (header ''sso-profile-contact-email'') (\<lambda>contact_email.
     Option.bind (map_option (\<lambda>s. split s '','') (header ''sso-profile-related-emails'')) (\<lambda>related_emails.
     Option.bind (header ''sso-profile-user-id'') (\<lambda>user_id.
     Option.bind (header ''sso-profile-first-name'') (\<lambda>first_name.
     Option.bind (header ''sso-profile-last-name'') (\<lambda>last_name.
       Some \<lparr>so_sso_id = user_id, so_primary_email = (if contact_email \<noteq> [] then contact_email else email),
         so_other_emails = [email] @ (if contact_email \<noteq> [] then [contact_email] else []) @ related_emails,
         so_first_name = first_name, so_last_name = last_name\<rparr>))))))"

section \<open>Facts\<close>

text \<open>What other requests do keeps the constraints.\<close>

definition keeping :: "(nat \<Rightarrow> accounts \<Rightarrow> accounts) \<Rightarrow> bool" where
  "keeping others \<longleftrightarrow> (\<forall>n d. accounts_ok d \<longrightarrow> accounts_ok (others n d))"

lemma keepingD: "keeping others \<Longrightarrow> accounts_ok d \<Longrightarrow> accounts_ok (others n d)"
  unfolding keeping_def by blast

text \<open>Everybody but one account is as before.\<close>

definition only_changed :: "nat \<Rightarrow> accounts \<Rightarrow> accounts \<Rightarrow> bool" where
  "only_changed i db db' \<longleftrightarrow> filter (\<lambda>b. ac_id b \<noteq> i) db' = filter (\<lambda>b. ac_id b \<noteq> i) db"

lemma only_changed_refl [simp]: "only_changed i db db"
  by (simp add: only_changed_def)

lemma only_changed_trans: "only_changed i db db1 \<Longrightarrow> only_changed i db1 db2 \<Longrightarrow> only_changed i db db2"
  by (simp add: only_changed_def)

lemma others_unchanged: "filter (\<lambda>b. ac_id b \<noteq> ac_id a) (map (\<lambda>b. if ac_id b = ac_id a then a else b) db) =
    filter (\<lambda>b. ac_id b \<noteq> ac_id a) db"
  by (induction db) auto

lemma save_account_facts:
  assumes "save_account a db = Some db'"
  shows "accounts_ok db'" "only_changed (ac_id a) db db'" "a \<in> set db'"
proof -
  let ?db = "if \<exists>b \<in> set db. ac_id b = ac_id a then map (\<lambda>b. if ac_id b = ac_id a then a else b) db else db @ [a]"
  have db': "db' = ?db" "accounts_ok ?db"
    using assms unfolding save_account_def Let_def by (auto split: if_splits)
  show "accounts_ok db'" using db' by simp
  show "only_changed (ac_id a) db db'" unfolding db'(1) only_changed_def by (simp add: others_unchanged)
  show "a \<in> set db'" unfolding db'(1) by force
qed

lemma create_account_facts:
  assumes "create_account a db = Some db'"
  shows "accounts_ok db'" "only_changed (ac_id a) db db'" "a \<in> set db'"
  using assms by (auto simp: create_account_def only_changed_def split: if_splits)

lemma get_by_sso_id_Some: "get_by_sso_id db s = Some a \<Longrightarrow> a \<in> set db \<and> ac_sso_id a = s"
  by (auto simp: find_Some_iff)

lemma with_identity_simps [simp]:
  "ac_id (with_identity so a) = ac_id a" "ac_sso_id (with_identity so a) = ac_sso_id a"
  "with_identity so (with_identity so a) = with_identity so a"
  by (simp_all add: with_identity_def)

lemma update_account_cases:
  assumes "update_account so a db = (db', r)"
  obtains "with_identity so a = a" "db' = db" "r = Inr a"
  | "save_account (with_identity so a) db = Some db'" "r = Inr (with_identity so a)"
  | e where "db' = db" "r = Inl e"
  using assms unfolding update_account_def by (auto split: if_splits option.splits)

lemma update_account_result:
  assumes "update_account so a db = (db', Inr b)"
  shows "b = with_identity so a"
  using assms by (rule update_account_cases) simp_all

lemma update_account_ok:
  assumes "update_account so a db = (db', r)" "accounts_ok db"
  shows "accounts_ok db'"
  using assms(1) by (rule update_account_cases) (use assms(2) save_account_facts in auto)

lemma update_account_changes:
  assumes "update_account so a db = (db', Inr b)" "a \<in> set db"
  shows "b \<in> set db' \<and> only_changed (ac_id a) db db'"
  using assms(1)
proof (rule update_account_cases)
  assume s: "save_account (with_identity so a) db = Some db'" and b: "Inr b = Inr (with_identity so a)"
  show ?thesis using save_account_facts(2,3) [OF s] b by simp
qed (use assms(2) in simp_all)

lemma accounts_with_email_single: "accounts_with_email emails db = [a] \<Longrightarrow> a \<in> set db \<and> ac_email a \<in> set emails"
proof -
  assume "accounts_with_email emails db = [a]"
  then have "a \<in> set (accounts_with_email emails db)" by simp
  then show ?thesis by (simp add: accounts_with_email_def)
qed

lemma get_or_create_ok:
  assumes "get_or_create others new_id uuid so db = (db', r)" "accounts_ok db" "keeping others"
  shows "accounts_ok db'"
proof -
  have "accounts_ok (others 1 db)" "accounts_ok (others 2 (others 1 db))"
    using keepingD [OF assms(3)] assms(2) by blast+
  with assms(1,2) show ?thesis
    unfolding get_or_create_def Let_def by (auto split: list.splits option.splits dest: create_account_facts)
qed

lemma get_or_create_alone:
  assumes "get_or_create (\<lambda>n d. d) new_id uuid so db = (db', Inr a)"
  shows "a \<in> set db' \<and> only_changed (ac_id a) db db' \<and> set db' \<subseteq> insert a (set db)"
proof -
  consider "create_account a db = Some db'" | "accounts_with_email (so_primary_email so # so_other_emails so) db = [a]" "db' = db"
    using assms unfolding get_or_create_def Let_def by (auto split: list.splits option.splits)
  then show ?thesis
  proof cases
    case 1
    then show ?thesis using create_account_facts [OF 1] by (auto simp: create_account_def split: if_splits)
  next
    case 2
    with accounts_with_email_single show ?thesis by fastforce
  qed
qed

lemma set_sso_id_ok:
  assumes "set_sso_id others sso_id a db = (db', r)" "accounts_ok db" "keeping others"
  shows "accounts_ok db'"
proof (cases "save_account a db")
  case None
  with assms show ?thesis by (simp add: set_sso_id_def)
next
  case (Some db1)
  have "accounts_ok (others 5 (others 4 db1))"
    using keepingD [OF assms(3)] save_account_facts(1) [OF Some] by blast
  with Some assms(1) show ?thesis
    unfolding set_sso_id_def Let_def by (auto split: option.splits dest: save_account_facts(1))
qed

lemma set_sso_id_result:
  assumes "set_sso_id others sso_id a db = (db', Inr b)"
  shows "ac_sso_id b = sso_id"
  using assms unfolding set_sso_id_def Let_def
  by (auto split: option.splits simp del: get_by_sso_id.simps dest: get_by_sso_id_Some)

lemma ids_identify: "distinct (map ac_id db) \<Longrightarrow> a \<in> set db \<Longrightarrow> b \<in> set db \<Longrightarrow> ac_id b = ac_id a \<Longrightarrow> b = a"
  by (metis distinct_map inj_onD)

lemma save_account_again:
  assumes "a \<in> set db" "accounts_ok db"
  shows "save_account a db = Some db"
proof -
  have "map (\<lambda>b. if ac_id b = ac_id a then a else b) db = db"
    using ids_identify [of db a] assms by (intro map_idI) (auto simp: accounts_ok_def)
  with assms show ?thesis by (auto simp: save_account_def Let_def)
qed

lemma set_sso_id_alone:
  assumes x: "set_sso_id (\<lambda>n d. d) sso_id a db = (db', Inr b)" and a: "a \<in> set db" "accounts_ok db"
    and free: "\<And>b. b \<in> set db \<Longrightarrow> ac_sso_id b = sso_id \<Longrightarrow> b = a"
  shows "ac_id b = ac_id a \<and> b \<in> set db' \<and> only_changed (ac_id a) db db'"
proof (cases "save_account (a\<lparr>ac_sso_id := sso_id\<rparr>) db")
  case None
  with x a have "get_by_sso_id db sso_id = Some b"
    by (simp add: set_sso_id_def save_account_again Let_def split: option.splits del: get_by_sso_id.simps)
  then have "b \<in> set db" "ac_sso_id b = sso_id" using get_by_sso_id_Some by blast+
  then have "ac_sso_id a = sso_id" using free by blast
  then have "save_account (a\<lparr>ac_sso_id := sso_id\<rparr>) db = save_account a db" by (intro arg_cong [of _ _ "\<lambda>x. save_account x db"]) simp
  with None save_account_again [OF a] show ?thesis by simp
next
  case (Some db1)
  with x a have "db' = db1" "b = a\<lparr>ac_sso_id := sso_id\<rparr>" by (simp_all add: set_sso_id_def save_account_again Let_def)
  with save_account_facts(2,3) [OF Some] show ?thesis by simp
qed

lemma create_user_from_sso_cases:
  assumes "create_user_from_sso others new_id uuid so check db = (db', Inr u, tasks)"
  obtains a where "get_by_sso_id db (so_sso_id so) = Some a" "update_account so a (others 6 db) = (db', Inr u)"
  | db1 a db2 b where "get_by_sso_id db (so_sso_id so) = None"
      "get_or_create others new_id uuid so (others 0 db) = (db1, Inr a)"
      "set_sso_id others (so_sso_id so) a (others 3 db1) = (db2, Inr b)"
      "update_account so b (others 6 db2) = (db', Inr u)"
proof (cases "get_by_sso_id db (so_sso_id so)")
  case (Some a)
  with assms that(1) show thesis
    by (cases "update_account so a (others 6 db)") (simp add: create_user_from_sso_def del: get_by_sso_id.simps)
next
  case None
  obtain db1 r1 where 1: "get_or_create others new_id uuid so (others 0 db) = (db1, r1)" by fastforce
  with None assms obtain a where a: "r1 = Inr a"
    by (cases r1) (simp_all add: create_user_from_sso_def del: get_by_sso_id.simps)
  obtain db2 r2 where 2: "set_sso_id others (so_sso_id so) a (others 3 db1) = (db2, r2)" by fastforce
  with None assms 1 a obtain b where b: "r2 = Inr b"
    by (cases r2) (simp_all add: create_user_from_sso_def del: get_by_sso_id.simps)
  obtain db3 r3 where 3: "update_account so b (others 6 db2) = (db3, r3)" by fastforce
  with None assms 1 2 a b have "db3 = db'" "r3 = Inr u"
    by (simp_all add: create_user_from_sso_def del: get_by_sso_id.simps)
  with None 1 2 3 a b that(2) show thesis by simp
qed

section \<open>Results\<close>

text \<open>
  Whatever other requests do in between, the user that a signed-in person gets has their SSO id, the
  names and the address that the identity says, and no usable password; the constraints of the tables are
  kept. With no other request in between, that user is in the database as it was returned, and every other
  user is as before.
\<close>

theorem sso_users:
  assumes "create_user_from_sso others new_id uuid so check db = (db', Inr u, tasks)"
  shows "ac_sso_id u = so_sso_id so \<and> ac_username u = so_primary_email so \<and> ac_email u = so_primary_email so \<and>
    ac_first_name u = so_first_name so \<and> ac_last_name u = so_last_name so \<and> \<not> ac_usable_password u \<and>
    (keeping others \<and> accounts_ok db \<longrightarrow> accounts_ok db') \<and>
    (others = (\<lambda>n d. d) \<and> accounts_ok db \<longrightarrow> u \<in> set db' \<and> only_changed (ac_id u) db db')"
  using assms
proof (rule create_user_from_sso_cases)
  fix a
  assume a: "get_by_sso_id db (so_sso_id so) = Some a" and u: "update_account so a (others 6 db) = (db', Inr u)"
  note i = get_by_sso_id_Some [OF a] and r = update_account_result [OF u]
  have "accounts_ok db'" if "keeping others" "accounts_ok db"
    by (rule update_account_ok [OF u keepingD [OF that]])
  moreover have "u \<in> set db' \<and> only_changed (ac_id u) db db'" if "others = (\<lambda>n d. d)"
    using update_account_changes [OF u] i r that by simp
  ultimately show ?thesis using i r by (simp add: with_identity_def)
next
  fix db1 a db2 b
  assume n: "get_by_sso_id db (so_sso_id so) = None" and a: "get_or_create others new_id uuid so (others 0 db) = (db1, Inr a)"
    and b: "set_sso_id others (so_sso_id so) a (others 3 db1) = (db2, Inr b)"
    and u: "update_account so b (others 6 db2) = (db', Inr u)"
  note i = set_sso_id_result [OF b] and r = update_account_result [OF u]
  have "accounts_ok db'" if k: "keeping others" "accounts_ok db"
  proof -
    have "accounts_ok db1" by (rule get_or_create_ok [OF a keepingD [OF k] k(1)])
    then have "accounts_ok db2" using set_sso_id_ok [OF b] keepingD [OF k(1)] k(1) by blast
    then show ?thesis using update_account_ok [OF u] keepingD [OF k(1)] by blast
  qed
  moreover have "u \<in> set db' \<and> only_changed (ac_id u) db db'" if "others = (\<lambda>n d. d)" "accounts_ok db"
  proof -
    note a' = a [unfolded that(1)] and b' = b [unfolded that(1)] and u' = u [unfolded that(1)]
    note g = get_or_create_alone [OF a']
    have ok: "accounts_ok db1" using get_or_create_ok [OF a'] that(2) by (simp add: keeping_def)
    have free: "c = a" if "c \<in> set db1" "ac_sso_id c = so_sso_id so" for c
      using n g that by (auto simp: find_None_iff)
    have b1: "ac_id b = ac_id a" "b \<in> set db2" "only_changed (ac_id a) db1 db2"
      using set_sso_id_alone [OF b' _ ok free] g by blast+
    have u1: "u \<in> set db'" "only_changed (ac_id b) db2 db'"
      using update_account_changes [OF u' b1(2)] by blast+
    have "ac_id u = ac_id a" using r b1(1) by simp
    moreover have "only_changed (ac_id a) db db'"
      using g b1 u1 only_changed_trans by metis
    ultimately show ?thesis using u1(1) by simp
  qed
  ultimately show ?thesis using i r by (simp add: with_identity_def)
qed

theorem sso_users_witness:
  "let so = \<lparr>so_sso_id = ''s1'', so_primary_email = ''a@b'', so_other_emails = [''a@c''],
         so_first_name = ''A'', so_last_name = ''B''\<rparr>;
       old = (new_account 7 ''s0'' so)\<lparr>ac_email := ''a@c''\<rparr>;
       u = (with_identity so old)\<lparr>ac_sso_id := ''s1''\<rparr>
   in create_user_from_sso (\<lambda>n d. d) 8 ''x'' so False [old] = ([u], Inr u, []) \<and> ac_sso_id u = so_sso_id so \<and>
     accounts_ok [u] \<and> only_changed 7 [old] [u]"
proof -
  let ?so = "\<lparr>so_sso_id = ''s1'', so_primary_email = ''a@b'', so_other_emails = [''a@c''],
         so_first_name = ''A'', so_last_name = ''B''\<rparr>"
  let ?old = "(new_account 7 ''s0'' ?so)\<lparr>ac_email := ''a@c''\<rparr>"
  let ?u = "(with_identity ?so ?old)\<lparr>ac_sso_id := ''s1''\<rparr>"
  have "create_user_from_sso (\<lambda>n d. d) 8 ''x'' ?so False [?old] = ([?u], Inr ?u, [])" by code_simp
  moreover have "accounts_ok [?old]" "keeping (\<lambda>n d. d)" "ac_id ?u = 7"
    by (simp_all add: accounts_ok_def keeping_def new_account_def)
  ultimately show ?thesis
    using sso_users [of "\<lambda>n d. d" 8 "''x''" ?so False "[?old]" "[?u]" ?u "[]"] unfolding Let_def by metis
qed

section \<open>Blank addresses\<close>

text \<open>
  The proxy sends the related addresses joined by commas, an empty header when there are none, and
  \<open>''.split(',')\<close> is not the empty list: the blank address is one of those that \<open>get_or_create\<close> looks for.
  A person who has no account takes over the only account without an address.
\<close>

lemma blank_address_matches:
  assumes "authenticate header = Some so" "header ''sso-profile-related-emails'' = Some []"
  shows "[] \<in> set (so_other_emails so)"
proof -
  have "split [] '','' = [[]]" by (simp add: split.simps)
  with assms show ?thesis by (auto simp: authenticate_def bind_eq_Some_conv)
qed

lemma account_without_address_is_taken:
  "let header = map_of [(''sso-profile-email'', ''new@b''), (''sso-profile-contact-email'', []),
         (''sso-profile-related-emails'', []), (''sso-profile-user-id'', ''s9''),
         (''sso-profile-first-name'', ''N''), (''sso-profile-last-name'', ''P'')];
       admin = \<lparr>ac_id = 1, ac_username = ''root'', ac_email = [], ac_first_name = [], ac_last_name = [],
         ac_usable_password = True, ac_sso_id = ''s0'', ac_role_arn = [], ac_start_all_applications = True\<rparr>
   in map_option (\<lambda>so. map ac_id (fst (create_user_from_sso (\<lambda>n d. d) 2 ''x'' so False [admin]))) (authenticate header) = Some [1] \<and>
     map_option (\<lambda>so. map ac_sso_id (fst (create_user_from_sso (\<lambda>n d. d) 2 ''x'' so False [admin]))) (authenticate header) = Some [''s9'']"
  by code_simp

end
