(* ===== verification/ActivityStream.thy ===== *)
theory ActivityStream
  imports Accounts Spawner
begin

text \<open>
  \<open>apps/applications/utils.py\<close>: the task that reads the users of the single sign-on service from the activity
  stream, page by page, and makes or updates their accounts. Times are microseconds.
\<close>

datatype stream_call =
    StreamLock
  | StreamUnlock
  | LastPublished
  | SetLastPublished int
  | HttpRequest string string string string string
  | CreateUserFromSso sso_identity bool

datatype stream_reply = Response nat string | Cached "int option" | Ok

type_synonym 'a streaming = "(stream_call, stream_reply, 'a) prog"

fun the_response :: "stream_reply \<Rightarrow> (nat \<times> string) option" where
  "the_response (Response n s) = Some (n, s)"
| "the_response _ = None"

fun the_cached :: "stream_reply \<Rightarrow> int option option" where
  "the_cached (Cached t) = Some t"
| "the_cached _ = None"

text \<open>
  The settings, and the libraries: the Hawk header of a request, the JSON codec, and the two formats of times.
\<close>

record stream_libs =
  sl_hawk_id :: string
  sl_hawk_key :: string
  sl_base_url :: string
  sl_request_header :: "string \<Rightarrow> string \<Rightarrow> string \<Rightarrow> string"
  sl_dumps :: "json \<Rightarrow> string"
  sl_loads :: "string \<Rightarrow> json option"
  sl_strftime :: "int \<Rightarrow> string"
  sl_strptime :: "string \<Rightarrow> int option"

definition hawk_request :: "stream_libs \<Rightarrow> string \<Rightarrow> string \<Rightarrow> string \<Rightarrow> (nat \<times> string) streaming" where
  "hawk_request sl meth url body =
     (if sl_hawk_id sl = [] \<or> sl_hawk_key sl = [] then Fail ''HawkException''
      else ask (HttpRequest meth url body (sl_request_header sl meth url body) ''application/json'')
        (\<lambda>r. want ''TypeError'' (the_response r) Done))"

definition activity_query :: "stream_libs \<Rightarrow> int \<Rightarrow> json option \<Rightarrow> json" where
  "activity_query sl last_published search_after =
     JObj ([(''size'', JInt 1000),
       (''query'', JObj [(''bool'', JObj [(''filter'', JList
         [JObj [(''term'', JObj [(''object.type'', JStr ''dit:StaffSSO:User'')])],
          JObj [(''range'', JObj [(''published'', JObj
            [(''gte'', JStr (sl_strftime sl (last_published - 10 * 1000000)))])])]])])]),
       (''sort'', JList [JObj [(''published'', JStr ''asc'')], JObj [(''id'', JStr ''asc'')]])] @
      (case search_after of None \<Rightarrow> [] | Some s \<Rightarrow> [(''search_after'', s)]))"

text \<open>The identity in a record: the contact address, or else the first address, is the primary one.\<close>

fun jstrs :: "json \<Rightarrow> string list option" where
  "jstrs (JList l) = those (map jstr l)"
| "jstrs _ = None"

definition record_identity :: "json \<Rightarrow> sso_identity option" where
  "record_identity record =
     Option.bind (jget record ''_source'') (\<lambda>source. Option.bind (jget source ''object'') (\<lambda>obj.
     Option.bind (Option.bind (jget obj ''dit:StaffSSO:User:userId'') jstr) (\<lambda>user_id.
     Option.bind (Option.bind (jget obj ''dit:emailAddress'') jstrs) (\<lambda>emails.
     Option.bind (jget obj ''dit:StaffSSO:User:contactEmailAddress'') (\<lambda>contact.
     Option.bind (if jtrue contact then jstr contact else py_index emails 0) (\<lambda>primary_email.
     Option.bind (Option.bind (jget obj ''dit:firstName'') jstr) (\<lambda>first_name.
     Option.bind (Option.bind (jget obj ''dit:lastName'') jstr) (\<lambda>last_name.
       Some \<lparr>so_sso_id = user_id, so_primary_email = primary_email, so_other_emails = emails,
         so_first_name = first_name, so_last_name = last_name\<rparr>))))))))"

definition process_record :: "json \<Rightarrow> unit streaming" where
  "process_record record = want ''KeyError'' (record_identity record) (\<lambda>so.
     handling (ask (CreateUserFromSso so True) (\<lambda>_. Done ())) (\<lambda>e. e = ''IntegrityError'') (\<lambda>e. Done ()))"

text \<open>What is read from a response: its records, when no shard has failed.\<close>

definition response_records :: "stream_libs \<Rightarrow> nat \<times> string \<Rightarrow> exc + json list" where
  "response_records sl = (\<lambda>(status_code, response).
     if status_code \<noteq> 200 then Inl ''Exception''
     else case sl_loads sl response of None \<Rightarrow> Inl ''JSONDecodeError''
     | Some response_json \<Rightarrow> (case jget response_json ''_shards'' of None \<Rightarrow> Inl ''KeyError''
       | Some shards \<Rightarrow> if jget shards ''failures'' \<noteq> None then Inl ''Exception''
         else case Option.bind (Option.bind (jget response_json ''hits'') (\<lambda>hits. jget hits ''hits'')) jlist of
           None \<Rightarrow> Inl ''KeyError'' | Some records \<Rightarrow> Inr records))"

definition published :: "stream_libs \<Rightarrow> json \<Rightarrow> int option" where
  "published sl record = Option.bind (Option.bind (Option.bind (jget record ''_source'') (\<lambda>s. jget s ''published'')) jstr)
     (sl_strptime sl)"

definition raising :: "exc + 'b \<Rightarrow> ('b \<Rightarrow> 'a streaming) \<Rightarrow> 'a streaming" where
  "raising x f = (case x of Inl e \<Rightarrow> Fail e | Inr v \<Rightarrow> f v)"

text \<open>
  The pages, each asked for with the sort values of the last record of the page before; the fuel bounds their
  number. The result is the time of the last record seen.
\<close>

primrec fetch_pages :: "stream_libs \<Rightarrow> int \<Rightarrow> nat \<Rightarrow> int \<Rightarrow> json option \<Rightarrow> int streaming" where
  "fetch_pages sl start 0 last_published search_after = Fail ''fuel''"
| "fetch_pages sl start (Suc fuel) last_published search_after =
     seq (handling (seq (hawk_request sl ''GET'' (sl_base_url sl @ ''/v3/activities/_search'')
            (sl_dumps sl (activity_query sl start search_after))) (\<lambda>r. Done (Some r)))
          (\<lambda>e. e = ''HawkException'') (\<lambda>e. Done None)) (\<lambda>r.
       case r of None \<Rightarrow> Done last_published
       | Some response \<Rightarrow> raising (response_records sl response) (\<lambda>records.
           if records = [] then Done last_published
           else seq (for_each process_record records) (\<lambda>_.
             want ''ValueError'' (published sl (last records)) (\<lambda>last_published.
             want ''KeyError'' (jget (last records) ''sort'') (\<lambda>search_after.
               fetch_pages sl start fuel last_published (Some search_after))))))"

definition do_sync_activity_stream_sso_users :: "stream_libs \<Rightarrow> nat \<Rightarrow> unit streaming" where
  "do_sync_activity_stream_sso_users sl fuel =
     ask LastPublished (\<lambda>r. want ''TypeError'' (the_cached r) (\<lambda>cached.
       let last_published = (case cached of None \<Rightarrow> 0 | Some t \<Rightarrow> t) in
       seq (fetch_pages sl last_published fuel last_published None) (\<lambda>last_published.
         ask (SetLastPublished last_published) (\<lambda>_. Done ()))))"

definition sync_activity_stream_sso_users :: "stream_libs \<Rightarrow> nat \<Rightarrow> unit streaming" where
  "sync_activity_stream_sso_users sl fuel =
     ask StreamLock (\<lambda>_. ensuring (do_sync_activity_stream_sso_users sl fuel) (ask StreamUnlock (\<lambda>_. Done ())))"

section \<open>No user is passed over\<close>

text \<open>
  The users that a response names, and those that a history has created or updated, or tried to.
\<close>

definition named_users :: "stream_libs \<Rightarrow> stream_reply \<Rightarrow> sso_identity set" where
  "named_users sl r = {so. \<exists>n s records record. r = Response n s \<and> response_records sl (n, s) = Inr records \<and>
     record \<in> set records \<and> record_identity record = Some so}"

definition created_users :: "(stream_call, stream_reply) history \<Rightarrow> sso_identity set" where
  "created_users h = {so. \<exists>a. (CreateUserFromSso so True, a) \<in> set h}"

lemma created_users_append [simp]:
  "created_users (h @ [(q, a)]) = created_users h \<union> {so. q = CreateUserFromSso so True}"
  by (auto simp: created_users_def)

text \<open>Nothing has been stored, and the users that responses have named are created, but for some.\<close>

definition requested :: "stream_libs \<Rightarrow> (stream_call, stream_reply) history \<Rightarrow> sso_identity set" where
  "requested sl h = {so. \<exists>m u b s c r. (HttpRequest m u b s c, Inr r) \<in> set h \<and> so \<in> named_users sl r}"

lemma requested_append [simp]:
  "requested sl (h @ [(q, a)]) = requested sl h \<union>
     (case (q, a) of (HttpRequest m u b s c, Inr r) \<Rightarrow> named_users sl r | _ \<Rightarrow> {})"
  unfolding requested_def by (cases q; cases a; simp; blast)

definition stored_time :: "(stream_call, stream_reply) history \<Rightarrow> bool" where
  "stored_time h \<longleftrightarrow> (\<exists>t a. (SetLastPublished t, a) \<in> set h)"

lemma stored_time_append [simp]: "stored_time (h @ [(q, a)]) \<longleftrightarrow> stored_time h \<or> (\<exists>t. q = SetLastPublished t)"
  by (auto simp: stored_time_def)

definition owing :: "stream_libs \<Rightarrow> sso_identity set \<Rightarrow> (stream_call, stream_reply) history \<Rightarrow> bool" where
  "owing sl U h \<longleftrightarrow> \<not> stored_time h \<and> requested sl h \<subseteq> created_users h \<union> U"

definition identities :: "json list \<Rightarrow> sso_identity set" where
  "identities records = {so. \<exists>r \<in> set records. record_identity r = Some so}"

lemma identities_simps [simp]:
  "identities [] = {}"
  "identities (r # rs) = set_option (record_identity r) \<union> identities rs"
  by (auto simp: identities_def)

lemma named_users_response:
  "response_records sl x = Inr records \<Longrightarrow> named_users sl (Response (fst x) (snd x)) = identities records"
  by (auto simp: named_users_def identities_def)

lemma named_users_error: "response_records sl x = Inl e \<Longrightarrow> named_users sl (Response (fst x) (snd x)) = {}"
  by (auto simp: named_users_def)

lemma named_users_other [simp]: "named_users sl (Cached t) = {}" "named_users sl Ok = {}"
  by (auto simp: named_users_def)

abbreviation then_owing :: "stream_libs \<Rightarrow> ('b \<Rightarrow> sso_identity set) \<Rightarrow> exc + 'b \<Rightarrow>
    (stream_call, stream_reply) history \<Rightarrow> bool" where
  "then_owing sl U r h \<equiv> (case r of Inl e \<Rightarrow> \<not> stored_time h | Inr x \<Rightarrow> owing sl (U x) h)"

lemma process_record_owing:
  "spec (owing sl (identities (r # rs))) (process_record r) (then_owing sl (\<lambda>_. identities rs))"
proof (cases "record_identity r")
  case None
  then show ?thesis by (auto simp: process_record_def owing_def intro: spec_Fail)
next
  case (Some so)
  then show ?thesis
    by (auto intro!: specI simp: process_record_def exec_handling exec_ask owing_def split: sum.splits if_splits; blast)
qed

lemma process_records_owing:
  "spec (owing sl (identities rs)) (for_each process_record rs) (then_owing sl (\<lambda>_. {}))"
proof (induction rs)
  case Nil
  show ?case by (simp add: spec_Done)
next
  case (Cons r rs)
  show ?case
    unfolding for_each.simps
    by (rule spec_seq [OF process_record_owing]) (use Cons.IH in auto)
qed

lemma hawk_request_owing:
  "spec (owing sl {}) (hawk_request sl m u b)
     (\<lambda>r h. case r of Inl e \<Rightarrow> owing sl {} h | Inr x \<Rightarrow> owing sl (named_users sl (Response (fst x) (snd x))) h)"
proof (rule specI)
  fix env h r h'
  assume h: "owing sl {} h" and x: "exec (hawk_request sl m u b) env h = (r, h')"
  let ?q = "HttpRequest m u b (sl_request_header sl m u b) ''application/json''"
  show "case r of Inl e \<Rightarrow> owing sl {} h' | Inr x \<Rightarrow> owing sl (named_users sl (Response (fst x) (snd x))) h'"
  proof (cases "sl_hawk_id sl = [] \<or> sl_hawk_key sl = []")
    case True
    with h x show ?thesis by (auto simp: hawk_request_def)
  next
    case False
    show ?thesis
    proof (cases "env h ?q")
      case (Inl e)
      with False h x show ?thesis by (auto simp: hawk_request_def exec_ask owing_def)
    next
      case (Inr v)
      with False h x show ?thesis by (cases v) (auto simp: hawk_request_def exec_ask exec_want owing_def)
    qed
  qed
qed

lemma spec_raising:
  assumes "\<And>e h. x = Inl e \<Longrightarrow> P h \<Longrightarrow> Q (Inl e) h" "\<And>v. x = Inr v \<Longrightarrow> spec P (f v) Q"
  shows "spec P (raising x f) Q"
  using assms by (cases x) (auto simp: raising_def intro: spec_Fail)

lemma fetch_pages_owing: "spec (owing sl {}) (fetch_pages sl start fuel lp search_after) (then_owing sl (\<lambda>_. {}))"
proof (induction fuel arbitrary: lp search_after)
  case 0
  show ?case unfolding fetch_pages.simps by (rule spec_Fail) (simp add: owing_def)
next
  case (Suc fuel)
  let ?pending = "\<lambda>r h. case r of Inl e \<Rightarrow> \<not> stored_time h | Inr None \<Rightarrow> owing sl {} h
    | Inr (Some x) \<Rightarrow> owing sl (named_users sl (Response (fst x) (snd x))) h"
  have fetch: "spec (owing sl {}) (handling (seq (hawk_request sl m u b) (\<lambda>r. Done (Some r)))
      (\<lambda>e. e = ''HawkException'') (\<lambda>e. Done None)) ?pending" for m u b
    by (rule spec_handling [where R = "\<lambda>r h. case r of Inl e \<Rightarrow> owing sl {} h
          | Inr None \<Rightarrow> owing sl {} h | Inr (Some x) \<Rightarrow> owing sl (named_users sl (Response (fst x) (snd x))) h",
        OF spec_seq [OF hawk_request_owing]])
      (auto intro: spec_Done simp: owing_def)
  have page: "spec (owing sl (named_users sl (Response (fst x) (snd x))))
      (raising (response_records sl x) (\<lambda>records.
         if records = [] then Done lp
         else seq (for_each process_record records) (\<lambda>_.
           want ''ValueError'' (published sl (last records)) (\<lambda>lp.
           want ''KeyError'' (jget (last records) ''sort'') (\<lambda>s. fetch_pages sl start fuel lp (Some s))))))
      (then_owing sl (\<lambda>_. {}))" for x
  proof (rule spec_raising)
    fix records
    assume r: "response_records sl x = Inr records"
    have more: "spec (owing sl {}) (want ''ValueError'' (published sl (last records)) (\<lambda>lp.
        want ''KeyError'' (jget (last records) ''sort'') (\<lambda>s. fetch_pages sl start fuel lp (Some s))))
        (then_owing sl (\<lambda>_. {}))"
      by (intro spec_want Suc.IH) (auto simp: owing_def)
    show "spec (owing sl (named_users sl (Response (fst x) (snd x))))
      (if records = [] then Done lp
       else seq (for_each process_record records) (\<lambda>_.
         want ''ValueError'' (published sl (last records)) (\<lambda>lp.
         want ''KeyError'' (jget (last records) ''sort'') (\<lambda>s. fetch_pages sl start fuel lp (Some s)))))
      (then_owing sl (\<lambda>_. {}))"
      unfolding named_users_response [OF r]
      by (cases "records = []") (auto intro!: spec_Done spec_seq [OF process_records_owing] simp: more)
  qed (simp add: owing_def)
  show ?case
    unfolding fetch_pages.simps
  proof (rule spec_seq [OF fetch])
    fix r :: "(nat \<times> string) option"
    show "spec (?pending (Inr r)) (case r of None \<Rightarrow> Done lp
       | Some response \<Rightarrow> raising (response_records sl response) (\<lambda>records.
           if records = [] then Done lp
           else seq (for_each process_record records) (\<lambda>_.
             want ''ValueError'' (published sl (last records)) (\<lambda>last_published.
             want ''KeyError'' (jget (last records) ''sort'') (\<lambda>search_after.
               fetch_pages sl start fuel last_published (Some search_after)))))) (then_owing sl (\<lambda>_. {}))"
      using page by (cases r) (auto intro: spec_Done)
  qed simp
qed

text \<open>
  C24: Once the task stores the time up to which it has read the activity stream, it has created or updated, or
  found in conflict with another user, every user that a response of this run has named: a failure on the
  way leaves the stored time as it was, so that the next run reads the same users again.
\<close>

theorem no_user_is_passed_over:
  assumes "exec (sync_activity_stream_sso_users sl fuel) env [] = (r, h)" "(SetLastPublished t, a) \<in> set h"
    and "(HttpRequest m u b s c, Inr (Response n x)) \<in> set h" "response_records sl (n, x) = Inr records"
    and "record \<in> set records" "record_identity record = Some so"
  shows "\<exists>a. (CreateUserFromSso so True, a) \<in> set h"
proof -
  let ?done = "\<lambda>h. stored_time h \<longrightarrow> requested sl h \<subseteq> created_users h"
  have last: "spec (owing sl {}) (ask (SetLastPublished lp) (\<lambda>_. Done ())) (\<lambda>r. ?done)" for lp
    by (rule specI) (auto simp: exec_ask owing_def split: sum.splits)
  have sync: "spec (owing sl {}) (do_sync_activity_stream_sso_users sl fuel) (\<lambda>r. ?done)"
    unfolding do_sync_activity_stream_sso_users_def Let_def
  proof (rule spec_ask)
    fix v
    have pages: "spec (owing sl {}) (seq (fetch_pages sl lp fuel lp None) (\<lambda>lp. ask (SetLastPublished lp) (\<lambda>_. Done ())))
        (\<lambda>r. ?done)" for lp
      by (rule spec_seq [OF fetch_pages_owing]) (use last in auto)
    show "spec (\<lambda>h'. \<exists>h. owing sl {} h \<and> h' = h @ [(LastPublished, Inr v)])
        (want ''TypeError'' (the_cached v) (\<lambda>cached. seq
           (fetch_pages sl (case cached of None \<Rightarrow> 0 | Some t \<Rightarrow> t) fuel (case cached of None \<Rightarrow> 0 | Some t \<Rightarrow> t) None)
           (\<lambda>lp. ask (SetLastPublished lp) (\<lambda>_. Done ())))) (\<lambda>r. ?done)"
      by (rule spec_conseq [where P = "owing sl {}"], rule spec_want) (auto simp: owing_def intro: pages)
  qed (auto simp: owing_def)
  have "spec (\<lambda>h. h = []) (sync_activity_stream_sso_users sl fuel) (\<lambda>r. ?done)"
    unfolding sync_activity_stream_sso_users_def
  proof (rule spec_ask)
    have unlock: "spec ?done (ask StreamUnlock (\<lambda>_. Done ())) (\<lambda>r. ?done)"
      by (rule specI) (auto simp: exec_ask split: sum.splits)
    show "spec (\<lambda>h'. \<exists>h. h = [] \<and> h' = h @ [(StreamLock, Inr v)])
        (ensuring (do_sync_activity_stream_sso_users sl fuel) (ask StreamUnlock (\<lambda>_. Done ()))) (\<lambda>r. ?done)" for v
      by (rule spec_conseq [OF spec_ensuring [OF sync unlock]])
        (auto simp: owing_def stored_time_def requested_def)
  qed (simp add: stored_time_def)
  from spec_exec [OF this _ assms(1)] assms(2) have "requested sl h \<subseteq> created_users h"
    by (auto simp: stored_time_def)
  moreover have "so \<in> requested sl h"
    using assms(3-6) unfolding requested_def named_users_def by blast
  ultimately show ?thesis unfolding created_users_def by blast
qed

text \<open>A stream with one user on its only page.\<close>

definition sample_identity :: sso_identity where
  "sample_identity = \<lparr>so_sso_id = ''s1'', so_primary_email = ''a@b'', so_other_emails = [''a@b''],
     so_first_name = ''A'', so_last_name = ''B''\<rparr>"

definition sample_record :: json where
  "sample_record = JObj [(''_source'', JObj [(''published'', JStr ''t''), (''object'', JObj
     [(''dit:StaffSSO:User:userId'', JStr ''s1''), (''dit:emailAddress'', JList [JStr ''a@b'']),
      (''dit:StaffSSO:User:contactEmailAddress'', JNull), (''dit:firstName'', JStr ''A''),
      (''dit:lastName'', JStr ''B'')])]), (''sort'', JList [JInt 1])]"

definition sample_libs :: stream_libs where
  "sample_libs = \<lparr>sl_hawk_id = ''i'', sl_hawk_key = ''k'', sl_base_url = ''u'',
     sl_request_header = (\<lambda>m u b. ''hawk''), sl_dumps = (\<lambda>v. ''query''),
     sl_loads = (\<lambda>s. Some (JObj [(''_shards'', JObj []),
       (''hits'', JObj [(''hits'', JList (if s = ''page'' then [sample_record] else []))])])),
     sl_strftime = (\<lambda>t. ''time''), sl_strptime = (\<lambda>s. Some 7)\<rparr>"

fun sample_stream :: "(stream_call, stream_reply) services" where
  "sample_stream h LastPublished = Inr (Cached None)"
| "sample_stream h (HttpRequest m u b s c) =
     Inr (Response 200 (if \<exists>(q, a) \<in> set h. case q of CreateUserFromSso so x \<Rightarrow> True | _ \<Rightarrow> False then ''none'' else ''page''))"
| "sample_stream h q = Inr Ok"

theorem no_user_is_passed_over_witness:
  "\<exists>a. (CreateUserFromSso sample_identity True, a) \<in>
     set (snd (exec (sync_activity_stream_sso_users sample_libs 3) sample_stream []))"
proof -
  let ?x = "exec (sync_activity_stream_sso_users sample_libs 3) sample_stream []"
  let ?q = "HttpRequest ''GET'' ''u/v3/activities/_search'' ''query'' ''hawk'' ''application/json''"
  have x: "?x = (fst ?x, snd ?x)" by simp
  have "(SetLastPublished 7, Inr Ok) \<in> set (snd ?x)" "(?q, Inr (Response 200 ''page'')) \<in> set (snd ?x)" by code_simp+
  moreover have "response_records sample_libs (200, ''page'') = Inr [sample_record]"
    "record_identity sample_record = Some sample_identity" by code_simp+
  ultimately show ?thesis using no_user_is_passed_over [OF x] by simp
qed

end
