(* ===== verification/QueryLogs.thy ===== *)
theory QueryLogs
  imports Streaming Effects AppInstances
begin

text \<open>
  \<open>apps/applications/utils.py\<close>: the task that turns the audit log of PostgreSQL into records of who has
  queried which table. Times are microseconds.
\<close>

section \<open>Reading CSV\<close>

text \<open>
  Python's \<open>csv.reader\<close> with its default dialect. Its lines may end with a line break; a quoted field goes on
  in the next line. The limit of 2,000,000 characters is left out.
\<close>

datatype csv_state = StartRecord | StartField | InField | InQuoted | QuoteInQuoted | EatCrnl

type_synonym csv_reader = "csv_state \<times> string \<times> string list"

definition line_break :: "char \<Rightarrow> bool" where
  "line_break c \<longleftrightarrow> c = CR \<or> c = LF"

fun csv_start_field :: "char \<Rightarrow> string \<Rightarrow> string list \<Rightarrow> csv_reader" where
  "csv_start_field c f fs =
     (if line_break c then (EatCrnl, [], fs @ [f])
      else if c = quotes then (InQuoted, f, fs)
      else if c = CHR '','' then (StartField, [], fs @ [f])
      else (InField, f @ [c], fs))"

fun csv_char :: "csv_reader \<Rightarrow> char \<Rightarrow> csv_reader option" where
  "csv_char (StartRecord, f, fs) c = Some (if line_break c then (EatCrnl, f, fs) else csv_start_field c f fs)"
| "csv_char (StartField, f, fs) c = Some (csv_start_field c f fs)"
| "csv_char (InField, f, fs) c = Some
     (if line_break c then (EatCrnl, [], fs @ [f])
      else if c = CHR '','' then (StartField, [], fs @ [f]) else (InField, f @ [c], fs))"
| "csv_char (InQuoted, f, fs) c = Some (if c = quotes then (QuoteInQuoted, f, fs) else (InQuoted, f @ [c], fs))"
| "csv_char (QuoteInQuoted, f, fs) c = Some
     (if c = quotes then (InQuoted, f @ [c], fs)
      else if c = CHR '','' then (StartField, [], fs @ [f])
      else if line_break c then (EatCrnl, [], fs @ [f]) else (InField, f @ [c], fs))"
| "csv_char (EatCrnl, f, fs) c = (if line_break c then Some (EatCrnl, f, fs) else None)"

fun csv_end_of_line :: "csv_reader \<Rightarrow> csv_reader" where
  "csv_end_of_line (StartRecord, f, fs) = (StartRecord, f, fs)"
| "csv_end_of_line (InQuoted, f, fs) = (InQuoted, f, fs)"
| "csv_end_of_line (EatCrnl, f, fs) = (StartRecord, f, fs)"
| "csv_end_of_line (st, f, fs) = (StartRecord, [], fs @ [f])"

fun csv_chars :: "csv_reader \<Rightarrow> string \<Rightarrow> csv_reader option" where
  "csv_chars r [] = Some r"
| "csv_chars r (c # cs) = Option.bind (csv_char r c) (\<lambda>r. csv_chars r cs)"

fun csv_records :: "csv_reader \<Rightarrow> string list \<Rightarrow> string list list option" where
  "csv_records (st, f, fs) [] = Some (if f \<noteq> [] \<or> st = InQuoted then [fs @ [f]] else [])"
| "csv_records r (l # ls) = Option.bind (csv_chars r l) (\<lambda>r. case csv_end_of_line r of
     (StartRecord, f, fs) \<Rightarrow> map_option (Cons fs) (csv_records (StartRecord, [], []) ls)
   | r \<Rightarrow> csv_records r ls)"

text \<open>\<open>csv.DictReader\<close>: blank rows are left out, and what is missing at the end of a row is \<open>None\<close>.\<close>

type_synonym log_line = "(string \<times> string option) list"

definition dict_row :: "string list \<Rightarrow> string list \<Rightarrow> log_line" where
  "dict_row fieldnames row = zip fieldnames (map Some row @ replicate (length fieldnames - length row) None)"

definition dict_reader :: "string list \<Rightarrow> string list \<Rightarrow> log_line list option" where
  "dict_reader fieldnames lines =
     map_option (\<lambda>rows. map (dict_row fieldnames) (filter (\<lambda>r. r \<noteq> []) rows)) (csv_records (StartRecord, [], []) lines)"

definition look :: "log_line \<Rightarrow> string \<Rightarrow> string option" where
  "look line k = Option.bind (map_of line k) id"

section \<open>Noise\<close>

text \<open>
  The patterns of the statements that are not recorded, as sequences of atoms; all are anchored at both ends,
  the case of letters does not matter, and the text has no line breaks. An empty pair of parentheses in a
  pattern is an empty group and matches nothing.
\<close>

text \<open>Letters, digits and the underscore, among the characters below 256.\<close>

definition is_digit :: "char \<Rightarrow> bool" where
  "is_digit c \<longleftrightarrow> (let n = of_char c :: nat in 48 \<le> n \<and> n \<le> 57)"

definition is_word :: "char \<Rightarrow> bool" where
  "is_word c \<longleftrightarrow> (let n = of_char c :: nat in is_digit c \<or> 65 \<le> n \<and> n \<le> 90 \<or> 97 \<le> n \<and> n \<le> 122 \<or> n = 95 \<or>
     n \<in> {170, 178, 179, 181, 185, 186, 188, 189, 190} \<or> 192 \<le> n \<and> n \<noteq> 215 \<and> n \<noteq> 247)"

datatype rx_class = Literal char | Digit | WordChar | AnyChar

fun accepts :: "rx_class \<Rightarrow> char \<Rightarrow> bool" where
  "accepts (Literal c) d = (lower_char d = lower_char c)"
| "accepts Digit d = is_digit d"
| "accepts WordChar d = is_word d"
| "accepts AnyChar d = True"

datatype rx = One rx_class | Maybe rx_class | Many rx_class

fun matches :: "rx list \<Rightarrow> string \<Rightarrow> bool" where
  "matches [] s = (s = [])"
| "matches (One p # r) s = (case s of [] \<Rightarrow> False | c # cs \<Rightarrow> accepts p c \<and> matches r cs)"
| "matches (Maybe p # r) s = (matches r s \<or> (case s of [] \<Rightarrow> False | c # cs \<Rightarrow> accepts p c \<and> matches r cs))"
| "matches (Many p # r) [] = matches r []"
| "matches (Many p # r) (c # cs) = (matches r (c # cs) \<or> accepts p c \<and> matches (Many p # r) cs)"

definition literally :: "string \<Rightarrow> rx list" where
  "literally s = map (\<lambda>c. One (Literal c)) s"

definition in_quotes :: "rx list \<Rightarrow> rx list" where
  "in_quotes r = [One (Literal (CHR 39))] @ r @ [One (Literal (CHR 39))]"

definition some_of :: "rx_class \<Rightarrow> rx list" where
  "some_of p = [One p, Many p]"

definition maybe :: "char \<Rightarrow> rx list" where
  "maybe c = [Maybe (Literal c)]"

definition PGAUDIT_IGNORE_STATEMENTS_RE :: "rx list list" where
  "PGAUDIT_IGNORE_STATEMENTS_RE =
    [literally ''SELECT version'' @ maybe (CHR '';''),
     literally ''SELECT current_schema'' @ maybe (CHR '';''),
     literally ''SELECT CAST('' @ in_quotes [Many AnyChar] @ literally '' AS VARCHAR('' @ some_of Digit @
       literally '')) AS '' @ [One WordChar] @ maybe (CHR '';''),
     literally ''SELECT table_schema, table_name'' @ maybe (CHR '' '') @ literally ''FROM information_schema'' @
       [One AnyChar] @ literally ''tables'' @ maybe (CHR '' '') @ literally ''WHERE table_schema not in '' @
       [Many AnyChar] @ literally ''ORDER BY table_schema, table_name;'',
     literally ''BEGIN'' @ maybe (CHR '';''),
     literally ''ROLLBACK'' @ maybe (CHR '';''),
     literally ''COMMIT'' @ maybe (CHR '';''),
     literally ''FETCH FORWARD '' @ some_of Digit @ literally '' FROM '' @ [One (Literal quotes)] @
       some_of WordChar @ [One (Literal quotes)] @ maybe (CHR '';''),
     literally ''SHOW STANDARD_CONFORMING_STRINGS'' @ maybe (CHR '';''),
     literally ''SHOW TRANSACTION ISOLATION LEVEL'' @ maybe (CHR '';''),
     literally ''SET STATEMENT_TIMEOUT = '' @ some_of Digit @ maybe (CHR '';''),
     literally ''SET TIMEZONE='' @ in_quotes (some_of WordChar) @ maybe (CHR '';''),
     literally ''SET CLIENT_ENCODING TO '' @ in_quotes [Many AnyChar] @ maybe (CHR '';'')]"

definition ignored :: "string \<Rightarrow> bool" where
  "ignored statement = (let s = strip (map (\<lambda>c. if c = LF then CHR '' '' else c) statement)
     in list_ex (\<lambda>r. matches r s) PGAUDIT_IGNORE_STATEMENTS_RE)"

text \<open>The statement of the first pattern is \<open>SELECT version\<close>: a call of the function is not ignored.\<close>

lemma calls_of_version_are_recorded: "\<not> ignored ''SELECT version()'' \<and> ignored ''select VERSION;''"
  by code_simp

lemma commits_are_ignored: "ignored (''COMMIT;'' @ [LF]) \<and> ignored ''FETCH FORWARD 2000 FROM \"c_1\"'' \<and> \<not> ignored ''SELECT 1''"
  by code_simp

section \<open>Lines of the log\<close>

definition POSTGRES_LOG_HEADERS :: "string list" where
  "POSTGRES_LOG_HEADERS = [''log_time'', ''user_name'', ''database_name'', ''process_id'', ''connection_from'',
     ''session_id'', ''session_line_num'', ''command_tag'', ''session_start_time'', ''virtual_transaction_id'',
     ''transaction_id'', ''error_severity'', ''sql_state_code'', ''message'', ''detail'', ''hint'', ''internal_query'',
     ''internal_query_pos'', ''context'', ''query'', ''query_pos'', ''location'']"

definition PGAUDIT_LOG_HEADERS :: "string list" where
  "PGAUDIT_LOG_HEADERS = [''audit_type'', ''statement_id'', ''substatement_id'', ''class'', ''command'', ''object_type'',
     ''object_name'', ''statement'', ''parameter'', ''connection_from'']"

text \<open>The message of an audit line is itself CSV, and its fields come before those of the line.\<close>

definition with_audit_fields :: "log_line \<Rightarrow> string \<Rightarrow> string \<Rightarrow> exc + log_line" where
  "with_audit_fields line message connection_from =
     (case dict_reader PGAUDIT_LOG_HEADERS [drop 7 message @ '','' @ connection_from] of
        None \<Rightarrow> Inl ''Error''
      | Some [] \<Rightarrow> Inl ''StopIteration''
      | Some (row # rows) \<Rightarrow> Inr (row @ line))"

text \<open>The fields and the time of an audit line; \<open>strptime\<close> reads times, and what it cannot read is passed over.\<close>

definition audit_line :: "(string \<Rightarrow> int option) \<Rightarrow> log_line \<Rightarrow> exc + (int \<times> log_line) option" where
  "audit_line strptime line =
     (case look line ''message'' of
        None \<Rightarrow> Inr None
      | Some message \<Rightarrow>
          if \<not> startswith message ''AUDIT:'' then Inr None
          else case look line ''connection_from'' of None \<Rightarrow> Inl ''TypeError'' | Some connection_from \<Rightarrow>
          (case with_audit_fields line message connection_from of Inl e \<Rightarrow> Inl e | Inr line \<Rightarrow>
          (case look line ''log_time'' of None \<Rightarrow> Inl ''TypeError'' | Some log_time \<Rightarrow>
             Inr (map_option (\<lambda>t. (t, line)) (strptime log_time)))))"

definition in_window :: "int \<Rightarrow> int \<Rightarrow> int \<times> log_line \<Rightarrow> exc + (int \<times> log_line) option" where
  "in_window from_date to_date = (\<lambda>(t, line).
     if t \<le> from_date \<or> t > to_date then Inr None
     else case look line ''statement'' of None \<Rightarrow> Inl ''AttributeError''
       | Some statement \<Rightarrow> Inr (if ignored statement then None else Some (t, line)))"

definition parse_log_line :: "(string \<Rightarrow> int option) \<Rightarrow> int \<Rightarrow> int \<Rightarrow> log_line \<Rightarrow> exc + (int \<times> log_line) option" where
  "parse_log_line strptime from_date to_date line =
     (case audit_line strptime line of Inl e \<Rightarrow> Inl e | Inr None \<Rightarrow> Inr None
      | Inr (Some x) \<Rightarrow> in_window from_date to_date x)"

fun parse_postgres_log ::
  "(string \<Rightarrow> int option) \<Rightarrow> int \<Rightarrow> int \<Rightarrow> log_line list \<Rightarrow> exc + (int \<times> log_line) list" where
  "parse_postgres_log strptime from_date to_date [] = Inr []"
| "parse_postgres_log strptime from_date to_date (line # lines) =
     (case parse_log_line strptime from_date to_date line of
        Inl e \<Rightarrow> Inl e
      | Inr r \<Rightarrow> (case parse_postgres_log strptime from_date to_date lines of
            Inl e \<Rightarrow> Inl e
          | Inr rs \<Rightarrow> Inr (case r of None \<Rightarrow> rs | Some x \<Rightarrow> x # rs)))"

section \<open>The task\<close>

record audit_log =
  au_user :: nat
  au_database :: string
  au_rolename :: string
  au_query_sql :: string
  au_timestamp :: int
  au_connection_from :: "string option"

datatype logs_call =
    LogsLock
  | LogsUnlock
  | LastRun
  | SetLastRun int
  | ListLogs
  | ReadLog string
  | DescribeLogFiles int
  | DownloadPortion string string
  | CreateAuditLog audit_log
  | CreateAuditView string string
  | SelectViewTables string
  | CreateAuditTable audit_log string string
  | DropAuditView string

datatype logs_reply =
    LastRunAt "int option"
  | LogFiles "(string \<times> int) list"
  | LogLines "string list"
  | LogNames "string list"
  | LogPortion string string bool
  | ViewTables "(string \<times> string) list"
  | NoAnswer

type_synonym 'a logging = "(logs_call, logs_reply, 'a) prog"

fun last_run_at :: "logs_reply \<Rightarrow> int option option" where
  "last_run_at (LastRunAt t) = Some t"
| "last_run_at _ = None"

fun log_files :: "logs_reply \<Rightarrow> (string \<times> int) list option" where
  "log_files (LogFiles fs) = Some fs"
| "log_files _ = None"

fun log_lines :: "logs_reply \<Rightarrow> string list option" where
  "log_lines (LogLines ls) = Some ls"
| "log_lines _ = None"

fun log_names :: "logs_reply \<Rightarrow> string list option" where
  "log_names (LogNames ns) = Some ns"
| "log_names _ = None"

fun log_portion :: "logs_reply \<Rightarrow> (string \<times> string \<times> bool) option" where
  "log_portion (LogPortion d m p) = Some (d, m, p)"
| "log_portion _ = None"

fun view_tables :: "logs_reply \<Rightarrow> (string \<times> string) list option" where
  "view_tables (ViewTables ts) = Some ts"
| "view_tables _ = None"

text \<open>
  The settings: the time reader, the databases by name and key, the kind of log; and the tables of databases
  and of database users, with owner and name, of those that are not deleted, in the order of their keys.
\<close>

record logs_input =
  li_strptime :: "string \<Rightarrow> int option"
  li_database_keys :: "(string \<times> string) list"
  li_docker :: bool
  li_databases :: "string list"
  li_db_users :: "(nat \<times> string) list"

definition parsed_logs :: "logs_input \<Rightarrow> int \<Rightarrow> int \<Rightarrow> string list \<Rightarrow> (int \<times> log_line) list logging" where
  "parsed_logs li from_date to_date lines =
     want ''Error'' (dict_reader POSTGRES_LOG_HEADERS lines) (\<lambda>rows.
       case parse_postgres_log (li_strptime li) from_date to_date rows of Inl e \<Rightarrow> Fail e | Inr logs \<Rightarrow> Done logs)"

definition fetch_docker_pgaudit_logs :: "logs_input \<Rightarrow> int \<Rightarrow> int \<Rightarrow> (int \<times> log_line) list logging" where
  "fetch_docker_pgaudit_logs li from_date to_date =
     ask ListLogs (\<lambda>r. want ''OSError'' (log_files r) (\<lambda>files.
       seq (collect (\<lambda>(filename, last_modified).
           if \<not> endswith filename ''.csv'' \<or> last_modified \<le> from_date \<or> last_modified > to_date then Done []
           else ask (ReadLog (''/var/log/postgres/'' @ filename)) (\<lambda>r. want ''OSError'' (log_lines r)
             (parsed_logs li from_date to_date))) files)
         (\<lambda>logs. Done (concat logs))))"

text \<open>The portions of a file; the fuel bounds their number.\<close>

primrec fetch_portions :: "logs_input \<Rightarrow> int \<Rightarrow> int \<Rightarrow> string \<Rightarrow> nat \<Rightarrow> string \<Rightarrow> (int \<times> log_line) list logging" where
  "fetch_portions li from_date to_date file_name 0 marker = Fail ''fuel''"
| "fetch_portions li from_date to_date file_name (Suc fuel) marker =
     ask (DownloadPortion file_name marker) (\<lambda>r. want ''KeyError'' (log_portion r) (\<lambda>(data, marker, pending).
       seq (parsed_logs li from_date to_date (split data [LF])) (\<lambda>logs.
         if \<not> pending then Done logs
         else seq (fetch_portions li from_date to_date file_name fuel marker) (\<lambda>more. Done (logs @ more)))))"

definition fetch_rds_pgaudit_logs :: "logs_input \<Rightarrow> int \<Rightarrow> int \<Rightarrow> nat \<Rightarrow> (int \<times> log_line) list logging" where
  "fetch_rds_pgaudit_logs li from_date to_date fuel =
     ask (DescribeLogFiles (from_date div 1000)) (\<lambda>r. want ''KeyError'' (log_names r) (\<lambda>names.
       seq (collect (\<lambda>n. fetch_portions li from_date to_date n fuel ''0'') names) (\<lambda>logs. Done (concat logs))))"

definition log_database :: "logs_input \<Rightarrow> log_line \<Rightarrow> string option" where
  "log_database li line = Option.bind (look line ''database_name'') (\<lambda>n.
     Option.bind (map_of (rev (li_database_keys li)) n) (\<lambda>k. if k \<in> set (li_databases li) then Some k else None))"

definition log_user :: "logs_input \<Rightarrow> log_line \<Rightarrow> (nat \<times> string) option" where
  "log_user li line = Option.bind (look line ''user_name'') (\<lambda>u. find (\<lambda>(owner, name). name = u) (li_db_users li))"

definition audit_log_of :: "nat \<times> string \<Rightarrow> string \<Rightarrow> int \<times> log_line \<Rightarrow> audit_log" where
  "audit_log_of = (\<lambda>(owner, rolename) database (t, line).
     \<lparr>au_user = owner, au_database = database, au_rolename = rolename,
      au_query_sql = (case look line ''statement'' of None \<Rightarrow> [] | Some s \<Rightarrow> s), au_timestamp = t,
      au_connection_from = map_option (\<lambda>c. hd (split c '':'')) (look line ''connection_from'')\<rparr>)"

text \<open>The tables of a query are those of a view of it; a query that is no query has none.\<close>

definition record_tables :: "audit_log \<Rightarrow> unit logging" where
  "record_tables audit = (let db = au_database audit in
     seq (handling (ask (CreateAuditView db (rstrip_char (CHR '';'') (strip (au_query_sql audit)))) (\<lambda>_. Done True))
         (\<lambda>e. e = ''DatabaseError'') (\<lambda>e. Done False)) (\<lambda>viewed.
       if \<not> viewed then Done ()
       else ask (SelectViewTables db) (\<lambda>r. want ''TypeError'' (view_tables r) (\<lambda>tables.
         seq (for_each (\<lambda>(schema, table). ask (CreateAuditTable audit schema table) (\<lambda>_. Done ())) tables)
           (\<lambda>_. ask (DropAuditView db) (\<lambda>_. Done ()))))))"

definition sync_log :: "logs_input \<Rightarrow> int \<times> log_line \<Rightarrow> unit logging" where
  "sync_log li = (\<lambda>(t, line).
     case log_database li line of None \<Rightarrow> Done () | Some database \<Rightarrow>
     (case log_user li line of None \<Rightarrow> Done () | Some db_user \<Rightarrow>
       let audit = audit_log_of db_user database (t, line) in
       seq (handling (ask (CreateAuditLog audit) (\<lambda>_. Done True)) (\<lambda>e. e = ''IntegrityError'') (\<lambda>e. Done False))
         (\<lambda>created. if created then record_tables audit else Done ())))"

definition do_sync_tool_query_logs :: "logs_input \<Rightarrow> nat \<Rightarrow> int \<Rightarrow> int \<Rightarrow> unit logging" where
  "do_sync_tool_query_logs li fuel now to_date =
     ask LastRun (\<lambda>r. want ''TypeError'' (last_run_at r) (\<lambda>last_run.
       let from_date = (case last_run of None \<Rightarrow> now - 5 * 60 * 1000000 | Some t \<Rightarrow> t) in
       seq (if li_docker li then fetch_docker_pgaudit_logs li from_date to_date
            else fetch_rds_pgaudit_logs li from_date to_date fuel) (\<lambda>logs.
       seq (for_each (sync_log li) logs) (\<lambda>_. ask (SetLastRun to_date) (\<lambda>_. Done ())))))"

definition sync_tool_query_logs :: "logs_input \<Rightarrow> nat \<Rightarrow> bool \<Rightarrow> int \<Rightarrow> int \<Rightarrow> unit logging" where
  "sync_tool_query_logs li fuel switch_is_active now to_date =
     (if switch_is_active
      then handling (ask LogsLock (\<lambda>_. ensuring (do_sync_tool_query_logs li fuel now to_date)
          (ask LogsUnlock (\<lambda>_. Done ())))) (\<lambda>e. e = ''LockError'') (\<lambda>e. Done ())
      else Done ())"

section \<open>Fields that span lines\<close>

lemma csv_records_char:
  assumes "c \<noteq> LF"
  shows "csv_records r (split (c # t) [LF]) = Option.bind (csv_char r c) (\<lambda>r. csv_records r (split t [LF]))"
proof (cases "split t [LF]")
  case (Cons l ls)
  with assms show ?thesis by (cases r; cases "csv_char r c") (simp_all add: split_char_Cons)
qed simp

lemma csv_records_break:
  "csv_records (InQuoted, f, fs) (split (LF # t) [LF]) = csv_records (InQuoted, f, fs) (split t [LF])"
  by (simp add: split_char_Cons)

text \<open>Inside of quotes, the breaks between lines are lost when the lines do not contain them.\<close>

lemma csv_records_quoted:
  "csv_records (InQuoted, f, fs) (split (escape_quotes s @ quotes # rest) [LF]) =
     csv_records (QuoteInQuoted, f @ filter (\<lambda>c. c \<noteq> LF) s, fs) (split rest [LF])"
proof (induction s arbitrary: f)
  case Nil
  show ?case by (simp add: escape_quotes_def csv_records_char)
next
  case (Cons c s)
  have e: "escape_quotes (c # s) = (if c = quotes then [c, c] else [c]) @ escape_quotes s"
    by (simp add: escape_quotes_def)
  show ?case
    using Cons.IH [of f] Cons.IH [of "f @ [c]"] by (auto simp: e csv_records_char csv_records_break)
qed

definition quoted_row :: "string list \<Rightarrow> string" where
  "quoted_row row = join '','' (map (\<lambda>f. quotes # escape_quotes f @ [quotes]) row)"

lemma quoted_row_simps:
  "quoted_row [f] = quotes # escape_quotes f @ [quotes]"
  "row \<noteq> [] \<Longrightarrow> quoted_row (f # row) = quotes # escape_quotes f @ quotes # CHR '','' # quoted_row row"
  by (auto simp: quoted_row_def join_Cons)

lemma line_break_quotes [simp]: "\<not> line_break quotes" "\<not> line_break (CHR '','')" "CHR '','' \<noteq> LF" "LF \<noteq> CHR '',''"
  by (simp_all add: line_break_def) (simp_all add: LF_def CR_def)

lemma csv_records_row:
  "row \<noteq> [] \<Longrightarrow> st \<in> {StartRecord, StartField} \<Longrightarrow>
   csv_records (st, [], fs) (split (quoted_row row) [LF]) = Some [fs @ map (filter (\<lambda>c. c \<noteq> LF)) row]"
proof (induction row arbitrary: st fs)
  case (Cons f row)
  show ?case
  proof (cases "row = []")
    case True
    with Cons.prems show ?thesis
      using csv_records_quoted [of "[]" fs f "[]"] by (auto simp: quoted_row_simps csv_records_char)
  next
    case False
    with Cons show ?thesis
      using csv_records_quoted [of "[]" fs f "CHR '','' # quoted_row row"]
      by (auto simp: quoted_row_simps csv_records_char)
  qed
qed simp

text \<open>
  A row of quoted fields that comes from RDS, whose text is split at the line breaks, is read back as one
  row of the log, but without the line breaks inside of its fields: the last word of a line of a query and
  the first word of the next one are run together.
\<close>

theorem lines_of_queries_are_run_together:
  assumes "row \<noteq> []"
  shows "parsed_logs li from_date to_date (split (quoted_row row) [LF]) =
    (case parse_postgres_log (li_strptime li) from_date to_date
        [dict_row POSTGRES_LOG_HEADERS (map (filter (\<lambda>c. c \<noteq> LF)) row)] of
       Inl e \<Rightarrow> Fail e | Inr logs \<Rightarrow> Done logs)"
  using assms csv_records_row [OF assms, of StartRecord "[]"] by (simp add: parsed_logs_def dict_reader_def)

theorem lines_of_queries_are_run_together_witness:
  "\<forall>li from_date to_date.
    parsed_logs li from_date to_date (split (quoted_row [''a'' @ [LF] @ ''b'', ''x'']) [LF]) =
    (case parse_postgres_log (li_strptime li) from_date to_date [dict_row POSTGRES_LOG_HEADERS [''ab'', ''x'']] of
       Inl e \<Rightarrow> Fail e | Inr logs \<Rightarrow> Done logs)"
proof (intro allI)
  fix li from_date to_date
  have m: "map (filter (\<lambda>c. c \<noteq> LF)) [''a'' @ [LF] @ ''b'', ''x''] = [''ab'', ''x'']" by (simp add: LF_def)
  have n: "[''a'' @ [LF] @ ''b'', ''x''] \<noteq> []" by simp
  show "parsed_logs li from_date to_date (split (quoted_row [''a'' @ [LF] @ ''b'', ''x'']) [LF]) =
    (case parse_postgres_log (li_strptime li) from_date to_date [dict_row POSTGRES_LOG_HEADERS [''ab'', ''x'']] of
       Inl e \<Rightarrow> Fail e | Inr logs \<Rightarrow> Done logs)"
    using lines_of_queries_are_run_together [OF n, of li from_date to_date] unfolding m .
qed

section \<open>Windows\<close>

lemma in_window_narrow:
  assumes "in_window a c x = Inr r" "a \<le> a'" "c' \<le> c"
  shows "in_window a' c' x = Inr (case r of None \<Rightarrow> None
    | Some (t, l) \<Rightarrow> if a' < t \<and> t \<le> c' then Some (t, l) else None)"
  using assms by (cases x) (auto simp: in_window_def split: option.splits if_splits)

lemma parse_log_line_narrow:
  assumes "parse_log_line strptime a c line = Inr r" "a \<le> a'" "c' \<le> c"
  shows "parse_log_line strptime a' c' line = Inr (case r of None \<Rightarrow> None
    | Some (t, l) \<Rightarrow> if a' < t \<and> t \<le> c' then Some (t, l) else None)"
  using assms by (auto simp: parse_log_line_def in_window_narrow split: option.splits sum.splits)

lemma parse_log_line_window:
  "parse_log_line strptime a c line = Inr (Some (t, l)) \<Longrightarrow> a < t \<and> t \<le> c"
  by (auto simp: parse_log_line_def in_window_def split: option.splits sum.splits if_splits)

text \<open>
  The runs of the task cut the log into windows that neither overlap nor leave a gap: what a run over
  two windows would record is recorded in the one or the other, in the same order and with the same content.
\<close>

theorem windows_of_runs:
  assumes "parse_postgres_log strptime a c lines = Inr logs" "a \<le> b" "b \<le> c"
  shows "parse_postgres_log strptime a b lines = Inr (filter (\<lambda>(t, l). t \<le> b) logs) \<and>
    parse_postgres_log strptime b c lines = Inr (filter (\<lambda>(t, l). \<not> t \<le> b) logs)"
  using assms(1)
proof (induction lines arbitrary: logs)
  case (Cons line lines)
  then obtain r rs where r: "parse_log_line strptime a c line = Inr r" and rs: "parse_postgres_log strptime a c lines = Inr rs"
    and logs: "logs = (case r of None \<Rightarrow> rs | Some x \<Rightarrow> x # rs)" by (auto split: sum.splits)
  have w: "a < t \<and> t \<le> c" if "r = Some (t, l)" for t l
    using r that parse_log_line_window by blast
  show ?case
    using Cons.IH [OF rs] w parse_log_line_narrow [OF r order_refl assms(3)] parse_log_line_narrow [OF r assms(2) order_refl] assms(2,3)
    by (cases r) (auto simp: logs)
qed simp

definition sample_line :: "string \<Rightarrow> log_line" where
  "sample_line log_time = [(''log_time'', Some log_time), (''connection_from'', Some ''10.0.0.1:5''),
     (''message'', Some ''AUDIT: SESSION,1,1,READ,SELECT,,,SELECT 1,none'')]"

theorem windows_of_runs_witness:
  "let strptime = (\<lambda>s. if s = ''early'' then Some 5 else Some 15); lines = [sample_line ''early'', sample_line ''late'']
   in map_sum id (map fst) (parse_postgres_log strptime 0 10 lines) = Inr [5] \<and>
      map_sum id (map fst) (parse_postgres_log strptime 10 20 lines) = Inr [15]"
proof -
  let ?strptime = "\<lambda>s. if s = ''early'' then Some 5 else Some (15 :: int)"
  let ?lines = "[sample_line ''early'', sample_line ''late'']"
  have "map_sum id (map fst) (parse_postgres_log ?strptime 0 20 ?lines) = Inr [5, 15]" by code_simp
  then obtain logs where logs: "parse_postgres_log ?strptime 0 20 ?lines = Inr logs" "map fst logs = [5, 15]"
    by (cases "parse_postgres_log ?strptime 0 20 ?lines") auto
  then obtain l l' where "logs = [(5, l), (15, l')]" by auto
  with windows_of_runs [OF logs(1), of 10] show ?thesis by simp
qed

end
