(* ===== verification/Reports.thy ===== *)
theory Reports
  imports Spawner AppInstances
begin

text \<open>
  \<open>apps/applications/utils.py\<close>: what is sent to the dashboards about the tools that run, and the warning about
  queries that take long, and the log of a visualisation. Times are microseconds.
\<close>

section \<open>Calls\<close>

text \<open>A task of ECS; the fields that may be missing are options.\<close>

record ecs_task =
  et_last_status :: string
  et_task_role_arn :: "string option"
  et_group :: string
  et_created_at :: int
  et_started_at :: "int option"
  et_stopped_reason :: "string option"

datatype report_call =
    ListTasks string string
  | DescribeTasks string "string list"
  | PutJson string json
  | ExecuteSql string
  | PostSlack string string
  | GetLogEvents string string "string option"

datatype report_reply = TaskArns "string list" | Tasks "ecs_task list" | RowCount nat | Sent
  | LogEvents "string option" "json list option"

type_synonym 'a reporting = "(report_call, report_reply, 'a) prog"

fun the_task_arns :: "report_reply \<Rightarrow> string list option" where
  "the_task_arns (TaskArns as) = Some as"
| "the_task_arns _ = None"

fun the_tasks :: "report_reply \<Rightarrow> ecs_task list option" where
  "the_tasks (Tasks ts) = Some ts"
| "the_tasks _ = None"

fun the_count :: "report_reply \<Rightarrow> nat option" where
  "the_count (RowCount n) = Some n"
| "the_count _ = None"

fun the_log_events :: "report_reply \<Rightarrow> (string option \<times> json list option) option" where
  "the_log_events (LogEvents t es) = Some (t, es)"
| "the_log_events _ = None"

text \<open>The environment, the offset of the time zone of the dates of the client, and \<open>isoformat\<close>.\<close>

record report_settings =
  rp_cluster :: string
  rp_role_prefix :: string
  rp_endpoint :: string
  rp_time_zone :: int
  rp_isoformat :: "int \<Rightarrow> string"

section \<open>Tasks\<close>

definition tasks_with_status :: "report_settings \<Rightarrow> string \<Rightarrow> ecs_task list reporting" where
  "tasks_with_status rp desired =
     ask (ListTasks (rp_cluster rp) desired) (\<lambda>r. want ''KeyError'' (the_task_arns r) (\<lambda>arns.
       if arns = [] then Done []
       else ask (DescribeTasks (rp_cluster rp) arns) (\<lambda>r. want ''KeyError'' (the_tasks r) Done)))"

definition running_tasks :: "report_settings \<Rightarrow> ecs_task list reporting" where
  "running_tasks rp = seq (tasks_with_status rp ''RUNNING'')
     (\<lambda>pending_tasks. Done (filter (\<lambda>t. et_last_status t = ''RUNNING'') pending_tasks))"

definition put_dataset :: "report_settings \<Rightarrow> string \<Rightarrow> json \<Rightarrow> json option \<Rightarrow> unit reporting" where
  "put_dataset rp name schema data =
     ask (PutJson (rp_endpoint rp @ name) (JObj [(''fields'', schema)])) (\<lambda>_.
     want ''KeyError'' data (\<lambda>data.
     ask (PutJson (rp_endpoint rp @ name @ ''/data'') (JObj [(''data'', data)])) (\<lambda>_. Done ())))"

definition field :: "string \<Rightarrow> string \<Rightarrow> json" where
  "field ty name = JObj [(''type'', JStr ty), (''name'', JStr name)]"

definition duration_field :: json where
  "duration_field = JObj [(''type'', JStr ''duration''), (''time_unit'', JStr ''seconds''), (''name'', JStr ''Time Taken'')]"

definition report_running_tools :: "report_settings \<Rightarrow> unit reporting" where
  "report_running_tools rp = seq (running_tasks rp) (\<lambda>ts.
     put_dataset rp ''tools.running'' (JObj [(''count'', field ''number'' ''Count'')])
       (Some (JList [JObj [(''count'', JInt (int (length ts)))]])))"

section \<open>Users and tools\<close>

definition user_of_task :: "report_settings \<Rightarrow> ecs_task \<Rightarrow> string option" where
  "user_of_task rp t = map_option (\<lambda>arn. replace_str (drop 31 arn) (rp_role_prefix rp) []) (et_task_role_arn t)"

definition tool_of_task :: "report_settings \<Rightarrow> ecs_task \<Rightarrow> string" where
  "tool_of_task rp t = (let s = replace_str (et_group t)
       (''family:'' @ replace_str (rp_cluster rp) ''-notebooks'' [] @ ''-'') [] in take (length s - 9) s)"

definition failed_row :: "report_settings \<Rightarrow> ecs_task \<Rightarrow> json option" where
  "failed_row rp t = Option.bind (user_of_task rp t) (\<lambda>user. map_option (\<lambda>reason.
     JObj [(''user'', JStr user), (''tool'', JStr (tool_of_task rp t)),
       (''time_started'', JStr (rp_isoformat rp (et_created_at t))), (''stopped_reason'', JStr reason)])
     (et_stopped_reason t))"

definition report_failed_tools :: "report_settings \<Rightarrow> unit reporting" where
  "report_failed_tools rp = seq (tasks_with_status rp ''STOPPED'') (\<lambda>ts.
     put_dataset rp ''tools.failed'' (JObj [(''user'', field ''string'' ''User''), (''tool'', field ''string'' ''Tool''),
         (''time_started'', field ''datetime'' ''Time started''), (''stopped_reason'', field ''string'' ''Reason'')])
       (if \<exists>t \<in> set ts. et_stopped_reason t = None then None
        else map_option JList (those (map (failed_row rp)
          (filter (\<lambda>t. et_stopped_reason t \<noteq> Some ''Task stopped by user'') ts)))))"

section \<open>Durations\<close>

text \<open>\<open>timedelta.seconds\<close>, which leaves out whole days, and \<open>strftime('%H')\<close>, which has two digits.\<close>

definition seconds :: "int \<Rightarrow> int" where
  "seconds delta = (delta div 1000000) mod 86400"

definition two_digits :: "nat \<Rightarrow> string" where
  "two_digits n = (if n < 10 then ''0'' else []) @ str_nat n"

definition hour_of_day :: "report_settings \<Rightarrow> int \<Rightarrow> nat" where
  "hour_of_day rp t = nat (((t + rp_time_zone rp) div 3600000000) mod 24)"

type_synonym duration = "int \<times> string"

definition duration_of :: "report_settings \<Rightarrow> ecs_task \<Rightarrow> duration option" where
  "duration_of rp t = map_option (\<lambda>started_at. (seconds (started_at - et_created_at t),
     two_digits (hour_of_day rp started_at))) (et_started_at t)"

text \<open>A bucket for each hour that is missing: the hours of the tasks are looked up without leading zeros.\<close>

definition with_all_hours :: "duration list \<Rightarrow> duration list" where
  "with_all_hours data = data @ map (\<lambda>x. (0, two_digits x)) (filter (\<lambda>x. str_nat x \<notin> snd ` set data) [0..<24])"

definition duration_json :: "duration \<Rightarrow> json" where
  "duration_json = (\<lambda>(time_taken, hour). JObj [(''time_taken'', JInt time_taken), (''hour_of_day'', JStr hour)])"

definition report_tool_average_start_times :: "report_settings \<Rightarrow> unit reporting" where
  "report_tool_average_start_times rp = seq (running_tasks rp) (\<lambda>ts.
     put_dataset rp ''tools.durations'' (JObj [(''time_taken'', duration_field), (''hour_of_day'', field ''string'' ''Hour'')])
       (map_option (\<lambda>data. JList (map duration_json (with_all_hours data))) (those (map (duration_of rp) ts))))"

definition recent_row :: "report_settings \<Rightarrow> ecs_task \<times> int \<Rightarrow> json option" where
  "recent_row rp = (\<lambda>(t, started_at). map_option (\<lambda>user.
     JObj [(''user'', JStr user), (''tool'', JStr (tool_of_task rp t)),
       (''time_started'', JStr (rp_isoformat rp (et_created_at t))),
       (''time_taken'', JInt (seconds (started_at - et_created_at t)))]) (user_of_task rp t))"

definition report_recent_tool_start_times :: "report_settings \<Rightarrow> unit reporting" where
  "report_recent_tool_start_times rp = seq (running_tasks rp) (\<lambda>ts.
     put_dataset rp ''tools.recent'' (JObj [(''user'', field ''string'' ''User''), (''tool'', field ''string'' ''Tool''),
         (''time_started'', field ''datetime'' ''Time started''), (''time_taken'', duration_field)])
       (Option.bind (those (map (\<lambda>t. map_option (Pair t) (et_started_at t)) ts)) (\<lambda>ts.
          map_option JList (those (map (recent_row rp) (take 10 (sort_key (\<lambda>(t, started_at). - started_at) ts)))))))"

definition push_tool_monitoring_dashboard_datasets :: "report_settings \<Rightarrow> unit reporting" where
  "push_tool_monitoring_dashboard_datasets rp =
     seq (report_running_tools rp) (\<lambda>_. seq (report_failed_tools rp) (\<lambda>_.
     seq (report_tool_average_start_times rp) (\<lambda>_. report_recent_tool_start_times rp)))"

section \<open>Long queries\<close>

text \<open>The text of the query is no format string: the name of the threshold is sent, and not its value.\<close>

definition long_query_sql :: string where
  "long_query_sql = ''SELECT COUNT(*) FROM pg_stat_activity WHERE (now() - pg_stat_activity.query_start) > interval '' @
     [CHR 39] @ ''{interval}'' @ [CHR 39] @ '' AND state = '' @ [CHR 39] @ ''active'' @ [CHR 39]"

definition send_slack_message :: "string option \<Rightarrow> string \<Rightarrow> unit reporting" where
  "send_slack_message webhook message = (case webhook of None \<Rightarrow> Done () | Some url \<Rightarrow> ask (PostSlack url message) (\<lambda>_. Done ()))"

definition long_running_query_alert :: "bool \<Rightarrow> string option \<Rightarrow> string \<Rightarrow> unit reporting" where
  "long_running_query_alert switch_is_active webhook interval =
     (if switch_is_active
      then ask (ExecuteSql long_query_sql) (\<lambda>r. want ''TypeError'' (the_count r) (\<lambda>query_count.
        if query_count > 0
        then send_slack_message webhook ('':rotating_light: Found '' @ str_nat query_count @ '' SQL quer'' @
          (if query_count = 1 then ''y'' else ''ies'') @ '' running for longer than '' @ interval @ '' on the datasets db.'')
        else Done ()))
      else Done ())"

section \<open>The log of a visualisation\<close>

text \<open>The events, page by page; an error of the client loses what has been read. The fuel bounds the pages.\<close>

primrec log_events :: "string \<Rightarrow> string \<Rightarrow> nat \<Rightarrow> string option \<Rightarrow> json list \<Rightarrow> json list reporting" where
  "log_events log_group log_stream 0 next_token events = Fail ''fuel''"
| "log_events log_group log_stream (Suc fuel) next_token events =
     seq (handling (ask (GetLogEvents log_group log_stream next_token) (\<lambda>r. Done (Some r)))
         (\<lambda>e. e = ''ClientError'') (\<lambda>e. Done None)) (\<lambda>r.
       case r of None \<Rightarrow> Done []
       | Some r \<Rightarrow> want ''AttributeError'' (the_log_events r) (\<lambda>(token, new).
           let events = events @ (case new of None \<Rightarrow> [] | Some es \<Rightarrow> es);
               next_token = (if token = Some [] then None else token) in
           if token = None then Done events
           else want ''KeyError'' new (\<lambda>es.
             if es = [] then Done events else log_events log_group log_stream fuel next_token events)))"

definition fetch_visualisation_log_events :: "nat \<Rightarrow> string \<Rightarrow> string \<Rightarrow> json list reporting" where
  "fetch_visualisation_log_events fuel log_group log_stream = log_events log_group log_stream fuel None []"

section \<open>Facts\<close>

text \<open>The threshold has no influence on what the database is asked.\<close>

lemma threshold_is_not_used:
  "calls_only (\<lambda>q. q = ExecuteSql long_query_sql \<or> (\<exists>url m. q = PostSlack url m))
     (long_running_query_alert switch_is_active webhook interval)"
  unfolding long_running_query_alert_def send_slack_message_def
  by (auto intro!: calls_only_intros split: option.split)

text \<open>
  Every hour has a bucket. An hour with tasks has one for each task; an hour before ten has another one, which
  says that no time was taken.
\<close>

definition bucket_count :: "duration list \<Rightarrow> nat \<Rightarrow> nat" where
  "bucket_count data x = length (filter (\<lambda>d. snd d = two_digits x) data)"

lemma two_digits_of_hours: "map two_digits [0..<24] =
    [''00'', ''01'', ''02'', ''03'', ''04'', ''05'', ''06'', ''07'', ''08'', ''09'', ''10'', ''11'', ''12'', ''13'', ''14'', ''15'',
     ''16'', ''17'', ''18'', ''19'', ''20'', ''21'', ''22'', ''23'']"
  by code_simp

lemma two_digits_length: "y < 24 \<Longrightarrow> length (two_digits y) = 2"
proof -
  assume "y < 24"
  then have "two_digits y \<in> set (map two_digits [0..<24])" by simp
  then show ?thesis unfolding two_digits_of_hours by auto
qed

lemma hours_inj: "x < 24 \<Longrightarrow> y < 24 \<Longrightarrow> two_digits x = two_digits y \<longleftrightarrow> x = y"
proof -
  assume "x < 24" "y < 24"
  moreover have "distinct (map two_digits [0..<24])" unfolding two_digits_of_hours by simp
  ultimately show ?thesis by (auto simp: distinct_map inj_on_def)
qed

lemma hours_plain: "x < 24 \<Longrightarrow> y < 24 \<Longrightarrow> str_nat x = two_digits y \<longleftrightarrow> x = y \<and> 10 \<le> x"
proof (cases "x < 10")
  case True
  assume "y < 24"
  then have "length (two_digits y) = 2" by (rule two_digits_length)
  moreover from True have "length (str_nat x) = 1" by (subst str_nat.simps) simp
  ultimately have "str_nat x \<noteq> two_digits y" by force
  with True show ?thesis by simp
next
  case False
  assume "x < 24" "y < 24"
  moreover from False have "str_nat x = two_digits x" by (simp add: two_digits_def)
  ultimately show ?thesis using False hours_inj by simp
qed

lemma filter_only: "distinct xs \<Longrightarrow> x \<in> set xs \<Longrightarrow> filter (\<lambda>y. x = y) xs = [x]"
  by (induction xs) (auto simp: filter_empty_conv)

lemma buckets:
  assumes "\<forall>d \<in> set data. \<exists>h < 24. snd d = two_digits h" "x < 24"
  shows "bucket_count (with_all_hours data) x =
    bucket_count data x + (if x < 10 \<or> bucket_count data x = 0 then 1 else 0)"
proof -
  let ?P = "\<lambda>y. str_nat y \<notin> snd ` set data"
  have "filter (\<lambda>y. two_digits y = two_digits x) (filter ?P [0..<24]) = filter (\<lambda>y. x = y \<and> ?P x) [0..<24]"
    unfolding filter_filter by (rule filter_cong) (use hours_inj [OF _ assms(2)] in auto)
  also have "\<dots> = (if ?P x then [x] else [])"
  proof -
    have "filter (\<lambda>y. x = y) [0..<24] = [x]" using assms(2) by (intro filter_only) auto
    then show ?thesis by simp
  qed
  finally have "bucket_count (with_all_hours data) x = bucket_count data x + (if ?P x then 1 else 0)"
    by (simp add: bucket_count_def with_all_hours_def filter_map comp_def)
  moreover have "?P x \<longleftrightarrow> x < 10 \<or> bucket_count data x = 0"
  proof -
    have plain: "str_nat x = snd d \<longleftrightarrow> 10 \<le> x \<and> two_digits x = snd d" if "d \<in> set data" for d
    proof -
      obtain h where h: "h < 24" "snd d = two_digits h" using assms(1) \<open>d \<in> set data\<close> by blast
      show ?thesis unfolding h(2) hours_plain [OF assms(2) h(1)] hours_inj [OF assms(2) h(1)] by blast
    qed
    have "str_nat x \<in> snd ` set data \<longleftrightarrow> (\<exists>d \<in> set data. str_nat x = snd d)" by blast
    also have "\<dots> \<longleftrightarrow> 10 \<le> x \<and> (\<exists>d \<in> set data. snd d = two_digits x)" using plain by metis
    finally show ?thesis unfolding bucket_count_def length_0_conv filter_empty_conv by (metis not_le)
  qed
  ultimately show ?thesis by simp
qed

end
