(* ===== verification/DatasetApi.thy ===== *)
theory DatasetApi
  imports Prelude
begin

text \<open>
  \<open>apps/api_v1/datasets/views.py\<close>: the API that gives out the rows of a dataset as JSON, page by page. A page
  ends when it is too long, and names the URL of the next one.
\<close>

section \<open>Chunks\<close>

definition chunk_size :: nat where
  "chunk_size = 16384"

definition num_bytes_max :: nat where
  "num_bytes_max = 49990000"

text \<open>
  What is queued, and the number of bytes sent and queued. The number of bytes queued is the length of the
  queue, and the number of bytes sent is not used.
\<close>

type_synonym stream_state = "string \<times> nat"

function cut_chunks :: "string \<Rightarrow> string list \<times> string" where
  "cut_chunks q = (if chunk_size \<le> length q
     then (case cut_chunks (drop chunk_size q) of (chunks, rest) \<Rightarrow> (take chunk_size q # chunks, rest))
     else ([], q))"
  by pat_completeness auto
termination by (relation "measure length") (auto simp: chunk_size_def)

declare cut_chunks.simps [simp del]

definition yield_chunks :: "string \<Rightarrow> stream_state \<Rightarrow> string list \<times> stream_state" where
  "yield_chunks row_bytes = (\<lambda>(queue, num_bytes_sent_and_queued).
     case cut_chunks (queue @ row_bytes) of (chunks, queue) \<Rightarrow>
       (chunks, (queue, num_bytes_sent_and_queued + length row_bytes)))"

definition yield_remaining :: "stream_state \<Rightarrow> string list" where
  "yield_remaining = (\<lambda>(queue, n). if queue \<noteq> [] then [queue] else [])"

section \<open>A page\<close>

text \<open>\<open>json.dumps\<close> of the columns and of a row, and the text of a value in a URL.\<close>

record api_libs =
  al_dumps_columns :: "string list \<Rightarrow> string"
  al_dumps_row :: "json list \<Rightarrow> string"
  al_format :: "json \<Rightarrow> string"

fun column_index :: "string list \<Rightarrow> string \<Rightarrow> nat option" where
  "column_index [] k = None"
| "column_index (c # cs) k = (if c = k then Some 0 else map_option Suc (column_index cs k))"

text \<open>The values of the primary key in a row; \<open>None\<close> where a column is missing, which raises \<open>ValueError\<close>.\<close>

definition key_values :: "string list \<Rightarrow> string list \<Rightarrow> json list \<Rightarrow> json list option" where
  "key_values columns primary_key row = map_option (map ((!) row)) (those (map (column_index columns) primary_key))"

definition search_after_key :: string where
  "search_after_key = ''$searchAfter''"

definition next_url :: "api_libs \<Rightarrow> string \<Rightarrow> json list \<Rightarrow> string" where
  "next_url al base_url search_after =
     base_url @ ''?'' @ join ''&'' (map (\<lambda>v. search_after_key @ ''='' @ al_format al v) search_after)"

text \<open>
  The rows, one after the other, with the exception that ends the response; after a row that makes the page
  too long, the URL of the next page, and otherwise none.
\<close>

fun yield_rows :: "api_libs \<Rightarrow> string \<Rightarrow> string list \<Rightarrow> string list \<Rightarrow> bool \<Rightarrow> json list list \<Rightarrow> stream_state \<Rightarrow>
    string list \<times> (string + unit)" where
  "yield_rows al base_url columns primary_key first [] st =
     (case yield_chunks ''], \"next\": null}'' st of (chunks, st) \<Rightarrow> (chunks @ yield_remaining st, Inr ()))"
| "yield_rows al base_url columns primary_key first (row # rows) st =
     (case yield_chunks ((if first then [] else '','') @ al_dumps_row al row) st of (chunks, st) \<Rightarrow>
        if snd st > num_bytes_max then
          (case key_values columns primary_key row of
             None \<Rightarrow> (chunks, Inl ''ValueError'')
           | Some search_after \<Rightarrow>
               (case yield_chunks (''], \"next\": \"'' @ next_url al base_url search_after @ ''\"}'') st of (chunks', st) \<Rightarrow>
                  (chunks @ chunks' @ yield_remaining st, Inr ())))
        else (case yield_rows al base_url columns primary_key False rows st of (chunks', r) \<Rightarrow> (chunks @ chunks', r)))"

definition yield_data :: "api_libs \<Rightarrow> string \<Rightarrow> string list \<Rightarrow> string list \<Rightarrow> json list list \<Rightarrow> string list \<times> (string + unit)" where
  "yield_data al base_url columns primary_key rows =
     (case yield_chunks ''{\"headers\": '' ([], 0) of (chunks1, st) \<Rightarrow>
      case yield_chunks (al_dumps_columns al columns) st of (chunks2, st) \<Rightarrow>
      case yield_chunks '', \"values\": ['' st of (chunks3, st) \<Rightarrow>
      case yield_rows al base_url columns primary_key True rows st of (chunks4, r) \<Rightarrow>
        (chunks1 @ chunks2 @ chunks3 @ chunks4, r))"

definition get_streaming_http_response ::
  "api_libs \<Rightarrow> string \<Rightarrow> string list \<Rightarrow> string list \<Rightarrow> json list list \<Rightarrow> string list \<times> (string + unit)" where
  "get_streaming_http_response al absolute_uri primary_key columns rows =
     yield_data al (hd (split absolute_uri ''?'')) columns primary_key rows"

section \<open>Rows of a table\<close>

text \<open>Rows are fetched a thousand at a time, until there are none.\<close>

function fetch_batches :: "nat \<Rightarrow> 'r list \<Rightarrow> 'r list" where
  "fetch_batches n rows = (let batch = take (Suc n) rows in
     if batch = [] then [] else batch @ fetch_batches n (drop (Suc n) rows))"
  by pat_completeness auto
termination by (relation "measure (\<lambda>(n, rows). length rows)") auto

declare fetch_batches.simps [simp del]

text \<open>
  What the database knows of a table: its kind, if there is such a table, its primary key, its columns, its
  rows in the order of the primary key, the order of the keys, and how it reads the text of a value.
\<close>

record api_table =
  at_relkind :: "string option"
  at_primary_key :: "string list"
  at_columns :: "string list"
  at_rows :: "json list list"
  at_before :: "json list \<Rightarrow> json list \<Rightarrow> bool"
  at_cast :: "string \<Rightarrow> json"

definition get_dataset_primary_key :: "api_table \<Rightarrow> string + string list" where
  "get_dataset_primary_key t =
     (case at_relkind t of
        None \<Rightarrow> Inl ''ValueError''
      | Some kind \<Rightarrow> if kind \<noteq> ''table'' then Inl ''ValueError'' else Inr (at_primary_key t))"

definition key_of :: "api_table \<Rightarrow> json list \<Rightarrow> json list" where
  "key_of t row = (case key_values (at_columns t) (at_primary_key t) row of None \<Rightarrow> [] | Some k \<Rightarrow> k)"

definition select_rows :: "api_table \<Rightarrow> string list \<Rightarrow> json list list" where
  "select_rows t search_after =
     (if search_after = [] then at_rows t
      else filter (\<lambda>row. at_before t (map (at_cast t) search_after) (key_of t row)) (at_rows t))"

definition dataset_api_view_GET :: "api_libs \<Rightarrow> api_table \<Rightarrow> string \<Rightarrow> string list \<Rightarrow> string + (string list \<times> (string + unit))" where
  "dataset_api_view_GET al t absolute_uri search_after =
     (case get_dataset_primary_key t of
        Inl e \<Rightarrow> Inl e
      | Inr primary_key \<Rightarrow>
          if primary_key = [] then Inl ''ValueError''
          else Inr (get_streaming_http_response al absolute_uri primary_key (at_columns t)
            (fetch_batches 999 (select_rows t search_after))))"

section \<open>Reference datasets\<close>

text \<open>
  A field with its name, and its value in a record: the column of the linked record for a foreign key. Each
  value goes to the place of its name; the records are those after the id of the request, in the order of ids.
\<close>

record api_field =
  rf_name :: string
  rf_foreign_key :: bool
  rf_column :: string

fun field_values :: "(api_field \<Rightarrow> json) \<Rightarrow> string list \<Rightarrow> api_field list \<Rightarrow> json list \<Rightarrow> json list option" where
  "field_values value field_names [] values = Some values"
| "field_values value field_names (f # fs) values =
     Option.bind (column_index field_names (rf_name f)) (\<lambda>i. field_values value field_names fs (values[i := value f]))"

definition ref_value :: "(string \<Rightarrow> json) \<Rightarrow> (string \<Rightarrow> json option) \<Rightarrow> api_field \<Rightarrow> json" where
  "ref_value column linked f =
     (if rf_foreign_key f then (case linked (rf_name f) of None \<Rightarrow> JNull | Some v \<Rightarrow> v) else column (rf_column f))"

text \<open>A record: its id, its columns, and the values that its foreign keys lead to.\<close>

type_synonym api_record = "int \<times> (string \<Rightarrow> json) \<times> (string \<Rightarrow> json option)"

definition ref_rows :: "api_field list \<Rightarrow> api_record list \<Rightarrow> int \<Rightarrow> string list \<Rightarrow> json list list option" where
  "ref_rows fs records search_after field_names =
     those (map (\<lambda>(i, column, linked). field_values (ref_value column linked) field_names fs
         (replicate (length field_names) JNull))
       (sort_key fst (filter (\<lambda>(i, _). i > search_after) records)))"

text \<open>The primary key that is passed on is the text \<open>id\<close>, and not a list with it.\<close>

definition reference_dataset_api_view_GET ::
  "api_libs \<Rightarrow> api_field list \<Rightarrow> api_record list \<Rightarrow> string \<Rightarrow> int list \<Rightarrow> (string list \<times> (string + unit)) option" where
  "reference_dataset_api_view_GET al fs records absolute_uri search_after =
     (let after = (case search_after of [] \<Rightarrow> 0 | i # _ \<Rightarrow> i); field_names = sort (map rf_name fs) in
      map_option (get_streaming_http_response al absolute_uri (map (\<lambda>c. [c]) ''id'') field_names)
        (ref_rows fs records after field_names))"

section \<open>The client\<close>

text \<open>
  A client that follows the URLs: Django's reading of the query of a URL, the values of one of its keys, and
  the pages.
\<close>

definition unquote_plus :: "string \<Rightarrow> string" where
  "unquote_plus s = unquote (map (\<lambda>c. if c = CHR ''+'' then CHR '' '' else c) s)"

definition getlist :: "string \<Rightarrow> string \<Rightarrow> string list" where
  "getlist url k = map snd (filter (\<lambda>(k', v). k' = k)
     (map (\<lambda>s. case partition s ''='' of (a, b) \<Rightarrow> (unquote_plus a, unquote_plus b))
       (split (snd (partition (fst (partition url ''#'')) ''?'')) ''&'')))"

text \<open>The rows of a page, with the key of the last one when the page is cut after it.\<close>

fun page_rows :: "api_libs \<Rightarrow> string list \<Rightarrow> string list \<Rightarrow> bool \<Rightarrow> nat \<Rightarrow> json list list \<Rightarrow>
    json list list \<times> json list option option" where
  "page_rows al columns primary_key first n [] = ([], None)"
| "page_rows al columns primary_key first n (row # rows) =
     (let n = n + length ((if first then [] else '','') @ al_dumps_row al row) in
      if n > num_bytes_max then ([row], Some (key_values columns primary_key row))
      else (case page_rows al columns primary_key False n rows of (page, after) \<Rightarrow> (row # page, after)))"

definition head_bytes :: "api_libs \<Rightarrow> string list \<Rightarrow> string" where
  "head_bytes al columns = ''{\"headers\": '' @ al_dumps_columns al columns @ '', \"values\": [''"

definition page_body :: "api_libs \<Rightarrow> string \<Rightarrow> string list \<Rightarrow> json list list \<Rightarrow> json list option \<Rightarrow> string" where
  "page_body al base_url columns page after =
     head_bytes al columns @ join '','' (map (al_dumps_row al) page) @
     (case after of None \<Rightarrow> ''], \"next\": null}''
      | Some k \<Rightarrow> ''], \"next\": \"'' @ next_url al base_url k @ ''\"}'')"

definition page_of :: "api_libs \<Rightarrow> api_table \<Rightarrow> string list \<Rightarrow> json list list \<times> json list option option" where
  "page_of al t search_after = page_rows al (at_columns t) (at_primary_key t) True
     (length (head_bytes al (at_columns t))) (select_rows t search_after)"


section \<open>Chunks are cut without loss\<close>

lemma cut_chunks_facts:
  "cut_chunks q = (cs, r) \<Longrightarrow> concat cs @ r = q \<and> length r < chunk_size \<and> (\<forall>c \<in> set cs. length c = chunk_size)"
proof (induction q arbitrary: cs r rule: cut_chunks.induct)
  case (1 q)
  show ?case
  proof (cases "chunk_size \<le> length q")
    case True
    obtain cs' r' where x: "cut_chunks (drop chunk_size q) = (cs', r')" by fastforce
    have "cut_chunks q = (take chunk_size q # cs', r')"
      using True x by (simp add: cut_chunks.simps [of q])
    with 1 have cs: "cs = take chunk_size q # cs'" "r = r'" by simp_all
    from "1.IH" [OF True x] have "concat cs' @ r' = drop chunk_size q" "length r' < chunk_size"
      "\<forall>c \<in> set cs'. length c = chunk_size" by blast+
    with cs True show ?thesis by simp
  next
    case False
    with "1.prems" have "cs = []" "r = q" by (simp_all add: cut_chunks.simps [of q])
    with False show ?thesis by simp
  qed
qed

lemma yield_chunks_facts:
  assumes "yield_chunks b (q, n) = (cs, (q', n'))"
  shows "concat cs @ q' = q @ b" "n' = n + length b" "length q' < chunk_size" "\<forall>c \<in> set cs. length c = chunk_size"
  using assms cut_chunks_facts [of "q @ b"] by (auto simp: yield_chunks_def split: prod.splits)

text \<open>Whole chunks, and what is left at the end.\<close>

definition well_cut :: "string list \<Rightarrow> bool" where
  "well_cut cs \<longleftrightarrow> (\<exists>full rest. cs = full @ rest \<and> (\<forall>c \<in> set full. length c = chunk_size) \<and>
     (rest = [] \<or> (\<exists>c. rest = [c] \<and> 0 < length c \<and> length c < chunk_size)))"

lemma well_cut_append: "\<forall>c \<in> set cs. length c = chunk_size \<Longrightarrow> well_cut cs' \<Longrightarrow> well_cut (cs @ cs')"
proof -
  assume cs: "\<forall>c \<in> set cs. length c = chunk_size" and "well_cut cs'"
  then obtain full rest where "cs' = full @ rest" "\<forall>c \<in> set full. length c = chunk_size"
    "rest = [] \<or> (\<exists>c. rest = [c] \<and> 0 < length c \<and> length c < chunk_size)"
    unfolding well_cut_def by blast
  with cs have "cs @ cs' = (cs @ full) @ rest" "\<forall>c \<in> set (cs @ full). length c = chunk_size" by auto
  with \<open>rest = [] \<or> _\<close> show "well_cut (cs @ cs')" unfolding well_cut_def by blast
qed

lemma well_cut_remaining: "length q < chunk_size \<Longrightarrow> well_cut (yield_remaining (q, n))"
proof -
  assume "length q < chunk_size"
  then have "well_cut [q]" if "q \<noteq> []"
    using that unfolding well_cut_def by (intro exI [of _ "[]"] exI [of _ "[q]"]) simp
  moreover have "well_cut []" unfolding well_cut_def by simp
  ultimately show ?thesis by (simp add: yield_remaining_def)
qed

lemma concat_remaining: "concat (yield_remaining (q, n)) = q"
  by (simp add: yield_remaining_def)

fun rows_text :: "api_libs \<Rightarrow> bool \<Rightarrow> json list list \<Rightarrow> string" where
  "rows_text al first [] = []"
| "rows_text al first (row # rows) = ((if first then [] else '','') @ al_dumps_row al row) @ rows_text al False rows"

lemma rows_text_join: "rows_text al first rows =
    (if first \<or> rows = [] then [] else '','') @ join '','' (map (al_dumps_row al) rows)"
proof (induction rows arbitrary: first)
  case (Cons row rows)
  then show ?case by (cases rows) auto
qed simp

definition page_end :: "api_libs \<Rightarrow> string \<Rightarrow> json list option \<Rightarrow> string" where
  "page_end al base_url after = (case after of None \<Rightarrow> ''], \"next\": null}''
      | Some k \<Rightarrow> ''], \"next\": \"'' @ next_url al base_url k @ ''\"}'')"

lemma yield_rows_text:
  assumes "page_rows al columns primary_key first n rows = (page, after)" "after \<noteq> Some None" "length q < chunk_size"
  shows "\<exists>cs. yield_rows al base_url columns primary_key first rows (q, n) = (cs, Inr ()) \<and> well_cut cs \<and>
    concat cs = q @ rows_text al first page @ page_end al base_url (Option.bind after id)"
  using assms
proof (induction rows arbitrary: first n page q)
  case Nil
  obtain cs q' n' where y: "yield_chunks ''], \"next\": null}'' (q, n) = (cs, (q', n'))" by (metis prod.exhaust)
  note f = yield_chunks_facts [OF y]
  from Nil y f(1) show ?case
    by (auto simp: page_end_def concat_remaining intro!: well_cut_append [OF f(4)] well_cut_remaining [OF f(3)])
next
  case (Cons row rows)
  let ?b = "(if first then [] else '','') @ al_dumps_row al row"
  obtain cs q' n' where y: "yield_chunks ?b (q, n) = (cs, (q', n'))" by (metis prod.exhaust)
  note f = yield_chunks_facts [OF y]
  show ?case
  proof (cases "n' > num_bytes_max")
    case True
    with Cons.prems f(2) have p: "page = [row]" "after = Some (key_values columns primary_key row)"
      by (auto simp: Let_def)
    with Cons.prems obtain k where k: "key_values columns primary_key row = Some k" by auto
    let ?e = "''], \"next\": \"'' @ next_url al base_url k @ ''\"}''"
    obtain cs' q'' n'' where y': "yield_chunks ?e (q', n') = (cs', (q'', n''))" by (metis prod.exhaust)
    note f' = yield_chunks_facts [OF y']
    have "yield_rows al base_url columns primary_key first (row # rows) (q, n) =
        (cs @ cs' @ yield_remaining (q'', n''), Inr ())"
      using True y y' k by simp
    moreover have "concat (cs @ cs' @ yield_remaining (q'', n'')) = q @ ?b @ ?e"
    proof -
      have "concat (cs @ cs' @ yield_remaining (q'', n'')) = concat cs @ concat cs' @ q''" by (simp add: concat_remaining)
      also have "\<dots> = (concat cs @ q') @ ?e" unfolding f'(1) by simp
      finally show ?thesis unfolding f(1) by simp
    qed
    moreover have "well_cut (cs @ cs' @ yield_remaining (q'', n''))"
      by (intro well_cut_append [OF f(4)] well_cut_append [OF f'(4)] well_cut_remaining [OF f'(3)])
    ultimately show ?thesis using p k by (simp add: page_end_def)
  next
    case False
    with Cons.prems f(2) obtain page' where p: "page_rows al columns primary_key False n' rows = (page', after)"
      "page = row # page'" by (auto simp: Let_def split: prod.splits)
    from Cons.IH [OF p(1) Cons.prems(2) f(3)] obtain cs' where cs':
      "yield_rows al base_url columns primary_key False rows (q', n') = (cs', Inr ())" "well_cut cs'"
      "concat cs' = q' @ rows_text al False page' @ page_end al base_url (Option.bind after id)" by blast
    have "yield_rows al base_url columns primary_key first (row # rows) (q, n) = (cs @ cs', Inr ())"
      using False y cs'(1) by simp
    moreover have "concat (cs @ cs') = q @ rows_text al first page @ page_end al base_url (Option.bind after id)"
    proof -
      have "concat (cs @ cs') = (concat cs @ q') @ rows_text al False page' @ page_end al base_url (Option.bind after id)"
        by (simp add: cs'(3))
      then show ?thesis unfolding f(1) by (simp add: p(2))
    qed
    ultimately show ?thesis using well_cut_append [OF f(4) cs'(2)] by blast
  qed
qed

lemma yield_data_text:
  assumes "page_rows al columns primary_key True (length (head_bytes al columns)) rows = (page, after)" "after \<noteq> Some None"
  shows "\<exists>cs. yield_data al base_url columns primary_key rows = (cs, Inr ()) \<and> well_cut cs \<and>
    concat cs = page_body al base_url columns page (Option.bind after id)"
proof -
  obtain c1 q1 n1 where y1: "yield_chunks ''{\"headers\": '' ([], 0) = (c1, (q1, n1))" by (metis prod.exhaust)
  obtain c2 q2 n2 where y2: "yield_chunks (al_dumps_columns al columns) (q1, n1) = (c2, (q2, n2))" by (metis prod.exhaust)
  obtain c3 q3 n3 where y3: "yield_chunks '', \"values\": ['' (q2, n2) = (c3, (q3, n3))" by (metis prod.exhaust)
  note f1 = yield_chunks_facts [OF y1] and f2 = yield_chunks_facts [OF y2] and f3 = yield_chunks_facts [OF y3]
  have n: "n3 = length (head_bytes al columns)" unfolding f3(2) f2(2) f1(2) head_bytes_def by simp
  from yield_rows_text [OF assms(1) [folded n] assms(2) f3(3)] obtain c4 where c4:
    "yield_rows al base_url columns primary_key True rows (q3, n3) = (c4, Inr ())" "well_cut c4"
    "concat c4 = q3 @ rows_text al True page @ page_end al base_url (Option.bind after id)" by blast
  have head: "concat c1 @ concat c2 @ concat c3 @ q3 = head_bytes al columns"
  proof -
    have "concat c1 @ concat c2 @ concat c3 @ q3 = concat c1 @ (concat c2 @ q2) @ '', \"values\": [''" using f3(1) by simp
    also have "\<dots> = (concat c1 @ q1) @ al_dumps_columns al columns @ '', \"values\": [''" using f2(1) by simp
    finally show ?thesis unfolding f1(1) head_bytes_def by simp
  qed
  have "concat (c1 @ c2 @ c3 @ c4) = page_body al base_url columns page (Option.bind after id)"
  proof -
    have "concat (c1 @ c2 @ c3 @ c4) = (concat c1 @ concat c2 @ concat c3 @ q3) @ rows_text al True page @
        page_end al base_url (Option.bind after id)" by (simp add: c4(3))
    then show ?thesis unfolding head page_body_def rows_text_join page_end_def by simp
  qed
  moreover have "well_cut (c1 @ c2 @ c3 @ c4)"
    by (intro well_cut_append [OF f1(4)] well_cut_append [OF f2(4)] well_cut_append [OF f3(4)] c4(2))
  ultimately show ?thesis using y1 y2 y3 c4(1) by (simp add: yield_data_def)
qed

lemma fetch_batches_all: "fetch_batches n rows = rows"
proof (induction n rows rule: fetch_batches.induct)
  case (1 n rows)
  then show ?case by (cases rows) (simp_all add: fetch_batches.simps [of n] Let_def)
qed

section \<open>Pages\<close>

text \<open>
  A table as PostgreSQL promises it: it has a primary key of its columns, its rows come in the order of their
  keys, and the order is strict.
\<close>

definition well_keyed :: "api_table \<Rightarrow> bool" where
  "well_keyed t \<longleftrightarrow> at_relkind t = Some ''table'' \<and> at_primary_key t \<noteq> [] \<and>
     set (at_primary_key t) \<subseteq> set (at_columns t) \<and>
     sorted_wrt (at_before t) (map (key_of t) (at_rows t)) \<and>
     (\<forall>row \<in> set (at_rows t). \<not> at_before t (key_of t row) (key_of t row)) \<and>
     (\<forall>row \<in> set (at_rows t). \<forall>row' \<in> set (at_rows t).
        at_before t (key_of t row) (key_of t row') \<longrightarrow> \<not> at_before t (key_of t row') (key_of t row))"



lemma column_index_Some: "k \<in> set columns \<Longrightarrow> \<exists>i. column_index columns k = Some i"
  by (induction columns) auto

lemma key_values_Some:
  assumes "set primary_key \<subseteq> set columns"
  shows "\<exists>k. key_values columns primary_key row = Some k \<and> length k = length primary_key"
  using assms
proof (induction primary_key)
  case (Cons c cs)
  then show ?case using column_index_Some [of c columns] by (auto simp: key_values_def)
qed (simp add: key_values_def)

lemma page_rows_prefix:
  assumes "page_rows al columns primary_key first n rows = (page, after)"
  shows "(after = None \<and> page = rows) \<or>
    (\<exists>row rest. page \<noteq> [] \<and> rows = page @ rest \<and> last page = row \<and> after = Some (key_values columns primary_key row))"
  using assms
proof (induction rows arbitrary: first n page)
  case (Cons row rows)
  let ?n = "n + length ((if first then [] else '','') @ al_dumps_row al row)"
  show ?case
  proof (cases "?n > num_bytes_max")
    case True
    with Cons.prems have "page = [row]" "after = Some (key_values columns primary_key row)" by (auto simp: Let_def)
    then show ?thesis by auto
  next
    case False
    with Cons.prems obtain page' where p: "page_rows al columns primary_key False ?n rows = (page', after)" "page = row # page'"
      by (auto simp: Let_def split: prod.splits)
    from Cons.IH [OF p(1)] show ?thesis unfolding p(2) by auto
  qed
qed simp









text \<open>A table of two rows, each of which fills a page.\<close>

definition paged_table :: api_table where
  "paged_table = \<lparr>at_relkind = Some ''table'', at_primary_key = [''id''], at_columns = [''id''],
     at_rows = [[JInt 1], [JInt 2]],
     at_before = (\<lambda>k k'. case (k, k') of ([JInt a], [JInt b]) \<Rightarrow> a < b | _ \<Rightarrow> False),
     at_cast = (\<lambda>s. case int_of_str s of None \<Rightarrow> JNull | Some i \<Rightarrow> JInt i)\<rparr>"

definition paged_libs :: api_libs where
  "paged_libs = \<lparr>al_dumps_columns = (\<lambda>cs. ''[]''), al_dumps_row = (\<lambda>row. replicate 50000000 (CHR ''x'')),
     al_format = (\<lambda>v. case v of JInt i \<Rightarrow> str_int i | _ \<Rightarrow> [])\<rparr>"

lemma paged_well_keyed: "well_keyed paged_table"
  by (simp add: well_keyed_def paged_table_def key_of_def key_values_def)


lemma paged_first_page:
  "page_of paged_libs paged_table [] = ([[JInt 1]], Some (Some [JInt 1]))"
  by (simp add: page_of_def paged_table_def paged_libs_def select_rows_def num_bytes_max_def key_values_def)

text \<open>
  The chunks of a response make up the JSON of its page: the columns, the rows of the page separated by
  commas, and the URL of the next page or none; and all chunks but the last have the same size.
\<close>

theorem responses_hold_their_page:
  assumes "well_keyed t" "page_of al t search_after = (page, after)"
  shows "\<exists>chunks. dataset_api_view_GET al t uri search_after = Inr (chunks, Inr ()) \<and> well_cut chunks \<and>
    concat chunks = page_body al (hd (split uri ''?'')) (at_columns t) page (Option.bind after id)"
proof -
  have pk: "get_dataset_primary_key t = Inr (at_primary_key t)" "at_primary_key t \<noteq> []"
    "set (at_primary_key t) \<subseteq> set (at_columns t)"
    using assms(1) by (simp_all add: well_keyed_def get_dataset_primary_key_def)
  have "after \<noteq> Some None"
    using page_rows_prefix [OF assms(2) [unfolded page_of_def]] key_values_Some [OF pk(3), of "last page"] by force
  from yield_data_text [OF assms(2) [unfolded page_of_def] this, of "hd (split uri ''?'')"] pk(1,2)
  show ?thesis by (simp add: dataset_api_view_GET_def get_streaming_http_response_def fetch_batches_all)
qed

theorem responses_hold_their_page_witness:
  "\<exists>chunks. dataset_api_view_GET paged_libs paged_table ''http://h/d?x'' [] = Inr (chunks, Inr ()) \<and> well_cut chunks \<and>
    concat chunks = page_body paged_libs ''http://h/d'' [''id''] [[JInt 1]] (Some [JInt 1])"
proof -
  have "hd (split ''http://h/d?x'' ''?'') = ''http://h/d''" by code_simp
  then show ?thesis
    using responses_hold_their_page [OF paged_well_keyed paged_first_page, of "''http://h/d?x''"]
    by (simp only: bind.simps id_apply) (simp add: paged_table_def)
qed



text \<open>A key with an ampersand leads to another page than the one that was meant.\<close>

lemma ampersands_are_lost:
  "getlist (next_url \<lparr>al_dumps_columns = (\<lambda>cs. []), al_dumps_row = (\<lambda>r. []), al_format = (\<lambda>v. ''a&b'')\<rparr> ''http://h/d'' [JStr ''a&b'']) search_after_key = [''a'']"
  by code_simp

text \<open>
  The second page of a reference dataset: the name of its primary key is taken for a list of names, and those
  are no columns.
\<close>

lemma long_reference_datasets_fail:
  assumes "''i'' \<notin> set columns" "n + length (al_dumps_row al row) > num_bytes_max"
  shows "snd (yield_rows al base_url columns (map (\<lambda>c. [c]) ''id'') True (row # rows) (q, n)) = Inl ''ValueError''"
proof -
  obtain cs q' n' where y: "yield_chunks (al_dumps_row al row) (q, n) = (cs, (q', n'))" by (metis prod.exhaust)
  have "c \<notin> set columns \<Longrightarrow> column_index columns c = None" for c by (induction columns) auto
  then have "column_index columns ''i'' = None" using assms(1) by blast
  then have k: "key_values columns (map (\<lambda>c. [c]) ''id'') row = None" by (simp add: key_values_def)
  have "n' > num_bytes_max" using assms(2) yield_chunks_facts(2) [OF y] by linarith
  then show ?thesis unfolding yield_rows.simps by (simp add: y k del: list.map)
qed

end
