(* ===== verification/ReferenceData.thy ===== *)
theory ReferenceData
  imports Effects
begin

text \<open>
  \<open>apps/datasets/models.py\<close>: reference datasets, whose columns and records are edited in the admin
  application. The records of a dataset are in a table of its own, through a class that is made from the
  fields of the dataset when it is needed. An external database may hold a copy of the table.
\<close>

section \<open>Objects\<close>

datatype data_type = Character | Integer | Floating | Date | Time | Datetime | Boolean | Foreign_key | Uuid

text \<open>What a field of another dataset says to a field that is linked to it.\<close>

record linked_field =
  lf_data_type :: data_type
  lf_column_name :: "string option"
  lf_dataset :: nat

record ref_field =
  rf_id :: "nat option"
  rf_data_type :: data_type
  rf_name :: string
  rf_column_name :: "string option"
  rf_relationship_name :: "string option"
  rf_linked :: "linked_field option"
  rf_is_identifier :: bool
  rf_required :: bool
  rf_original_data_type :: data_type
  rf_original_column_name :: "string option"

record ref_dataset =
  rd_id :: "nat option"
  rd_table_name :: string
  rd_external_database :: "string option"
  rd_sort_field :: "ref_field option"
  rd_descending :: bool
  rd_deleted :: bool
  rd_published :: bool
  rd_initial_published_at :: "int option"
  rd_published_at :: "int option"
  rd_schema_version :: int
  rd_major_version :: int
  rd_minor_version :: int
  rd_published_major_version :: int
  rd_published_minor_version :: int
  rd_original_table_name :: string
  rd_original_ext_db :: "string option"
  rd_original_sort_order :: string
  rd_original_published :: bool

text \<open>A column of a class: its name, its type, and the dataset whose class it refers to.\<close>

record model_field =
  mf_data_type :: data_type
  mf_null :: bool
  mf_to :: "nat option"

record record_class =
  rc_table :: string
  rc_version :: int
  rc_ordering :: string
  rc_fields :: "model_field dict"

record ref_record =
  rr_id :: nat
  rr_data :: "json dict"

text \<open>What the log of an upload says of a row: the errors are those of its columns.\<close>

datatype upload_status = Added | Updated | Failed "string dict"

section \<open>Calls\<close>

text \<open>
  Calls to the ORM, to the registry of the classes of this process (\<open>apps.all_models['datasets']\<close>) and to the
  schema editor, which works on the database named first. \<open>CleanFields\<close> and \<open>RestoreFields\<close> assign to the lists of
  local fields of a class: without the reference to the dataset, and as they were before.
\<close>

datatype ref_call =
    Begin | Commit | Rollback
  | InsertDataset ref_dataset
  | UpdateDataset ref_dataset
  | UpdateSearchVector nat
  | DeleteDataset nat
  | DatasetOf nat
  | FieldsOf nat
  | InsertField ref_field
  | UpdateField ref_field
  | DeleteField nat
  | LinkingDatasets nat
  | SharingRelationship nat "string option" nat
  | Registered string
  | Unregister string
  | Register record_class
  | CleanFields string
  | RestoreFields string
  | CreateModel string record_class
  | DeleteModel string record_class
  | AlterDbTable string record_class string string
  | AddField string record_class string
  | AlterField string record_class string string
  | RemoveField string record_class string
  | AlterColumnType string string "string option" string
  | RecordsOf record_class nat
  | RecordsExist record_class nat
  | IdentifierColumn nat
  | GetByCustomId record_class nat "string option" json
  | CreateUploadLog nat
  | SaveUploadRow "(string \<times> string option) list" upload_status
  | CreateRecord record_class "json dict"
  | UpdateRecord record_class nat nat "json dict"
  | FirstRecord record_class nat nat
  | GetRecord record_class nat nat
  | DeleteRecord record_class nat
  | DeleteRecords record_class nat
  | ExternalExists string record_class nat
  | ExternalUpdate string record_class nat "json dict"
  | ExternalCreate string record_class nat nat "json dict"
  | ExternalDeleteOthers string record_class "nat list"

datatype ref_reply =
    NoAnswer
  | Key nat
  | Keys "nat list"
  | Holds bool
  | ColumnName "string option"
  | DatasetRow ref_dataset
  | FieldRows "ref_field list"
  | ClassFound "record_class option"
  | RecordRows "ref_record list"

type_synonym 'a ref_prog = "(ref_call, ref_reply, 'a) prog"

fun the_key :: "ref_reply \<Rightarrow> nat option" where
  "the_key (Key n) = Some n" | "the_key _ = None"

fun the_keys :: "ref_reply \<Rightarrow> nat list option" where
  "the_keys (Keys ns) = Some ns" | "the_keys _ = None"

fun the_truth :: "ref_reply \<Rightarrow> bool option" where
  "the_truth (Holds b) = Some b" | "the_truth _ = None"

fun the_dataset :: "ref_reply \<Rightarrow> ref_dataset option" where
  "the_dataset (DatasetRow d) = Some d" | "the_dataset _ = None"

fun the_fields :: "ref_reply \<Rightarrow> ref_field list option" where
  "the_fields (FieldRows fs) = Some fs" | "the_fields _ = None"

fun the_class :: "ref_reply \<Rightarrow> record_class option option" where
  "the_class (ClassFound c) = Some c" | "the_class _ = None"

fun the_records :: "ref_reply \<Rightarrow> ref_record list option" where
  "the_records (RecordRows rs) = Some rs" | "the_records _ = None"

fun the_column :: "ref_reply \<Rightarrow> string option option" where
  "the_column (ColumnName c) = Some c" | "the_column _ = None"

text \<open>A call whose reply has the kind that the call asks for.\<close>

definition fetch :: "ref_call \<Rightarrow> (ref_reply \<Rightarrow> 'r option) \<Rightarrow> ('r \<Rightarrow> 'a ref_prog) \<Rightarrow> 'a ref_prog" where
  "fetch q get f = ask q (\<lambda>r. want ''TypeError'' (get r) f)"

definition with_value :: "exc + 'v \<Rightarrow> ('v \<Rightarrow> 'a ref_prog) \<Rightarrow> 'a ref_prog" where
  "with_value v f = (case v of Inl e \<Rightarrow> Fail e | Inr x \<Rightarrow> f x)"

definition do_call :: "ref_call \<Rightarrow> 'a ref_prog \<Rightarrow> 'a ref_prog" where
  "do_call q m = ask q (\<lambda>_. m)"

text \<open>\<open>django.db.DatabaseError\<close> and its subclasses.\<close>

definition database_error :: "exc \<Rightarrow> bool" where
  "database_error e \<longleftrightarrow> e \<in> {''DatabaseError'', ''DataError'', ''OperationalError'', ''IntegrityError'',
     ''InternalError'', ''ProgrammingError'', ''NotSupportedError''}"

section \<open>Versions\<close>

definition manage_published :: "int \<Rightarrow> bool \<Rightarrow> ref_dataset \<Rightarrow> ref_dataset" where
  "manage_published now create rd =
     (if \<not> rd_published rd then rd
      else let rd = (if rd_initial_published_at rd = None
                     then rd\<lparr>rd_initial_published_at := Some now, rd_major_version := 1, rd_minor_version := 0\<rparr>
                     else rd)
           in if rd_original_published rd \<and> \<not> create
              then rd\<lparr>rd_published_major_version := rd_major_version rd, rd_published_minor_version := rd_minor_version rd\<rparr>
              else let rd = rd\<lparr>rd_published_at := Some now\<rparr>;
                       rd = (if rd_major_version rd > rd_published_major_version rd
                             then rd\<lparr>rd_published_major_version := rd_published_major_version rd + 1,
                                     rd_published_minor_version := 0\<rparr>
                             else if rd_minor_version rd > rd_published_minor_version rd
                             then rd\<lparr>rd_published_minor_version := rd_published_minor_version rd + 1\<rparr>
                             else rd)
                   in rd\<lparr>rd_major_version := rd_published_major_version rd, rd_minor_version := rd_published_minor_version rd\<rparr>)"

definition show_name :: "string option \<Rightarrow> string" where
  "show_name n = (case n of None \<Rightarrow> ''None'' | Some s \<Rightarrow> s)"

text \<open>The order of the records; the list that the source returns has this one element.\<close>

definition record_sort_order :: "ref_dataset \<Rightarrow> exc + string" where
  "record_sort_order rd =
     (let prefix = (if rd_descending rd then ''-'' else [])
      in case rd_sort_field rd of
           None \<Rightarrow> Inr (prefix @ ''updated_date'')
         | Some f \<Rightarrow>
             if rf_data_type f = Foreign_key
             then (case rf_linked f of
                     None \<Rightarrow> Inl ''AttributeError''
                   | Some l \<Rightarrow> Inr (prefix @ show_name (rf_relationship_name f) @ ''__'' @ show_name (lf_column_name l)))
             else (case rf_column_name f of None \<Rightarrow> Inl ''TypeError'' | Some c \<Rightarrow> Inr (prefix @ c)))"

definition schema_has_changed :: "ref_dataset \<Rightarrow> exc + bool" where
  "schema_has_changed rd =
     (if rd_table_name rd \<noteq> rd_original_table_name rd then Inr True
      else map_sum id (\<lambda>s. s \<noteq> rd_original_sort_order rd) (record_sort_order rd))"

definition get_database_names :: "ref_dataset \<Rightarrow> string list" where
  "get_database_names rd = (case rd_external_database rd of Some db \<Rightarrow> [''default'', db] | None \<Rightarrow> [''default''])"

section \<open>Classes of records\<close>

text \<open>The name of the attribute of a record that holds a field. A class refuses an attribute without a name.\<close>

definition attribute :: "ref_field \<Rightarrow> string option" where
  "attribute f = (if rf_data_type f \<noteq> Foreign_key then rf_column_name f else rf_relationship_name f)"

definition get_model_field :: "ref_field \<Rightarrow> nat option \<Rightarrow> model_field" where
  "get_model_field f to =
     \<lparr>mf_data_type = rf_data_type f, mf_null = \<not> rf_is_identifier f \<and> \<not> rf_required f, mf_to = to\<rparr>"

text \<open>
  The class of the records of a dataset, made when the registry has none of the current version. A linked field
  needs the class of the dataset that it is linked to. The fuel is the depth of the stack that Python has left:
  Python raises \<open>RecursionError\<close> at its end.
\<close>

definition make_model_field :: "(ref_dataset \<Rightarrow> record_class ref_prog) \<Rightarrow> ref_field \<Rightarrow> model_field ref_prog" where
  "make_model_field class_of f =
     (if rf_data_type f = Foreign_key
      then want ''AttributeError'' (rf_linked f) (\<lambda>l.
           fetch (DatasetOf (lf_dataset l)) the_dataset (\<lambda>linked.
           seq (class_of linked) (\<lambda>_. Done (get_model_field f (Some (lf_dataset l))))))
      else Done (get_model_field f None))"

type_synonym class_attributes = "(string option \<times> model_field) list"

primrec model_fields :: "(ref_dataset \<Rightarrow> record_class ref_prog) \<Rightarrow> ref_field list \<Rightarrow> class_attributes \<Rightarrow>
    class_attributes ref_prog" where
  "model_fields class_of [] attrs = Done attrs"
| "model_fields class_of (f # fs) attrs =
     seq (make_model_field class_of f) (\<lambda>mf. model_fields class_of fs (AList.update (attribute f) mf attrs))"

definition named_attributes :: "class_attributes \<Rightarrow> model_field dict option" where
  "named_attributes attrs = those (map (\<lambda>(k, v). map_option (\<lambda>name. (name, v)) k) attrs)"

definition build_class :: "(ref_dataset \<Rightarrow> record_class ref_prog) \<Rightarrow> ref_dataset \<Rightarrow> record_class ref_prog" where
  "build_class class_of rd =
     do_call (Unregister (rd_table_name rd))
     (with_value (record_sort_order rd) (\<lambda>ordering.
      want ''ValueError'' (rd_id rd) (\<lambda>pk.
      fetch (FieldsOf pk) the_fields (\<lambda>fields.
      seq (model_fields class_of fields []) (\<lambda>attrs.
      fetch (Registered (rd_table_name rd)) the_class (\<lambda>found.
      case found of
        Some model \<Rightarrow> Done model
      | None \<Rightarrow>
          want ''TypeError'' (named_attributes attrs) (\<lambda>fs.
          let model = \<lparr>rc_table = rd_table_name rd, rc_version = rd_schema_version rd, rc_ordering = ordering,
                       rc_fields = fs\<rparr>
          in do_call (Register model) (Done model))))))))"

primrec get_record_model_class :: "nat \<Rightarrow> ref_dataset \<Rightarrow> record_class ref_prog" where
  "get_record_model_class 0 rd = Fail ''RecursionError''"
| "get_record_model_class (Suc depth) rd =
     fetch (Registered (rd_table_name rd)) the_class (\<lambda>found.
     case found of
       Some model \<Rightarrow>
         if rc_version model = rd_schema_version rd then Done model
         else build_class (get_record_model_class depth) rd
     | None \<Rightarrow> build_class (get_record_model_class depth) rd)"

section \<open>Copies in external databases\<close>

text \<open>\<open>model_utils.external_model_class\<close>, around a block.\<close>

definition external_model_class :: "record_class \<Rightarrow> 'a ref_prog \<Rightarrow> 'a ref_prog" where
  "external_model_class model m =
     do_call (CleanFields (rc_table model)) (seq m (\<lambda>x. do_call (RestoreFields (rc_table model)) (Done x)))"

definition create_external_database_table :: "nat \<Rightarrow> string \<Rightarrow> ref_dataset \<Rightarrow> unit ref_prog" where
  "create_external_database_table d db_name rd =
     seq (get_record_model_class d rd) (\<lambda>model.
     external_model_class model (do_call (CreateModel db_name model) (Done ())))"

definition drop_external_database_table :: "nat \<Rightarrow> string \<Rightarrow> ref_dataset \<Rightarrow> unit ref_prog" where
  "drop_external_database_table d db_name rd =
     handling (seq (get_record_model_class d rd) (\<lambda>model. do_call (DeleteModel db_name model) (Done ())))
       (\<lambda>e. e = ''ProgrammingError'') (\<lambda>e. Done ())"

text \<open>The values of a record, read by the names of the fields; an attribute that is missing raises.\<close>

fun record_data :: "ref_field list \<Rightarrow> ref_record \<Rightarrow> json dict \<Rightarrow> exc + json dict" where
  "record_data [] r data = Inr data"
| "record_data (f # fs) r data =
     (case attribute f of
        None \<Rightarrow> Inl ''TypeError''
      | Some name \<Rightarrow>
          (case map_of (rr_data r) name of
             None \<Rightarrow> Inl ''AttributeError''
           | Some v \<Rightarrow> record_data fs r (dict_set name v data)))"

definition sync_record :: "string \<Rightarrow> nat \<Rightarrow> record_class \<Rightarrow> ref_record \<Rightarrow> unit ref_prog" where
  "sync_record external_database pk model r =
     fetch (FieldsOf pk) the_fields (\<lambda>fields.
     case record_data fields r [] of
       Inl e \<Rightarrow> Fail e
     | Inr data \<Rightarrow>
         fetch (ExternalExists external_database model (rr_id r)) the_truth (\<lambda>exists.
         external_model_class model
           (if exists then do_call (ExternalUpdate external_database model (rr_id r) data) (Done ())
            else do_call (ExternalCreate external_database model (rr_id r) pk data) (Done ()))))"

definition get_records :: "nat \<Rightarrow> ref_dataset \<Rightarrow> (ref_record list \<Rightarrow> 'a ref_prog) \<Rightarrow> 'a ref_prog" where
  "get_records d rd f =
     seq (get_record_model_class d rd) (\<lambda>model.
     want ''ValueError'' (rd_id rd) (\<lambda>pk.
     fetch (RecordsOf model pk) the_records f))"

definition sync_to_external_database :: "nat \<Rightarrow> string \<Rightarrow> ref_dataset \<Rightarrow> unit ref_prog" where
  "sync_to_external_database d external_database rd =
     seq (get_record_model_class d rd) (\<lambda>model.
     want ''ValueError'' (rd_id rd) (\<lambda>pk.
     get_records d rd (\<lambda>records.
     seq (for_each (sync_record external_database pk model) records) (\<lambda>_.
     external_model_class model
       (do_call (ExternalDeleteOthers external_database model (map rr_id records)) (Done ()))))))"

end
