(* ===== verification/ReferenceMethods.thy ===== *)
theory ReferenceMethods
  imports ReferenceData
begin

text \<open>
  The methods of reference datasets and of their fields that change the rows of the datasets, the tables and the
  records, and the upload of records from a CSV file.
\<close>

section \<open>Methods\<close>

text \<open>
  Methods change the attributes of their objects, also when they raise: they take the objects and return them
  beside their result or exception.
\<close>

type_synonym ('s, 'a) py_method = "'s \<Rightarrow> ((exc + 'a) \<times> 's) ref_prog"

definition return :: "'a \<Rightarrow> ('s, 'a) py_method" where
  "return x = (\<lambda>s. Done (Inr x, s))"

definition raise :: "exc \<Rightarrow> ('s, 'a) py_method" where
  "raise e = (\<lambda>s. Done (Inl e, s))"

definition bind :: "('s, 'a) py_method \<Rightarrow> ('a \<Rightarrow> ('s, 'b) py_method) \<Rightarrow> ('s, 'b) py_method" where
  "bind m f = (\<lambda>s. seq (m s) (\<lambda>(r, s). case r of Inl e \<Rightarrow> Done (Inl e, s) | Inr x \<Rightarrow> f x s))"

abbreviation before :: "('s, 'a) py_method \<Rightarrow> ('s, 'b) py_method \<Rightarrow> ('s, 'b) py_method" where
  "before m n \<equiv> bind m (\<lambda>_. n)"

definition call :: "('s \<Rightarrow> 'a ref_prog) \<Rightarrow> ('s, 'a) py_method" where
  "call p = (\<lambda>s. handling (seq (p s) (\<lambda>x. Done (Inr x, s))) (\<lambda>e. True) (\<lambda>e. Done (Inl e, s)))"

definition assign :: "('s \<Rightarrow> 's) \<Rightarrow> ('s, unit) py_method" where
  "assign f = (\<lambda>s. Done (Inr (), f s))"

definition look :: "('s \<Rightarrow> ('s, 'a) py_method) \<Rightarrow> ('s, 'a) py_method" where
  "look f = (\<lambda>s. f s s)"

definition catching :: "('s, 'a) py_method \<Rightarrow> (exc \<Rightarrow> bool) \<Rightarrow> ('s, 'a) py_method \<Rightarrow> ('s, 'a) py_method" where
  "catching m c n = (\<lambda>s. seq (m s) (\<lambda>(r, s).
     case r of Inl e \<Rightarrow> if c e then n s else Done (Inl e, s) | Inr x \<Rightarrow> Done (Inr x, s)))"

text \<open>A transaction, as \<open>atomic\<close>: objects are not rolled back.\<close>

definition transaction :: "('s, 'a) py_method \<Rightarrow> ('s, 'a) py_method" where
  "transaction m = (\<lambda>s. Call Begin (\<lambda>b. case b of Inl e \<Rightarrow> Done (Inl e, s) | Inr _ \<Rightarrow>
     seq (m s) (\<lambda>(r, s). case r of
       Inl e \<Rightarrow> Call Rollback (\<lambda>_. Done (Inl e, s))
     | Inr x \<Rightarrow> Call Commit (\<lambda>c. case c of Inl e \<Rightarrow> Call Rollback (\<lambda>_. Done (Inl e, s)) | Inr _ \<Rightarrow> Done (Inr x, s)))))"

definition evaluate :: "('s \<Rightarrow> exc + 'a) \<Rightarrow> ('s, 'a) py_method" where
  "evaluate f = (\<lambda>s. Done (f s, s))"

definition send :: "ref_call \<Rightarrow> ('s, unit) py_method" where
  "send q = call (\<lambda>_. do_call q (Done ()))"

definition whenever :: "'x option \<Rightarrow> ('x \<Rightarrow> ('s, unit) py_method) \<Rightarrow> ('s, unit) py_method" where
  "whenever x m = (case x of None \<Rightarrow> return () | Some y \<Rightarrow> m y)"

definition key_of :: "ref_dataset \<Rightarrow> exc + nat" where
  "key_of rd = (case rd_id rd of None \<Rightarrow> Inl ''ValueError'' | Some pk \<Rightarrow> Inr pk)"

section \<open>Saving a dataset\<close>

type_synonym 'a ds_method = "(ref_dataset, 'a) py_method"

text \<open>The insertion or the update of the row of the dataset, \<open>super().save()\<close>.\<close>

definition save_row :: "unit ds_method" where
  "save_row = look (\<lambda>rd.
     if rd_id rd = None
     then bind (call (\<lambda>rd. fetch (InsertDataset rd) the_key Done)) (\<lambda>pk. assign (\<lambda>rd. rd\<lparr>rd_id := Some pk\<rparr>))
     else send (UpdateDataset rd))"

definition bump_schema_version :: "unit ds_method" where
  "bump_schema_version = assign (\<lambda>rd. rd\<lparr>rd_schema_version := rd_schema_version rd + 1\<rparr>)"

definition create_tables :: "nat \<Rightarrow> record_class \<Rightarrow> unit ds_method" where
  "create_tables d model =
     before (send (CreateModel ''default'' model))
       (look (\<lambda>rd. whenever (rd_external_database rd) (\<lambda>db. call (create_external_database_table d db))))"

definition move_external_table :: "nat \<Rightarrow> unit ds_method" where
  "move_external_table d = look (\<lambda>rd.
     if rd_external_database rd \<noteq> rd_original_ext_db rd
     then before (whenever (rd_original_ext_db rd) (\<lambda>db. call (drop_external_database_table d db)))
            (whenever (rd_external_database rd) (\<lambda>db.
               before (call (create_external_database_table d db)) (call (sync_to_external_database d db))))
     else return ())"

definition rename_tables :: "record_class \<Rightarrow> unit ds_method" where
  "rename_tables model = bind (evaluate schema_has_changed) (\<lambda>changed.
     if changed
     then call (\<lambda>rd. for_each (\<lambda>database. do_call
            (AlterDbTable database model (rd_original_table_name rd) (rd_table_name rd)) (Done ())) (get_database_names rd))
     else return ())"

definition stash_originals :: "unit ds_method" where
  "stash_originals = bind (evaluate record_sort_order) (\<lambda>order.
     assign (\<lambda>rd. rd\<lparr>rd_original_table_name := rd_table_name rd, rd_original_ext_db := rd_external_database rd,
       rd_original_sort_order := order\<rparr>))"

definition save_dataset :: "nat \<Rightarrow> int \<Rightarrow> unit ds_method" where
  "save_dataset d now = transaction (look (\<lambda>rd0.
     let create = (rd_id rd0 = None)
     in before (if create then return ()
                else bind (evaluate schema_has_changed) (\<lambda>changed. if changed then bump_schema_version else return ()))
       (before (assign (manage_published now create))
       (before save_row
       (bind (call (get_record_model_class d)) (\<lambda>model.
        before (if create then create_tables d model else before (move_external_table d) (rename_tables model))
       (before stash_originals
       (bind (evaluate key_of) (\<lambda>pk. send (UpdateSearchVector pk))))))))))"

definition increment_schema_version :: "nat \<Rightarrow> int \<Rightarrow> unit ds_method" where
  "increment_schema_version d now = before bump_schema_version (save_dataset d now)"

definition increment_major_version :: "nat \<Rightarrow> int \<Rightarrow> unit ds_method" where
  "increment_major_version d now =
     before (assign (\<lambda>rd. rd\<lparr>rd_major_version := rd_major_version rd + 1, rd_minor_version := 0\<rparr>)) (save_dataset d now)"

definition increment_minor_version :: "nat \<Rightarrow> int \<Rightarrow> unit ds_method" where
  "increment_minor_version d now =
     before (assign (\<lambda>rd. rd\<lparr>rd_minor_version := rd_minor_version rd + 1\<rparr>)) (save_dataset d now)"

text \<open>The deletion of a dataset, which keeps its row.\<close>

definition delete_dataset :: "nat \<Rightarrow> int \<Rightarrow> unit ds_method" where
  "delete_dataset d now = transaction
     (bind (evaluate key_of) (\<lambda>pk.
      bind (call (\<lambda>_. fetch (LinkingDatasets pk) the_keys Done)) (\<lambda>linking.
      if linking \<noteq> [] then raise ''ProtectedError''
      else before (look (\<lambda>rd. whenever (rd_external_database rd) (\<lambda>db. call (drop_external_database_table d db))))
        (before (assign (\<lambda>rd. rd\<lparr>rd_deleted := True\<rparr>)) (save_dataset d now)))))"

section \<open>Records\<close>

definition sync_if_external :: "nat \<Rightarrow> unit ds_method" where
  "sync_if_external d = look (\<lambda>rd. whenever (rd_external_database rd) (\<lambda>db. call (sync_to_external_database d db)))"

definition with_class :: "nat \<Rightarrow> (record_class \<Rightarrow> nat \<Rightarrow> 'a ds_method) \<Rightarrow> 'a ds_method" where
  "with_class d m = bind (call (get_record_model_class d)) (\<lambda>model. bind (evaluate key_of) (m model))"

definition write_record :: "nat \<Rightarrow> nat option \<Rightarrow> json dict \<Rightarrow> unit ds_method" where
  "write_record d internal_id form_data =
     (case internal_id of
        None \<Rightarrow> bind (call (get_record_model_class d)) (\<lambda>model. send (CreateRecord model form_data))
      | Some i \<Rightarrow> with_class d (\<lambda>model pk.
          before (send (UpdateRecord model pk i form_data)) (send (FirstRecord model pk i))))"

definition save_record :: "nat \<Rightarrow> int \<Rightarrow> bool \<Rightarrow> nat option \<Rightarrow> json dict \<Rightarrow> unit ds_method" where
  "save_record d now sync_externally internal_id form_data = transaction
     (before (write_record d internal_id form_data)
     (before (increment_minor_version d now)
       (if sync_externally then sync_if_external d else return ())))"

definition delete_record :: "nat \<Rightarrow> int \<Rightarrow> nat \<Rightarrow> unit ds_method" where
  "delete_record d now internal_id = transaction
     (before (increment_minor_version d now)
     (before (with_class d (\<lambda>model pk. before (send (GetRecord model pk internal_id)) (send (DeleteRecord model internal_id))))
     (before (sync_if_external d) (save_dataset d now))))"

definition delete_all_records :: "nat \<Rightarrow> int \<Rightarrow> unit ds_method" where
  "delete_all_records d now = transaction
     (before (increment_minor_version d now)
     (before (with_class d (\<lambda>model pk. send (DeleteRecords model pk)))
     (before (sync_if_external d) (save_dataset d now))))"

section \<open>Fields\<close>

type_synonym 'a field_method = "(ref_field \<times> ref_dataset, 'a) py_method"

definition on_dataset :: "'a ds_method \<Rightarrow> 'a field_method" where
  "on_dataset m = (\<lambda>(f, rd). seq (m rd) (\<lambda>(r, rd). Done (r, (f, rd))))"

definition save_field_row :: "unit field_method" where
  "save_field_row = look (\<lambda>(f, rd).
     if rf_id f = None
     then bind (call (\<lambda>(f, rd). fetch (InsertField f) the_key Done)) (\<lambda>pk. assign (\<lambda>(f, rd). (f\<lparr>rf_id := Some pk\<rparr>, rd)))
     else send (UpdateField f))"

text \<open>\<open>model_class._meta.get_field(name)\<close>\<close>

definition get_field :: "record_class \<Rightarrow> string option \<Rightarrow> exc + string" where
  "get_field model name =
     (case name of
        Some n \<Rightarrow> if map_of (rc_fields model) n = None then Inl ''FieldDoesNotExist'' else Inr n
      | None \<Rightarrow> Inl ''FieldDoesNotExist'')"

definition in_databases :: "(string \<Rightarrow> ref_field \<Rightarrow> ref_dataset \<Rightarrow> unit ref_prog) \<Rightarrow> unit field_method" where
  "in_databases p = call (\<lambda>(f, rd). for_each (\<lambda>database. p database f rd) (get_database_names rd))"

definition add_column_to_db :: "nat \<Rightarrow> int \<Rightarrow> unit field_method" where
  "add_column_to_db d now =
     before save_field_row
     (before (on_dataset (increment_schema_version d now))
     (bind (on_dataset (call (get_record_model_class d))) (\<lambda>model.
      in_databases (\<lambda>database f rd. with_value (get_field model (attribute f)) (\<lambda>name.
        do_call (AddField database model name) (Done ()))))))"

definition update_db_column_name :: "nat \<Rightarrow> int \<Rightarrow> unit field_method" where
  "update_db_column_name d now =
     bind (on_dataset (call (get_record_model_class d))) (\<lambda>model.
     bind (evaluate (\<lambda>(f, rd). get_field model (rf_original_column_name f))) (\<lambda>from_field.
     before save_field_row
     (before (on_dataset (increment_schema_version d now))
     (bind (on_dataset (call (get_record_model_class d))) (\<lambda>model.
      bind (evaluate (\<lambda>(f, rd). get_field model (rf_column_name f))) (\<lambda>to_field.
      transaction (in_databases (\<lambda>database f rd. do_call (AlterField database model from_field to_field) (Done ())))))))))"

definition get_postgres_datatype :: "data_type \<Rightarrow> string" where
  "get_postgres_datatype t =
     (case t of Character \<Rightarrow> ''varchar(255)'' | Integer \<Rightarrow> ''integer'' | Floating \<Rightarrow> ''float'' | Date \<Rightarrow> ''date'' | Time \<Rightarrow> ''time''
      | Datetime \<Rightarrow> ''timestamp'' | Boolean \<Rightarrow> ''boolean'' | Foreign_key \<Rightarrow> ''integer'' | Uuid \<Rightarrow> ''uuid'')"

definition update_db_column_data_type :: "nat \<Rightarrow> int \<Rightarrow> unit field_method" where
  "update_db_column_data_type d now =
     before save_field_row
     (before (on_dataset (increment_schema_version d now))
     (in_databases (\<lambda>database f rd.
        if rf_column_name f = None then Fail ''TypeError''
        else do_call (AlterColumnType database (rd_table_name rd) (rf_column_name f) (get_postgres_datatype (rf_data_type f)))
          (Done ()))))"

text \<open>The links that are refused: to a field that is a link, and to a dataset with a link back.\<close>

definition check_link :: "unit field_method" where
  "check_link = look (\<lambda>(f, rd).
     case rf_linked f of
       None \<Rightarrow> return ()
     | Some l \<Rightarrow>
         if lf_data_type l = Foreign_key then raise ''ValidationError''
         else bind (evaluate (\<lambda>(f, rd). key_of rd)) (\<lambda>pk.
              bind (call (\<lambda>_. fetch (LinkingDatasets pk) the_keys Done)) (\<lambda>circular.
              if lf_dataset l \<in> set circular then raise ''ValidationError'' else return ())))"

text \<open>Whether this is not the first save.\<close>

definition has_history :: "nat \<Rightarrow> (ref_field \<times> ref_dataset, bool) py_method" where
  "has_history d = look (\<lambda>(f, rd).
     if rd_major_version rd > 1 \<or> rd_minor_version rd > 0 then return True
     else on_dataset (with_class d (\<lambda>model pk. call (\<lambda>_. fetch (RecordsExist model pk) the_truth Done))))"

definition save_field :: "nat \<Rightarrow> int \<Rightarrow> unit field_method" where
  "save_field d now = transaction
     (before check_link
     (before (look (\<lambda>(f, rd).
        if rf_id f = None then catching (transaction (add_column_to_db d now)) database_error (return ())
        else before (if rf_original_column_name f \<noteq> rf_column_name f then update_db_column_name d now else return ())
               (if rf_original_data_type f \<noteq> rf_data_type f then update_db_column_data_type d now else return ())))
     (bind (has_history d) (\<lambda>later.
      before (if later then on_dataset (increment_major_version d now) else return ()) save_field_row))))"

definition remove_column :: "record_class \<Rightarrow> string \<Rightarrow> ref_field \<Rightarrow> ref_dataset \<Rightarrow> unit ref_prog" where
  "remove_column model database f rd =
     (if rf_data_type f \<noteq> Foreign_key
      then with_value (get_field model (rf_original_column_name f)) (\<lambda>name. do_call (RemoveField database model name) (Done ()))
      else want ''ValueError'' (rd_id rd) (\<lambda>pk. want ''ValueError'' (rf_id f) (\<lambda>fk.
           fetch (SharingRelationship pk (rf_relationship_name f) fk) the_truth (\<lambda>shared.
           if shared then Done ()
           else with_value (get_field model (rf_relationship_name f)) (\<lambda>name.
                do_call (RemoveField database model name) (Done ()))))))"

definition sorts_by :: "ref_dataset \<Rightarrow> ref_field \<Rightarrow> bool" where
  "sorts_by rd f \<longleftrightarrow> (case rd_sort_field rd of None \<Rightarrow> False | Some s \<Rightarrow> rf_id s \<noteq> None \<and> rf_id s = rf_id f)"

definition delete_field :: "nat \<Rightarrow> int \<Rightarrow> unit field_method" where
  "delete_field d now = transaction
     (bind (on_dataset (call (get_record_model_class d))) (\<lambda>model.
      before (in_databases (remove_column model))
     (before (look (\<lambda>(f, rd).
        if sorts_by rd f then on_dataset (before (assign (\<lambda>rd. rd\<lparr>rd_sort_field := None\<rparr>)) (save_dataset d now))
        else return ()))
     (before (call (\<lambda>(f, rd). want ''AssertionError'' (rf_id f) (\<lambda>fk. do_call (DeleteField fk) (Done ()))))
     (before (on_dataset (increment_schema_version d now)) (on_dataset (increment_major_version d now)))))))"

section \<open>Uploads\<close>

text \<open>
  \<open>apps/dw_admin/views.py\<close>: records from the rows of a CSV file. A row holds a text for each header, or nothing
  where the line is too short. Forms check the values: a value or an error.
\<close>

type_synonym upload_row = "(string \<times> string option) list"
type_synonym form_clean = "ref_field \<Rightarrow> string option \<Rightarrow> string + json"

definition relationship_name_for_record_forms :: "ref_field \<Rightarrow> string option" where
  "relationship_name_for_record_forms f =
     (if rf_data_type f \<noteq> Foreign_key then None
      else if CHR '':'' \<in> set (rf_name f) then Some (takeWhile (\<lambda>c. c \<noteq> CHR '':'') (rf_name f))
      else rf_relationship_name f)"

definition upload_name :: "ref_field \<Rightarrow> string option" where
  "upload_name f = (if rf_data_type f \<noteq> Foreign_key then Some (rf_name f) else relationship_name_for_record_forms f)"

text \<open>The fields that users edit, the last one for each name.\<close>

definition editable_fields :: "ref_field list \<Rightarrow> (string option \<times> ref_field) list" where
  "editable_fields fs = fold (\<lambda>f d. AList.update
     (if rf_data_type f \<noteq> Foreign_key then Some (rf_name f) else rf_relationship_name f) f d)
     (filter (\<lambda>f. rf_data_type f \<noteq> Uuid) fs) []"

definition upload_headers :: "ref_field list \<Rightarrow> ref_field dict option" where
  "upload_headers fs = map_option (\<lambda>named. fold (\<lambda>(h, f) d. dict_set h f d) named [])
     (those (map (\<lambda>(_, f). map_option (\<lambda>n. (lower n, f)) (upload_name f)) (editable_fields fs)))"

text \<open>\<open>get_record_by_custom_id\<close>; the exception for a record that is not there is \<open>RecordDoesNotExist\<close>.\<close>

definition get_record_by_custom_id :: "nat \<Rightarrow> json \<Rightarrow> ref_dataset \<Rightarrow> nat ref_prog" where
  "get_record_by_custom_id d value rd =
     want ''ValueError'' (rd_id rd) (\<lambda>pk.
     fetch (IdentifierColumn pk) the_column (\<lambda>column.
     seq (get_record_model_class d rd) (\<lambda>model.
     fetch (GetByCustomId model pk column value) the_key Done)))"

definition or_missing :: "nat ref_prog \<Rightarrow> nat option ref_prog" where
  "or_missing m = handling (seq m (\<lambda>x. Done (Some x))) (\<lambda>e. e = ''RecordDoesNotExist'') (\<lambda>e. Done None)"

text \<open>
  The value or the error of a column of a row is added to those of the columns before it. The form of a link
  reads the records of its dataset first, which is left out.
\<close>

type_synonym row_result = "json dict \<times> string dict"

definition link_value :: "nat \<Rightarrow> ref_field dict \<Rightarrow> string \<Rightarrow> string option \<Rightarrow> ref_field \<Rightarrow> row_result \<Rightarrow> row_result ref_prog" where
  "link_value d field_map header_name value f = (\<lambda>(form_data, errors).
     seq (if value = Some [] then Done (None, errors)
          else want ''KeyError'' (map_of field_map header_name) (\<lambda>mapped.
               want ''AttributeError'' (rf_linked mapped) (\<lambda>l.
               fetch (DatasetOf (lf_dataset l)) the_dataset (\<lambda>linked.
               seq (or_missing (get_record_by_custom_id d (case value of None \<Rightarrow> JNull | Some v \<Rightarrow> JStr v) linked)) (\<lambda>link_id.
               Done (link_id, if link_id = None
                              then dict_set header_name (''Identifier '' @ show_name value @ '' does not exist in linked dataset'') errors
                              else errors))))))
       (\<lambda>(link_id, errors).
     want ''TypeError'' (rf_relationship_name f) (\<lambda>n.
     Done (dict_set (n @ ''_id'') (case link_id of None \<Rightarrow> JNull | Some i \<Rightarrow> JInt (int i)) form_data, errors))))"

definition upload_value :: "nat \<Rightarrow> form_clean \<Rightarrow> ref_field dict \<Rightarrow> upload_row \<Rightarrow> ref_field \<Rightarrow> row_result \<Rightarrow> row_result ref_prog" where
  "upload_value d clean field_map row f = (\<lambda>(form_data, errors).
     want ''AttributeError'' (upload_name f) (\<lambda>field_name.
     let header_name = lower field_name
     in want ''KeyError'' (map_of row header_name) (\<lambda>value.
        if rf_data_type f = Foreign_key then link_value d field_map header_name value f (form_data, errors)
        else want ''TypeError'' (rf_column_name f) (\<lambda>column_name.
             case clean f value of
               Inl e \<Rightarrow> Done (form_data, dict_set header_name e errors)
             | Inr v \<Rightarrow> Done (dict_set column_name v form_data, errors)))))"

primrec upload_values :: "nat \<Rightarrow> form_clean \<Rightarrow> ref_field dict \<Rightarrow> upload_row \<Rightarrow> ref_field list \<Rightarrow> row_result \<Rightarrow> row_result ref_prog" where
  "upload_values d clean field_map row [] acc = Done acc"
| "upload_values d clean field_map row (f # fs) acc =
     seq (upload_value d clean field_map row f acc) (upload_values d clean field_map row fs)"

text \<open>The record with the identifier of the row, if there is one.\<close>

definition existing_record :: "nat \<Rightarrow> json dict \<Rightarrow> ref_dataset \<Rightarrow> nat option ref_prog" where
  "existing_record d form_data rd =
     want ''ValueError'' (rd_id rd) (\<lambda>pk.
     fetch (IdentifierColumn pk) the_column (\<lambda>column.
     or_missing (get_record_by_custom_id d
       (case column of None \<Rightarrow> JNull | Some c \<Rightarrow> (case map_of form_data c of None \<Rightarrow> JNull | Some v \<Rightarrow> v)) rd)))"

definition upload_record :: "nat \<Rightarrow> int \<Rightarrow> row_result \<Rightarrow> nat option \<Rightarrow> (ref_dataset, upload_status) py_method" where
  "upload_record d now = (\<lambda>(form_data, errors) record_id.
     if errors \<noteq> [] then return (Failed errors)
     else (\<lambda>rd. seq (save_record d now False record_id form_data rd) (\<lambda>(r, rd).
            Done (Inr (case r of Inl e \<Rightarrow> Failed [(''Error'', e)]
                              | Inr _ \<Rightarrow> if record_id \<noteq> None then Updated else Added), rd))))"

definition upload_row :: "nat \<Rightarrow> int \<Rightarrow> form_clean \<Rightarrow> ref_field dict \<Rightarrow> upload_row \<Rightarrow> unit ds_method" where
  "upload_row d now clean field_map row =
     bind (evaluate key_of) (\<lambda>pk.
     bind (call (\<lambda>rd. fetch (FieldsOf pk) the_fields Done)) (\<lambda>fs.
     bind (call (\<lambda>rd. upload_values d clean field_map row (map snd (editable_fields fs)) ([(''reference_dataset'', JInt (int pk))], []))) (\<lambda>acc.
     bind (call (existing_record d (fst acc))) (\<lambda>record_id.
     bind (upload_record d now acc record_id) (\<lambda>status. send (SaveUploadRow row status))))))"

primrec upload_rows :: "nat \<Rightarrow> int \<Rightarrow> form_clean \<Rightarrow> ref_field dict \<Rightarrow> upload_row list \<Rightarrow> unit ds_method" where
  "upload_rows d now clean field_map [] = return ()"
| "upload_rows d now clean field_map (row # rows) =
     before (upload_row d now clean field_map row) (upload_rows d now clean field_map rows)"

definition upload :: "nat \<Rightarrow> int \<Rightarrow> form_clean \<Rightarrow> upload_row list \<Rightarrow> unit ds_method" where
  "upload d now clean rows =
     bind (call (get_record_model_class d)) (\<lambda>record_model_class.
     bind (evaluate key_of) (\<lambda>pk.
     bind (call (\<lambda>rd. fetch (FieldsOf pk) the_fields Done)) (\<lambda>fs.
     bind (evaluate (\<lambda>rd. case upload_headers fs of None \<Rightarrow> Inl ''AttributeError'' | Some m \<Rightarrow> Inr m)) (\<lambda>field_map.
     before (send (CreateUploadLog pk))
     (before (upload_rows d now clean field_map rows) (sync_if_external d))))))"

end
