(* ===== verification/ReferenceClasses.thy ===== *)
theory ReferenceClasses
  imports ReferenceData
begin

text \<open>
  When the classes of reference datasets can be made: the links between datasets must not run in a ring.
\<close>

lemma exec_fetch: "exec (fetch q get f) env h =
    (case env h q of
       Inl e \<Rightarrow> (Inl e, h @ [(q, Inl e)])
     | Inr v \<Rightarrow> (case get v of None \<Rightarrow> (Inl ''TypeError'', h @ [(q, Inr v)]) | Some x \<Rightarrow> exec (f x) env (h @ [(q, Inr v)])))"
  by (simp add: fetch_def exec_ask exec_want split: sum.split option.split)

lemma exec_do_call: "exec (do_call q m) env h =
    (case env h q of Inl e \<Rightarrow> (Inl e, h @ [(q, Inl e)]) | Inr v \<Rightarrow> exec m env (h @ [(q, Inr v)]))"
  by (simp add: do_call_def exec_ask)

lemma exec_with_value: "exec (with_value v f) env h = (case v of Inl e \<Rightarrow> (Inl e, h) | Inr x \<Rightarrow> exec (f x) env h)"
  by (simp add: with_value_def split: sum.split)

section \<open>The calls of making a class\<close>

fun makes_classes :: "ref_call \<Rightarrow> bool" where
  "makes_classes (Registered t) = True"
| "makes_classes (Unregister t) = True"
| "makes_classes (Register model) = True"
| "makes_classes (FieldsOf n) = True"
| "makes_classes (DatasetOf n) = True"
| "makes_classes _ = False"

lemma calls_only_fetch: "P q \<Longrightarrow> (\<And>x. calls_only P (f x)) \<Longrightarrow> calls_only P (fetch q get f)"
  by (simp add: fetch_def calls_only_ask calls_only_want)

lemma calls_only_do_call: "P q \<Longrightarrow> calls_only P m \<Longrightarrow> calls_only P (do_call q m)"
  by (simp add: do_call_def calls_only_ask)

lemma calls_only_with_value: "(\<And>x. v = Inr x \<Longrightarrow> calls_only P (f x)) \<Longrightarrow> calls_only P (with_value v f)"
  by (cases v) (simp_all add: with_value_def)

lemmas ref_calls = calls_only_intros calls_only_fetch calls_only_do_call calls_only_with_value

lemma model_fields_calls:
  assumes "\<And>rd. calls_only makes_classes (class_of rd)"
  shows "calls_only makes_classes (model_fields class_of fs attrs)"
  using assms
  by (induction fs arbitrary: attrs) (simp_all add: make_model_field_def ref_calls)

lemma get_record_model_class_calls: "calls_only makes_classes (get_record_model_class d rd)"
proof (induction d arbitrary: rd)
  case (Suc d)
  have "calls_only makes_classes (build_class (get_record_model_class d) rd)" for rd
    unfolding build_class_def
    by (intro ref_calls model_fields_calls Suc.IH) (auto simp: Let_def intro!: ref_calls split: option.split)
  then show ?case by (auto intro!: ref_calls split: option.split)
qed simp

text \<open>The registry holds the class of a table under the name of the table.\<close>

definition registry_names :: "(ref_call, ref_reply) services \<Rightarrow> bool" where
  "registry_names env \<longleftrightarrow> (\<forall>h t c. env h (Registered t) = Inr (ClassFound (Some c)) \<longrightarrow> rc_table c = t)"

lemma the_class_Some: "the_class v = Some c \<Longrightarrow> v = ClassFound c"
  by (cases v) simp_all

lemma exec_build_class_table: "registry_names env \<Longrightarrow> exec (build_class class_of rd) env h = (Inr model, h') \<Longrightarrow>
    rc_table model = rd_table_name rd"
  by (auto simp: build_class_def exec_do_call exec_with_value exec_want exec_fetch exec_seq registry_names_def Let_def
      split: sum.splits option.splits prod.splits dest!: the_class_Some)

lemma exec_get_class_table: "registry_names env \<Longrightarrow> exec (get_record_model_class d rd) env h = (Inr model, h') \<Longrightarrow>
    rc_table model = rd_table_name rd"
proof (cases d)
  case (Suc k)
  assume env: "registry_names env" and ex: "exec (get_record_model_class d rd) env h = (Inr model, h')"
  then show ?thesis using Suc
    by (auto simp: exec_fetch registry_names_def split: sum.splits option.splits if_splits
        dest!: the_class_Some dest: exec_build_class_table [OF env])
qed simp

section \<open>What the database holds\<close>

record ref_store =
  st_dataset :: "nat \<Rightarrow> ref_dataset"
  st_fields :: "nat \<Rightarrow> ref_field list"

text \<open>The datasets that a dataset needs the classes of.\<close>

definition links :: "ref_store \<Rightarrow> nat \<Rightarrow> nat set" where
  "links st n = {m. \<exists>f \<in> set (st_fields st n). rf_data_type f = Foreign_key \<and> map_option lf_dataset (rf_linked f) = Some m}"

definition sound_field :: "ref_field \<Rightarrow> bool" where
  "sound_field f \<longleftrightarrow> attribute f \<noteq> None \<and> (rf_data_type f = Foreign_key \<longrightarrow> rf_linked f \<noteq> None)"

definition sound_dataset :: "ref_store \<Rightarrow> nat \<Rightarrow> bool" where
  "sound_dataset st n \<longleftrightarrow> rd_id (st_dataset st n) = Some n \<and> isl (record_sort_order (st_dataset st n)) = False \<and>
     (\<forall>f \<in> set (st_fields st n). sound_field f)"

text \<open>The database answers from what it holds, and the registry of classes answers.\<close>

definition reads :: "ref_store \<Rightarrow> (ref_call, ref_reply) services \<Rightarrow> bool" where
  "reads st env \<longleftrightarrow> (\<forall>h n. env h (FieldsOf n) = Inr (FieldRows (st_fields st n)) \<and>
     env h (DatasetOf n) = Inr (DatasetRow (st_dataset st n)))"

definition registry_works :: "(ref_call, ref_reply) services \<Rightarrow> bool" where
  "registry_works env \<longleftrightarrow> (\<forall>h t model. (\<exists>c. env h (Registered t) = Inr (ClassFound c)) \<and>
     env h (Unregister t) = Inr NoAnswer \<and> env h (Register model) = Inr NoAnswer)"

lemma readsD:
  assumes "reads st env"
  shows "env h (FieldsOf n) = Inr (FieldRows (st_fields st n))" "env h (DatasetOf n) = Inr (DatasetRow (st_dataset st n))"
  using assms unfolding reads_def by blast+

lemma registry_worksD:
  assumes "registry_works env"
  obtains c where "env h (Registered t) = Inr (ClassFound c)"
    "env h (Unregister t) = Inr NoAnswer" "env h (Register model) = Inr NoAnswer"
  using assms unfolding registry_works_def by blast

section \<open>Classes can be made\<close>

lemma exec_make_model_field:
  assumes st: "reads st env" and f: "sound_field f"
    and made: "\<And>l h. rf_data_type f = Foreign_key \<Longrightarrow> rf_linked f = Some l \<Longrightarrow>
      \<exists>model h'. exec (class_of (st_dataset st (lf_dataset l))) env h = (Inr model, h')"
  shows "\<exists>h'. exec (make_model_field class_of f) env h = (Inr (get_model_field f
    (if rf_data_type f = Foreign_key then map_option lf_dataset (rf_linked f) else None)), h')"
proof (cases "rf_data_type f = Foreign_key")
  case True
  with f obtain l where l: "rf_linked f = Some l" by (auto simp: sound_field_def)
  from made [OF True l] obtain model h' where
    "exec (class_of (st_dataset st (lf_dataset l))) env
       (h @ [(DatasetOf (lf_dataset l), Inr (DatasetRow (st_dataset st (lf_dataset l))))]) = (Inr model, h')" by blast
  with True l show ?thesis by (simp add: make_model_field_def exec_fetch readsD [OF st] exec_seq)
qed (simp add: make_model_field_def)

lemma exec_model_fields:
  assumes st: "reads st env" and sound: "\<forall>f \<in> set fs. sound_field f"
    and made: "\<And>f l h. f \<in> set fs \<Longrightarrow> rf_data_type f = Foreign_key \<Longrightarrow> rf_linked f = Some l \<Longrightarrow>
      \<exists>model h'. exec (class_of (st_dataset st (lf_dataset l))) env h = (Inr model, h')"
    and attrs: "\<forall>k \<in> fst ` set attrs. k \<noteq> None"
  shows "\<exists>attrs' h'. exec (model_fields class_of fs attrs) env h = (Inr attrs', h') \<and> (\<forall>k \<in> fst ` set attrs'. k \<noteq> None)"
  using sound made attrs
proof (induction fs arbitrary: attrs h)
  case (Cons f fs)
  have f: "sound_field f" using Cons.prems(1) by simp
  obtain mf h1 where h1: "exec (make_model_field class_of f) env h = (Inr mf, h1)"
    using exec_make_model_field [OF st f, of class_of h] Cons.prems(2) by (metis list.set_intros(1))
  have "\<forall>k \<in> fst ` set (AList.update (attribute f) mf attrs). k \<noteq> None"
    using Cons.prems(3) f by (simp add: dom_update sound_field_def)
  then have "\<exists>attrs' h'. exec (model_fields class_of fs (AList.update (attribute f) mf attrs)) env h1 = (Inr attrs', h') \<and>
      (\<forall>k \<in> fst ` set attrs'. k \<noteq> None)"
  proof (rule Cons.IH [rotated 2])
    show "\<forall>f \<in> set fs. sound_field f" using Cons.prems(1) by simp
    fix g l h
    assume "g \<in> set fs" "rf_data_type g = Foreign_key" "rf_linked g = Some l"
    then show "\<exists>model h'. exec (class_of (st_dataset st (lf_dataset l))) env h = (Inr model, h')"
      by (intro Cons.prems(2)) simp_all
  qed
  with h1 show ?case by (auto simp: exec_seq)
qed simp

lemma named_attributes_Some: "\<forall>k \<in> fst ` set attrs. k \<noteq> None \<Longrightarrow> \<exists>fs. named_attributes attrs = Some fs"
  by (induction attrs) (auto simp: named_attributes_def)

lemma exec_build_class:
  assumes st: "reads st env" and reg: "registry_works env" and sound: "sound_dataset st n"
    and made: "\<And>m h. m \<in> links st n \<Longrightarrow> \<exists>model h'. exec (class_of (st_dataset st m)) env h = (Inr model, h')"
  shows "\<exists>model h'. exec (build_class class_of (st_dataset st n)) env h = (Inr model, h')"
proof -
  let ?rd = "st_dataset st n"
  obtain order where order: "record_sort_order ?rd = Inr order"
    using sound by (cases "record_sort_order ?rd") (auto simp: sound_dataset_def)
  have id: "rd_id ?rd = Some n" using sound by (simp add: sound_dataset_def)
  define h1 where "h1 = h @ [(Unregister (rd_table_name ?rd), Inr NoAnswer)] @ [(FieldsOf n, Inr (FieldRows (st_fields st n)))]"
  have "\<exists>attrs h2. exec (model_fields class_of (st_fields st n) []) env h1 = (Inr attrs, h2) \<and>
      (\<forall>k \<in> fst ` set attrs. k \<noteq> None)"
  proof (rule exec_model_fields [OF st])
    show "\<forall>f \<in> set (st_fields st n). sound_field f" using sound by (simp add: sound_dataset_def)
    fix f l h
    assume "f \<in> set (st_fields st n)" "rf_data_type f = Foreign_key" "rf_linked f = Some l"
    then have "lf_dataset l \<in> links st n" by (force simp: links_def)
    then show "\<exists>model h'. exec (class_of (st_dataset st (lf_dataset l))) env h = (Inr model, h')" by (rule made)
  qed simp
  then obtain attrs h2 where a: "exec (model_fields class_of (st_fields st n) []) env h1 = (Inr attrs, h2)"
    and named: "\<forall>k \<in> fst ` set attrs. k \<noteq> None" by blast
  obtain fs where fs: "named_attributes attrs = Some fs" using named_attributes_Some [OF named] by blast
  obtain c where c: "env h2 (Registered (rd_table_name ?rd)) = Inr (ClassFound c)" using reg by (rule registry_worksD)
  have u: "\<And>h t. env h (Unregister t) = Inr NoAnswer" and r: "\<And>h m. env h (Register m) = Inr NoAnswer"
    using reg by (auto simp: registry_works_def)
  show ?thesis
  proof (cases c)
    case None
    with a c fs show ?thesis
      by (simp add: build_class_def exec_do_call u exec_with_value order exec_want id exec_fetch readsD [OF st]
          exec_seq h1_def Let_def r)
  next
    case (Some model)
    with a c show ?thesis
      by (simp add: build_class_def exec_do_call u exec_with_value order exec_want id exec_fetch readsD [OF st]
          exec_seq h1_def)
  qed
qed

lemma exec_get_class:
  assumes reg: "registry_works env"
    and made: "\<And>h. \<exists>model h'. exec (build_class (get_record_model_class d) rd) env h = (Inr model, h')"
  shows "\<exists>model h'. exec (get_record_model_class (Suc d) rd) env h = (Inr model, h')"
proof -
  obtain c where c: "env h (Registered (rd_table_name rd)) = Inr (ClassFound c)" using reg by (rule registry_worksD)
  show ?thesis
    using c made [of "h @ [(Registered (rd_table_name rd), Inr (ClassFound c))]"]
    by (cases c) (simp_all add: exec_fetch)
qed

lemma classes_by_rank:
  assumes st: "reads st env" and reg: "registry_works env" and sound: "\<And>m. sound_dataset st m"
    and rank: "\<And>m k. k \<in> links st m \<Longrightarrow> rank k < rank m" and deep: "rank n < d"
  shows "\<exists>model h'. exec (get_record_model_class d (st_dataset st n)) env h = (Inr model, h')"
  using deep
proof (induction d arbitrary: n h)
  case (Suc d)
  have "\<exists>model h'. exec (get_record_model_class d (st_dataset st m)) env h = (Inr model, h')" if "m \<in> links st n" for m h
    using Suc.IH [of m h] rank [OF that] Suc.prems by simp
  then show ?case by (intro exec_get_class [OF reg] exec_build_class [OF st reg sound])
qed simp

section \<open>Rings of links\<close>

text \<open>The registry of a process that has just started: it knows the classes that the process has registered.\<close>

definition registered_in :: "(ref_call \<times> (exc + ref_reply)) list \<Rightarrow> string \<Rightarrow> bool" where
  "registered_in h t \<longleftrightarrow> (\<exists>model r. (Register model, r) \<in> set h \<and> rc_table model = t)"

definition starts_empty :: "(ref_call, ref_reply) services \<Rightarrow> bool" where
  "starts_empty env \<longleftrightarrow> (\<forall>h t. \<not> registered_in h t \<longrightarrow> env h (Registered t) = Inr (ClassFound None))"

text \<open>Each dataset of a ring has a link to a dataset of the ring.\<close>

definition ring :: "ref_store \<Rightarrow> nat set \<Rightarrow> bool" where
  "ring st R \<longleftrightarrow> R \<noteq> {} \<and> (\<forall>n \<in> R. links st n \<inter> R \<noteq> {})"

definition unregistered :: "ref_store \<Rightarrow> nat set \<Rightarrow> (ref_call \<times> (exc + ref_reply)) list \<Rightarrow> bool" where
  "unregistered st R h \<longleftrightarrow> (\<forall>n \<in> R. \<not> registered_in h (rd_table_name (st_dataset st n)))"

lemma unregistered_Nil: "unregistered st R []"
  by (simp add: unregistered_def registered_in_def)

lemma unregistered_snoc: "unregistered st R h \<Longrightarrow> (\<And>model. q = Register model \<Longrightarrow>
    \<forall>n \<in> R. rc_table model \<noteq> rd_table_name (st_dataset st n)) \<Longrightarrow> unregistered st R (h @ [(q, r)])"
  by (auto simp: unregistered_def registered_in_def)

lemma unregistered_append: "unregistered st R (h @ es) \<longleftrightarrow> unregistered st R h \<and>
    (\<forall>n \<in> R. \<forall>model r. (Register model, r) \<in> set es \<longrightarrow> rc_table model \<noteq> rd_table_name (st_dataset st n))"
  unfolding unregistered_def registered_in_def set_append by blast

text \<open>A program whose runs keep the ring out of the registry, and which fails when asked for a class of the ring.\<close>

definition breaks_on_ring :: "ref_store \<Rightarrow> nat set \<Rightarrow> (ref_call, ref_reply) services \<Rightarrow>
    (ref_dataset \<Rightarrow> record_class ref_prog) \<Rightarrow> bool" where
  "breaks_on_ring st R env class_of \<longleftrightarrow> (\<forall>n h r h'. unregistered st R h \<longrightarrow>
     exec (class_of (st_dataset st n)) env h = (r, h') \<longrightarrow> unregistered st R h' \<and> (n \<in> R \<longrightarrow> isl r))"

lemma breaks_on_ringD:
  "breaks_on_ring st R env class_of \<Longrightarrow> unregistered st R h \<Longrightarrow>
    exec (class_of (st_dataset st n)) env h = (r, h') \<Longrightarrow> unregistered st R h' \<and> (n \<in> R \<longrightarrow> isl r)"
  unfolding breaks_on_ring_def by blast

lemma ring_model_field:
  assumes st: "reads st env" and b: "breaks_on_ring st R env class_of" and u: "unregistered st R h"
    and ex: "exec (make_model_field class_of f) env h = (r, h')"
  shows "unregistered st R h' \<and>
    (rf_data_type f = Foreign_key \<and> (\<exists>m \<in> R. map_option lf_dataset (rf_linked f) = Some m) \<longrightarrow> isl r)"
proof (cases "rf_data_type f = Foreign_key \<and> rf_linked f \<noteq> None")
  case True
  then obtain l where l: "rf_data_type f = Foreign_key" "rf_linked f = Some l" by blast
  define h1 where "h1 = h @ [(DatasetOf (lf_dataset l), Inr (DatasetRow (st_dataset st (lf_dataset l))))]"
  obtain r1 h2 where r1: "exec (class_of (st_dataset st (lf_dataset l))) env h1 = (r1, h2)" by fastforce
  have "unregistered st R h1" unfolding h1_def by (rule unregistered_snoc [OF u]) simp
  from breaks_on_ringD [OF b this r1] have "unregistered st R h2 \<and> (lf_dataset l \<in> R \<longrightarrow> isl r1)" .
  moreover have "h' = h2 \<and> (isl r1 \<longrightarrow> isl r)"
    using ex r1 l by (auto simp: make_model_field_def exec_want exec_fetch readsD [OF st] exec_seq h1_def split: sum.splits)
  ultimately show ?thesis using l by auto
next
  case False
  then show ?thesis using ex u by (auto simp: make_model_field_def exec_want split: if_splits)
qed

lemma ring_model_fields:
  assumes st: "reads st env" and b: "breaks_on_ring st R env class_of" and u: "unregistered st R h"
    and ex: "exec (model_fields class_of fs attrs) env h = (r, h')"
  shows "unregistered st R h' \<and>
    ((\<exists>f \<in> set fs. rf_data_type f = Foreign_key \<and> (\<exists>m \<in> R. map_option lf_dataset (rf_linked f) = Some m)) \<longrightarrow> isl r)"
  using u ex
proof (induction fs arbitrary: attrs h)
  case (Cons f fs)
  obtain r1 h1 where r1: "exec (make_model_field class_of f) env h = (r1, h1)" by fastforce
  note f = ring_model_field [OF st b Cons.prems(1) r1]
  show ?case
  proof (cases r1)
    case (Inl e)
    with Cons.prems(2) r1 f show ?thesis by (auto simp: exec_seq)
  next
    case (Inr mf)
    with Cons.prems(2) r1 have "exec (model_fields class_of fs (AList.update (attribute f) mf attrs)) env h1 = (r, h')"
      by (simp add: exec_seq)
    from Cons.IH [OF _ this] f Inr show ?thesis by auto
  qed
qed simp

lemma ring_build_class:
  assumes st: "reads st env" and sound: "\<And>m. sound_dataset st m" and ring: "ring st R"
    and names: "inj (\<lambda>n. rd_table_name (st_dataset st n))"
    and unreg: "\<And>h t. env h (Unregister t) = Inr NoAnswer"
    and b: "breaks_on_ring st R env class_of" and u: "unregistered st R h"
    and ex: "exec (build_class class_of (st_dataset st n)) env h = (r, h')"
  shows "unregistered st R h' \<and> (n \<in> R \<longrightarrow> isl r)"
proof -
  let ?rd = "st_dataset st n" and ?t = "rd_table_name (st_dataset st n)"
  obtain order where order: "record_sort_order ?rd = Inr order"
    using sound [of n] by (cases "record_sort_order ?rd") (auto simp: sound_dataset_def)
  have id: "rd_id ?rd = Some n" using sound [of n] by (simp add: sound_dataset_def)
  define h1 where "h1 = (h @ [(Unregister ?t, Inr NoAnswer)]) @ [(FieldsOf n, Inr (FieldRows (st_fields st n)))]"
  have u1: "unregistered st R h1" unfolding h1_def by (intro unregistered_snoc u) simp_all
  obtain r2 h2 where r2: "exec (model_fields class_of (st_fields st n) []) env h1 = (r2, h2)" by fastforce
  note fields = ring_model_fields [OF st b u1 r2]
  have links: "n \<in> R \<Longrightarrow> isl r2"
    using fields ring by (force simp: ring_def links_def)
  have ex': "exec (seq (model_fields class_of (st_fields st n) []) (\<lambda>attrs.
      fetch (Registered ?t) the_class (\<lambda>found. case found of Some model \<Rightarrow> Done model
        | None \<Rightarrow> want ''TypeError'' (named_attributes attrs) (\<lambda>fs.
            let model = \<lparr>rc_table = ?t, rc_version = rd_schema_version ?rd, rc_ordering = order, rc_fields = fs\<rparr>
            in do_call (Register model) (Done model))))) env h1 = (r, h')"
    using ex by (simp add: build_class_def exec_do_call unreg exec_with_value order exec_want id exec_fetch readsD [OF st] h1_def)
  show ?thesis
  proof (cases r2)
    case (Inl e)
    with ex' r2 fields show ?thesis by (auto simp: exec_seq)
  next
    case (Inr attrs)
    with links have n: "n \<notin> R" by auto
    have foreign: "\<forall>m \<in> R. ?t \<noteq> rd_table_name (st_dataset st m)"
      using n injD [OF names, of n] by blast
    have u2: "unregistered st R h2" using fields by blast
    show ?thesis
      using ex' r2 Inr n foreign
      by (auto simp: exec_seq exec_fetch exec_want exec_do_call Let_def
          unregistered_append u2 split: sum.splits option.splits)
  qed
qed

lemma breaks_on_ring_class:
  assumes st: "reads st env" and sound: "\<And>m. sound_dataset st m" and ring: "ring st R"
    and names: "inj (\<lambda>n. rd_table_name (st_dataset st n))"
    and unreg: "\<And>h t. env h (Unregister t) = Inr NoAnswer" and fresh: "starts_empty env"
  shows "breaks_on_ring st R env (get_record_model_class d)"
proof (induction d)
  case 0
  show ?case by (simp add: breaks_on_ring_def)
next
  case (Suc d)
  show ?case unfolding breaks_on_ring_def
  proof (intro allI impI)
    fix n h r h'
    assume u: "unregistered st R h" and ex: "exec (get_record_model_class (Suc d) (st_dataset st n)) env h = (r, h')"
    let ?t = "rd_table_name (st_dataset st n)"
    obtain a where a: "env h (Registered ?t) = a" by simp
    have u1: "unregistered st R (h @ [(Registered ?t, a)])" by (rule unregistered_snoc [OF u]) simp
    note build = ring_build_class [OF st sound ring names unreg Suc.IH u1]
    show "unregistered st R h' \<and> (n \<in> R \<longrightarrow> isl r)"
    proof (cases "n \<in> R")
      case True
      then have "a = Inr (ClassFound None)" using u fresh a by (auto simp: unregistered_def starts_empty_def)
      with ex a build show ?thesis by (simp add: exec_fetch)
    next
      case False
      from ex a have "(r, h') = exec (build_class (get_record_model_class d) (st_dataset st n)) env (h @ [(Registered ?t, a)])
          \<or> h' = h @ [(Registered ?t, a)]"
        by (auto simp: exec_fetch split: sum.splits option.splits if_splits)
      with False u1 build show ?thesis by metis
    qed
  qed
qed

end
