(* ===== verification/ReferenceVersions.thy ===== *)
theory ReferenceVersions
  imports ReferenceMethods ReferenceClasses
begin

text \<open>
  What methods do to their objects and call, and the version numbers of reference datasets.
\<close>

section \<open>Specifications of methods\<close>

text \<open>From objects and a history that satisfy \<open>P\<close>, a method returns or raises with ones that satisfy \<open>Q\<close>.\<close>

definition mspec :: "('s \<Rightarrow> (ref_call, ref_reply) history \<Rightarrow> bool) \<Rightarrow> ('s, 'a) py_method \<Rightarrow>
    (exc + 'a \<Rightarrow> 's \<Rightarrow> (ref_call, ref_reply) history \<Rightarrow> bool) \<Rightarrow> bool" where
  "mspec P m Q \<longleftrightarrow> (\<forall>env s h r s' h'. P s h \<longrightarrow> exec (m s) env h = (Inr (r, s'), h') \<longrightarrow> Q r s' h')"

lemma mspecI: "(\<And>env s h r s' h'. P s h \<Longrightarrow> exec (m s) env h = (Inr (r, s'), h') \<Longrightarrow> Q r s' h') \<Longrightarrow> mspec P m Q"
  unfolding mspec_def by blast

lemma mspecD: "mspec P m Q \<Longrightarrow> P s h \<Longrightarrow> exec (m s) env h = (Inr (r, s'), h') \<Longrightarrow> Q r s' h'"
  unfolding mspec_def by blast

lemma mspec_conseq: "mspec P m Q \<Longrightarrow> (\<And>s h. P' s h \<Longrightarrow> P s h) \<Longrightarrow> (\<And>r s h. Q r s h \<Longrightarrow> Q' r s h) \<Longrightarrow> mspec P' m Q'"
  unfolding mspec_def by blast

lemma mspec_return: "(\<And>s h. P s h \<Longrightarrow> Q (Inr x) s h) \<Longrightarrow> mspec P (return x) Q"
  by (simp add: mspec_def return_def)

lemma mspec_raise: "(\<And>s h. P s h \<Longrightarrow> Q (Inl e) s h) \<Longrightarrow> mspec P (raise e) Q"
  by (simp add: mspec_def raise_def)

lemma mspec_assign: "(\<And>s h. P s h \<Longrightarrow> Q (Inr ()) (f s) h) \<Longrightarrow> mspec P (assign f) Q"
  by (auto simp add: mspec_def assign_def)

lemma mspec_evaluate: "(\<And>s h. P s h \<Longrightarrow> Q (f s) s h) \<Longrightarrow> mspec P (evaluate f) Q"
  by (auto simp add: mspec_def evaluate_def)

lemma mspec_look: "(\<And>s0. mspec (\<lambda>s h. s = s0 \<and> P s h) (f s0) Q) \<Longrightarrow> mspec P (look f) Q"
  unfolding mspec_def look_def by blast

lemma mspec_bind:
  assumes m: "mspec P m R" and f: "\<And>x. mspec (R (Inr x)) (f x) Q" and e: "\<And>e s h. R (Inl e) s h \<Longrightarrow> Q (Inl e) s h"
  shows "mspec P (bind m f) Q"
proof (rule mspecI)
  fix env s h r s' h'
  assume P: "P s h" and ex: "exec (bind m f s) env h = (Inr (r, s'), h')"
  from ex obtain r1 s1 h1 where m1: "exec (m s) env h = (Inr (r1, s1), h1)"
    by (auto simp: bind_def exec_seq split: prod.splits sum.splits)
  from mspecD [OF m P m1] have R: "R r1 s1 h1" .
  show "Q r s' h'"
  proof (cases r1)
    case (Inl a)
    with ex m1 R e show ?thesis by (auto simp: bind_def exec_seq)
  next
    case (Inr x)
    with ex m1 have "exec (f x s1) env h1 = (Inr (r, s'), h')" by (simp add: bind_def exec_seq)
    with R Inr mspecD [OF f] show ?thesis by simp
  qed
qed

lemma mspec_call:
  assumes "\<And>s h env r h'. P s h \<Longrightarrow> exec (p s) env h = (r, h') \<Longrightarrow> Q r s h'"
  shows "mspec P (call p) Q"
proof (rule mspecI)
  fix env s h r s' h'
  assume P: "P s h" and ex: "exec (call p s) env h = (Inr (r, s'), h')"
  obtain r1 h1 where r1: "exec (p s) env h = (r1, h1)" by fastforce
  then have "r = r1 \<and> s' = s \<and> h' = h1"
    using ex by (cases r1) (auto simp: call_def exec_handling exec_seq)
  with assms [OF P r1] show "Q r s' h'" by simp
qed

lemma mspec_catching:
  assumes m: "mspec P m R" and n: "\<And>e. c e \<Longrightarrow> mspec (R (Inl e)) n Q"
    and e: "\<And>e s h. \<not> c e \<Longrightarrow> R (Inl e) s h \<Longrightarrow> Q (Inl e) s h" and x: "\<And>x s h. R (Inr x) s h \<Longrightarrow> Q (Inr x) s h"
  shows "mspec P (catching m c n) Q"
proof (rule mspecI)
  fix env s h r s' h'
  assume P: "P s h" and ex: "exec (catching m c n s) env h = (Inr (r, s'), h')"
  from ex obtain r1 s1 h1 where m1: "exec (m s) env h = (Inr (r1, s1), h1)"
    by (auto simp: catching_def exec_seq split: prod.splits sum.splits)
  from mspecD [OF m P m1] have R: "R r1 s1 h1" .
  show "Q r s' h'"
  proof (cases r1)
    case (Inl a)
    show ?thesis
    proof (cases "c a")
      case True
      with ex m1 Inl have "exec (n s1) env h1 = (Inr (r, s'), h')" by (simp add: catching_def exec_seq)
      with R Inl mspecD [OF n [OF True]] show ?thesis by simp
    next
      case False
      with ex m1 R Inl e show ?thesis by (auto simp: catching_def exec_seq)
    qed
  next
    case (Inr y)
    with ex m1 R x show ?thesis by (auto simp: catching_def exec_seq)
  qed
qed

text \<open>The calls of a transaction do not matter to \<open>P\<close> and \<open>Q\<close>.\<close>

lemma mspec_transaction:
  assumes m: "mspec P m Q" and P: "\<And>s h a. P s h \<Longrightarrow> P s (h @ [(Begin, a)])"
    and begin_fails: "\<And>s h e. P s h \<Longrightarrow> Q (Inl e) s (h @ [(Begin, Inl e)])"
    and commit: "\<And>x s h a. Q (Inr x) s h \<Longrightarrow> Q (Inr x) s (h @ [(Commit, Inr a)])"
    and rollback: "\<And>e s h a. Q (Inl e) s h \<Longrightarrow> Q (Inl e) s (h @ [(Rollback, a)])"
    and commit_fails: "\<And>x e s h a. Q (Inr x) s h \<Longrightarrow> Q (Inl e) s (h @ [(Commit, Inl e), (Rollback, a)])"
  shows "mspec P (transaction m) Q"
proof (rule mspecI)
  fix env s h r s' h'
  assume Ps: "P s h" and ex: "exec (transaction m s) env h = (Inr (r, s'), h')"
  show "Q r s' h'"
  proof (cases "env h Begin")
    case (Inl e)
    with ex begin_fails Ps show ?thesis by (auto simp: transaction_def)
  next
    case (Inr b)
    let ?h = "h @ [(Begin, Inr b)]"
    obtain r1 s1 h1 where m1: "exec (m s) env ?h = (Inr (r1, s1), h1)"
      using ex Inr by (auto simp: transaction_def exec_seq split: prod.splits sum.splits)
    from mspecD [OF m P [OF Ps] m1] have Q: "Q r1 s1 h1" .
    show ?thesis
    proof (cases r1)
      case (Inl a)
      with ex Inr m1 Q rollback show ?thesis by (auto simp: transaction_def exec_seq)
    next
      case (Inr x)
      with ex \<open>env h Begin = Inr b\<close> m1 Q commit commit_fails show ?thesis
        by (cases "env h1 Commit") (auto simp: transaction_def exec_seq)
    qed
  qed
qed

section \<open>The calls of methods\<close>

definition mcalls :: "(ref_call \<Rightarrow> bool) \<Rightarrow> ('s, 'a) py_method \<Rightarrow> bool" where
  "mcalls P m \<longleftrightarrow> (\<forall>s. calls_only P (m s))"

lemma mcalls_return: "mcalls P (return x)"
  and mcalls_raise: "mcalls P (raise e)"
  and mcalls_assign: "mcalls P (assign f)"
  and mcalls_evaluate: "mcalls P (evaluate g)"
  by (simp_all add: mcalls_def return_def raise_def assign_def evaluate_def)

lemma mcalls_look: "(\<And>s. mcalls P (f s)) \<Longrightarrow> mcalls P (look f)"
  by (simp add: mcalls_def look_def)

lemma mcalls_bind: "mcalls P m \<Longrightarrow> (\<And>x. mcalls P (f x)) \<Longrightarrow> mcalls P (bind m f)"
  by (auto simp: mcalls_def bind_def intro!: calls_only_seq split: sum.split)

lemma mcalls_call: "(\<And>s. calls_only P (p s)) \<Longrightarrow> mcalls P (call p)"
  by (auto simp: mcalls_def call_def intro!: calls_only_handling calls_only_seq)

lemma mcalls_send: "P q \<Longrightarrow> mcalls P (send q)"
  by (simp add: send_def mcalls_call calls_only_do_call)

lemma mcalls_catching: "mcalls P m \<Longrightarrow> mcalls P n \<Longrightarrow> mcalls P (catching m c n)"
  by (auto simp: mcalls_def catching_def intro!: calls_only_seq split: sum.split)

lemma mcalls_transaction: "P Begin \<Longrightarrow> P Commit \<Longrightarrow> P Rollback \<Longrightarrow> mcalls P m \<Longrightarrow> mcalls P (transaction m)"
  by (auto simp: mcalls_def transaction_def intro!: calls_only_seq split: sum.split)

lemma mcalls_whenever: "(\<And>x. mcalls P (m x)) \<Longrightarrow> mcalls P (whenever x m)"
  by (simp add: whenever_def mcalls_return split: option.split)

lemma mcalls_if: "mcalls P m \<Longrightarrow> mcalls P n \<Longrightarrow> mcalls P (if b then m else n)"
  by simp

lemmas mcalls_intros = mcalls_return mcalls_raise mcalls_assign mcalls_evaluate mcalls_look mcalls_bind mcalls_call
  mcalls_send mcalls_catching mcalls_transaction mcalls_whenever mcalls_if

lemma mcalls_exec: "mcalls P m \<Longrightarrow> exec (m s) env h = (r, h') \<Longrightarrow> \<exists>es. h' = h @ es \<and> (\<forall>(q, a) \<in> set es. P q)"
  unfolding mcalls_def by (blast dest: calls_only_exec)

section \<open>Version numbers\<close>

text \<open>The part of a dataset that decides about its versions.\<close>

record versions =
  vs_published :: bool
  vs_original :: bool
  vs_initial :: "int option"
  vs_version :: "int \<times> int"
  vs_public :: "int \<times> int"

definition versions_of :: "ref_dataset \<Rightarrow> versions" where
  "versions_of rd = \<lparr>vs_published = rd_published rd, vs_original = rd_original_published rd,
     vs_initial = rd_initial_published_at rd, vs_version = (rd_major_version rd, rd_minor_version rd),
     vs_public = (rd_published_major_version rd, rd_published_minor_version rd)\<rparr>"

text \<open>What \<open>manage_published\<close> does to it.\<close>

fun next_of :: "int \<times> int \<Rightarrow> int \<times> int \<Rightarrow> int \<times> int" where
  "next_of (M, m) (pM, pm) = (if M > pM then (pM + 1, 0) else if m > pm then (pM, pm + 1) else (pM, pm))"

definition publish :: "int \<Rightarrow> bool \<Rightarrow> versions \<Rightarrow> versions" where
  "publish now create v =
     (if \<not> vs_published v then v
      else let v = (if vs_initial v = None then v\<lparr>vs_initial := Some now, vs_version := (1, 0)\<rparr> else v)
           in if vs_original v \<and> \<not> create then v\<lparr>vs_public := vs_version v\<rparr>
              else v\<lparr>vs_public := next_of (vs_version v) (vs_public v), vs_version := next_of (vs_version v) (vs_public v)\<rparr>)"

lemma versions_of_manage_published:
  "versions_of (manage_published now create rd) = publish now create (versions_of rd)"
  by (simp add: manage_published_def publish_def versions_of_def Let_def)

lemma versions_of_others [simp]:
  "versions_of (rd\<lparr>rd_schema_version := n\<rparr>) = versions_of rd"
  "versions_of (rd\<lparr>rd_id := i\<rparr>) = versions_of rd"
  "versions_of (rd\<lparr>rd_sort_field := f\<rparr>) = versions_of rd"
  "versions_of (rd\<lparr>rd_deleted := b\<rparr>) = versions_of rd"
  "versions_of (rd\<lparr>rd_original_table_name := t, rd_original_ext_db := db, rd_original_sort_order := s\<rparr>) = versions_of rd"
  by (simp_all add: versions_of_def)

lemma versions_of_increments:
  "versions_of (rd\<lparr>rd_minor_version := rd_minor_version rd + 1\<rparr>) =
    (versions_of rd)\<lparr>vs_version := (rd_major_version rd, rd_minor_version rd + 1)\<rparr>"
  "versions_of (rd\<lparr>rd_major_version := rd_major_version rd + 1, rd_minor_version := 0\<rparr>) =
    (versions_of rd)\<lparr>vs_version := (rd_major_version rd + 1, 0)\<rparr>"
  by (simp_all add: versions_of_def)

text \<open>Methods that leave the versions alone.\<close>

abbreviation versioned :: "versions \<Rightarrow> ref_dataset \<Rightarrow> (ref_call, ref_reply) history \<Rightarrow> bool" where
  "versioned v \<equiv> (\<lambda>rd h. versions_of rd = v)"

definition leaves_versions :: "'a ds_method \<Rightarrow> bool" where
  "leaves_versions m \<longleftrightarrow> (\<forall>v. mspec (versioned v) m (\<lambda>r. versioned v))"

lemma leaves_call: "leaves_versions (call p)"
  and leaves_evaluate: "leaves_versions (evaluate g)"
  and leaves_return: "leaves_versions (return x)"
  and leaves_raise: "leaves_versions (raise e)"
  by (auto simp: leaves_versions_def intro!: mspec_call mspec_evaluate mspec_return mspec_raise)

lemma leaves_send: "leaves_versions (send q)"
  by (simp add: send_def leaves_call)

lemma leaves_assign: "(\<And>rd. versions_of (f rd) = versions_of rd) \<Longrightarrow> leaves_versions (assign f)"
  by (auto simp: leaves_versions_def intro!: mspec_assign)

lemma leaves_bind: "leaves_versions m \<Longrightarrow> (\<And>x. leaves_versions (f x)) \<Longrightarrow> leaves_versions (bind m f)"
  unfolding leaves_versions_def by (blast intro: mspec_bind)

lemma leaves_look: "(\<And>rd. leaves_versions (f rd)) \<Longrightarrow> leaves_versions (look f)"
  unfolding leaves_versions_def by (blast intro: mspec_look mspec_conseq)

lemma leaves_whenever: "(\<And>x. leaves_versions (m x)) \<Longrightarrow> leaves_versions (whenever x m)"
  by (simp add: whenever_def leaves_return split: option.split)

lemma leaves_if: "leaves_versions m \<Longrightarrow> leaves_versions n \<Longrightarrow> leaves_versions (if b then m else n)"
  by simp

lemmas leaves_intros = leaves_call leaves_evaluate leaves_return leaves_raise leaves_send leaves_bind leaves_look
  leaves_whenever leaves_if

lemma leaves_steps: "leaves_versions save_row" "leaves_versions bump_schema_version" "leaves_versions (create_tables d model)"
  "leaves_versions (move_external_table d)" "leaves_versions (rename_tables model)" "leaves_versions stash_originals"
  unfolding save_row_def bump_schema_version_def create_tables_def move_external_table_def rename_tables_def stash_originals_def
  by (intro leaves_intros leaves_assign; simp)+

lemma leaves_versionsD: "leaves_versions m \<Longrightarrow> mspec (versioned v) m (\<lambda>r. versioned v)"
  unfolding leaves_versions_def by blast

text \<open>A dataset that has been saved has the versions that \<open>manage_published\<close> gives it.\<close>

lemma save_versions: "mspec (\<lambda>rd h. rd = rd0) (save_dataset d now)
    (\<lambda>r rd h. \<forall>x. r = Inr x \<longrightarrow> versions_of rd = publish now (rd_id rd0 = None) (versions_of rd0))"
proof -
  let ?create = "rd_id rd0 = None" and ?v = "versions_of rd0"
  let ?new = "publish now ?create ?v"
  let ?bump = "if ?create then return ()
    else bind (evaluate schema_has_changed) (\<lambda>changed. if changed then bump_schema_version else return ())"
  have bump: "mspec (versioned ?v) ?bump (\<lambda>r. versioned ?v)"
    by (intro leaves_versionsD leaves_intros leaves_steps)
  have rest: "mspec (versioned ?new) (before save_row
       (bind (call (get_record_model_class d)) (\<lambda>model.
        before (if ?create then create_tables d model else before (move_external_table d) (rename_tables model))
       (before stash_originals (bind (evaluate key_of) (\<lambda>pk. send (UpdateSearchVector pk))))))) (\<lambda>r. versioned ?new)"
    by (intro leaves_versionsD leaves_intros leaves_steps)
  have all: "mspec (versioned ?v) (before ?bump (before (assign (manage_published now ?create)) (before save_row
       (bind (call (get_record_model_class d)) (\<lambda>model.
        before (if ?create then create_tables d model else before (move_external_table d) (rename_tables model))
       (before stash_originals (bind (evaluate key_of) (\<lambda>pk. send (UpdateSearchVector pk)))))))))
     (\<lambda>r rd h. \<forall>x. r = Inr x \<longrightarrow> versions_of rd = ?new)"
    by (rule mspec_bind [OF bump], rule mspec_bind [where R = "\<lambda>r. versioned ?new"], rule mspec_assign)
      (auto simp: versions_of_manage_published intro: mspec_conseq [OF rest])
  let ?body = "before ?bump (before (assign (manage_published now ?create)) (before save_row
       (bind (call (get_record_model_class d)) (\<lambda>model.
        before (if ?create then create_tables d model else before (move_external_table d) (rename_tables model))
       (before stash_originals (bind (evaluate key_of) (\<lambda>pk. send (UpdateSearchVector pk))))))))"
  have body: "mspec (\<lambda>rd h. rd = rd0) ?body (\<lambda>r rd h. \<forall>x. r = Inr x \<longrightarrow> versions_of rd = ?new)"
    by (rule mspec_conseq [OF all]) simp_all
  have transact: "mspec (\<lambda>rd h. rd = rd0) (transaction ?body) (\<lambda>r rd h. \<forall>x. r = Inr x \<longrightarrow> versions_of rd = ?new)"
    by (rule mspec_transaction [OF body]) auto
  show ?thesis
  proof (rule mspecI)
    fix env s h r s' h'
    assume s: "s = rd0" and ex: "exec (save_dataset d now s) env h = (Inr (r, s'), h')"
    have "save_dataset d now rd0 = transaction ?body rd0"
      by (simp add: save_dataset_def transaction_def look_def Let_def)
    with ex s mspecD [OF transact] show "\<forall>x. r = Inr x \<longrightarrow> versions_of s' = ?new" by metis
  qed
qed

lemma increments_run:
  assumes m: "m = before (assign f) (save_dataset d now)" and id: "rd_id (f rd) = rd_id rd"
    and ex: "exec (m rd) env h = (Inr (Inr (), rd'), h')"
  shows "versions_of rd' = publish now (rd_id rd = None) (versions_of (f rd))"
proof -
  have "mspec (\<lambda>s h. s = rd) m (\<lambda>r s h. \<forall>x. r = Inr x \<longrightarrow> versions_of s = publish now (rd_id rd = None) (versions_of (f rd)))"
    unfolding m
    by (rule mspec_bind [where R = "\<lambda>r s h. s = f rd"], rule mspec_assign)
      (use save_versions [of "f rd" d now] id in \<open>auto\<close>)
  from mspecD [OF this refl ex] show ?thesis by simp
qed

section \<open>The life of a dataset\<close>

text \<open>An operation that ended with a saved row.\<close>

definition saves_as :: "unit ds_method \<Rightarrow> ref_dataset \<Rightarrow> ref_dataset \<Rightarrow> bool" where
  "saves_as m rd rd' \<longleftrightarrow> (\<exists>env h h'. exec (m rd) env h = (Inr (Inr (), rd'), h'))"

text \<open>
  The object as a request loads it: it stashes what the row says of the publication. The fields that do not
  concern versions may be anything.
\<close>

definition loads :: "ref_dataset \<Rightarrow> ref_dataset \<Rightarrow> bool" where
  "loads row rd \<longleftrightarrow> rd_id rd \<noteq> None \<and> versions_of rd = (versions_of row)\<lparr>vs_original := rd_published row\<rparr>"

definition blank :: "ref_dataset \<Rightarrow> bool" where
  "blank rd \<longleftrightarrow> rd_id rd = None \<and> (\<exists>b. versions_of rd =
     \<lparr>vs_published = b, vs_original = False, vs_initial = None, vs_version = (1, 0), vs_public = (0, 0)\<rparr>)"

text \<open>
  The row of a dataset and the object of the present request. A request makes or loads an object, may publish it or
  withdraw it, and saves it, at once or by an increment of its version, any number of times.
\<close>

inductive life :: "ref_dataset option \<Rightarrow> ref_dataset \<Rightarrow> bool" where
  made: "blank rd \<Longrightarrow> life None rd"
| loaded: "life (Some row) rd \<Longrightarrow> loads row rd' \<Longrightarrow> life (Some row) rd'"
| edited: "life (Some row) rd \<Longrightarrow> loads row rd \<Longrightarrow> life (Some row) (rd\<lparr>rd_published := b\<rparr>)"
| saved: "life row rd \<Longrightarrow> saves_as (save_dataset d now) rd rd' \<Longrightarrow> life (Some rd') rd'"
| minor: "life row rd \<Longrightarrow> saves_as (increment_minor_version d now) rd rd' \<Longrightarrow> life (Some rd') rd'"
| major: "life row rd \<Longrightarrow> saves_as (increment_major_version d now) rd rd' \<Longrightarrow> life (Some rd') rd'"

definition public_version :: "ref_dataset option \<Rightarrow> int \<times> int" where
  "public_version row = (case row of None \<Rightarrow> (0, 0) | Some rd \<Rightarrow> (rd_published_major_version rd, rd_published_minor_version rd))"

fun not_after :: "int \<times> int \<Rightarrow> int \<times> int \<Rightarrow> bool" where
  "not_after (M, m) (M', m') \<longleftrightarrow> M < M' \<or> M = M' \<and> m \<le> m'"

text \<open>The versions that a version may be followed by, when it is published.\<close>

fun follows :: "int \<times> int \<Rightarrow> int \<times> int \<Rightarrow> bool" where
  "follows (M, m) v \<longleftrightarrow> v = (M, m) \<or> v = (M, m + 1) \<or> v = (M + 1, 0)"

text \<open>What holds of the versions of an object before it is saved, and of those of a row.\<close>

definition sound_versions :: "versions \<Rightarrow> bool" where
  "sound_versions v \<longleftrightarrow> not_after (vs_public v) (vs_version v) \<and>
     (vs_initial v = None \<longrightarrow> vs_public v = (0, 0) \<and> \<not> vs_original v) \<and>
     (vs_published v \<and> vs_original v \<longrightarrow> vs_public v = vs_version v)"

definition settled :: "versions \<Rightarrow> bool" where
  "settled v \<longleftrightarrow> sound_versions v \<and> (vs_published v \<longrightarrow> vs_initial v \<noteq> None \<and> vs_public v = vs_version v)"

text \<open>The version at which an object is saved: the same, or a step on.\<close>

definition steps_on :: "versions \<Rightarrow> versions \<Rightarrow> bool" where
  "steps_on v v' \<longleftrightarrow> (\<exists>w. v' = v\<lparr>vs_version := w\<rparr> \<and> follows (vs_version v) w)"

lemma publish_settles:
  assumes v: "sound_versions v" and w: "steps_on v v'"
  shows "settled (publish now create v')" "follows (vs_public v) (vs_public (publish now create v'))"
    "vs_original (publish now create v') = vs_original v" "vs_published (publish now create v') = vs_published v"
proof -
  obtain M m pM pm where vs: "vs_version v = (M, m)" "vs_public v = (pM, pm)" by (cases "vs_version v", cases "vs_public v")
  obtain N n where w': "v' = v\<lparr>vs_version := (N, n)\<rparr>" and step: "follows (M, m) (N, n)"
    using w vs by (auto simp: steps_on_def)
  show "vs_original (publish now create v') = vs_original v" "vs_published (publish now create v') = vs_published v"
    by (simp_all add: publish_def Let_def w')
  show "settled (publish now create v') " "follows (vs_public v) (vs_public (publish now create v'))"
    using v vs step
    by (auto simp: w' publish_def Let_def settled_def sound_versions_def)
qed

lemma settled_loads: "settled (versions_of row) \<Longrightarrow> loads row rd \<Longrightarrow> settled (versions_of rd)"
  by (auto simp: loads_def settled_def sound_versions_def versions_of_def)

lemma saves_publish:
  assumes "saves_as (save_dataset d now) rd rd' \<or> saves_as (increment_minor_version d now) rd rd' \<or>
    saves_as (increment_major_version d now) rd rd'"
  shows "\<exists>v. steps_on (versions_of rd) v \<and> versions_of rd' = publish now (rd_id rd = None) v"
  using assms
proof (elim disjE)
  assume "saves_as (save_dataset d now) rd rd'"
  then have "versions_of rd' = publish now (rd_id rd = None) (versions_of rd)"
    using mspecD [OF save_versions refl] by (fastforce simp: saves_as_def)
  moreover have "steps_on (versions_of rd) (versions_of rd)" by (auto simp: steps_on_def versions_of_def)
  ultimately show ?thesis by blast
next
  assume "saves_as (increment_minor_version d now) rd rd'"
  then have "versions_of rd' = publish now (rd_id rd = None) ((versions_of rd)\<lparr>vs_version := (rd_major_version rd, rd_minor_version rd + 1)\<rparr>)"
    using increments_run [OF increment_minor_version_def] by (fastforce simp: saves_as_def versions_of_increments)
  moreover have "steps_on (versions_of rd) ((versions_of rd)\<lparr>vs_version := (rd_major_version rd, rd_minor_version rd + 1)\<rparr>)"
    by (auto simp: steps_on_def versions_of_def)
  ultimately show ?thesis by blast
next
  assume "saves_as (increment_major_version d now) rd rd'"
  then have "versions_of rd' = publish now (rd_id rd = None) ((versions_of rd)\<lparr>vs_version := (rd_major_version rd + 1, 0)\<rparr>)"
    using increments_run [OF increment_major_version_def] by (fastforce simp: saves_as_def versions_of_increments)
  moreover have "steps_on (versions_of rd) ((versions_of rd)\<lparr>vs_version := (rd_major_version rd + 1, 0)\<rparr>)"
    by (auto simp: steps_on_def versions_of_def)
  ultimately show ?thesis by blast
qed

lemma public_version_simps:
  "public_version None = (0, 0)"
  "public_version (Some rd) = vs_public (versions_of rd)"
  by (simp_all add: public_version_def versions_of_def)

lemma life_sound: "life row rd \<Longrightarrow> sound_versions (versions_of rd) \<and> vs_public (versions_of rd) = public_version row \<and>
    (\<forall>r. row = Some r \<longrightarrow> settled (versions_of r))"
proof (induction rule: life.induct)
  case (made rd)
  then show ?case by (auto simp: blank_def sound_versions_def public_version_def)
next
  case (loaded row rd rd')
  then show ?case using settled_loads [of row rd']
    by (auto simp: settled_def loads_def public_version_simps)
next
  case (edited row rd b)
  then have "settled (versions_of row)" "versions_of rd = (versions_of row)\<lparr>vs_original := rd_published row\<rparr>"
    by (simp_all add: loads_def)
  then show ?case
    by (auto simp: settled_def sound_versions_def versions_of_def public_version_def)
next
  case (saved row rd d now rd')
  from saves_publish [OF disjI1 [OF saved.hyps(2)]] obtain v where "steps_on (versions_of rd) v"
    "versions_of rd' = publish now (rd_id rd = None) v" by blast
  with publish_settles(1) [of "versions_of rd" v now "rd_id rd = None"] saved.IH show ?case
    by (simp add: settled_def public_version_simps)
next
  case (minor row rd d now rd')
  from saves_publish [OF disjI2 [OF disjI1 [OF minor.hyps(2)]]] obtain v where "steps_on (versions_of rd) v"
    "versions_of rd' = publish now (rd_id rd = None) v" by blast
  with publish_settles(1) [of "versions_of rd" v now "rd_id rd = None"] minor.IH show ?case
    by (simp add: settled_def public_version_simps)
next
  case (major row rd d now rd')
  from saves_publish [OF disjI2 [OF disjI2 [OF major.hyps(2)]]] obtain v where "steps_on (versions_of rd) v"
    "versions_of rd' = publish now (rd_id rd = None) v" by blast
  with publish_settles(1) [of "versions_of rd" v now "rd_id rd = None"] major.IH show ?case
    by (simp add: settled_def public_version_simps)
qed

lemma life_steps:
  assumes l: "life row rd" and s: "saves_as (save_dataset d now) rd rd' \<or> saves_as (increment_minor_version d now) rd rd' \<or>
    saves_as (increment_major_version d now) rd rd'"
  shows "follows (public_version row) (public_version (Some rd'))"
    "rd_published rd' \<Longrightarrow> public_version (Some rd') = (rd_major_version rd', rd_minor_version rd')"
    "not_after (public_version (Some rd')) (rd_major_version rd', rd_minor_version rd')"
proof -
  from saves_publish [OF s] obtain v where v: "steps_on (versions_of rd) v"
    and rd': "versions_of rd' = publish now (rd_id rd = None) v" by blast
  note p = publish_settles [OF _ v, of now "rd_id rd = None", folded rd'] and snd = life_sound [OF l]
  from p snd have f: "follows (vs_public (versions_of rd)) (vs_public (versions_of rd'))" and t: "settled (versions_of rd')" by blast+
  from f snd show "follows (public_version row) (public_version (Some rd'))"
    by (simp add: public_version_simps)
  from t show "rd_published rd' \<Longrightarrow> public_version (Some rd') = (rd_major_version rd', rd_minor_version rd')"
    and "not_after (public_version (Some rd')) (rd_major_version rd', rd_minor_version rd')"
    by (auto simp: settled_def sound_versions_def versions_of_def public_version_def)
qed

end
