(* ===== verification/ReferenceSync.thy ===== *)
theory ReferenceSync
  imports ReferenceClasses
begin

text \<open>
  The copy of a reference dataset in an external database: a synchronisation that ends leaves there the records of
  the dataset and nothing else.
\<close>

section \<open>The contents of an external table\<close>

type_synonym table_rows = "nat \<Rightarrow> json dict option"

text \<open>What a statement that succeeded does to the table of a class in an external database.\<close>

fun on_table :: "string \<Rightarrow> string \<Rightarrow> ref_call \<times> (exc + ref_reply) \<Rightarrow> table_rows \<Rightarrow> table_rows" where
  "on_table db t (ExternalUpdate db' model i data, Inr _) rows =
     (if db' = db \<and> rc_table model = t then (case rows i of None \<Rightarrow> rows | Some old \<Rightarrow> rows(i \<mapsto> dict_merge old data)) else rows)"
| "on_table db t (ExternalCreate db' model i pk data, Inr _) rows =
     (if db' = db \<and> rc_table model = t then rows(i \<mapsto> data) else rows)"
| "on_table db t (ExternalDeleteOthers db' model ids, Inr _) rows =
     (if db' = db \<and> rc_table model = t then rows |` set ids else rows)"
| "on_table db t _ rows = rows"

definition rows_after :: "string \<Rightarrow> string \<Rightarrow> table_rows \<Rightarrow> (ref_call \<times> (exc + ref_reply)) list \<Rightarrow> table_rows" where
  "rows_after db t rows h = fold (on_table db t) h rows"

lemma rows_after_simps [simp]:
  "rows_after db t rows [] = rows"
  "rows_after db t rows (h @ h') = rows_after db t (rows_after db t rows h) h'"
  "rows_after db t rows (e # h) = rows_after db t (on_table db t e rows) h"
  by (simp_all add: rows_after_def)

text \<open>The external database says which records its table has.\<close>

definition tells_records :: "string \<Rightarrow> table_rows \<Rightarrow> (ref_call, ref_reply) services \<Rightarrow> bool" where
  "tells_records db rows env \<longleftrightarrow> (\<forall>h model i v. env h (ExternalExists db model i) = Inr v \<longrightarrow>
     v = Holds (rows_after db (rc_table model) rows h i \<noteq> None))"

text \<open>The row holds the values that the record has for the fields.\<close>

definition mirrors :: "ref_field list \<Rightarrow> ref_record \<Rightarrow> json dict option \<Rightarrow> bool" where
  "mirrors fs r row \<longleftrightarrow> (\<exists>data. row = Some data \<and> (\<forall>f \<in> set fs. \<exists>name v. attribute f = Some name \<and>
     map_of (rr_data r) name = Some v \<and> map_of data name = Some v))"

section \<open>One record\<close>

lemma record_data_values:
  assumes "record_data fs r acc = Inr data" "distinct (map fst acc)" "\<forall>(k, v) \<in> set acc. map_of (rr_data r) k = Some v"
  shows "distinct (map fst data) \<and> (\<forall>(k, v) \<in> set data. map_of (rr_data r) k = Some v) \<and> fst ` set acc \<subseteq> fst ` set data \<and>
    (\<forall>f \<in> set fs. \<exists>name. attribute f = Some name \<and> name \<in> fst ` set data)"
  using assms
proof (induction fs arbitrary: acc)
  case (Cons f fs)
  then obtain name v where name: "attribute f = Some name" "map_of (rr_data r) name = Some v"
    and rest: "record_data fs r (dict_set name v acc) = Inr data"
    by (auto split: option.splits)
  have "\<forall>(k, v) \<in> set (dict_set name v acc). map_of (rr_data r) k = Some v"
  proof (clarify)
    fix k w
    assume "(k, w) \<in> set (dict_set name v acc)"
    then have "map_of (dict_set name v acc) k = Some w" using Cons.prems(2) by (simp add: distinct_dict_set)
    then show "map_of (rr_data r) k = Some w"
      using name(2) Cons.prems(3) by (auto simp: map_of_dict_set split: if_splits dest!: map_of_SomeD)
  qed
  from Cons.IH [OF rest distinct_dict_set [OF Cons.prems(2)] this]
  have IH: "distinct (map fst data)" "\<forall>(k, v) \<in> set data. map_of (rr_data r) k = Some v"
    "fst ` set (dict_set name v acc) \<subseteq> fst ` set data"
    "\<forall>f \<in> set fs. \<exists>name. attribute f = Some name \<and> name \<in> fst ` set data" by blast+
  moreover have "fst ` set (dict_set name v acc) = insert name (fst ` set acc)" by (simp add: dict_set_def dom_update)
  ultimately show ?case using name(1) by auto
qed simp

lemma record_data_mirrors:
  assumes d: "record_data fs r [] = Inr data"
  shows "mirrors fs r (Some data)" "mirrors fs r (Some (dict_merge old data))"
proof -
  from record_data_values [OF d] have dist: "distinct (map fst data)"
    and vals: "\<forall>(k, v) \<in> set data. map_of (rr_data r) k = Some v"
    and fs: "\<forall>f \<in> set fs. \<exists>name. attribute f = Some name \<and> name \<in> fst ` set data" by auto
  have one: "\<exists>name v. attribute f = Some name \<and> map_of (rr_data r) name = Some v \<and> map_of data name = Some v \<and>
      map_of (dict_merge old data) name = Some v" if "f \<in> set fs" for f
  proof -
    from fs that obtain name where n: "attribute f = Some name" "name \<in> fst ` set data" by blast
    then obtain v where v: "(name, v) \<in> set data" by auto
    with vals have "map_of (rr_data r) name = Some v" by blast
    moreover from v dist have "map_of data name = Some v" by simp
    ultimately show ?thesis using n(1) by (simp add: map_of_dict_merge [OF dist] map_add_Some_iff)
  qed
  show "mirrors fs r (Some data)" unfolding mirrors_def using one by (intro exI [of _ data]) fast
  show "mirrors fs r (Some (dict_merge old data))"
    unfolding mirrors_def using one by (intro exI [of _ "dict_merge old data"]) fast
qed

lemma exec_external: "exec (external_model_class model (do_call q (Done ()))) env h = (Inr x, h') \<Longrightarrow>
    \<exists>a b c. h' = h @ [(CleanFields (rc_table model), Inr a), (q, Inr b), (RestoreFields (rc_table model), Inr c)]"
  by (auto simp: external_model_class_def exec_do_call exec_seq split: sum.splits)

lemma sync_one:
  assumes fields: "\<And>h. env h (FieldsOf pk) = Inr (FieldRows fs)" and tells: "tells_records db rows env"
    and ex: "exec (sync_record db pk model r) env h = (Inr x, h')" and t: "rc_table model = t"
  shows "mirrors fs r (rows_after db t rows h' (rr_id r)) \<and>
    (\<forall>i. i \<noteq> rr_id r \<longrightarrow> rows_after db t rows h' i = rows_after db t rows h i)"
proof -
  define h1 where "h1 = h @ [(FieldsOf pk, Inr (FieldRows fs))]"
  obtain data where d: "record_data fs r [] = Inr data"
    using ex by (cases "record_data fs r []") (simp_all add: sync_record_def exec_fetch fields)
  let ?q = "ExternalExists db model (rr_id r)"
  let ?there = "rows_after db t rows h1 (rr_id r) \<noteq> None"
  have "env h1 ?q = Inr (Holds ?there)"
  proof (cases "env h1 ?q")
    case (Inl e)
    with ex d show ?thesis by (simp add: sync_record_def exec_fetch fields h1_def)
  next
    case (Inr v)
    with tells t show ?thesis unfolding tells_records_def by blast
  qed
  then have "exec (external_model_class model
      (if ?there then do_call (ExternalUpdate db model (rr_id r) data) (Done ())
       else do_call (ExternalCreate db model (rr_id r) pk data) (Done ()))) env (h1 @ [(?q, Inr (Holds ?there))]) = (Inr x, h')"
    using ex d by (simp add: sync_record_def exec_fetch fields h1_def)
  moreover have "rows_after db t rows h1 = rows_after db t rows h" by (simp add: h1_def)
  ultimately show ?thesis using record_data_mirrors [OF d] t
    by (cases ?there) (auto dest!: exec_external)
qed

lemma sync_all:
  assumes fields: "\<And>h. env h (FieldsOf pk) = Inr (FieldRows fs)" and tells: "tells_records db rows env"
    and ex: "exec (for_each (sync_record db pk model) rs) env h = (Inr x, h')" and t: "rc_table model = t"
    and ids: "distinct (map rr_id rs)"
  shows "(\<forall>r \<in> set rs. mirrors fs r (rows_after db t rows h' (rr_id r))) \<and>
    (\<forall>i. i \<notin> rr_id ` set rs \<longrightarrow> rows_after db t rows h' i = rows_after db t rows h i)"
  using ex ids
proof (induction rs arbitrary: h)
  case (Cons r rs)
  obtain y h1 where r: "exec (sync_record db pk model r) env h = (Inr y, h1)"
    and rest: "exec (for_each (sync_record db pk model) rs) env h1 = (Inr x, h')"
    using Cons.prems(1) by (auto simp: exec_seq split: prod.splits sum.splits)
  note one = sync_one [OF fields tells r t] and IH = Cons.IH [OF rest]
  have "rows_after db t rows h' (rr_id r) = rows_after db t rows h1 (rr_id r)" using IH Cons.prems(2) by simp
  with one IH Cons.prems(2) show ?case by auto
qed simp

section \<open>All records\<close>

fun reads_only :: "ref_call \<Rightarrow> bool" where
  "reads_only (RecordsOf model pk) = True"
| "reads_only q = makes_classes q"

lemma makes_reads: "makes_classes q \<Longrightarrow> reads_only q"
  by (cases q) simp_all

lemma reads_keep_rows: "reads_only q \<Longrightarrow> on_table db t (q, r) rows = rows"
  by (cases q; cases r) simp_all

lemma rows_after_reads: "(\<forall>(q, a) \<in> set es. reads_only q) \<Longrightarrow> rows_after db t rows (h @ es) = rows_after db t rows h"
proof (induction es arbitrary: h)
  case (Cons e es)
  obtain q a where e: "e = (q, a)" by (cases e)
  with Cons.prems have "rows_after db t rows (h @ [e]) = rows_after db t rows h" by (simp add: reads_keep_rows)
  with Cons.IH [of "h @ [e]"] Cons.prems show ?case by simp
qed simp

lemma class_keeps_rows: "exec (get_record_model_class d rd) env h = (r, h') \<Longrightarrow> rows_after db t rows h' = rows_after db t rows h"
  using calls_only_exec [OF get_record_model_class_calls, of d rd env h r h'] makes_reads
  by (fastforce intro: rows_after_reads)

lemma exec_sync:
  assumes id: "rd_id rd = Some pk" and ex: "exec (sync_to_external_database d db rd) env h = (Inr x, h')"
    and names: "registry_names env"
  obtains model model' rs h1 h2 where
    "rc_table model = rd_table_name rd" "rc_table model' = rd_table_name rd"
    "\<And>t rows. rows_after db t rows h1 = rows_after db t rows h"
    "env h1 (RecordsOf model' pk) = Inr (RecordRows rs)"
    "exec (for_each (sync_record db pk model) rs) env (h1 @ [(RecordsOf model' pk, Inr (RecordRows rs))]) = (Inr (), h2)"
    "exec (external_model_class model (do_call (ExternalDeleteOthers db model (map rr_id rs)) (Done ()))) env h2 = (Inr x, h')"
proof -
  obtain model h0 where m: "exec (get_record_model_class d rd) env h = (Inr model, h0)"
    using ex by (auto simp: sync_to_external_database_def exec_seq split: prod.splits sum.splits)
  with ex id have ex1: "exec (get_records d rd (\<lambda>records. seq (for_each (sync_record db pk model) records) (\<lambda>_.
      external_model_class model (do_call (ExternalDeleteOthers db model (map rr_id records)) (Done ()))))) env h0 = (Inr x, h')"
    by (simp add: sync_to_external_database_def exec_seq)
  then obtain model' h1 where m': "exec (get_record_model_class d rd) env h0 = (Inr model', h1)"
    by (auto simp: get_records_def exec_seq split: prod.splits sum.splits)
  from ex1 m' id obtain v rs where v: "env h1 (RecordsOf model' pk) = Inr v" "the_records v = Some rs"
    by (auto simp: get_records_def exec_seq exec_fetch split: sum.splits option.splits)
  then have rs: "env h1 (RecordsOf model' pk) = Inr (RecordRows rs)" by (cases v) simp_all
  let ?h = "h1 @ [(RecordsOf model' pk, Inr (RecordRows rs))]"
  from ex1 m' id rs have ex2: "exec (seq (for_each (sync_record db pk model) rs) (\<lambda>_.
      external_model_class model (do_call (ExternalDeleteOthers db model (map rr_id rs)) (Done ())))) env ?h = (Inr x, h')"
    by (simp add: get_records_def exec_seq exec_fetch)
  obtain r2 h2 where r2: "exec (for_each (sync_record db pk model) rs) env ?h = (r2, h2)" by fastforce
  from ex2 r2 obtain u where u: "r2 = Inr u" by (cases r2) (simp_all add: exec_seq)
  show ?thesis
  proof (rule that)
    show "rc_table model = rd_table_name rd" "rc_table model' = rd_table_name rd"
      using exec_get_class_table [OF names] m m' by blast+
    show "\<And>t rows. rows_after db t rows h1 = rows_after db t rows h"
      using class_keeps_rows [OF m] class_keeps_rows [OF m'] by simp
    show "exec (external_model_class model (do_call (ExternalDeleteOthers db model (map rr_id rs)) (Done ()))) env h2 = (Inr x, h')"
      using ex2 r2 u by (simp add: exec_seq)
  qed (use rs r2 u in simp_all)
qed

lemma sync_mirrors:
  assumes id: "rd_id rd = Some pk" and names: "registry_names env"
    and fields: "\<And>h. env h (FieldsOf pk) = Inr (FieldRows fs)" and tells: "tells_records db rows env"
    and records: "\<And>h model. env h (RecordsOf model pk) = Inr (RecordRows rs)" and ids: "distinct (map rr_id rs)"
    and ex: "exec (sync_to_external_database d db rd) env h = (Inr x, h')"
  shows "dom (rows_after db (rd_table_name rd) rows h') = rr_id ` set rs"
    "\<forall>r \<in> set rs. mirrors fs r (rows_after db (rd_table_name rd) rows h' (rr_id r))"
proof -
  let ?t = "rd_table_name rd"
  from exec_sync [OF id ex names] obtain model model' rs' h1 h2 where
    t: "rc_table model = ?t" and rs': "env h1 (RecordsOf model' pk) = Inr (RecordRows rs')"
    and each: "exec (for_each (sync_record db pk model) rs') env (h1 @ [(RecordsOf model' pk, Inr (RecordRows rs'))]) = (Inr (), h2)"
    and others: "exec (external_model_class model (do_call (ExternalDeleteOthers db model (map rr_id rs')) (Done ()))) env h2 = (Inr x, h')"
    by metis
  have rs: "rs' = rs" using rs' records by simp
  from sync_all [OF fields tells each t] ids rs
  have all: "\<forall>r \<in> set rs. mirrors fs r (rows_after db ?t rows h2 (rr_id r))" by simp
  have after: "rows_after db ?t rows h' = rows_after db ?t rows h2 |` (rr_id ` set rs)"
    using exec_external [OF others] t rs by auto
  from all after show m: "\<forall>r \<in> set rs. mirrors fs r (rows_after db ?t rows h' (rr_id r))" by simp
  have "rr_id ` set rs \<subseteq> dom (rows_after db ?t rows h2)" using all by (auto simp: mirrors_def)
  then show "dom (rows_after db ?t rows h') = rr_id ` set rs" using after by auto
qed

section \<open>A synchronisation that fails\<close>

text \<open>The class stays without the reference to its dataset when a block fails inside \<open>external_model_class\<close>.\<close>

fun cleaned :: "string \<Rightarrow> ref_call \<times> (exc + ref_reply) \<Rightarrow> bool \<Rightarrow> bool" where
  "cleaned t (CleanFields t', Inr _) c = (c \<or> t' = t)"
| "cleaned t (RestoreFields t', Inr _) c = (c \<and> t' \<noteq> t)"
| "cleaned t _ c = c"

lemma failed_blocks_leave_classes_cleaned:
  assumes "\<And>h. env h (CleanFields (rc_table model)) = Inr NoAnswer" "env (h @ [(CleanFields (rc_table model), Inr NoAnswer)]) q = Inl e"
    "\<And>t. q \<noteq> RestoreFields t"
  shows "exec (external_model_class model (do_call q (Done ()))) env h = (Inl e, h @ [(CleanFields (rc_table model), Inr NoAnswer), (q, Inl e)])
    \<and> fold (cleaned (rc_table model)) [(CleanFields (rc_table model), Inr NoAnswer), (q, Inl e)] False"
proof -
  have "cleaned (rc_table model) (q, Inl e) True" by (cases q) simp_all
  with assms show ?thesis by (simp add: external_model_class_def exec_do_call exec_seq)
qed

end
