(* ===== verification/ReferenceUploads.thy ===== *)
theory ReferenceUploads
  imports ReferenceVersions ReferenceSync
begin

text \<open>What the log of an upload holds, and links that are refused.\<close>

section \<open>The log of an upload\<close>

fun quiet :: "ref_call \<Rightarrow> bool" where
  "quiet (SaveUploadRow row s) = False"
| "quiet _ = True"

fun logged_row :: "ref_call \<times> (exc + ref_reply) \<Rightarrow> (upload_row \<times> upload_status) list" where
  "logged_row (SaveUploadRow row s, Inr _) = [(row, s)]"
| "logged_row _ = []"

definition logged :: "(ref_call, ref_reply) history \<Rightarrow> (upload_row \<times> upload_status) list" where
  "logged h = concat (map logged_row h)"

lemma logged_append [simp]: "logged [] = []" "logged (h @ h') = logged h @ logged h'" "logged (e # h) = logged_row e @ logged h"
  by (simp_all add: logged_def)

lemma logged_quiet: "\<forall>(q, a) \<in> set es. quiet q \<Longrightarrow> logged es = []"
proof (induction es)
  case (Cons e es)
  obtain q a where e: "e = (q, a)" by (cases e)
  with Cons.prems have "quiet q" by simp
  then have "logged_row e = []" unfolding e by (cases q; cases a) simp_all
  with Cons show ?case by simp
qed simp

lemma mspec_quiet: "mcalls quiet m \<Longrightarrow> mspec (\<lambda>s h. logged h = l) m (\<lambda>r s h. logged h = l)"
proof (rule mspecI)
  fix env s h r s' h'
  assume m: "mcalls quiet m" and l: "logged h = l" and ex: "exec (m s) env h = (Inr (r, s'), h')"
  from mcalls_exec [OF m ex] obtain es where "h' = h @ es" "\<forall>(q, a) \<in> set es. quiet q" by blast
  with l show "logged h' = l" by (simp add: logged_quiet)
qed

lemma makes_quiet: "makes_classes q \<Longrightarrow> quiet q"
  by (cases q) simp_all

lemma calls_only_mono: "calls_only P m \<Longrightarrow> (\<And>q. P q \<Longrightarrow> Q q) \<Longrightarrow> calls_only Q m"
  by (induction m) auto

lemma class_quiet: "calls_only quiet (get_record_model_class d rd)"
  using get_record_model_class_calls makes_quiet by (rule calls_only_mono)

lemma external_quiet: "calls_only quiet m \<Longrightarrow> calls_only quiet (external_model_class model m)"
  unfolding external_model_class_def by (intro ref_calls) auto

lemma sync_quiet: "calls_only quiet (sync_to_external_database d db rd)"
proof -
  have "calls_only quiet (sync_record db pk model r)" for pk model r
    unfolding sync_record_def
    by (intro ref_calls) (auto split: sum.split intro!: ref_calls external_quiet)
  then show ?thesis unfolding sync_to_external_database_def get_records_def
    by (intro ref_calls class_quiet external_quiet) auto
qed

lemma tables_quiet: "calls_only quiet (create_external_database_table d db rd)" "calls_only quiet (drop_external_database_table d db rd)"
  unfolding create_external_database_table_def drop_external_database_table_def
  by (intro ref_calls class_quiet external_quiet; simp)+

lemma saving_quiet: "mcalls quiet save_row" "mcalls quiet bump_schema_version" "mcalls quiet (create_tables d model)"
  "mcalls quiet (move_external_table d)" "mcalls quiet (rename_tables model)" "mcalls quiet stash_originals"
  unfolding save_row_def bump_schema_version_def create_tables_def move_external_table_def rename_tables_def stash_originals_def
  by (intro mcalls_intros ref_calls tables_quiet sync_quiet; simp)+

lemma save_quiet: "mcalls quiet (save_dataset d now)"
  unfolding save_dataset_def Let_def
  by (intro mcalls_intros saving_quiet class_quiet) auto

lemma save_record_quiet: "mcalls quiet (save_record d now b i form_data)"
  unfolding save_record_def write_record_def increment_minor_version_def sync_if_external_def with_class_def
  by (intro mcalls_intros save_quiet sync_quiet) (auto split: option.split intro!: mcalls_intros class_quiet)

lemma custom_id_quiet: "calls_only quiet (get_record_by_custom_id d v rd)"
  unfolding get_record_by_custom_id_def by (intro ref_calls class_quiet) auto

lemma or_missing_quiet: "calls_only quiet m \<Longrightarrow> calls_only quiet (or_missing m)"
  unfolding or_missing_def by (intro ref_calls) auto

lemma upload_value_quiet: "calls_only quiet (upload_value d clean field_map row f acc)"
proof -
  have "calls_only quiet (link_value d field_map header v f acc)" for header v acc
    unfolding link_value_def
    by (cases acc) (auto intro!: ref_calls or_missing_quiet custom_id_quiet)
  then show ?thesis unfolding upload_value_def Let_def
    by (cases acc) (auto intro!: ref_calls split: sum.split)
qed

lemma upload_values_quiet: "calls_only quiet (upload_values d clean field_map row fs acc)"
  by (induction fs arbitrary: acc) (auto intro: calls_only_seq upload_value_quiet)

lemma existing_record_quiet: "calls_only quiet (existing_record d form_data rd)"
  unfolding existing_record_def by (intro ref_calls or_missing_quiet custom_id_quiet) auto

lemma upload_record_quiet: "mcalls quiet (upload_record d now acc i)"
proof (cases acc)
  case (Pair form_data errors)
  show ?thesis
  proof (cases "errors = []")
    case True
    with Pair save_record_quiet [of d now False i form_data] show ?thesis
      by (auto simp: upload_record_def mcalls_def intro!: calls_only_seq)
  qed (simp add: Pair upload_record_def mcalls_return)
qed

lemma mspec_bind_quiet: "mcalls quiet m \<Longrightarrow> (\<And>x. mspec (\<lambda>s h. logged h = l) (f x) (\<lambda>r s h. \<forall>x. r = Inr x \<longrightarrow> Q s h)) \<Longrightarrow>
    mspec (\<lambda>s h. logged h = l) (bind m f) (\<lambda>r s h. \<forall>x. r = Inr x \<longrightarrow> Q s h)"
  by (rule mspec_bind [where R = "\<lambda>r s h. logged h = l"]) (simp_all add: mspec_quiet)

lemma log_one_row: "mspec (\<lambda>s h. logged h = l) (upload_row d now clean field_map row)
    (\<lambda>r s h. \<forall>x. r = Inr x \<longrightarrow> map fst (logged h) = map fst l @ [row])"
proof -
  have log: "mspec (\<lambda>s h. logged h = l) (send (SaveUploadRow row status))
    (\<lambda>r s h. \<forall>x. r = Inr x \<longrightarrow> map fst (logged h) = map fst l @ [row])" for status
    unfolding send_def
    by (rule mspec_call) (auto simp: exec_do_call split: sum.splits)
  show ?thesis unfolding upload_row_def
    by (intro mspec_bind_quiet log mcalls_intros ref_calls existing_record_quiet upload_values_quiet upload_record_quiet) simp_all
qed

lemma log_rows: "mspec (\<lambda>s h. map fst (logged h) = l) (upload_rows d now clean field_map rows)
    (\<lambda>r s h. \<forall>x. r = Inr x \<longrightarrow> map fst (logged h) = l @ rows)"
proof (induction rows arbitrary: l)
  case Nil
  show ?case by (simp add: mspec_return)
next
  case (Cons row rows)
  have first: "mspec (\<lambda>s h. map fst (logged h) = l) (upload_row d now clean field_map row)
      (\<lambda>r s h. \<forall>x. r = Inr x \<longrightarrow> map fst (logged h) = l @ [row])"
    using log_one_row [of _ d now clean field_map row] unfolding mspec_def by blast
  show ?case unfolding upload_rows.simps
    by (rule mspec_bind [OF first], rule mspec_conseq [OF Cons.IH [of "l @ [row]"]]) auto
qed

lemma upload_logs: "mspec (\<lambda>s h. logged h = l) (upload d now clean rows)
    (\<lambda>r s h. \<forall>x. r = Inr x \<longrightarrow> map fst (logged h) = map fst l @ rows)"
proof -
  have rows: "mspec (\<lambda>s h. logged h = l) (before (upload_rows d now clean field_map rows) (sync_if_external d))
    (\<lambda>r s h. \<forall>x. r = Inr x \<longrightarrow> map fst (logged h) = map fst l @ rows)" for field_map
  proof (rule mspec_bind)
    show "mspec (\<lambda>s h. logged h = l) (upload_rows d now clean field_map rows)
        (\<lambda>r s h. \<forall>x. r = Inr x \<longrightarrow> map fst (logged h) = map fst l @ rows)"
      by (rule mspec_conseq [OF log_rows [of "map fst l"]]) simp_all
    have q: "mcalls quiet (sync_if_external d)"
      unfolding sync_if_external_def by (intro mcalls_intros sync_quiet)
    show "mspec (\<lambda>s h. \<forall>y. (Inr x :: exc + unit) = Inr y \<longrightarrow> map fst (logged h) = map fst l @ rows) (sync_if_external d)
        (\<lambda>r s h. \<forall>x. r = Inr x \<longrightarrow> map fst (logged h) = map fst l @ rows)" for x
      using mspec_quiet [OF q] unfolding mspec_def by (metis)
  qed simp
  show ?thesis unfolding upload_def
    by (intro mspec_bind_quiet rows mcalls_intros ref_calls class_quiet) simp_all
qed

section \<open>Links that are refused\<close>

definition back_and_forth :: "nat \<Rightarrow> ref_call \<Rightarrow> bool" where
  "back_and_forth pk q \<longleftrightarrow> q \<in> {Begin, LinkingDatasets pk, Rollback}"

lemma refused_link:
  assumes l: "rf_linked f = Some l" and id: "rd_id rd = Some pk"
    and env: "\<And>h. env h (LinkingDatasets pk) = Inr (Keys ks)"
    and bad: "lf_data_type l = Foreign_key \<or> lf_dataset l \<in> set ks"
  shows "\<exists>es. exec (check_link (f, rd)) env h = (Inr (Inl ''ValidationError'', (f, rd)), h @ es) \<and>
    (\<forall>(q, a) \<in> set es. back_and_forth pk q)"
  using bad l id
  by (cases "lf_data_type l = Foreign_key")
    (simp_all add: check_link_def look_def raise_def bind_def evaluate_def key_of_def call_def exec_seq exec_handling
      exec_fetch env back_and_forth_def)

lemma refused_save:
  assumes l: "rf_linked f = Some l" and id: "rd_id rd = Some pk"
    and env: "\<And>h. env h (LinkingDatasets pk) = Inr (Keys ks)" and begins: "\<And>h. env h Begin = Inr b"
    and bad: "lf_data_type l = Foreign_key \<or> lf_dataset l \<in> set ks"
  shows "\<exists>es. exec (save_field d now (f, rd)) env h = (Inr (Inl ''ValidationError'', (f, rd)), h @ es) \<and>
    (\<forall>(q, a) \<in> set es. back_and_forth pk q)"
proof -
  from refused_link [where env = env and h = "h @ [(Begin, Inr b)]", OF l id env bad] obtain es where
    es: "exec (check_link (f, rd)) env (h @ [(Begin, Inr b)]) = (Inr (Inl ''ValidationError'', (f, rd)), (h @ [(Begin, Inr b)]) @ es)"
    and q: "\<forall>(q, a) \<in> set es. back_and_forth pk q" by blast
  show ?thesis
    by (rule exI [of _ "(Begin, Inr b) # es @ [(Rollback, env ((h @ [(Begin, Inr b)]) @ es) Rollback)]"])
      (use es q in \<open>auto simp: save_field_def transaction_def begins bind_def exec_seq back_and_forth_def\<close>)
qed

end
