(* ===== verification/ReferenceProperties.thy ===== *)
theory ReferenceProperties
  imports ReferenceUploads
begin

text \<open>
  The properties of reference datasets.
\<close>

section \<open>Samples\<close>

definition sample_dataset :: "nat option \<Rightarrow> string \<Rightarrow> ref_dataset" where
  "sample_dataset i table =
     \<lparr>rd_id = i, rd_table_name = table, rd_external_database = None, rd_sort_field = None, rd_descending = False,
      rd_deleted = False, rd_published = True, rd_initial_published_at = None, rd_published_at = None,
      rd_schema_version = 0, rd_major_version = 1, rd_minor_version = 0, rd_published_major_version = 0,
      rd_published_minor_version = 0, rd_original_table_name = table, rd_original_ext_db = None,
      rd_original_sort_order = ''updated_date'', rd_original_published = False\<rparr>"

definition sample_field :: "data_type \<Rightarrow> string \<Rightarrow> linked_field option \<Rightarrow> ref_field" where
  "sample_field t n l =
     \<lparr>rf_id = None, rf_data_type = t, rf_name = n, rf_column_name = Some n, rf_relationship_name = Some n, rf_linked = l,
      rf_is_identifier = False, rf_required = False, rf_original_data_type = t, rf_original_column_name = Some n\<rparr>"

definition link_to :: "nat \<Rightarrow> linked_field" where
  "link_to n = \<lparr>lf_data_type = Integer, lf_column_name = Some ''code'', lf_dataset = n\<rparr>"

text \<open>Datasets 1, 2 and 3, each linked to the next one, and others without fields.\<close>

definition sample_ring :: ref_store where
  "sample_ring = \<lparr>st_dataset = (\<lambda>n. sample_dataset (Some n) (''ref_'' @ replicate n CHR ''a'')),
     st_fields = (\<lambda>n. if n \<in> {1, 2, 3} then [sample_field Foreign_key ''link'' (Some (link_to (if n = 3 then 1 else n + 1)))] else [])\<rparr>"

fun sample_env :: "ref_store \<Rightarrow> (nat \<Rightarrow> nat list) \<Rightarrow> ref_record list \<Rightarrow> ref_call \<Rightarrow> exc + ref_reply" where
  "sample_env st linking rs (InsertDataset rd) = Inr (Key 9)"
| "sample_env st linking rs (Registered t) = Inr (ClassFound None)"
| "sample_env st linking rs (FieldsOf n) = Inr (FieldRows (st_fields st n))"
| "sample_env st linking rs (DatasetOf n) = Inr (DatasetRow (st_dataset st n))"
| "sample_env st linking rs (LinkingDatasets n) = Inr (Keys (linking n))"
| "sample_env st linking rs (RecordsOf model n) = Inr (RecordRows rs)"
| "sample_env st linking rs _ = Inr NoAnswer"

definition linking_in_ring :: "nat \<Rightarrow> nat list" where
  "linking_in_ring n = (if n = 1 then [3] else if n = 2 then [1] else if n = 3 then [2] else [])"

section \<open>Versions\<close>

text \<open>
  C26: Whatever requests do to a reference dataset, the versions that it is published with follow one another without
  gaps: a save keeps the published version or moves it to the next major or minor one. It is never ahead of the
  version of the dataset, and is that version while the dataset is published.
\<close>

theorem published_versions_have_no_gaps:
  assumes "life row rd"
    and "saves_as (save_dataset d now) rd rd' \<or> saves_as (increment_minor_version d now) rd rd' \<or>
      saves_as (increment_major_version d now) rd rd'"
  shows "follows (public_version row) (public_version (Some rd')) \<and>
    not_after (public_version (Some rd')) (rd_major_version rd', rd_minor_version rd') \<and>
    (rd_published rd' \<longrightarrow> public_version (Some rd') = (rd_major_version rd', rd_minor_version rd'))"
  using life_steps [OF assms] by blast

definition sample_services :: "ref_record list \<Rightarrow> (ref_call, ref_reply) services" where
  "sample_services rs = (\<lambda>h. sample_env sample_ring linking_in_ring rs)"

definition sample_new :: ref_dataset where
  "sample_new = sample_dataset None ''ref_new''"

fun returned :: "(exc + ((exc + unit) \<times> 's)) \<times> (ref_call, ref_reply) history \<Rightarrow> 's option" where
  "returned (Inr (Inr (), s), h) = Some s"
| "returned _ = None"

lemma returnedD: "returned r = Some s' \<Longrightarrow> \<exists>h'. r = (Inr (Inr (), s'), h')"
  by (cases r rule: returned.cases) auto

lemma sample_saved: "map_option (\<lambda>rd. (public_version (Some rd), rd_published rd))
    (returned (exec (increment_minor_version 1 7 sample_new) (sample_services []) [])) = Some ((1, 0), True)"
  by code_simp

text \<open>The first publication makes version 1.0.\<close>

lemma published_versions_have_no_gaps_witness:
  "\<exists>rd'. saves_as (increment_minor_version 1 7) sample_new rd' \<and> public_version (Some rd') = (1, 0) \<and>
    follows (0, 0) (1, 0) \<and> (rd_major_version rd', rd_minor_version rd') = (1, 0)"
proof -
  from sample_saved [unfolded map_option_eq_Some] obtain rd' where r: "returned (exec (increment_minor_version 1 7 sample_new) (sample_services []) []) = Some rd'"
    and p: "public_version (Some rd') = (1, 0)" "rd_published rd'"
    by blast
  from returnedD [OF r] have s: "saves_as (increment_minor_version 1 7) sample_new rd'" unfolding saves_as_def by blast
  have "life None sample_new"
    by (rule life.made) (simp add: blank_def sample_new_def sample_dataset_def versions_of_def, blast)
  from published_versions_have_no_gaps [OF this disjI2 [OF disjI1 [OF s]]] s p show ?thesis
    by (auto simp: public_version_def [of None])
qed

section \<open>Copies\<close>

text \<open>
  C27: A synchronisation that ends leaves in the table of the external database exactly the records of the
  dataset, each with the values that it has for the fields, whatever the table held before.
\<close>

theorem synced_copies_mirror_the_records:
  assumes "rd_id rd = Some pk" "registry_names env" "tells_records db rows env"
    and "\<And>h. env h (FieldsOf pk) = Inr (FieldRows fs)"
    and "\<And>h model. env h (RecordsOf model pk) = Inr (RecordRows rs)" "distinct (map rr_id rs)"
    and "exec (sync_to_external_database d db rd) env h = (Inr x, h')"
  shows "dom (rows_after db (rd_table_name rd) rows h') = rr_id ` set rs \<and>
    (\<forall>r \<in> set rs. mirrors fs r (rows_after db (rd_table_name rd) rows h' (rr_id r)))"
  using sync_mirrors [OF assms(1,2,4,3,5,6,7)] by blast

definition sample_records :: "ref_record list" where
  "sample_records = [\<lparr>rr_id = 4, rr_data = [(''code'', JInt 1), (''updated_date'', JInt 9)]\<rparr>,
     \<lparr>rr_id = 5, rr_data = [(''code'', JInt 2), (''updated_date'', JInt 9)]\<rparr>]"

definition coded :: ref_store where
  "coded = \<lparr>st_dataset = (\<lambda>n. sample_dataset (Some n) ''ref_code''), st_fields = (\<lambda>n. [sample_field Integer ''code'' None])\<rparr>"

text \<open>An external table with records 3 and 4, and a database that tells which ones it has.\<close>

definition rows_before :: table_rows where
  "rows_before = (\<lambda>i. if i = 3 \<or> i = 4 then Some [(''code'', JInt 7)] else None)"

definition copying :: "(ref_call, ref_reply) services" where
  "copying = (\<lambda>h q. case q of
      ExternalExists db model i \<Rightarrow> Inr (Holds (rows_after db (rc_table model) rows_before h i \<noteq> None))
    | _ \<Rightarrow> sample_env coded linking_in_ring sample_records q)"

lemma copying_ends: "(case exec (sync_to_external_database 1 ''copies'' (sample_dataset (Some 2) ''ref_code'')) copying [] of
    (r, h) \<Rightarrow> (r, map (rows_after ''copies'' ''ref_code'' rows_before h) [3, 4, 5])) =
    (Inr (), [None, Some [(''code'', JInt 1)], Some [(''code'', JInt 2)]])"
  by code_simp

lemma synced_copies_mirror_the_records_witness:
  "\<exists>h. exec (sync_to_external_database 1 ''copies'' (sample_dataset (Some 2) ''ref_code'')) copying [] = (Inr (), h) \<and>
    dom (rows_after ''copies'' ''ref_code'' rows_before h) = {4, 5}"
proof -
  obtain r h where ex: "exec (sync_to_external_database 1 ''copies'' (sample_dataset (Some 2) ''ref_code'')) copying [] = (r, h)"
    by fastforce
  with copying_ends have r: "r = Inr ()" by simp
  have tells: "tells_records ''copies'' rows_before copying"
    by (simp add: tells_records_def copying_def)
  have names: "registry_names copying"
    by (simp add: registry_names_def copying_def)
  have "dom (rows_after ''copies'' (rd_table_name (sample_dataset (Some 2) ''ref_code'')) rows_before h) = rr_id ` set sample_records"
    by (rule synced_copies_mirror_the_records [where env = copying and fs = "st_fields coded 2" and pk = 2, THEN conjunct1])
      (use tells names ex r in \<open>simp_all add: sample_dataset_def copying_def coded_def sample_records_def\<close>)
  with ex r show ?thesis by (auto simp: sample_dataset_def sample_records_def)
qed

section \<open>Links\<close>


text \<open>Datasets 1, 2 and 3 in a chain.\<close>

definition sample_chain :: ref_store where
  "sample_chain = sample_ring\<lparr>st_fields := (\<lambda>n. if n = 3 then [] else st_fields sample_ring n)\<rparr>"

lemma sample_sound: "sound_dataset sample_ring m" "sound_dataset sample_chain m"
  by (simp_all add: sound_dataset_def sample_chain_def sample_ring_def sample_dataset_def sample_field_def record_sort_order_def
      sound_field_def attribute_def)

lemma sample_links: "links sample_ring n = (if n \<in> {1, 2} then {n + 1} else if n = 3 then {1} else {})"
  "links sample_chain n = (if n \<in> {1, 2} then {n + 1} else {})"
  by (auto simp: links_def sample_chain_def sample_ring_def sample_field_def link_to_def)


text \<open>
  C29: A link from one dataset of a ring to the next is admitted when the next does not link straight back, so rings
  of three datasets can be made. In a process that has just started, no dataset of a ring has a class, however deep the stack.
\<close>

theorem rings_of_links_are_admitted:
  assumes "reads st env" "\<And>m. sound_dataset st m" "ring st R" "inj (\<lambda>n. rd_table_name (st_dataset st n))"
    and "\<And>h t. env h (Unregister t) = Inr NoAnswer" "starts_empty env"
    and "\<And>h n. env h (LinkingDatasets n) = Inr (Keys (linking n))" "\<And>n. set (linking n) = {m. n \<in> links st m}"
    and "n \<in> R" "rf_linked f = Some l" "lf_data_type l \<noteq> Foreign_key" "n \<notin> links st (lf_dataset l)"
  shows "fst (exec (check_link (f, st_dataset st n)) env h) = Inr (Inr (), (f, st_dataset st n)) \<and>
    isl (fst (exec (get_record_model_class d (st_dataset st n)) env []))"
proof -
  have id: "rd_id (st_dataset st n) = Some n" using assms(2) [of n] by (simp add: sound_dataset_def)
  have b: "breaks_on_ring st R env (get_record_model_class d)"
    by (rule breaks_on_ring_class) (use assms in blast)+
  obtain r h' where "exec (get_record_model_class d (st_dataset st n)) env [] = (r, h')" by fastforce
  with breaks_on_ringD [OF b unregistered_Nil this] assms(9)
  have "isl (fst (exec (get_record_model_class d (st_dataset st n)) env []))" by simp
  moreover have "lf_dataset l \<notin> set (linking n)" using assms(8,12) by simp
  ultimately show ?thesis
    using assms(7,10,11) id
    by (simp add: check_link_def look_def return_def bind_def evaluate_def key_of_def call_def exec_seq exec_handling exec_fetch)
qed

lemma rings_of_links_are_admitted_witness:
  "fst (exec (check_link (sample_field Foreign_key ''link'' (Some (link_to 2)), st_dataset sample_ring 1)) (sample_services []) []) =
      Inr (Inr (), (sample_field Foreign_key ''link'' (Some (link_to 2)), st_dataset sample_ring 1)) \<and>
    isl (fst (exec (get_record_model_class 900 (st_dataset sample_ring 1)) (sample_services []) []))"
proof (rule rings_of_links_are_admitted [where R = "{1, 2, 3}" and linking = linking_in_ring and l = "link_to 2"])
  show "inj (\<lambda>n. rd_table_name (st_dataset sample_ring n))"
    by (rule injI) (simp add: sample_ring_def sample_dataset_def replicate_eq_replicate)
  show "ring sample_ring {1, 2, 3}" by (simp add: ring_def sample_links)
  show "starts_empty (sample_services [])" by (simp add: starts_empty_def sample_services_def)
  show "set (linking_in_ring n) = {m. n \<in> links sample_ring m}" for n
    by (auto simp: linking_in_ring_def sample_links)
qed (simp_all add: reads_def sample_services_def sample_sound sample_links sample_field_def link_to_def)

text \<open>
  A link to a field that is a link itself, or to a dataset with a link back, is refused: the field is not saved,
  and nothing is written.
\<close>

theorem refused_links_write_nothing:
  assumes "rf_linked f = Some l" "rd_id rd = Some pk"
    and "\<And>h. env h (LinkingDatasets pk) = Inr (Keys linking)" "\<And>h. env h Begin = Inr b"
    and "lf_data_type l = Foreign_key \<or> lf_dataset l \<in> set linking"
  shows "\<exists>es. exec (save_field d now (f, rd)) env h = (Inr (Inl ''ValidationError'', (f, rd)), h @ es) \<and>
    fst ` set es \<subseteq> {Begin, LinkingDatasets pk, Rollback}"
proof -
  obtain es where "exec (save_field d now (f, rd)) env h = (Inr (Inl ''ValidationError'', (f, rd)), h @ es)"
    "\<forall>(q, a) \<in> set es. back_and_forth pk q"
    using refused_save [where env = env and pk = pk and f = f and rd = rd] assms by blast
  then show ?thesis by (intro exI [of _ es]) (auto simp: back_and_forth_def)
qed

lemma refused_links_write_nothing_witness:
  "\<exists>es. exec (save_field 5 7 (sample_field Foreign_key ''link'' (Some (link_to 3)), st_dataset sample_ring 1)) (sample_services []) [] =
      (Inr (Inl ''ValidationError'', (sample_field Foreign_key ''link'' (Some (link_to 3)), st_dataset sample_ring 1)), [] @ es) \<and>
    fst ` set es \<subseteq> {Begin, LinkingDatasets 1, Rollback}"
  by (rule refused_links_write_nothing [where l = "link_to 3" and linking = "[3]" and b = NoAnswer])
    (simp_all add: sample_field_def sample_ring_def sample_dataset_def sample_services_def linking_in_ring_def link_to_def)

section \<open>Uploads\<close>

text \<open>
  The log of an upload that ends has each row of the file once, in the order of the file, whether the row was added,
  updated or refused.
\<close>

theorem uploads_log_every_row:
  assumes "exec (upload d now clean rows rd) env h = (Inr (Inr x, rd'), h')"
  shows "map fst (logged h') = map fst (logged h) @ rows"
  using mspecD [OF upload_logs refl assms] by simp

definition sample_clean :: form_clean where
  "sample_clean = (\<lambda>f v. case v of None \<Rightarrow> Inl ''This field is required.'' | Some s \<Rightarrow> Inr (JStr s))"

definition sample_rows :: "upload_row list" where
  "sample_rows = [[(''code'', Some ''1'')], [(''code'', None)], [(''code'', Some ''2'')]]"

definition uploading :: "(ref_call, ref_reply) services" where
  "uploading = (\<lambda>h q. case q of
      IdentifierColumn n \<Rightarrow> Inr (ColumnName (Some ''code''))
    | GetByCustomId model pk column v \<Rightarrow> if v = JStr ''2'' then Inr (Key 5) else Inl ''RecordDoesNotExist''
    | _ \<Rightarrow> sample_env coded linking_in_ring [] q)"

lemma sample_upload: "(case exec (upload 1 7 sample_clean sample_rows (sample_dataset (Some 2) ''ref_code'')) uploading [] of
    (r, h) \<Rightarrow> (map_option rd_minor_version (returned (r, h)), map snd (logged h))) =
    (Some 1, [Added, Failed [(''code'', ''This field is required.'')], Updated])"
  by code_simp

lemma uploads_log_every_row_witness:
  "\<exists>rd' h. exec (upload 1 7 sample_clean sample_rows (sample_dataset (Some 2) ''ref_code'')) uploading [] = (Inr (Inr (), rd'), h) \<and>
    map fst (logged h) = sample_rows"
proof -
  obtain r h where ex: "exec (upload 1 7 sample_clean sample_rows (sample_dataset (Some 2) ''ref_code'')) uploading [] = (r, h)"
    by fastforce
  with sample_upload obtain rd' where "returned (r, h) = Some rd'" by auto
  from returnedD [OF this] ex
  have "exec (upload 1 7 sample_clean sample_rows (sample_dataset (Some 2) ''ref_code'')) uploading [] = (Inr (Inr (), rd'), h)" by simp
  with uploads_log_every_row [OF this] show ?thesis by (intro exI [of _ rd'] exI [of _ h]) simp
qed

section \<open>Tables that go astray\<close>

text \<open>
  A dataset that gets another name and another external database in one save: the table is dropped from the old
  database under the new name, a table is made in the new one, and the save fails because the records are read under
  the new name before the table has it. The transaction of the default database does not cover the other two.
\<close>

definition moved :: ref_dataset where
  "moved = (sample_dataset (Some 2) ''ref_b'')\<lparr>rd_original_table_name := ''ref_a'',
     rd_original_ext_db := Some ''old'', rd_external_database := Some ''new''\<rparr>"

definition renames_late :: "(ref_call, ref_reply) services" where
  "renames_late = (\<lambda>h q. case q of
      RecordsOf model n \<Rightarrow> if rc_table model = ''ref_b'' then Inl ''ProgrammingError'' else Inr (RecordRows [])
    | _ \<Rightarrow> sample_env coded linking_in_ring [] q)"

fun table_calls :: "ref_call \<times> (exc + ref_reply) \<Rightarrow> (string \<times> string \<times> string) list" where
  "table_calls (CreateModel db model, Inr _) = [(''create'', db, rc_table model)]"
| "table_calls (DeleteModel db model, Inr _) = [(''drop'', db, rc_table model)]"
| "table_calls (AlterDbTable db model a b, Inr _) = [(''rename'', db, b)]"
| "table_calls _ = []"

lemma renamed_and_moved_tables: "(case exec (save_dataset 1 7 moved) renames_late [] of
    (r, h) \<Rightarrow> (map_sum id fst r, concat (map table_calls h))) =
    (Inr (Inl ''ProgrammingError''), [(''drop'', ''old'', ''ref_b''), (''create'', ''new'', ''ref_b'')])"
  by code_simp

text \<open>A column that cannot be added to the external table: the field is saved all the same, without a column.\<close>

definition copied :: ref_dataset where
  "copied = (sample_dataset (Some 2) ''ref_code'')\<lparr>rd_original_ext_db := Some ''copies'', rd_external_database := Some ''copies''\<rparr>"

definition lacks_table :: "(ref_call, ref_reply) services" where
  "lacks_table = (\<lambda>h q. case q of
      AddField db model n \<Rightarrow> if db = ''copies'' then Inl ''ProgrammingError'' else Inr NoAnswer
    | InsertField f \<Rightarrow> Inr (Key 8)
    | RecordsExist model n \<Rightarrow> Inr (Holds False)
    | _ \<Rightarrow> sample_env coded linking_in_ring [] q)"

fun column_calls :: "ref_call \<times> (exc + ref_reply) \<Rightarrow> string list" where
  "column_calls (AddField db model n, Inr _) = [''added'']"
| "column_calls (AddField db model n, Inl _) = [''failed'']"
| "column_calls (Rollback, _) = [''rolled back'']"
| "column_calls (UpdateField f, Inr _) = [''saved'']"
| "column_calls _ = []"

lemma fields_without_columns: "(case exec (save_field 1 7 (sample_field Integer ''code'' None, copied)) lacks_table [] of
    (r, h) \<Rightarrow> (map_sum id fst r, concat (map column_calls h))) =
    (Inr (Inr ()), [''added'', ''failed'', ''rolled back'', ''saved''])"
  by code_simp

end
