(* ===== verification/Notifications.thy ===== *)
theory Notifications
  imports Effects
begin

text \<open>
  \<open>apps/datasets/utils.py\<close> and \<open>datasets_db.py\<close>: the changelogs of datasets, made from the rows that pipelines leave
  in \<open>dataflow.metadata\<close>, and the e-mails that tell subscribers of changes.
\<close>

section \<open>Changelogs\<close>

type_synonym columns = "(string \<times> string) list"

record metadata_row =
  mr_id :: nat
  mr_date :: int
  mr_structure :: string
  mr_hash :: "string option"

record change =
  ch_id :: nat
  ch_date :: int
  ch_structure :: "columns option"
  ch_previous_structure :: "columns option"
  ch_hash :: "string option"
  ch_previous_hash :: "string option"

text \<open>
  The reading of JSON, the order in which Python lists a set of names, the text of a date, and the settings that
  mails need.
\<close>

record notify_libs =
  nl_loads :: "string \<Rightarrow> columns"
  nl_set_order :: "string list \<Rightarrow> string list"
  nl_strftime :: "int \<Rightarrow> string"
  nl_columns_template :: string
  nl_all_data_template :: string
  nl_root_domain :: string
  nl_preferences_path :: string
  nl_first_database :: "string option"

definition load_structure :: "notify_libs \<Rightarrow> string \<Rightarrow> columns option" where
  "load_structure nl s = (if s = [] then None else Some (nl_loads nl s))"

definition change_between :: "notify_libs \<Rightarrow> metadata_row \<Rightarrow> metadata_row \<Rightarrow> change list" where
  "change_between nl row next_row =
     (if mr_structure row \<noteq> mr_structure next_row \<or> mr_hash row \<noteq> mr_hash next_row
      then [\<lparr>ch_id = mr_id next_row, ch_date = mr_date next_row, ch_structure = load_structure nl (mr_structure next_row),
             ch_previous_structure = load_structure nl (mr_structure row), ch_hash = mr_hash next_row,
             ch_previous_hash = mr_hash row\<rparr>]
      else [])"

definition get_changelog_from_metadata_rows :: "notify_libs \<Rightarrow> metadata_row list \<Rightarrow> change list" where
  "get_changelog_from_metadata_rows nl rows =
     (case rows of
        [] \<Rightarrow> []
      | row # rest \<Rightarrow> rev
          (\<lparr>ch_id = mr_id row, ch_date = mr_date row, ch_structure = load_structure nl (mr_structure row),
            ch_previous_structure = None, ch_hash = mr_hash row, ch_previous_hash = None\<rparr>
           # concat (map (\<lambda>(a, b). change_between nl a b) (zip rows rest))))"

definition falsy :: "'a list option \<Rightarrow> bool" where
  "falsy x \<longleftrightarrow> x = None \<or> x = Some []"

definition named_columns :: "string list \<Rightarrow> string \<Rightarrow> string" where
  "named_columns cs verb =
     (if cs = [] then []
      else ''Column'' @ (if length cs > 1 then ''s'' else []) @ '' '' @ join '' and '' cs @ '' '' @
        (if length cs > 1 then ''were'' else ''was'') @ '' '' @ verb)"

definition summary :: "notify_libs \<Rightarrow> string \<Rightarrow> change \<Rightarrow> exc + string" where
  "summary nl initial_change_type c =
     (if falsy (ch_previous_structure c) \<and> falsy (ch_previous_hash c) then Inr initial_change_type
      else if ch_previous_structure c \<noteq> ch_structure c then
        (case (ch_structure c, ch_previous_structure c) of
           (Some new, Some old) \<Rightarrow>
             let added = nl_set_order nl (filter (\<lambda>n. n \<notin> fst ` set old) (remdups (map fst new)));
                 removed = nl_set_order nl (filter (\<lambda>n. n \<notin> fst ` set new) (remdups (map fst old)))
             in Inr (if added = [] \<and> removed = [] then ''N/A''
                     else named_columns added ''added'' @ (if added \<noteq> [] \<and> removed \<noteq> [] then '', '' else []) @
                          named_columns removed ''removed'')
         | _ \<Rightarrow> Inl ''TypeError'')
      else if ch_previous_hash c \<noteq> ch_hash c then Inr ''Records in the dataset changed''
      else Inr ''N/A'')"

fun detailed_changelog :: "notify_libs \<Rightarrow> string \<Rightarrow> change list \<Rightarrow> exc + (change \<times> string) list" where
  "detailed_changelog nl initial [] = Inr []"
| "detailed_changelog nl initial (c # cs) =
     (case summary nl initial c of
        Inl e \<Rightarrow> Inl e
      | Inr s \<Rightarrow> map_sum id (\<lambda>ds. (c, s) # ds) (detailed_changelog nl initial cs))"

section \<open>Calls\<close>

text \<open>What can change: a table or a query of a dataset, or a reference dataset.\<close>

datatype notifiable =
    Source_table string string string string
  | Custom_query nat string string
  | Reference string string

fun dataset_of :: "notifiable \<Rightarrow> string" where
  "dataset_of (Source_table database schema table dataset) = dataset"
| "dataset_of (Custom_query i database dataset) = dataset"
| "dataset_of (Reference table dataset) = dataset"

record subscription =
  sb_id :: nat
  sb_schema :: bool
  sb_data :: bool

record mail =
  ml_template :: string
  ml_address :: string
  ml_change_date :: string
  ml_dataset_name :: string
  ml_dataset_url :: string
  ml_manage_url :: string
  ml_summary :: string

record user_notification =
  un_email_id :: "string option"
  un_object :: "notifiable option"
  un_changelog_id :: nat
  un_address :: string
  un_dataset :: "(string \<times> string) option"

datatype notify_call =
    Begin | Commit | Rollback
  | TableMetadata string string string
  | QueryMetadata string nat
  | NotifiableObjects
  | GetOrCreateNotification nat notifiable
  | SubscriptionsOf string
  | CreateUserNotification nat nat
  | PendingNotifications
  | LockNotification nat
  | SendEmail nat mail
  | SaveEmailId nat string

datatype notify_reply =
    Nothing
  | Rows "metadata_row list"
  | Objects "notifiable list"
  | Notification nat bool
  | Subscriptions "subscription list"
  | Ids "nat list"
  | Found user_notification
  | EmailId string

type_synonym 'a notifying = "(notify_call, notify_reply, 'a) prog"

fun the_metadata :: "notify_reply \<Rightarrow> metadata_row list option" where
  "the_metadata (Rows rows) = Some rows" | "the_metadata _ = None"

fun the_objects :: "notify_reply \<Rightarrow> notifiable list option" where
  "the_objects (Objects os) = Some os" | "the_objects _ = None"

fun the_notification :: "notify_reply \<Rightarrow> (nat \<times> bool) option" where
  "the_notification (Notification n created) = Some (n, created)" | "the_notification _ = None"

fun the_subscriptions :: "notify_reply \<Rightarrow> subscription list option" where
  "the_subscriptions (Subscriptions ss) = Some ss" | "the_subscriptions _ = None"

fun the_ids :: "notify_reply \<Rightarrow> nat list option" where
  "the_ids (Ids is) = Some is" | "the_ids _ = None"

fun the_found :: "notify_reply \<Rightarrow> user_notification option" where
  "the_found (Found u) = Some u" | "the_found _ = None"

fun the_email_id :: "notify_reply \<Rightarrow> string option" where
  "the_email_id (EmailId e) = Some e" | "the_email_id _ = None"

definition reading :: "notify_call \<Rightarrow> (notify_reply \<Rightarrow> 'r option) \<Rightarrow> ('r \<Rightarrow> 'a notifying) \<Rightarrow> 'a notifying" where
  "reading q get f = ask q (\<lambda>r. want ''TypeError'' (get r) f)"

definition telling :: "notify_call \<Rightarrow> 'a notifying \<Rightarrow> 'a notifying" where
  "telling q m = ask q (\<lambda>_. m)"

section \<open>Notifications\<close>

definition get_detailed_changelog :: "notify_libs \<Rightarrow> notifiable option \<Rightarrow> ((change \<times> string) list \<Rightarrow> 'a notifying) \<Rightarrow> 'a notifying" where
  "get_detailed_changelog nl related_object f =
     (let detailed = (\<lambda>initial rows. case detailed_changelog nl initial (get_changelog_from_metadata_rows nl rows) of
                        Inl e \<Rightarrow> Fail e | Inr ds \<Rightarrow> f ds)
      in case related_object of
           None \<Rightarrow> f []
         | Some (Source_table database schema table dataset) \<Rightarrow>
             reading (TableMetadata database schema table) the_metadata (detailed ''Table creation'')
         | Some (Custom_query i database dataset) \<Rightarrow>
             reading (QueryMetadata database i) the_metadata (detailed ''Query creation'')
         | Some (Reference table dataset) \<Rightarrow>
             want ''IndexError'' (nl_first_database nl) (\<lambda>database.
             reading (TableMetadata database ''public'' table) the_metadata (detailed ''Reference dataset creation'')))"

definition get_change_item :: "notify_libs \<Rightarrow> notifiable option \<Rightarrow> nat \<Rightarrow> ((change \<times> string) option \<Rightarrow> 'a notifying) \<Rightarrow> 'a notifying" where
  "get_change_item nl related_object change_id f =
     get_detailed_changelog nl related_object (\<lambda>changelog. f (find (\<lambda>(c, s). ch_id c = change_id) changelog))"

definition schema_change :: "change \<Rightarrow> bool" where
  "schema_change c \<longleftrightarrow> ch_previous_structure c \<noteq> ch_structure c"

definition data_change :: "change \<Rightarrow> bool" where
  "data_change c \<longleftrightarrow> ch_previous_hash c \<noteq> ch_hash c"

text \<open>The subscriptions that hear of a change.\<close>

definition subscribers :: "change \<Rightarrow> subscription list \<Rightarrow> subscription list" where
  "subscribers c subs = (if schema_change c then filter sb_schema subs else if data_change c then filter sb_data subs else [])"

definition create_notification :: "notify_libs \<Rightarrow> notifiable \<Rightarrow> unit notifying" where
  "create_notification nl notifiable_object =
     get_detailed_changelog nl (Some notifiable_object) (\<lambda>changelog.
     case changelog of
       [] \<Rightarrow> Done ()
     | (c, s) # _ \<Rightarrow>
         reading (GetOrCreateNotification (ch_id c) notifiable_object) the_notification (\<lambda>(n, created).
         if \<not> created then Done ()
         else if \<not> schema_change c \<and> \<not> data_change c then Done ()
         else reading (SubscriptionsOf (dataset_of notifiable_object)) the_subscriptions (\<lambda>subs.
              for_each (\<lambda>sb. telling (CreateUserNotification n (sb_id sb)) (Done ())) (subscribers c subs))))"

definition create_notifications :: "notify_libs \<Rightarrow> unit notifying" where
  "create_notifications nl = reading NotifiableObjects the_objects (for_each (create_notification nl))"

text \<open>
  The template depends on the change; when it is of neither kind, Python reads the variable that an earlier
  notification of the same run has left, if there was one.
\<close>

definition template_of :: "notify_libs \<Rightarrow> string option \<Rightarrow> change \<Rightarrow> string option" where
  "template_of nl earlier c =
     (if schema_change c then Some (nl_columns_template nl)
      else if data_change c then Some (nl_all_data_template nl)
      else earlier)"

definition mail_for :: "notify_libs \<Rightarrow> string \<Rightarrow> user_notification \<Rightarrow> change \<Rightarrow> string \<Rightarrow> string \<times> string \<Rightarrow> mail" where
  "mail_for nl template u c s d =
     \<lparr>ml_template = template, ml_address = un_address u, ml_change_date = nl_strftime nl (ch_date c),
      ml_dataset_name = fst d, ml_dataset_url = nl_root_domain nl @ snd d,
      ml_manage_url = nl_root_domain nl @ nl_preferences_path nl, ml_summary = s\<rparr>"

definition send_mail :: "nat \<Rightarrow> mail \<Rightarrow> unit notifying" where
  "send_mail i m =
     seq (handling (reading (SendEmail i m) the_email_id (\<lambda>e. Done (Some e)))
            (\<lambda>e. e = ''EmailSendFailureException'') (\<lambda>e. Done None))
       (\<lambda>email_id. case email_id of None \<Rightarrow> Done () | Some e \<Rightarrow> telling (SaveEmailId i e) (Done ()))"

text \<open>
  The variable for the template outlives a notification, also one that fails: the result goes with its value.
\<close>

type_synonym 's outcome = "'s \<times> (exc + unit)"

definition caught :: "'s \<Rightarrow> unit notifying \<Rightarrow> 's outcome notifying" where
  "caught s m = seq (handling (seq m (\<lambda>_. Done (Inr ()))) (\<lambda>e. True) (\<lambda>e. Done (Inl e))) (\<lambda>r. Done (s, r))"

definition notify_user :: "notify_libs \<Rightarrow> string option \<Rightarrow> nat \<Rightarrow> string option outcome notifying" where
  "notify_user nl earlier i =
     reading (LockNotification i) the_found (\<lambda>u.
     if un_email_id u \<noteq> None then Done (earlier, Inr ())
     else get_change_item nl (un_object u) (un_changelog_id u) (\<lambda>change.
       want ''TypeError'' change (\<lambda>(c, s).
       let variable = template_of nl earlier c
       in caught variable
            (want ''AttributeError'' (un_dataset u) (\<lambda>d.
             want ''UnboundLocalError'' variable (\<lambda>template.
             send_mail i (mail_for nl template u c s d)))))))"

definition transact :: "'s \<Rightarrow> 's outcome notifying \<Rightarrow> 's outcome notifying" where
  "transact s m = Call Begin (\<lambda>b. case b of Inl e \<Rightarrow> Done (s, Inl e) | Inr _ \<Rightarrow>
     seq (handling m (\<lambda>e. True) (\<lambda>e. Done (s, Inl e))) (\<lambda>(s, r). case r of
       Inl e \<Rightarrow> Call Rollback (\<lambda>_. Done (s, Inl e))
     | Inr _ \<Rightarrow> Call Commit (\<lambda>c. case c of Inl e \<Rightarrow> Call Rollback (\<lambda>_. Done (s, Inl e)) | Inr _ \<Rightarrow> Done (s, Inr ()))))"

primrec notify_users :: "notify_libs \<Rightarrow> string option \<Rightarrow> nat list \<Rightarrow> unit notifying" where
  "notify_users nl variable [] = Done ()"
| "notify_users nl variable (i # is) =
     seq (transact variable (notify_user nl variable i)) (\<lambda>(variable, r). case r of
       Inl e \<Rightarrow> if e = ''IntegrityError'' then notify_users nl variable is else Fail e
     | Inr _ \<Rightarrow> notify_users nl variable is)"

definition send_notifications :: "notify_libs \<Rightarrow> unit notifying" where
  "send_notifications nl = reading PendingNotifications the_ids (notify_users nl None)"

definition send_notification_emails :: "notify_libs \<Rightarrow> unit notifying" where
  "send_notification_emails nl =
     seq (transact () (caught () (create_notifications nl))) (\<lambda>(_, r). case r of
       Inl e \<Rightarrow> if e = ''IntegrityError'' then Done () else Fail e
     | Inr _ \<Rightarrow> send_notifications nl)"

section \<open>Subscriptions\<close>

text \<open>\<open>subscriptions/views.py\<close> and \<open>utils.py\<close>: the choice of a user, and its withdrawal.\<close>

datatype notification_type = COLUMNS | ALL_CHANGES

fun chosen :: "notification_type \<Rightarrow> subscription \<Rightarrow> subscription" where
  "chosen COLUMNS s = s\<lparr>sb_schema := True, sb_data := False\<rparr>"
| "chosen ALL_CHANGES s = s\<lparr>sb_schema := True, sb_data := True\<rparr>"

definition make_inactive :: "subscription \<Rightarrow> subscription" where
  "make_inactive s = s\<lparr>sb_schema := False, sb_data := False\<rparr>"

definition is_active_subscription :: "subscription \<Rightarrow> bool" where
  "is_active_subscription s \<longleftrightarrow> sb_data s \<or> sb_schema s"

end
