(* ===== verification/Mailing.thy ===== *)
theory Mailing
  imports Notifications
begin

text \<open>
  Several runs of the task that sends notifications at the same time: no notification is mailed twice, unless a
  transaction is rolled back after a mail.
\<close>

section \<open>Phases of a run\<close>

datatype phase = Idle | Holding nat | Sent nat | Saved nat

text \<open>What a run may call in a phase, and the phase after the answer.\<close>

fun moves :: "notify_call \<Rightarrow> exc + notify_reply \<Rightarrow> phase \<Rightarrow> phase option" where
  "moves Begin r p = (if p = Idle then Some Idle else None)"
| "moves Rollback r p = Some Idle"
| "moves Commit r p = (case p of Sent i \<Rightarrow> None | _ \<Rightarrow> (case r of Inl e \<Rightarrow> Some p | Inr _ \<Rightarrow> Some Idle))"
| "moves (LockNotification i) r p = (if p = Idle
     then Some (case r of Inr (Found u) \<Rightarrow> if un_email_id u = None then Holding i else Idle | _ \<Rightarrow> Idle) else None)"
| "moves (SendEmail i m) r p = (if p = Holding i
     then Some (case r of Inr (EmailId e) \<Rightarrow> Sent i | _ \<Rightarrow> Holding i) else None)"
| "moves (SaveEmailId i e) r p = (if p = Sent i then Some (case r of Inr _ \<Rightarrow> Saved i | Inl _ \<Rightarrow> Sent i) else None)"
| "moves q r p = Some p"

primrec flows :: "('a notifying) \<Rightarrow> phase \<Rightarrow> (exc + 'a \<Rightarrow> phase \<Rightarrow> bool) \<Rightarrow> bool" where
  "flows (Done x) p Q = Q (Inr x) p"
| "flows (Fail e) p Q = Q (Inl e) p"
| "flows (Call q k) p Q = (\<forall>r. \<exists>p'. moves q r p = Some p' \<and> flows (k r) p' Q)"

lemma flows_mono: "flows m p Q \<Longrightarrow> (\<And>r p. Q r p \<Longrightarrow> Q' r p) \<Longrightarrow> flows m p Q'"
  by (induction m arbitrary: p) (auto, metis rangeI)

lemma flows_seq: "flows m p R \<Longrightarrow> (\<And>x p. R (Inr x) p \<Longrightarrow> flows (f x) p Q) \<Longrightarrow> (\<And>e p. R (Inl e) p \<Longrightarrow> Q (Inl e) p) \<Longrightarrow>
    flows (seq m f) p Q"
  by (induction m arbitrary: p) (auto, metis rangeI)

lemma flows_handling: "flows m p R \<Longrightarrow> (\<And>e p. c e \<Longrightarrow> R (Inl e) p \<Longrightarrow> flows (g e) p Q) \<Longrightarrow>
    (\<And>e p. \<not> c e \<Longrightarrow> R (Inl e) p \<Longrightarrow> Q (Inl e) p) \<Longrightarrow> (\<And>x p. R (Inr x) p \<Longrightarrow> Q (Inr x) p) \<Longrightarrow> flows (handling m c g) p Q"
  by (induction m arbitrary: p) (auto, metis rangeI)

lemma flows_want: "(x = None \<Longrightarrow> Q (Inl e) p) \<Longrightarrow> (\<And>v. x = Some v \<Longrightarrow> flows (f v) p Q) \<Longrightarrow> flows (want e x f) p Q"
  by (cases x) simp_all

text \<open>Calls that do not change the phase.\<close>

fun neutral :: "notify_call \<Rightarrow> bool" where
  "neutral (TableMetadata d s t) = True"
| "neutral (QueryMetadata d i) = True"
| "neutral NotifiableObjects = True"
| "neutral (GetOrCreateNotification i n) = True"
| "neutral (SubscriptionsOf d) = True"
| "neutral (CreateUserNotification n s) = True"
| "neutral PendingNotifications = True"
| "neutral _ = False"

lemma moves_neutral: "neutral q \<Longrightarrow> moves q r p = Some p"
  by (cases q; cases r; cases p) simp_all

lemma flows_reading: "neutral q \<Longrightarrow> (\<And>e. Q (Inl e) p) \<Longrightarrow> (\<And>x. flows (f x) p Q) \<Longrightarrow> flows (reading q get f) p Q"
  by (auto simp: reading_def ask_def moves_neutral split: sum.split intro!: flows_want)

lemma flows_telling: "neutral q \<Longrightarrow> (\<And>e. Q (Inl e) p) \<Longrightarrow> flows m p Q \<Longrightarrow> flows (telling q m) p Q"
  by (auto simp: telling_def ask_def moves_neutral split: sum.split)

text \<open>A program that ends in the phase it starts in.\<close>

abbreviation stays :: "phase \<Rightarrow> 'a notifying \<Rightarrow> bool" where
  "stays p m \<equiv> flows m p (\<lambda>r. (=) p)"

lemma stays_for_each: "(\<And>x. stays p (f x)) \<Longrightarrow> stays p (for_each f xs)"
  by (induction xs) (auto intro!: flows_seq)

lemma flows_changelog: "(\<And>e. Q (Inl e) p) \<Longrightarrow> (\<And>ds. flows (f ds) p Q) \<Longrightarrow> flows (get_detailed_changelog nl obj f) p Q"
  by (auto simp: get_detailed_changelog_def Let_def split: option.split notifiable.split sum.split
      intro!: flows_reading flows_want)

lemma stays_create: "stays p (create_notifications nl)"
proof -
  have "stays p (create_notification nl obj)" for obj
    unfolding create_notification_def
    by (rule flows_changelog)
      (auto split: list.split intro!: flows_reading flows_telling stays_for_each)
  then show ?thesis unfolding create_notifications_def
    by (intro flows_reading stays_for_each) auto
qed

section \<open>The phases of the task\<close>

text \<open>A block in a transaction may end anywhere, but not return after a mail that is not saved.\<close>

definition block_ends :: "phase \<Rightarrow> bool \<Rightarrow> bool" where
  "block_ends p failed \<longleftrightarrow> failed \<or> (\<forall>i. p \<noteq> Sent i)"

lemma block_ends_simps [simp]: "block_ends p True" "block_ends Idle b" "block_ends (Holding i) b" "block_ends (Saved i) b"
  "block_ends (Sent i) b = b"
  by (auto simp: block_ends_def)

lemma flows_send_mail: "flows (send_mail i m) (Holding i) (\<lambda>r p. block_ends p (isl r))"
  by (auto simp: send_mail_def reading_def telling_def ask_def block_ends_def want_def
      split: sum.split option.split notify_reply.split)

lemma flows_caught: "flows m p (\<lambda>r p. block_ends p (isl r)) \<Longrightarrow>
    flows (caught s m) p (\<lambda>r p. case r of Inl e \<Rightarrow> False | Inr (s, r) \<Rightarrow> block_ends p (isl r))"
  unfolding caught_def
  by (rule flows_seq [where R = "\<lambda>r p. case r of Inl e \<Rightarrow> False | Inr r \<Rightarrow> block_ends p (isl r)"],
      rule flows_handling [where R = "\<lambda>r p. case r of Inl e \<Rightarrow> block_ends p True | Inr r \<Rightarrow> block_ends p (isl r)"],
      rule flows_seq, assumption) (auto simp: block_ends_def split: sum.splits)

abbreviation block_result :: "exc + 's outcome \<Rightarrow> phase \<Rightarrow> bool" where
  "block_result r p \<equiv> (case r of Inl e \<Rightarrow> True | Inr (s, r) \<Rightarrow> block_ends p (isl r))"

lemma flows_lock:
  assumes "\<And>u. flows (f u) (if un_email_id u = None then Holding i else Idle) Q" "\<And>e. Q (Inl e) Idle"
  shows "flows (reading (LockNotification i) the_found f) Idle Q"
  using assms by (auto simp: reading_def ask_def want_def split: sum.split option.split notify_reply.split)

lemma flows_notify_user: "flows (notify_user nl earlier i) Idle block_result"
proof -
  have mail: "flows (caught t (want e1 d (\<lambda>d. want e2 v (\<lambda>template. send_mail i (g d template))))) (Holding i) block_result" for t e1 d e2 v g
    by (rule flows_mono [OF flows_caught])
      (auto simp: want_def flows_send_mail split: option.split sum.splits)
  have "flows (if un_email_id u \<noteq> None then Done (earlier, Inr ())
     else get_change_item nl (un_object u) (un_changelog_id u) (\<lambda>change.
       want ''TypeError'' change (\<lambda>(c, s).
       let variable = template_of nl earlier c
       in caught variable
            (want ''AttributeError'' (un_dataset u) (\<lambda>d.
             want ''UnboundLocalError'' variable (\<lambda>template.
             send_mail i (mail_for nl template u c s d))))))) (if un_email_id u = None then Holding i else Idle) block_result" for u
    by (auto simp: get_change_item_def Let_def split: prod.split intro!: flows_changelog flows_want mail)
  then show ?thesis unfolding notify_user_def by (intro flows_lock) simp_all
qed

lemma flows_transact: "flows m Idle block_result \<Longrightarrow> flows (transact s m) Idle (\<lambda>r p. p = Idle)"
  unfolding transact_def
  by (auto split: sum.split
      intro!: flows_seq [where R = "\<lambda>r p. case r of Inl e \<Rightarrow> False | Inr (s, r) \<Rightarrow> block_ends p (isl r)"]
        flows_handling [where R = block_result]
      split: prod.splits sum.splits phase.split)

lemma flows_notify_users: "flows (notify_users nl v is) Idle (\<lambda>r p. p = Idle)"
  by (induction "is" arbitrary: v)
    (auto intro!: flows_seq [OF flows_transact [OF flows_notify_user]] split: sum.split)

lemma flows_task: "flows (send_notification_emails nl) Idle (\<lambda>r p. p = Idle)"
proof -
  have "flows (caught () (create_notifications nl)) Idle block_result"
    by (rule flows_mono [OF flows_caught [OF flows_mono [OF stays_create]]]) (auto split: sum.splits)
  then show ?thesis unfolding send_notification_emails_def send_notifications_def
    by (auto intro!: flows_seq [OF flows_transact] flows_reading flows_notify_users split: sum.split)
qed

section \<open>Runs at the same time\<close>

text \<open>
  The rows of notifications with their locks, and for each run what its transaction has saved and mailed. The
  numbers of mails and of those whose transaction was rolled back afterwards are kept for each notification.
\<close>

record post =
  po_email :: "nat \<Rightarrow> string option"
  po_lock :: "nat \<Rightarrow> nat option"
  po_saved :: "nat \<Rightarrow> (nat \<times> string) option"
  po_sent :: "nat \<Rightarrow> nat option"
  po_mails :: "nat \<Rightarrow> nat"
  po_lost :: "nat \<Rightarrow> nat"

definition released :: "nat \<Rightarrow> post \<Rightarrow> post" where
  "released w st = st\<lparr>po_lock := (\<lambda>i. if po_lock st i = Some w then None else po_lock st i),
     po_saved := (po_saved st)(w := None), po_sent := (po_sent st)(w := None)\<rparr>"

definition committed :: "nat \<Rightarrow> post \<Rightarrow> post" where
  "committed w st = released w (case po_saved st w of None \<Rightarrow> st
     | Some (i, e) \<Rightarrow> st\<lparr>po_email := (po_email st)(i \<mapsto> e)\<rparr>)"

definition rolled_back :: "nat \<Rightarrow> post \<Rightarrow> post" where
  "rolled_back w st = released w (case po_sent st w of None \<Rightarrow> st
     | Some i \<Rightarrow> st\<lparr>po_lost := (po_lost st)(i := po_lost st i + 1)\<rparr>)"

text \<open>
  What a call of run \<open>w\<close> may be answered: it may fail, \<open>SELECT ... FOR UPDATE\<close> waits until nobody else holds the
  row and then sees what is committed, and the calls that do not concern notifications may be answered anything.
\<close>

inductive serve :: "nat \<Rightarrow> notify_call \<Rightarrow> post \<Rightarrow> exc + notify_reply \<Rightarrow> post \<Rightarrow> bool" where
  refused: "q \<noteq> Rollback \<Longrightarrow> serve w q st (Inl e) st"
| locks: "po_lock st i \<in> {None, Some w} \<Longrightarrow> un_email_id u = po_email st i \<Longrightarrow>
    serve w (LockNotification i) st (Inr (Found u)) (st\<lparr>po_lock := (po_lock st)(i \<mapsto> w)\<rparr>)"
| mails: "serve w (SendEmail i m) st (Inr (EmailId e))
    (st\<lparr>po_mails := (po_mails st)(i := po_mails st i + 1), po_sent := (po_sent st)(w \<mapsto> i)\<rparr>)"
| saves: "serve w (SaveEmailId i e) st (Inr Nothing) (st\<lparr>po_saved := (po_saved st)(w \<mapsto> (i, e))\<rparr>)"
| commits: "serve w Commit st (Inr Nothing) (committed w st)"
| rolls_back: "serve w Rollback st r (rolled_back w st)"
| others: "neutral q \<or> q = Begin \<Longrightarrow> serve w q st r st"

text \<open>Any number of runs, which take their steps in any order, may die at any time, and start anew.\<close>

inductive mailing :: "(nat \<Rightarrow> unit notifying) \<Rightarrow> post \<Rightarrow> bool" where
  start: "(\<And>w. \<exists>nl. ws w = send_notification_emails nl) \<Longrightarrow>
    mailing ws \<lparr>po_email = email, po_lock = Map.empty, po_saved = Map.empty, po_sent = Map.empty,
      po_mails = (\<lambda>i. 0), po_lost = (\<lambda>i. 0)\<rparr>"
| steps: "mailing ws st \<Longrightarrow> ws w = Call q k \<Longrightarrow> serve w q st r st' \<Longrightarrow> mailing (ws(w := k r)) st'"
| dies: "mailing ws st \<Longrightarrow> mailing (ws(w := Fail e)) (rolled_back w st)"
| again: "mailing ws st \<Longrightarrow> ws w = Done () \<or> ws w = Fail e \<Longrightarrow> mailing (ws(w := send_notification_emails nl)) st"

text \<open>The state agrees with the phase of a run.\<close>

fun agrees :: "nat \<Rightarrow> post \<Rightarrow> phase \<Rightarrow> bool" where
  "agrees w st Idle \<longleftrightarrow> po_sent st w = None \<and> po_saved st w = None"
| "agrees w st (Holding i) \<longleftrightarrow> po_lock st i = Some w \<and> po_email st i = None \<and> po_sent st w = None \<and> po_saved st w = None"
| "agrees w st (Sent i) \<longleftrightarrow> po_lock st i = Some w \<and> po_email st i = None \<and> po_sent st w = Some i \<and> po_saved st w = None"
| "agrees w st (Saved i) \<longleftrightarrow> po_lock st i = Some w \<and> po_email st i = None \<and> po_sent st w = Some i \<and>
    (\<exists>e. po_saved st w = Some (i, e))"

definition counted :: "post \<Rightarrow> bool" where
  "counted st \<longleftrightarrow> (\<forall>i. po_mails st i \<le> po_lost st i + (if po_email st i \<noteq> None \<or> (\<exists>w. po_sent st w = Some i) then 1 else 0))"

definition sound :: "(nat \<Rightarrow> unit notifying) \<Rightarrow> (nat \<Rightarrow> phase) \<Rightarrow> post \<Rightarrow> bool" where
  "sound ws ph st \<longleftrightarrow> (\<forall>w. flows (ws w) (ph w) (\<lambda>r p. p = Idle) \<and> agrees w st (ph w)) \<and> counted st"

text \<open>Two runs do not work on the same notification.\<close>

lemma agrees_alone: "agrees w st p \<Longrightarrow> agrees v st p' \<Longrightarrow> p = Holding i \<or> p = Sent i \<or> p = Saved i \<Longrightarrow>
    p' = Holding i \<or> p' = Sent i \<or> p' = Saved i \<Longrightarrow> v = w"
  by auto

lemma sent_phase: "agrees w st p \<Longrightarrow> po_sent st w = Some i \<Longrightarrow> p = Sent i \<or> p = Saved i"
  by (cases p) auto

text \<open>What a step of one run does to the agreement of another.\<close>

lemma agrees_released: "v \<noteq> w \<Longrightarrow> agrees v st p \<Longrightarrow> agrees v (released w st) p"
  by (cases p) (auto simp: released_def)

lemma agrees_rolled_back: "v \<noteq> w \<Longrightarrow> agrees v st p \<Longrightarrow> agrees v (rolled_back w st) p"
  unfolding rolled_back_def
  by (rule agrees_released; cases p) (auto split: option.split)

lemma agrees_committed: "v \<noteq> w \<Longrightarrow> agrees v st p \<Longrightarrow> agrees w st p' \<Longrightarrow> agrees v (committed w st) p"
  unfolding committed_def
  by (rule agrees_released; cases p; cases p') (auto split: option.split)

lemma agrees_serve:
  assumes s: "serve w q st r st'" and v: "v \<noteq> w" "agrees v st p" and w: "agrees w st p'"
  shows "agrees v st' p"
  using s
proof cases
  case (locks i u)
  with v show ?thesis by (cases p) auto
next
  case (mails i m e)
  with v show ?thesis by (cases p) auto
next
  case (saves i e)
  with v show ?thesis by (cases p) auto
next
  case commits
  with agrees_committed [OF v w] show ?thesis by simp
next
  case rolls_back
  with agrees_rolled_back [OF v] show ?thesis by simp
qed (use v in auto)

text \<open>A step of a run in its own phase.\<close>

lemma agrees_rolled_back_self: "agrees w (rolled_back w st) Idle"
  by (auto simp: rolled_back_def released_def split: option.split)

lemma agrees_moves:
  assumes s: "serve w q st r st'" and w: "agrees w st p" and m: "moves q r p = Some p'"
  shows "agrees w st' p'"
  using s
proof cases
  case (refused e)
  with w m show ?thesis
    by (cases q; cases p) (auto split: if_splits)
next
  case (locks i u)
  with w m show ?thesis by (auto split: if_splits)
next
  case (mails i m e)
  with w m show ?thesis by (auto split: if_splits)
next
  case (saves i e)
  with w m show ?thesis by (auto split: if_splits)
next
  case commits
  with w m show ?thesis by (cases p) (auto simp: committed_def released_def)
next
  case rolls_back
  with m agrees_rolled_back_self show ?thesis by auto
next
  case others
  with w m show ?thesis by (auto simp: moves_neutral split: if_splits)
qed

text \<open>The mails that a notification may have had.\<close>

definition allowance :: "post \<Rightarrow> nat \<Rightarrow> nat" where
  "allowance st i = po_lost st i + (if po_email st i \<noteq> None \<or> Some i \<in> range (po_sent st) then 1 else 0)"

lemma counted_allowance: "counted st \<longleftrightarrow> (\<forall>i. po_mails st i \<le> allowance st i)"
proof -
  have "(\<exists>w. po_sent st w = Some i) \<longleftrightarrow> Some i \<in> range (po_sent st)" for i by (auto simp: image_iff) metis
  then show ?thesis by (simp add: counted_def allowance_def)
qed

lemma counted_bound: "counted st \<Longrightarrow> po_mails st i \<le> po_lost st i + 1"
  by (rule order.trans [of _ "allowance st i"]) (simp_all add: counted_allowance allowance_def)

lemma range_other: "j \<noteq> i \<Longrightarrow> po_sent st w = Some i \<Longrightarrow> Some j \<in> po_sent st ` {x. x \<noteq> w} \<longleftrightarrow> Some j \<in> range (po_sent st)"
  by (auto simp: image_iff) (metis option.inject)

lemma counted_rolled_back:
  assumes c: "counted st"
  shows "counted (rolled_back w st)"
proof (cases "po_sent st w")
  case None
  then have "(po_sent st)(w := None) = po_sent st" by (metis fun_upd_triv)
  with c None show ?thesis by (simp add: counted_allowance rolled_back_def released_def allowance_def)
next
  case (Some i)
  have "po_mails (rolled_back w st) j \<le> allowance (rolled_back w st) j" for j
  proof (cases "j = i")
    case True
    have "po_mails st i \<le> po_lost st i + 1" using counted_bound [OF c] .
    with True Some show ?thesis by (simp add: rolled_back_def released_def allowance_def)
  next
    case False
    with c [unfolded counted_allowance, rule_format, of j] Some show ?thesis
      by (simp add: rolled_back_def released_def allowance_def range_other)
  qed
  then show ?thesis by (simp add: counted_allowance)
qed

lemma counted_committed:
  assumes c: "counted st" and w: "agrees w st p" and p: "\<And>i. p \<noteq> Sent i"
  shows "counted (committed w st)"
proof (cases "po_saved st w")
  case None
  then have "po_sent st w = None" using w p by (cases p) auto
  then have "(po_sent st)(w := None) = po_sent st" by (metis fun_upd_triv)
  with c None show ?thesis by (simp add: counted_allowance committed_def released_def allowance_def)
next
  case (Some x)
  then obtain i e where s: "po_saved st w = Some (i, e)" "po_sent st w = Some i" using w by (cases p) auto
  have "po_mails (committed w st) j \<le> allowance (committed w st) j" for j
  proof (cases "j = i")
    case True
    have "po_mails st i \<le> po_lost st i + 1" using counted_bound [OF c] .
    with True s show ?thesis by (simp add: committed_def released_def allowance_def)
  next
    case False
    with c [unfolded counted_allowance, rule_format, of j] s show ?thesis
      by (simp add: committed_def released_def allowance_def range_other)
  qed
  then show ?thesis by (simp add: counted_allowance)
qed

lemma counted_mail:
  assumes c: "counted st" and w: "agrees w st (Holding i)" and others: "\<And>v. \<exists>p. agrees v st p"
  shows "counted (st\<lparr>po_mails := (po_mails st)(i := po_mails st i + 1), po_sent := (po_sent st)(w \<mapsto> i)\<rparr>)"
proof -
  have none: "Some i \<notin> range (po_sent st)"
  proof
    assume "Some i \<in> range (po_sent st)"
    then obtain v where v: "po_sent st v = Some i" by (metis rangeE)
    from others obtain p where p: "agrees v st p" by blast
    with sent_phase [OF p v] agrees_alone [OF w p] w v show False by auto
  qed
  have email: "po_email st i = None" using w by simp
  have "po_mails st i \<le> allowance st i" using c by (simp add: counted_allowance)
  with none email have first: "po_mails st i \<le> po_lost st i" by (simp add: allowance_def)
  have "po_mails st j \<le> po_lost st j + (if po_email st j \<noteq> None \<or> Some j \<in> range ((po_sent st)(w \<mapsto> i)) then 1 else 0)" if "j \<noteq> i" for j
  proof -
    have more: "Some j \<in> range (po_sent st) \<Longrightarrow> Some j \<in> range ((po_sent st)(w \<mapsto> i))"
    proof -
      assume "Some j \<in> range (po_sent st)"
      then obtain v where v: "po_sent st v = Some j" by (metis rangeE)
      with w have "v \<noteq> w" by auto
      with v have "((po_sent st)(w \<mapsto> i)) v = Some j" by simp
      then show ?thesis by (metis rangeI)
    qed
    have "po_mails st j \<le> allowance st j" using c by (simp add: counted_allowance)
    also have "\<dots> \<le> po_lost st j + (if po_email st j \<noteq> None \<or> Some j \<in> range ((po_sent st)(w \<mapsto> i)) then 1 else 0)"
      using more by (simp add: allowance_def)
    finally show ?thesis .
  qed
  then have "po_mails (st\<lparr>po_mails := (po_mails st)(i := po_mails st i + 1), po_sent := (po_sent st)(w \<mapsto> i)\<rparr>) j \<le>
      allowance (st\<lparr>po_mails := (po_mails st)(i := po_mails st i + 1), po_sent := (po_sent st)(w \<mapsto> i)\<rparr>) j" for j
    using first by (cases "j = i") (simp_all add: allowance_def)
  then show ?thesis by (simp add: counted_allowance)
qed

lemma sound_steps:
  assumes s: "sound ws ph st" and c: "ws w = Call q k" and serve: "serve w q st r st'"
  shows "\<exists>ph'. sound (ws(w := k r)) ph' st'"
proof -
  from s have f: "\<And>v. flows (ws v) (ph v) (\<lambda>r p. p = Idle)" and a: "\<And>v. agrees v st (ph v)" and n: "counted st"
    by (simp_all add: sound_def)
  from f [of w] c obtain p' where m: "moves q r (ph w) = Some p'" and next_flow: "flows (k r) p' (\<lambda>r p. p = Idle)" by auto
  have "agrees v st' ((ph(w := p')) v)" for v
    using agrees_moves [OF serve a m] agrees_serve [OF serve _ a a] by auto
  moreover have "flows ((ws(w := k r)) v) ((ph(w := p')) v) (\<lambda>r p. p = Idle)" for v
    using f next_flow by auto
  moreover have "counted st'"
    using serve
  proof cases
    case (mails i m e)
    with \<open>moves q r (ph w) = Some p'\<close> have "ph w = Holding i" by (auto split: if_splits)
    with counted_mail [OF n, of w i] a mails show ?thesis by metis
  next
    case commits
    with m have "\<And>i. ph w \<noteq> Sent i" by auto
    with counted_committed [OF n a] commits show ?thesis by simp
  next
    case rolls_back
    with counted_rolled_back [OF n] show ?thesis by simp
  qed (use n in \<open>simp_all add: counted_def\<close>)
  ultimately show ?thesis unfolding sound_def by blast
qed

lemma mailing_sound: "mailing ws st \<Longrightarrow> \<exists>ph. sound ws ph st"
proof (induction rule: mailing.induct)
  case (start ws email)
  then have "flows (ws w) Idle (\<lambda>r p. p = Idle)" for w using flows_task by metis
  then show ?case by (intro exI [of _ "\<lambda>w. Idle"]) (simp add: sound_def counted_def)
next
  case (steps ws st w q k r st')
  then show ?case using sound_steps by blast
next
  case (dies ws st w e)
  then obtain ph where s: "sound ws ph st" by blast
  have "agrees v (rolled_back w st) ((ph(w := Idle)) v)" for v
    using s agrees_rolled_back_self agrees_rolled_back [of v w] by (auto simp: sound_def)
  with s counted_rolled_back show ?case by (intro exI [of _ "ph(w := Idle)"]) (auto simp: sound_def)
next
  case (again ws st w e nl)
  then obtain ph where s: "sound ws ph st" by blast
  with again have "ph w = Idle" unfolding sound_def by (metis flows.simps(1,2))
  with s flows_task [of nl] show ?case by (intro exI [of _ ph]) (auto simp: sound_def)
qed

section \<open>Changelogs\<close>








section \<open>Who hears of a change\<close>

text \<open>The rules that the documentation of the task gives.\<close>

lemma rules_of_notifications:
  "chosen COLUMNS s \<in> set (subscribers c [chosen COLUMNS s]) \<longleftrightarrow> schema_change c"
  "chosen ALL_CHANGES s \<in> set (subscribers c [chosen ALL_CHANGES s]) \<longleftrightarrow> schema_change c \<or> data_change c"
  "make_inactive s \<notin> set (subscribers c [make_inactive s])"
  by (auto simp: subscribers_def make_inactive_def)

section \<open>Properties\<close>

text \<open>
  C30: However many runs of the task there are at the same time, in whatever order they take their steps and wherever
  they fail or die, a notification is mailed at most once more than transactions have been rolled back after its mail.
\<close>

theorem notifications_are_mailed_once:
  assumes "mailing ws st"
  shows "po_mails st i \<le> po_lost st i + 1"
  using mailing_sound [OF assms] counted_bound by (auto simp: sound_def)

text \<open>A run, with the answers that it gets.\<close>

definition answered_by :: "nat \<Rightarrow> notify_call \<Rightarrow> post \<Rightarrow> notify_reply \<Rightarrow> post option" where
  "answered_by w q st r =
     (case (q, r) of
        (LockNotification i, Found u) \<Rightarrow> if po_lock st i = None \<and> un_email_id u = po_email st i
          then Some (st\<lparr>po_lock := (po_lock st)(i \<mapsto> w)\<rparr>) else None
      | (SendEmail i m, EmailId e) \<Rightarrow>
          Some (st\<lparr>po_mails := (po_mails st)(i := po_mails st i + 1), po_sent := (po_sent st)(w \<mapsto> i)\<rparr>)
      | (SaveEmailId i e, Nothing) \<Rightarrow> Some (st\<lparr>po_saved := (po_saved st)(w \<mapsto> (i, e))\<rparr>)
      | (Commit, Nothing) \<Rightarrow> Some (committed w st)
      | (q, r) \<Rightarrow> if neutral q \<or> q = Begin then Some st else None)"

lemma answered_serve: "answered_by w q st r = Some st' \<Longrightarrow> serve w q st (Inr r) st'"
  by (cases q; cases r) (auto simp: answered_by_def split: if_splits intro: serve.intros mails [simplified])

fun play :: "nat \<Rightarrow> unit notifying \<Rightarrow> post \<Rightarrow> notify_reply list \<Rightarrow> (unit notifying \<times> post) option" where
  "play w p st [] = Some (p, st)"
| "play w (Call q k) st (r # rs) = (case answered_by w q st r of None \<Rightarrow> None | Some st' \<Rightarrow> play w (k (Inr r)) st' rs)"
| "play w p st (r # rs) = None"

lemma play_mailing: "mailing ws st \<Longrightarrow> play w (ws w) st rs = Some (p, st') \<Longrightarrow> mailing (ws(w := p)) st'"
proof (induction rs arbitrary: ws st)
  case Nil
  then have "p = ws w" "st' = st" by simp_all
  with Nil show ?case by simp
next
  case (Cons r rs)
  then obtain q k st1 where q: "ws w = Call q k" and a: "answered_by w q st r = Some st1"
    and rest: "play w (k (Inr r)) st1 rs = Some (p, st')"
    by (cases "ws w") (auto split: option.splits)
  have "mailing (ws(w := k (Inr r))) st1" by (rule mailing.steps [OF Cons.prems(1) q answered_serve [OF a]])
  from Cons.IH [OF this] rest show ?case by (simp only: fun_upd_upd fun_upd_same)
qed

definition sample_notify_libs :: notify_libs where
  "sample_notify_libs = \<lparr>nl_loads = (\<lambda>s. [(s, ''integer'')]), nl_set_order = (\<lambda>l. l), nl_strftime = (\<lambda>t. ''today''),
     nl_columns_template = ''columns'', nl_all_data_template = ''all'', nl_root_domain = ''https://data'',
     nl_preferences_path = ''/preferences'', nl_first_database = Some ''main''\<rparr>"

definition sample_table :: notifiable where
  "sample_table = Source_table ''main'' ''public'' ''prices'' ''set''"

definition sample_metadata :: "metadata_row list" where
  "sample_metadata = [\<lparr>mr_id = 1, mr_date = 5, mr_structure = ''a'', mr_hash = Some ''x''\<rparr>,
     \<lparr>mr_id = 2, mr_date = 6, mr_structure = ''a'', mr_hash = Some ''x''\<rparr>,
     \<lparr>mr_id = 3, mr_date = 7, mr_structure = ''b'', mr_hash = Some ''y''\<rparr>]"

definition sample_un :: user_notification where
  "sample_un = \<lparr>un_email_id = None, un_object = Some sample_table, un_changelog_id = 3, un_address = ''me'',
     un_dataset = Some (''Prices'', ''/prices'')\<rparr>"

definition sample_post :: post where
  "sample_post = \<lparr>po_email = Map.empty, po_lock = Map.empty, po_saved = Map.empty, po_sent = Map.empty,
      po_mails = (\<lambda>i. 0), po_lost = (\<lambda>i. 0)\<rparr>"

definition sample_replies :: "notify_reply list" where
  "sample_replies = [Nothing, Objects [], Nothing, Ids [4], Nothing, Found sample_un, Rows sample_metadata,
     EmailId ''e'', Nothing, Nothing]"

lemma sample_play: "map_option (\<lambda>(p, st). (po_mails st 4, po_email st 4, po_lost st 4))
    (play 0 (send_notification_emails sample_notify_libs) sample_post sample_replies) = Some (1, Some ''e'', 0)"
  by code_simp

lemma notifications_are_mailed_once_witness:
  "\<exists>ws st. mailing ws st \<and> po_mails st 4 = 1 \<and> po_lost st 4 = 0 \<and> po_mails st 4 \<le> po_lost st 4 + 1"
proof -
  have s: "mailing (\<lambda>w. send_notification_emails sample_notify_libs) sample_post"
    unfolding sample_post_def by (rule mailing.start) blast
  obtain p st where p: "play 0 (send_notification_emails sample_notify_libs) sample_post sample_replies = Some (p, st)"
    and st: "po_mails st 4 = 1" "po_lost st 4 = 0"
    using sample_play by (cases "play 0 (send_notification_emails sample_notify_libs) sample_post sample_replies") auto
  from play_mailing [OF s p] have "mailing ((\<lambda>w. send_notification_emails sample_notify_libs)(0 := p)) st" .
  with notifications_are_mailed_once [OF this, of 4] st show ?thesis by blast
qed



section \<open>Notifications that are lost or in the way\<close>

text \<open>
  The identifiers of changes are those of rows of \<open>dataflow.metadata\<close>, of which each database has its own: the
  change of a table in one database hides that of a table in another.
\<close>

definition two_databases :: "(notify_call, notify_reply) services" where
  "two_databases = (\<lambda>h q. case q of
      NotifiableObjects \<Rightarrow> Inr (Objects [Source_table ''one'' ''public'' ''prices'' ''first'', Source_table ''two'' ''public'' ''ports'' ''second''])
    | TableMetadata database schema table \<Rightarrow> Inr (Rows sample_metadata)
    | GetOrCreateNotification i obj \<Rightarrow>
        Inr (Notification i (filter (\<lambda>e. case fst e of GetOrCreateNotification j obj \<Rightarrow> i = j | _ \<Rightarrow> False) h = []))
    | SubscriptionsOf d \<Rightarrow> Inr (Subscriptions [\<lparr>sb_id = (if d = ''first'' then 1 else 2), sb_schema = True, sb_data = True\<rparr>])
    | _ \<Rightarrow> Inr Nothing)"

fun told :: "notify_call \<times> (exc + notify_reply) \<Rightarrow> nat list" where
  "told (CreateUserNotification n s, Inr _) = [s]"
| "told _ = []"

lemma changes_in_two_databases_collide:
  "(case exec (create_notifications sample_notify_libs) two_databases [] of (r, h) \<Rightarrow> (r, concat (map told h))) = (Inr (), [1])"
  by code_simp

text \<open>A notification whose object is gone ends the task: those after it are never mailed.\<close>

definition object_gone :: "(notify_call, notify_reply) services" where
  "object_gone = (\<lambda>h q. case q of
      PendingNotifications \<Rightarrow> Inr (Ids [4, 5])
    | LockNotification i \<Rightarrow> Inr (Found (if i = 4 then sample_un\<lparr>un_object := None\<rparr> else sample_un))
    | TableMetadata database schema table \<Rightarrow> Inr (Rows sample_metadata)
    | SendEmail i m \<Rightarrow> Inr (EmailId ''e'')
    | _ \<Rightarrow> Inr Nothing)"

lemma missing_objects_block_notifications:
  "(case exec (send_notifications sample_notify_libs) object_gone [] of
     (r, h) \<Rightarrow> (r, filter (\<lambda>e. case fst e of SendEmail i m \<Rightarrow> True | LockNotification i \<Rightarrow> i = 5 | _ \<Rightarrow> False) h)) =
   (Inl ''TypeError'', [])"
  by code_simp

end
