(* ===== verification/Metadata.thy ===== *)
theory Metadata
  imports Effects
begin

text \<open>
  \<open>apps/datasets/utils.py\<close> and \<open>datasets_db.py\<close>: the tasks that leave in \<open>dataflow.metadata\<close> when reference datasets
  and the results of queries have changed.
\<close>

record reference_state =
  rs_table :: string
  rs_modified :: int
  rs_fields_modified :: "int list"
  rs_data_updated :: "int option"
  rs_linked_updated :: "int option list"
  rs_columns :: "(string \<times> string) list"
  rs_hash :: string

record stored_query =
  sq_id :: nat
  sq_database :: string
  sq_sql :: string
  sq_modified :: int

datatype metadata_call =
    PublishedReferenceDatasets
  | LatestTableMetadata string string
  | InsertTableMetadata string string int "(string \<times> string) list" string
  | PublishedQueries
  | CreateTemporaryView string string
  | TablesOfView string
  | DropView string
  | TablesUpdated string "(string \<times> string) list"
  | LatestQueryMetadata string nat
  | HashRows string string
  | ColumnsOfQuery string string
  | InsertQueryMetadata string int "(string \<times> string) list" "string option" nat

datatype metadata_reply =
    NoRows
  | References "reference_state list"
  | Queries "stored_query list"
  | Tables "(string \<times> string) list"
  | Columns "(string \<times> string) list"
  | Moment "int option"
  | Digest string

type_synonym 'a storing = "(metadata_call, metadata_reply, 'a) prog"

fun the_references :: "metadata_reply \<Rightarrow> reference_state list option" where
  "the_references (References rs) = Some rs" | "the_references _ = None"

fun the_queries :: "metadata_reply \<Rightarrow> stored_query list option" where
  "the_queries (Queries qs) = Some qs" | "the_queries _ = None"

fun the_tables :: "metadata_reply \<Rightarrow> (string \<times> string) list option" where
  "the_tables (Tables ts) = Some ts" | "the_tables _ = None"

fun the_columns :: "metadata_reply \<Rightarrow> (string \<times> string) list option" where
  "the_columns (Columns cs) = Some cs" | "the_columns _ = None"

fun the_moment :: "metadata_reply \<Rightarrow> int option option" where
  "the_moment (Moment t) = Some t" | "the_moment _ = None"

fun the_digest :: "metadata_reply \<Rightarrow> string option" where
  "the_digest (Digest d) = Some d" | "the_digest _ = None"

definition getting :: "metadata_call \<Rightarrow> (metadata_reply \<Rightarrow> 'r option) \<Rightarrow> ('r \<Rightarrow> 'a storing) \<Rightarrow> 'a storing" where
  "getting q get f = ask q (\<lambda>r. want ''TypeError'' (get r) f)"

definition doing :: "metadata_call \<Rightarrow> 'a storing \<Rightarrow> 'a storing" where
  "doing q m = ask q (\<lambda>_. m)"

section \<open>Reference datasets\<close>

text \<open>
  The moment of the last change to a dataset, its fields, its records and those of the datasets it is linked to. The
  latest of no fields raises; the maximum of dates and a missing one raises too.
\<close>

definition latest_update_date :: "reference_state \<Rightarrow> exc + int" where
  "latest_update_date r =
     (if rs_fields_modified r = [] then Inl ''DoesNotExist''
      else let fields = max (Max (set (rs_fields_modified r))) (rs_modified r);
               data = (case rs_data_updated r of None \<Rightarrow> fields | Some t \<Rightarrow> max fields t)
           in if rs_linked_updated r = [] then Inr data
              else (case those (rs_linked_updated r) of
                      None \<Rightarrow> Inl ''TypeError''
                    | Some ts \<Rightarrow> Inr (max data (Max (set ts)))))"

definition store_reference_metadata :: "string option \<Rightarrow> reference_state \<Rightarrow> unit storing" where
  "store_reference_metadata first_database r =
     (case latest_update_date r of
        Inl e \<Rightarrow> Fail e
      | Inr latest \<Rightarrow>
          want ''IndexError'' first_database (\<lambda>db_name.
          getting (LatestTableMetadata db_name (rs_table r)) the_moment (\<lambda>metadata.
          if (case metadata of None \<Rightarrow> True | Some t \<Rightarrow> latest > t)
          then doing (InsertTableMetadata db_name (rs_table r) latest (rs_columns r) (rs_hash r)) (Done ())
          else Done ())))"

definition store_reference_dataset_metadata :: "string option \<Rightarrow> unit storing" where
  "store_reference_dataset_metadata first_database =
     getting PublishedReferenceDatasets the_references (for_each (store_reference_metadata first_database))"

section \<open>Queries\<close>

definition no_semicolons :: "string \<Rightarrow> string" where
  "no_semicolons = rstrip_char CHR '';''"

text \<open>The tables that a query reads, found through a view; none when the view cannot be made.\<close>

definition database_errors :: "exc set" where
  "database_errors = {''DatabaseError'', ''DataError'', ''OperationalError'', ''IntegrityError'', ''InternalError'',
     ''ProgrammingError'', ''NotSupportedError''}"

definition extract_queried_tables_from_sql_query :: "string \<Rightarrow> string \<Rightarrow> ((string \<times> string) list \<Rightarrow> 'a storing) \<Rightarrow> 'a storing" where
  "extract_queried_tables_from_sql_query database_name query f =
     seq (handling (doing (CreateTemporaryView database_name (no_semicolons (strip query))) (Done True))
            (\<lambda>e. e \<in> database_errors) (\<lambda>e. Done False))
       (\<lambda>created. if \<not> created then f []
          else getting (TablesOfView database_name) the_tables (\<lambda>tables. doing (DropView database_name) (f tables)))"

definition get_data_hash :: "(string \<Rightarrow> bool) \<Rightarrow> string \<Rightarrow> string \<Rightarrow> (string option \<Rightarrow> 'a storing) \<Rightarrow> 'a storing" where
  "get_data_hash has_sort_clause database sql f =
     (if has_sort_clause sql then getting (HashRows database sql) the_digest (\<lambda>d. f (Some d)) else f None)"

definition store_query_structure :: "(string \<Rightarrow> bool) \<Rightarrow> stored_query \<Rightarrow> unit storing" where
  "store_query_structure has_sort_clause q =
     (let sql = no_semicolons (rstrip (sq_sql q)); db = sq_database q
      in extract_queried_tables_from_sql_query db sql (\<lambda>tables.
         getting (TablesUpdated db tables) the_moment (\<lambda>tables_last_updated_date.
         let last_updated_date = (case tables_last_updated_date of None \<Rightarrow> sq_modified q | Some t \<Rightarrow> max t (sq_modified q))
         in getting (LatestQueryMetadata db (sq_id q)) the_moment (\<lambda>metadata.
            if metadata = None \<or> metadata \<noteq> Some last_updated_date
            then get_data_hash has_sort_clause db sql (\<lambda>data_hash.
                 getting (ColumnsOfQuery db sql) the_columns (\<lambda>columns.
                 doing (InsertQueryMetadata db last_updated_date columns data_hash (sq_id q)) (Done ())))
            else Done ()))))"

definition store_custom_dataset_query_table_structures :: "(string \<Rightarrow> bool) \<Rightarrow> unit storing" where
  "store_custom_dataset_query_table_structures has_sort_clause =
     getting PublishedQueries the_queries (for_each (store_query_structure has_sort_clause))"

section \<open>What the tasks leave behind\<close>

text \<open>The rows that a run has inserted for a table, with their moments.\<close>

fun inserted :: "string \<Rightarrow> metadata_call \<times> (exc + metadata_reply) \<Rightarrow> int list" where
  "inserted t (InsertTableMetadata db t' latest columns hash, Inr _) = (if t' = t then [latest] else [])"
| "inserted t _ = []"

text \<open>A dataset gets a row exactly when it has none or has changed since the last one.\<close>

lemma rows_for_changes:
  assumes "latest_update_date r = Inr latest" "env h (LatestTableMetadata db (rs_table r)) = Inr (Moment m)"
    and "exec (store_reference_metadata (Some db) r) env h = (Inr (), h')"
  shows "concat (map (inserted (rs_table r)) h') = concat (map (inserted (rs_table r)) h) @
    (if m = None \<or> the m < latest then [latest] else [])"
  using assms by (cases m) (auto simp: store_reference_metadata_def getting_def doing_def exec_ask split: if_splits sum.splits)

text \<open>A link to a dataset without records ends the task for all datasets.\<close>

lemma links_to_empty_datasets_fail:
  "rs_fields_modified r \<noteq> [] \<Longrightarrow> None \<in> set (rs_linked_updated r) \<Longrightarrow> latest_update_date r = Inl ''TypeError''"
  "latest_update_date r = Inl e \<Longrightarrow> exec (for_each (store_reference_metadata db) (r # rs)) env h = (Inl e, h)"
proof -
  have "None \<in> set ts \<Longrightarrow> those ts = None" for ts :: "int option list"
    by (induction ts) (auto split: option.split)
  then show "rs_fields_modified r \<noteq> [] \<Longrightarrow> None \<in> set (rs_linked_updated r) \<Longrightarrow> latest_update_date r = Inl ''TypeError''"
    by (auto simp: latest_update_date_def Let_def)
  show "latest_update_date r = Inl e \<Longrightarrow> exec (for_each (store_reference_metadata db) (r # rs)) env h = (Inl e, h)"
    by (simp add: store_reference_metadata_def)
qed

text \<open>
  A query of which no tables are known, among others one that PostgreSQL refuses, leads to a condition \<open>IN ()\<close> on the
  tables, which PostgreSQL refuses, and ends the task for all queries.
\<close>

lemma queries_without_tables_fail:
  assumes "env h (CreateTemporaryView (sq_database q) (no_semicolons (strip (no_semicolons (rstrip (sq_sql q)))))) = Inl e"
    "e \<in> database_errors" "\<And>h db. env h (TablesUpdated db []) = Inl ''ProgrammingError''"
  shows "\<exists>h'. exec (for_each (store_query_structure c) (q # qs)) env h = (Inl ''ProgrammingError'', h')"
  using assms
  by (simp add: store_query_structure_def Let_def extract_queried_tables_from_sql_query_def doing_def getting_def exec_seq
      exec_handling exec_ask)

end
