(* ===== verification/GridQuery.thy ===== *)
theory GridQuery
  imports Sql
begin

text \<open>
  \<open>build_filtered_dataset_query\<close> of \<open>apps/datasets/utils.py\<close>: the query behind the grid in which users look at a
  dataset, made from the filters and the order that the browser sends.
\<close>

section \<open>Queries\<close>

record grid_column =
  gc_field :: string
  gc_data_type :: "string option"

text \<open>
  What the query is composed of: pieces of SQL, identifiers that psycopg2 quotes, parameters by name, and the
  query of the dataset.
\<close>

datatype piece = Sql string | Identifier string | Param string | Inner

datatype condition =
    Nowhere
  | LowerLike string string
  | LowerNotLike string string
  | LowerEqual string string
  | Equal string string
  | LowerUnequal string string
  | Distinct string string
  | Between string string string
  | Compare string string string

fun condition_pieces :: "condition \<Rightarrow> piece list" where
  "condition_pieces Nowhere = [Sql ''1 = 2'']"
| "condition_pieces (LowerLike c p) = [Sql ''lower('', Identifier c, Sql '') LIKE lower('', Param p, Sql '')'']"
| "condition_pieces (LowerNotLike c p) = [Sql ''lower('', Identifier c, Sql '') NOT LIKE lower('', Param p, Sql '')'']"
| "condition_pieces (LowerEqual c p) = [Sql ''lower('', Identifier c, Sql '') = lower('', Param p, Sql '')'']"
| "condition_pieces (Equal c p) = [Identifier c, Sql '' = '', Param p]"
| "condition_pieces (LowerUnequal c p) = [Sql ''lower('', Identifier c, Sql '') != lower('', Param p, Sql '')'']"
| "condition_pieces (Distinct c p) = [Identifier c, Sql '' is distinct from '', Param p]"
| "condition_pieces (Between c p q) = [Identifier c, Sql '' BETWEEN '', Param p, Sql '' AND '', Param q]"
| "condition_pieces (Compare c operator p) = [Identifier c, Sql '' '', Sql operator, Sql '' '', Param p]"

text \<open>Whether a text is a UUID, and the text that Python has for a JSON value in an f-string.\<close>

record grid_libs =
  gl_is_uuid :: "string \<Rightarrow> bool"
  gl_str :: "json \<Rightarrow> string"

section \<open>Filters\<close>

type_synonym filter_data = "json dict"
type_synonym query_params = "json dict"

definition got :: "json dict \<Rightarrow> string \<Rightarrow> json" where
  "got d k = (case map_of d k of None \<Rightarrow> JNull | Some v \<Rightarrow> v)"

text \<open>The two terms of a filter; those of dates have names of their own and must be there.\<close>

definition terms_of :: "filter_data \<Rightarrow> exc + (json \<times> json)" where
  "terms_of fd =
     (case map_of fd ''filterType'' of
        None \<Rightarrow> Inl ''KeyError''
      | Some t \<Rightarrow>
          if t = JStr ''date'' then
            (case (map_of fd ''dateFrom'', map_of fd ''dateTo'') of
               (Some a, Some b) \<Rightarrow> Inr (a, b)
             | _ \<Rightarrow> Inl ''KeyError'')
          else Inr (got fd ''filter'', got fd ''filterTo''))"

fun int_of :: "json \<Rightarrow> int option" where
  "int_of (JInt i) = Some i"
| "int_of (JBool b) = Some (if b then 1 else 0)"
| "int_of (JStr s) = py_int 10 s"
| "int_of _ = None"

text \<open>
  The condition of a filter on a column, with the parameters that it adds; no condition for a type of filter that is
  not known.
\<close>

definition percent :: string where
  "percent = ''%''"

definition filter_condition :: "grid_libs \<Rightarrow> string \<Rightarrow> json \<Rightarrow> json \<Rightarrow> json \<Rightarrow> json \<Rightarrow> condition option \<times> query_params" where
  "filter_condition gl field data_type type t0 t1 =
     (if data_type = JStr ''text'' \<and> type = JStr ''contains'' then
        (Some (LowerLike field field), [(field, JStr (percent @ gl_str gl t0 @ percent))])
      else if data_type = JStr ''text'' \<and> type = JStr ''notContains'' then
        (Some (LowerNotLike field field), [(field, JStr (percent @ gl_str gl t0 @ percent))])
      else if type = JStr ''equals'' then
        (Some (if data_type = JStr ''text'' then LowerEqual field field else Equal field field), [(field, t0)])
      else if type = JStr ''notEqual'' then
        (Some (if data_type = JStr ''text'' then LowerUnequal field field else Distinct field field), [(field, t0)])
      else if type = JStr ''startsWith'' then (Some (LowerLike field field), [(field, JStr (gl_str gl t0 @ percent))])
      else if type = JStr ''endsWith'' then (Some (LowerLike field field), [(field, JStr (percent @ gl_str gl t0))])
      else if type = JStr ''inRange'' then
        (Some (Between field (field @ ''_from'') (field @ ''_to'')), [(field @ ''_from'', t0), (field @ ''_to'', t1)])
      else if type = JStr ''greaterThan'' then (Some (Compare field ''>'' field), [(field, t0)])
      else if type = JStr ''greaterThanOrEqual'' then (Some (Compare field ''>='' field), [(field, t0)])
      else if type = JStr ''lessThan'' then (Some (Compare field ''<'' field), [(field, t0)])
      else if type = JStr ''lessThanOrEqual'' then (Some (Compare field ''<='' field), [(field, t0)])
      else (None, []))"

text \<open>The column with a name; when several have it, the last one.\<close>

definition column_of :: "grid_column list \<Rightarrow> string \<Rightarrow> grid_column option" where
  "column_of column_config field = map_of (rev (map (\<lambda>c. (gc_field c, c)) column_config)) field"

text \<open>The type of the data: that of the column, or that of the filter.\<close>

definition data_type_of :: "grid_column \<Rightarrow> filter_data \<Rightarrow> json" where
  "data_type_of c fd = (case gc_data_type c of Some t \<Rightarrow> JStr t | None \<Rightarrow> got fd ''filterType'')"

text \<open>One filter: whether the loop goes on, and the conditions and parameters so far.\<close>

type_synonym so_far = "condition list \<times> query_params"

definition valid_uuid :: "grid_libs \<Rightarrow> json \<Rightarrow> exc + bool" where
  "valid_uuid gl t = (case t of JStr s \<Rightarrow> Inr (gl_is_uuid gl s) | JNull \<Rightarrow> Inl ''TypeError'' | _ \<Rightarrow> Inl ''AttributeError'')"

definition as_boolean :: "json \<Rightarrow> exc + json" where
  "as_boolean t = (case int_of t of
     Some i \<Rightarrow> Inr (JBool (i \<noteq> 0))
   | None \<Rightarrow> Inl (case t of JStr s \<Rightarrow> ''ValueError'' | _ \<Rightarrow> ''TypeError''))"

definition add_filter :: "grid_libs \<Rightarrow> grid_column \<Rightarrow> filter_data \<Rightarrow> so_far \<Rightarrow> exc + (bool \<times> so_far)" where
  "add_filter gl c fd = (\<lambda>(where_clause, query_params).
     case terms_of fd of
       Inl e \<Rightarrow> Inl e
     | Inr (t0, t1) \<Rightarrow>
         let data_type = data_type_of c fd;
             go = (\<lambda>t0. case map_of fd ''type'' of
               None \<Rightarrow> Inl ''KeyError''
             | Some type \<Rightarrow> (case filter_condition gl (gc_field c) data_type type t0 t1 of
                 (cond, ps) \<Rightarrow> Inr (True, (where_clause @ (case cond of None \<Rightarrow> [] | Some x \<Rightarrow> [x]), dict_merge query_params ps))))
         in if data_type = JStr ''uuid'' then
              (case valid_uuid gl t0 of
                 Inl e \<Rightarrow> Inl e
               | Inr valid \<Rightarrow> if valid then go t0 else Inr (False, (where_clause @ [Nowhere], query_params)))
            else if data_type = JStr ''boolean'' then (case as_boolean t0 of Inl e \<Rightarrow> Inl e | Inr b \<Rightarrow> go b)
            else go t0)"

fun add_filters :: "grid_libs \<Rightarrow> grid_column list \<Rightarrow> (string \<times> filter_data) list \<Rightarrow> so_far \<Rightarrow> exc + so_far" where
  "add_filters gl column_config [] acc = Inr acc"
| "add_filters gl column_config ((field, fd) # fs) acc =
     (case column_of column_config field of
        None \<Rightarrow> (case terms_of fd of Inl e \<Rightarrow> Inl e | Inr _ \<Rightarrow> add_filters gl column_config fs acc)
      | Some c \<Rightarrow> (case add_filter gl c fd acc of
          Inl e \<Rightarrow> Inl e
        | Inr (go_on, acc) \<Rightarrow> if go_on then add_filters gl column_config fs acc else Inr acc))"

section \<open>The whole query\<close>

record grid_request =
  gr_start :: json
  gr_limit :: json
  gr_sort_dir :: string
  gr_sort_field :: "string option"
  gr_filters :: "(string \<times> filter_data) list"

primrec joined :: "piece list \<Rightarrow> piece list list \<Rightarrow> piece list list" where
  "joined s [] = []"
| "joined s (x # xs) = (if xs = [] then [x] else x # s # joined s xs)"

text \<open>The conditions are joined by \<open>AND\<close>, and the result with \<open>WHERE\<close> is joined by blanks.\<close>

definition where_pieces :: "condition list \<Rightarrow> piece list" where
  "where_pieces where_clause =
     (if where_clause = [] then []
      else concat (joined [Sql '' ''] ([Sql ''WHERE''] # joined [Sql '' AND ''] (map condition_pieces where_clause))))"

definition sort_field :: "grid_column list \<Rightarrow> grid_request \<Rightarrow> string option" where
  "sort_field column_config params =
     (case column_config of
        [] \<Rightarrow> None
      | c # _ \<Rightarrow> (case gr_sort_field params of
          Some f \<Rightarrow> if f \<noteq> [] \<and> column_of column_config f \<noteq> None then Some f else Some (gc_field c)
        | None \<Rightarrow> Some (gc_field c)))"

definition sort_dir :: "grid_request \<Rightarrow> string" where
  "sort_dir params = (if lower (gr_sort_dir params) = ''desc'' then ''DESC'' else ''ASC'')"

text \<open>The fields of the configuration, each once.\<close>

definition grid_fields :: "grid_column list \<Rightarrow> string list" where
  "grid_fields column_config = rev (remdups (rev (map gc_field column_config)))"

definition query_pieces :: "string list \<Rightarrow> string \<Rightarrow> string \<Rightarrow> condition list \<Rightarrow> piece list" where
  "query_pieces fs sort_by dir where_clause =
     [Sql ''SELECT ''] @ concat (joined [Sql '',''] (map (\<lambda>f. [Identifier f]) fs)) @ [Sql '' FROM ('', Inner, Sql '') a ''] @
     where_pieces where_clause @ [Sql '' ORDER BY '', Identifier sort_by, Sql '' '', Sql dir, Sql '' LIMIT '', Param ''limit'',
       Sql '' OFFSET '', Param ''offset'']"

definition build_filtered_dataset_query :: "grid_libs \<Rightarrow> grid_column list \<Rightarrow> grid_request \<Rightarrow> exc + (piece list \<times> query_params)" where
  "build_filtered_dataset_query gl column_config params =
     (case int_of (gr_start params) of
        None \<Rightarrow> Inl (case gr_start params of JStr s \<Rightarrow> ''ValueError'' | _ \<Rightarrow> ''TypeError'')
      | Some offset \<Rightarrow>
          (case sort_field column_config params of
             None \<Rightarrow> Inl ''IndexError''
           | Some sort_by \<Rightarrow>
               (case add_filters gl column_config (gr_filters params) ([], [(''offset'', JInt offset), (''limit'', gr_limit params)]) of
                  Inl e \<Rightarrow> Inl e
                | Inr (where_clause, query_params) \<Rightarrow>
                    Inr (query_pieces (grid_fields column_config) sort_by (sort_dir params) where_clause, query_params))))"

section \<open>What a query is made of\<close>




















section \<open>What a query selects\<close>






section \<open>Patterns without wildcards\<close>







lemma lower_append [simp]: "lower (a @ b) = lower a @ lower b"
  by (simp add: lower_def)

lemma lower_percent [simp]: "lower percent = ''%''"
  by (simp add: lower_def percent_def lower_char_def)


section \<open>A query selects what the filters mean\<close>


lemma got_merge: "distinct (map fst e) \<Longrightarrow> got (dict_merge d e) k = (case map_of e k of None \<Rightarrow> got d k | Some v \<Rightarrow> v)"
  by (simp add: got_def map_of_dict_merge map_add_def split: option.split)

lemma got_single [simp]: "got (dict_merge qp [(k, v)]) k = v"
  by (simp add: got_def map_of_dict_set)

lemma got_pair [simp]: "got (dict_merge qp [(k @ ''_from'', v), (k @ ''_to'', w)]) (k @ ''_from'') = v"
  "got (dict_merge qp [(k @ ''_from'', v), (k @ ''_to'', w)]) (k @ ''_to'') = w"
  by (simp_all add: got_def map_of_dict_set)












section \<open>Witnesses\<close>

definition sample_grid_libs :: grid_libs where
  "sample_grid_libs = \<lparr>gl_is_uuid = (\<lambda>s. length s = 36), gl_str = (\<lambda>v. case v of JStr s \<Rightarrow> s | _ \<Rightarrow> ''None'')\<rparr>"

definition sample_columns :: "grid_column list" where
  "sample_columns = [\<lparr>gc_field = ''name'', gc_data_type = Some ''text''\<rparr>, \<lparr>gc_field = ''limit'', gc_data_type = Some ''numeric''\<rparr>]"

definition sample_request :: grid_request where
  "sample_request = \<lparr>gr_start = JInt 0, gr_limit = JInt 100, gr_sort_dir = ''desc'', gr_sort_field = Some ''name; drop table'',
     gr_filters = [(''name'', [(''filterType'', JStr ''text''), (''type'', JStr ''contains''), (''filter'', JStr ''Ann'')])]\<rparr>"






text \<open>A filter on a column with the name \<open>limit\<close> takes the place of the limit on the number of rows.\<close>

lemma limits_are_overwritten: "map_sum id (\<lambda>(pieces, ps). got ps ''limit'')
    (build_filtered_dataset_query sample_grid_libs sample_columns (sample_request\<lparr>gr_filters :=
      [(''limit'', [(''filterType'', JStr ''number''), (''type'', JStr ''greaterThan''), (''filter'', JInt 1000000)])]\<rparr>)) = Inr (JInt 1000000)"
  by code_simp

end
