(* ===== verification/Actions.thy ===== *)
theory Actions
  imports Effects
begin

text \<open>
  Views of the admin application as functions of the database they act on. An action reads and writes a
  state and ends with a result or an exception; what it wrote before an exception stays, since requests
  are not wrapped in a transaction, except inside \<open>transaction.atomic\<close>.
\<close>

type_synonym ('s, 'a) action = "'s \<Rightarrow> (exc + 'a) \<times> 's"

definition give :: "'a \<Rightarrow> ('s, 'a) action" where
  "give x s = (Inr x, s)"

definition raising :: "exc \<Rightarrow> ('s, 'a) action" where
  "raising e s = (Inl e, s)"

definition bindA :: "('s, 'a) action \<Rightarrow> ('a \<Rightarrow> ('s, 'b) action) \<Rightarrow> ('s, 'b) action" where
  "bindA m f s = (case m s of (Inl e, s') \<Rightarrow> (Inl e, s') | (Inr x, s') \<Rightarrow> f x s')"

text \<open>Code that reads the database without writing it.\<close>

definition reads :: "('s \<Rightarrow> 'b) \<Rightarrow> ('b \<Rightarrow> ('s, 'a) action) \<Rightarrow> ('s, 'a) action" where
  "reads f k s = k (f s) s"

definition writes :: "('s \<Rightarrow> 's) \<Rightarrow> ('s, unit) action" where
  "writes f s = (Inr (), f s)"

text \<open>A read that may raise.\<close>

definition fetches :: "('s \<Rightarrow> exc + 'b) \<Rightarrow> ('b \<Rightarrow> ('s, 'a) action) \<Rightarrow> ('s, 'a) action" where
  "fetches f k s = (case f s of Inl e \<Rightarrow> (Inl e, s) | Inr x \<Rightarrow> k x s)"

definition atomic :: "('s, 'a) action \<Rightarrow> ('s, 'a) action" where
  "atomic m s = (case m s of (Inl e, _) \<Rightarrow> (Inl e, s) | (Inr x, s') \<Rightarrow> (Inr x, s'))"

definition rescuing :: "('s, 'a) action \<Rightarrow> (exc \<Rightarrow> bool) \<Rightarrow> (exc \<Rightarrow> ('s, 'a) action) \<Rightarrow> ('s, 'a) action" where
  "rescuing m c h s = (case m s of (Inl e, s') \<Rightarrow> if c e then h e s' else (Inl e, s') | (Inr x, s') \<Rightarrow> (Inr x, s'))"

primrec each :: "('x \<Rightarrow> ('s, unit) action) \<Rightarrow> 'x list \<Rightarrow> ('s, unit) action" where
  "each f [] = give ()"
| "each f (x # xs) = bindA (f x) (\<lambda>_. each f xs)"

lemmas action_defs = give_def raising_def bindA_def reads_def writes_def fetches_def atomic_def rescuing_def

section \<open>Rows\<close>

text \<open>The id of a new row, which no row has.\<close>

definition next_id :: "nat list \<Rightarrow> nat" where
  "next_id ids = Suc (foldr max ids 0)"

lemma next_id_new: "i \<in> set ids \<Longrightarrow> i < next_id ids"
  unfolding next_id_def by (induction ids) (auto simp: less_Suc_eq_le max_def)

text \<open>\<open>objects.get\<close>: exactly one row, or an exception.\<close>

definition get_row :: "('r \<Rightarrow> bool) \<Rightarrow> 'r list \<Rightarrow> exc + 'r" where
  "get_row c rows = (case filter c rows of [] \<Rightarrow> Inl ''DoesNotExist'' | [r] \<Rightarrow> Inr r | _ \<Rightarrow> Inl ''MultipleObjectsReturned'')"

lemma get_row_Some: "get_row c rows = Inr r \<Longrightarrow> r \<in> set rows \<and> c r"
  by (auto simp: get_row_def filter_eq_Cons_iff split: list.splits)

section \<open>Invariants\<close>

text \<open>Whatever an action starts from, the relation holds between the state before it and after it.\<close>

definition relates :: "('s \<Rightarrow> 's \<Rightarrow> bool) \<Rightarrow> ('s, 'a) action \<Rightarrow> bool" where
  "relates R m \<longleftrightarrow> (\<forall>s. R s (snd (m s)))"

definition preorder :: "('s \<Rightarrow> 's \<Rightarrow> bool) \<Rightarrow> bool" where
  "preorder R \<longleftrightarrow> (\<forall>s. R s s) \<and> (\<forall>s t u. R s t \<longrightarrow> R t u \<longrightarrow> R s u)"

named_theorems relates \<open>rules that take a relation through an action\<close>

lemma relates_give [relates]: "preorder R \<Longrightarrow> relates R (give x)"
  and relates_raising [relates]: "preorder R \<Longrightarrow> relates R (raising e)"
  by (simp_all add: relates_def preorder_def give_def raising_def)

lemma relates_bindA [relates]: "preorder R \<Longrightarrow> relates R m \<Longrightarrow> (\<And>x. relates R (f x)) \<Longrightarrow> relates R (bindA m f)"
  unfolding relates_def preorder_def bindA_def by (auto split: prod.split sum.split) (metis snd_conv)+

lemma relates_reads [relates]: "(\<And>x. relates R (k x)) \<Longrightarrow> relates R (reads f k)"
  by (simp add: relates_def reads_def)

lemma relates_fetches [relates]: "preorder R \<Longrightarrow> (\<And>x. relates R (k x)) \<Longrightarrow> relates R (fetches f k)"
  by (auto simp: relates_def preorder_def fetches_def split: sum.split)

lemma relates_writes: "(\<And>s. R s (f s)) \<Longrightarrow> relates R (writes f)"
  by (simp add: relates_def writes_def)

lemma relates_atomic [relates]: "preorder R \<Longrightarrow> relates R m \<Longrightarrow> relates R (atomic m)"
  unfolding relates_def preorder_def atomic_def by (auto split: prod.split sum.split) (metis snd_conv)+

lemma relates_rescuing [relates]:
  "preorder R \<Longrightarrow> relates R m \<Longrightarrow> (\<And>e. relates R (h e)) \<Longrightarrow> relates R (rescuing m c h)"
  unfolding relates_def preorder_def rescuing_def by (auto split: prod.split sum.split) (metis snd_conv)+

lemma relates_each [relates]: "preorder R \<Longrightarrow> (\<And>x. x \<in> set xs \<Longrightarrow> relates R (f x)) \<Longrightarrow> relates R (each f xs)"
  by (induction xs) (auto intro!: relates)

lemma relates_if [relates]: "(b \<Longrightarrow> relates R m) \<Longrightarrow> (\<not> b \<Longrightarrow> relates R n) \<Longrightarrow> relates R (if b then m else n)"
  by simp

lemma relates_option [relates]:
  "relates R m \<Longrightarrow> (\<And>x. relates R (f x)) \<Longrightarrow> relates R (case y of None \<Rightarrow> m | Some x \<Rightarrow> f x)"
  by (cases y) auto

lemma relates_prod [relates]: "(\<And>x z. relates R (f x z)) \<Longrightarrow> relates R (case y of (x, z) \<Rightarrow> f x z)"
  by (cases y) auto

lemma relates_sum [relates]:
  "(\<And>x. relates R (f x)) \<Longrightarrow> (\<And>x. relates R (g x)) \<Longrightarrow> relates R (case y of Inl x \<Rightarrow> f x | Inr x \<Rightarrow> g x)"
  by (cases y) auto

lemma relatesD: "relates R m \<Longrightarrow> m s = (r, s') \<Longrightarrow> R s s'"
  unfolding relates_def by (metis snd_conv)

section \<open>Weakest preconditions\<close>

text \<open>What holds of the outcome and of the state after an action, as a condition on the state before it.\<close>

definition wp :: "('s, 'a) action \<Rightarrow> (exc + 'a \<Rightarrow> 's \<Rightarrow> bool) \<Rightarrow> 's \<Rightarrow> bool" where
  "wp m Q s = (case m s of (r, s') \<Rightarrow> Q r s')"

lemma wp_give [simp]: "wp (give x) Q s = Q (Inr x) s"
  by (simp add: wp_def give_def)

lemma wp_raising [simp]: "wp (raising e) Q s = Q (Inl e) s"
  by (simp add: wp_def raising_def)

lemma wp_reads [simp]: "wp (reads f k) Q s = wp (k (f s)) Q s"
  by (simp add: wp_def reads_def)

lemma wp_writes [simp]: "wp (writes f) Q s = Q (Inr ()) (f s)"
  by (simp add: wp_def writes_def)

lemma wp_bindA [simp]: "wp (bindA m f) Q s =
    wp m (\<lambda>r s'. case r of Inl e \<Rightarrow> Q (Inl e) s' | Inr x \<Rightarrow> wp (f x) Q s') s"
  by (simp add: wp_def bindA_def split: prod.split sum.split)

lemma wp_fetches [simp]: "wp (fetches f k) Q s = (case f s of Inl e \<Rightarrow> Q (Inl e) s | Inr x \<Rightarrow> wp (k x) Q s)"
  by (simp add: wp_def fetches_def split: prod.split sum.split)

lemma wp_atomic [simp]: "wp (atomic m) Q s =
    wp m (\<lambda>r s'. case r of Inl e \<Rightarrow> Q (Inl e) s | Inr x \<Rightarrow> Q (Inr x) s') s"
  by (simp add: wp_def atomic_def split: prod.split sum.split)

lemma wp_rescuing [simp]: "wp (rescuing m c h) Q s =
    wp m (\<lambda>r s'. case r of Inl e \<Rightarrow> if c e then wp (h e) Q s' else Q (Inl e) s' | Inr x \<Rightarrow> Q (Inr x) s') s"
  by (auto simp: wp_def rescuing_def split: prod.split sum.split)

lemma wp_conseq: "wp m P s \<Longrightarrow> (\<And>r s'. P r s' \<Longrightarrow> Q r s') \<Longrightarrow> wp m Q s"
  by (auto simp: wp_def split: prod.splits)

lemma wp_bind: "wp m P s \<Longrightarrow> (\<And>e s'. P (Inl e) s' \<Longrightarrow> Q (Inl e) s') \<Longrightarrow> (\<And>x s'. P (Inr x) s' \<Longrightarrow> wp (f x) Q s') \<Longrightarrow>
    wp (bindA m f) Q s"
  unfolding wp_bindA by (erule wp_conseq) (auto split: sum.split)

lemma wp_conj: "wp m P s \<Longrightarrow> wp m Q s \<Longrightarrow> wp m (\<lambda>r s'. P r s' \<and> Q r s') s"
  by (auto simp: wp_def split: prod.splits)

lemma wp_relates: "relates R m \<Longrightarrow> wp m (\<lambda>r s'. R s s') s"
  by (simp add: wp_def relates_def case_prod_beta)

lemma relates_wp: "(\<And>s. wp m (\<lambda>r s'. R s s') s) \<Longrightarrow> relates R m"
  by (simp add: wp_def relates_def case_prod_beta)

lemma wpD: "wp m Q s \<Longrightarrow> m s = (r, s') \<Longrightarrow> Q r s'"
  by (simp add: wp_def)

end
