(* ===== verification/Visualisations.thy ===== *)
theory Visualisations
  imports Actions DataAccess ToolAccess "HOL-Library.Product_Lexorder"
begin

text \<open>
  \<open>apps/applications/views.py\<close>: the pages on which developers of a GitLab project release, share, approve and
  publish its visualisation, with \<open>VisualisationApproval\<close> and the forms of \<open>apps/applications/forms.py\<close>. A page is
  an action on the rows that these views read and write. What GitLab, Zendesk, GOV.UK Notify and the container
  registry answer is in \<open>vis_services\<close>.
\<close>

section \<open>Rows\<close>

record gitlab_project =
  gp_id :: int
  gp_name :: string
  gp_description :: "string option"
  gp_default_branch :: string

record vis_user =
  vu_id :: nat
  vu_email :: string
  vu_name :: string

text \<open>A text that may be null is empty here when it is null: the views only test it for truth.\<close>

record vis_item =
  vi_id :: nat
  vi_template :: nat
  vi_name :: string
  vi_slug :: string
  vi_short_description :: string
  vi_description :: string
  vi_enquiries_contact :: "nat option"
  vi_secondary_enquiries_contact :: "nat option"
  vi_information_asset_manager :: "nat option"
  vi_information_asset_owner :: "nat option"
  vi_licence :: string
  vi_retention_policy :: string
  vi_personal_data :: string
  vi_restrictions_on_usage :: string
  vi_access :: user_access_type
  vi_eligibility_criteria :: "string list"
  vi_published :: bool

record approval =
  va_id :: nat
  va_approved :: bool
  va_approver :: nat
  va_visualisation :: nat

text \<open>An entry of Django's log: who, the kind and the id of the object, and the message.\<close>

type_synonym log_entry = "nat \<times> string \<times> nat \<times> string"

record vis_state =
  vs_users :: "vis_user list"
  vs_templates :: "application_template list"
  vs_items :: "vis_item list"
  vs_approvals :: "approval list"
  vs_approval_events :: "(nat \<times> string \<times> nat) list"
  vs_access :: "(nat \<times> nat) list"
  vs_dataset_access :: "(nat \<times> nat) list"
  vs_instances :: instances
  vs_stops :: "(string \<times> string) list"
  vs_tags :: "(string \<times> string) list"
  vs_log :: "log_entry list"
  vs_mails :: "(string \<times> string \<times> string) list"
  vs_tickets :: "(string \<times> string) list"

record branch =
  br_name :: string
  br_committed_date :: string
  br_short_id :: string

record vis_services =
  sv_branches :: "exc + branch list"
  sv_tags_for_tag :: "string \<Rightarrow> string list"
  sv_retag :: "exc + unit"
  sv_email_address :: "string \<Rightarrow> bool"
  sv_ticket :: "exc + unit"
  sv_mail :: "exc + unit"

datatype answer =
    Redirect string
  | Rendered string "string list" nat
  | Refused nat

type_synonym 'a vis_action = "(vis_state, 'a) action"

definition log_action :: "nat \<Rightarrow> string \<Rightarrow> nat \<Rightarrow> string \<Rightarrow> unit vis_action" where
  "log_action user_id kind object_id message = writes (\<lambda>s. s\<lparr>vs_log := vs_log s @ [(user_id, kind, object_id, message)]\<rparr>)"

section \<open>Who gets to a page\<close>

text \<open>
  Every view begins with the same gate: the permission, the project, which GitLab has to know, and developer
  access to it.
\<close>

definition visualisation_gitlab_project :: "int \<Rightarrow> json gitlabbing" where
  "visualisation_gitlab_project gitlab_project_id =
     ask (GitlabGet (''projects/'' @ str_int gitlab_project_id) []) (\<lambda>reply.
       want ''JSONDecodeError'' (body_status reply) (\<lambda>(gitlab_project, status).
         if status = JInt 404 then Fail ''Http404''
         else if status \<noteq> JInt 200 then Fail ''Exception''
         else Done gitlab_project))"

definition visualisation_html_view ::
  "string list \<Rightarrow> nat \<Rightarrow> string \<Rightarrow> int \<Rightarrow> string \<Rightarrow> (json \<Rightarrow> 'h) \<Rightarrow> (json \<Rightarrow> 'h) \<Rightarrow> 'h \<Rightarrow> 'h gitlabbing" where
  "visualisation_html_view permissions user_id sso_id gitlab_project_id http_method html_GET html_POST not_allowed =
     (if ''applications.develop_visualisations'' \<notin> set permissions then Fail ''PermissionDenied''
      else seq (visualisation_gitlab_project gitlab_project_id) (\<lambda>gitlab_project.
        seq (gitlab_has_developer_access user_id sso_id gitlab_project_id) (\<lambda>has_access.
          if \<not> has_access then Fail ''PermissionDenied''
          else if http_method = ''GET'' then Done (html_GET gitlab_project)
          else if http_method = ''POST'' then Done (html_POST gitlab_project)
          else Done not_allowed)))"

section \<open>Templates and catalogue items of new projects\<close>

fun collapse_dashes :: "string \<Rightarrow> string" where
  "collapse_dashes (c # d # cs) =
     (if c = CHR ''-'' \<and> d = CHR ''-'' then collapse_dashes (d # cs) else c # collapse_dashes (d # cs))"
| "collapse_dashes cs = cs"

definition strip_dashes :: "string \<Rightarrow> string" where
  "strip_dashes s = rstrip_char CHR ''-'' (dropWhile (\<lambda>c. c = CHR ''-'') s)"

definition safe_char :: "char \<Rightarrow> bool" where
  "safe_char c \<longleftrightarrow> c \<in> set ''abcdefghijklmnopqrstuvwxyz0123456789-''"

definition path_and_dns_safe_root :: "string \<Rightarrow> string" where
  "path_and_dns_safe_root name_1 =
     (let name_2 = lower name_1;
          name_3 = map (\<lambda>c. if c = CHR ''_'' \<or> py_space c then CHR ''-'' else c) name_2;
          name_4 = filter safe_char name_3;
          name_5 = strip_dashes name_4
      in collapse_dashes name_5)"

definition max_name_attempts :: nat where
  "max_name_attempts = 20"

definition safe_names :: "string \<Rightarrow> string list" where
  "safe_names root = map (\<lambda>i. root @ (if i = 0 then [] else ''-'' @ str_nat i)) [0..<max_name_attempts]"

definition new_template :: "gitlab_project \<Rightarrow> string \<Rightarrow> nat \<Rightarrow> application_template" where
  "new_template gitlab_project path_and_dns_safe_name i =
     \<lparr>at_id = i, at_name = [], at_visible = False, at_wrap = ''FULL_HEIGHT_IFRAME'',
      at_host_basename = path_and_dns_safe_name, at_nice_name = gp_name gitlab_project, at_spawner = ''FARGATE'',
      at_spawner_time = 120, at_spawner_options = ''{}'', at_type = VISUALISATION, at_default_memory = ''8192'',
      at_default_cpu = ''1024'', at_gitlab_project_id = Some (gp_id gitlab_project)\<rparr>"

definition new_item :: "gitlab_project \<Rightarrow> string \<Rightarrow> string \<Rightarrow> nat \<Rightarrow> nat \<Rightarrow> vis_item" where
  "new_item gitlab_project path_and_dns_safe_name short_description template_id i =
     \<lparr>vi_id = i, vi_template = template_id, vi_name = gp_name gitlab_project, vi_slug = path_and_dns_safe_name,
      vi_short_description = short_description, vi_description = [], vi_enquiries_contact = None,
      vi_secondary_enquiries_contact = None, vi_information_asset_manager = None, vi_information_asset_owner = None,
      vi_licence = [], vi_retention_policy = [], vi_personal_data = [], vi_restrictions_on_usage = [],
      vi_access = REQUIRES_AUTHORIZATION, vi_eligibility_criteria = [], vi_published = False\<rparr>"

text \<open>
  The insertions, with the constraints of the tables: the lengths of the columns (\<open>DataError\<close>), then what may not
  be null and what is unique (\<open>IntegrityError\<close>).
\<close>

definition create_template :: "gitlab_project \<Rightarrow> string \<Rightarrow> application_template vis_action" where
  "create_template p name = reads vs_templates (\<lambda>ts.
     if 128 < length name \<or> 128 < length (gp_name p) then raising ''DataError''
     else if name \<in> set (map at_host_basename ts) \<or> Some (gp_id p) \<in> set (map at_gitlab_project_id ts)
     then raising ''IntegrityError''
     else let t = new_template p name (next_id (map at_id ts))
          in bindA (writes (\<lambda>s. s\<lparr>vs_templates := ts @ [t]\<rparr>)) (\<lambda>_. give t))"

definition create_item :: "gitlab_project \<Rightarrow> string \<Rightarrow> application_template \<Rightarrow> unit vis_action" where
  "create_item p name t = reads vs_items (\<lambda>is.
     if 255 < length (gp_name p) \<or> 50 < length name \<or>
        (case gp_description p of None \<Rightarrow> False | Some d \<Rightarrow> 255 < length d) then raising ''DataError''
     else case gp_description p of
       None \<Rightarrow> raising ''IntegrityError''
     | Some d \<Rightarrow> if name \<in> set (map vi_slug is) \<or> at_id t \<in> set (map vi_template is) then raising ''IntegrityError''
         else writes (\<lambda>s. s\<lparr>vs_items := is @ [new_item p name d (at_id t) (next_id (map vi_id is))]\<rparr>))"

definition template_of_project :: "gitlab_project \<Rightarrow> vis_state \<Rightarrow> exc + application_template" where
  "template_of_project p s = get_row (\<lambda>t. at_gitlab_project_id t = Some (gp_id p)) (vs_templates s)"

definition create_with_name :: "gitlab_project \<Rightarrow> string \<Rightarrow> application_template vis_action" where
  "create_with_name p name =
     atomic (bindA (create_template p name) (\<lambda>t. bindA (create_item p name t) (\<lambda>_. give t)))"

text \<open>The loop over the names, and the query after the last.\<close>

fun try_names :: "gitlab_project \<Rightarrow> string list \<Rightarrow> application_template vis_action" where
  "try_names p [] = raising ''IntegrityError''"
| "try_names p (name # names) = rescuing (create_with_name p name) (\<lambda>e. e = ''IntegrityError'') (\<lambda>e.
     if names \<noteq> [] then try_names p names
     else rescuing (fetches (template_of_project p) give) (\<lambda>e. e = ''DoesNotExist'') (\<lambda>_. raising e))"

definition application_template_of :: "gitlab_project \<Rightarrow> application_template vis_action" where
  "application_template_of p = rescuing (fetches (template_of_project p) give) (\<lambda>e. e = ''DoesNotExist'')
     (\<lambda>_. try_names p (safe_names (path_and_dns_safe_root (gp_name p))))"

definition get_visualisation_catalogue_item_for_gitlab_project :: "gitlab_project \<Rightarrow> vis_item option vis_action" where
  "get_visualisation_catalogue_item_for_gitlab_project p = bindA (application_template_of p) (\<lambda>t.
     rescuing (fetches (\<lambda>s. get_row (\<lambda>i. vi_template i = at_id t) (vs_items s)) (\<lambda>i. give (Some i)))
       (\<lambda>e. e = ''DoesNotExist'') (\<lambda>_. give None))"

text \<open>An attribute of the item, when there may be none.\<close>

definition the_item :: "vis_item option \<Rightarrow> (vis_item \<Rightarrow> 'a vis_action) \<Rightarrow> 'a vis_action" where
  "the_item i k = (case i of None \<Rightarrow> raising ''AttributeError'' | Some i \<Rightarrow> k i)"

definition visualisation_branches :: "gitlab_project \<Rightarrow> branch list \<Rightarrow> branch list" where
  "visualisation_branches p branches =
     rev (sort_key (\<lambda>b. (br_name b = gp_default_branch p, br_committed_date b, br_name b)) (rev branches))"

definition listing_branches :: "vis_services \<Rightarrow> gitlab_project \<Rightarrow> (branch list \<Rightarrow> 'a vis_action) \<Rightarrow> 'a vis_action" where
  "listing_branches sv p k = (case sv_branches sv of Inl e \<Rightarrow> raising e | Inr bs \<Rightarrow> k (visualisation_branches p bs))"

definition render_visualisation :: "gitlab_project \<Rightarrow> string \<Rightarrow> string list \<Rightarrow> nat \<Rightarrow> answer vis_action" where
  "render_visualisation p html_template errors status =
     bindA (get_visualisation_catalogue_item_for_gitlab_project p) (\<lambda>i. the_item i (\<lambda>i.
       give (Rendered html_template errors status)))"

end
