(* ===== verification/VisualisationPages.thy ===== *)
theory VisualisationPages
  imports Visualisations
begin

text \<open>
  The pages themselves: branches and releases, users with access, the catalogue item, approvals, datasets and
  publication. \<open>user\<close> is the signed-in developer; \<open>request.path\<close> is the page's own address.
\<close>

section \<open>Branches and releases\<close>

record branch_page =
  bp_is_default_branch :: bool
  bp_can_download_logs :: bool
  bp_production_commit_id :: "string option"
  bp_can_release_latest_commit :: bool
  bp_must_preview_latest_commit_to_release :: bool
  bp_latest_commit_is_released :: bool

text \<open>The first tag with a commit.\<close>

fun production_commit_id :: "string list \<Rightarrow> string option" where
  "production_commit_id [] = None"
| "production_commit_id (tag # tags) =
     (let (possible_host_basename, host_basename_or_commit_id) = rpartition tag ''--''
      in if possible_host_basename \<noteq> [] then Some host_basename_or_commit_id else production_commit_id tags)"

definition branch_page_of :: "gitlab_project \<Rightarrow> application_template \<Rightarrow> branch \<Rightarrow> (string \<Rightarrow> string list) \<Rightarrow> branch_page" where
  "branch_page_of p t current_branch tags_for_tag =
     (let latest_commit_tag_exists = tags_for_tag (at_host_basename t @ ''--'' @ br_short_id current_branch) \<noteq> [];
          commit = production_commit_id (tags_for_tag (at_host_basename t));
          is_default_branch = (br_name current_branch = gp_default_branch p);
          latest_commit_is_released = (Some (br_short_id current_branch) = commit);
          can_release = (is_default_branch \<and> latest_commit_tag_exists \<and> \<not> latest_commit_is_released)
      in \<lparr>bp_is_default_branch = is_default_branch,
          bp_can_download_logs = can_release \<or> (\<not> is_default_branch \<and> latest_commit_tag_exists),
          bp_production_commit_id = commit,
          bp_can_release_latest_commit = can_release,
          bp_must_preview_latest_commit_to_release =
            (is_default_branch \<and> \<not> latest_commit_tag_exists \<and> \<not> latest_commit_is_released),
          bp_latest_commit_is_released = latest_commit_is_released\<rparr>)"

definition visualisation_branch_html_GET ::
  "vis_services \<Rightarrow> gitlab_project \<Rightarrow> string \<Rightarrow> (branch_page \<times> answer) vis_action" where
  "visualisation_branch_html_GET sv p branch_name = listing_branches sv p (\<lambda>branches.
     case filter (\<lambda>b. br_name b = branch_name) branches of
       [] \<Rightarrow> raising ''Http404''
     | [current_branch] \<Rightarrow> bindA (application_template_of p) (\<lambda>t.
         let page = branch_page_of p t current_branch (sv_tags_for_tag sv)
         in bindA (render_visualisation p ''visualisation_branch.html'' [] 200) (\<lambda>a. give (page, a)))
     | _ \<Rightarrow> raising ''Exception'')"

definition stop_spawner_and_application_row :: "instance_row \<Rightarrow> unit vis_action" where
  "stop_spawner_and_application_row r =
     bindA (writes (\<lambda>s. s\<lparr>vs_stops := vs_stops s @ [(ai_spawner r, ai_id r)]\<rparr>)) (\<lambda>_.
       fetches (\<lambda>s. case set_application_stopped (ai_id r) (vs_instances s) of None \<Rightarrow> Inl ''IntegrityError'' | Some db \<Rightarrow> Inr db)
         (\<lambda>db. writes (\<lambda>s. s\<lparr>vs_instances := db\<rparr>)))"

definition visualisation_branch_html_POST :: "vis_services \<Rightarrow> gitlab_project \<Rightarrow> string option \<Rightarrow> answer vis_action" where
  "visualisation_branch_html_POST sv p posted_commit =
     (case posted_commit of None \<Rightarrow> raising ''MultiValueDictKeyError'' | Some release_commit \<Rightarrow>
      bindA (application_template_of p) (\<lambda>t.
      case sv_retag sv of Inl e \<Rightarrow> raising e | Inr _ \<Rightarrow>
      bindA (writes (\<lambda>s. s\<lparr>vs_tags := vs_tags s @ [(at_host_basename t @ ''--'' @ release_commit, at_host_basename t)]\<rparr>)) (\<lambda>_.
      reads (\<lambda>s. get_row (\<lambda>r. ai_public_host r = at_host_basename t \<and> is_visible r) (vs_instances s)) (\<lambda>application_instance.
      bindA (case application_instance of
          Inr r \<Rightarrow> stop_spawner_and_application_row r
        | Inl e \<Rightarrow> if e = ''DoesNotExist'' then give () else raising e) (\<lambda>_.
      give (Redirect ''visualisations:branch''))))))"

section \<open>Users with access\<close>

definition visualisation_item :: "application_template \<Rightarrow> vis_state \<Rightarrow> exc + vis_item" where
  "visualisation_item t s = get_row (\<lambda>i. vi_template i = at_id t) (vs_items s)"

definition create_user_permission :: "vis_user \<Rightarrow> vis_item \<Rightarrow> unit vis_action" where
  "create_user_permission u i = reads vs_access (\<lambda>rows.
     if (vu_id u, vi_id i) \<in> set rows then raising ''IntegrityError''
     else writes (\<lambda>s. s\<lparr>vs_access := rows @ [(vu_id u, vi_id i)]\<rparr>))"

definition delete_user_permission :: "vis_user \<Rightarrow> vis_item \<Rightarrow> unit vis_action" where
  "delete_user_permission u i = writes (\<lambda>s. s\<lparr>vs_access := removeAll (vu_id u, vi_id i) (vs_access s)\<rparr>)"

definition users_with_access :: "gitlab_project \<Rightarrow> vis_state \<Rightarrow> nat list" where
  "users_with_access p s = sort (map fst (filter (\<lambda>(u, i). list_ex (\<lambda>item. vi_id item = i \<and> list_ex (\<lambda>t.
     at_id t = vi_template item \<and> at_gitlab_project_id t = Some (gp_id p)) (vs_templates s)) (vs_items s)) (vs_access s)))"

definition visualisation_users_with_access_html_GET :: "vis_services \<Rightarrow> gitlab_project \<Rightarrow> (nat list \<times> answer) vis_action" where
  "visualisation_users_with_access_html_GET sv p = listing_branches sv p (\<lambda>_.
     bindA (application_template_of p) (\<lambda>_. reads (users_with_access p) (\<lambda>users.
     bindA (render_visualisation p ''visualisation_users_with_access.html'' [] 200) (\<lambda>a. give (users, a)))))"

definition visualisation_users_with_access_html_POST :: "vis_user \<Rightarrow> gitlab_project \<Rightarrow> nat option \<Rightarrow> answer vis_action" where
  "visualisation_users_with_access_html_POST user p posted_user_id =
     bindA (application_template_of p) (\<lambda>t. fetches (visualisation_item t) (\<lambda>item.
     case posted_user_id of None \<Rightarrow> raising ''MultiValueDictKeyError'' | Some user_id \<Rightarrow>
     fetches (\<lambda>s. get_row (\<lambda>u. vu_id u = user_id) (vs_users s)) (\<lambda>u.
     bindA (atomic (reads (\<lambda>s. (vu_id u, vi_id item) \<in> set (vs_access s)) (\<lambda>permitted.
       if \<not> permitted then give ()
       else bindA (delete_user_permission u item) (\<lambda>_.
         log_action (vu_id user) ''user'' (vu_id u) (''Removed visualisation '' @ at_nice_name t @ '' permission''))))) (\<lambda>_.
     give (Redirect ''visualisations:users-with-access'')))))"

text \<open>The token is empty, or holds an address and the number of a ticket.\<close>

definition visualisation_users_give_access_html_POST ::
  "vis_services \<Rightarrow> vis_user \<Rightarrow> gitlab_project \<Rightarrow> (string \<times> string) option \<Rightarrow> string option \<Rightarrow> answer vis_action" where
  "visualisation_users_give_access_html_POST sv user p token_data posted_address =
     listing_branches sv p (\<lambda>_. bindA (application_template_of p) (\<lambda>t. fetches (visualisation_item t) (\<lambda>item.
     case posted_address of None \<Rightarrow> raising ''MultiValueDictKeyError'' | Some address \<Rightarrow>
     let email_address = lower (strip address);
         error = (\<lambda>m. render_visualisation p ''visualisation_users_give_access.html'' [m] 200)
     in if email_address = [] then error ''Enter the user's email address''
     else if \<not> sv_email_address sv email_address
     then error ''Enter the user's email address in the correct format, like name@example.com''
     else reads (\<lambda>s. get_row (\<lambda>u. vu_email u = email_address) (vs_users s)) (\<lambda>found. case found of
       Inl e \<Rightarrow> if e = ''DoesNotExist'' then error ''The user must have previously visited Data Workspace'' else raising e
     | Inr u \<Rightarrow>
       bindA (rescuing (bindA (atomic (bindA (create_user_permission u item) (\<lambda>_.
           log_action (vu_id user) ''user'' (vu_id u) (''Added visualisation '' @ at_nice_name t @ '' permission''))))
           (\<lambda>_. give True)) (\<lambda>e. e = ''IntegrityError'') (\<lambda>_. give False)) (\<lambda>created.
       if \<not> created then error (vu_name u @ '' already has access'')
       else
         bindA (case token_data of
             Some (token_email, ticket) \<Rightarrow> if email_address = lower (strip token_email)
               then (case sv_ticket sv of Inl e \<Rightarrow> raising e
                     | Inr _ \<Rightarrow> writes (\<lambda>s. s\<lparr>vs_tickets := vs_tickets s @ [(ticket, ''Access granted by '' @ vu_email user)]\<rparr>))
               else give ()
           | None \<Rightarrow> give ()) (\<lambda>_.
         fetches (visualisation_item t) (\<lambda>catalogue_item.
         bindA (if vi_published catalogue_item
           then (case vi_enquiries_contact catalogue_item of None \<Rightarrow> raising ''AttributeError'' | Some contact \<Rightarrow>
             fetches (\<lambda>s. get_row (\<lambda>u. vu_id u = contact) (vs_users s)) (\<lambda>c.
             case sv_mail sv of Inl e \<Rightarrow> raising e
             | Inr _ \<Rightarrow> writes (\<lambda>s. s\<lparr>vs_mails := vs_mails s @ [(email_address, vi_name catalogue_item, vu_email c)]\<rparr>)))
           else give ()) (\<lambda>_.
         give (Redirect ''visualisations:users-give-access'')))))))))"

section \<open>Approvals\<close>

text \<open>What a form posts: every field comes from the browser, the hidden ones as well.\<close>

record approval_post =
  ap_approved :: bool
  ap_visualisation :: "nat option"
  ap_approver :: "nat option"
  ap_action :: "string option"

definition own_approval :: "vis_user \<Rightarrow> application_template \<Rightarrow> vis_state \<Rightarrow> approval option" where
  "own_approval user t s = find (\<lambda>a. va_approver a = vu_id user)
     (filter (\<lambda>a. va_visualisation a = at_id t \<and> va_approved a) (vs_approvals s))"

text \<open>The cleaned data of the form, or the fields with errors. \<open>clean\<close> runs after the fields have been cleaned.\<close>

definition choice :: "nat option \<Rightarrow> nat list \<Rightarrow> nat option" where
  "choice posted ids = (case posted of None \<Rightarrow> None | Some i \<Rightarrow> if i \<in> set ids then Some i else None)"

definition visualisation_approval_form ::
  "approval option \<Rightarrow> approval_post \<Rightarrow> vis_state \<Rightarrow> exc + (string list + bool \<times> nat \<times> nat)" where
  "visualisation_approval_form instance posted s =
     (let initial_approved = (case instance of None \<Rightarrow> False | Some a \<Rightarrow> va_approved a);
          visualisation = choice (ap_visualisation posted) (map at_id (vs_templates s));
          approver = choice (ap_approver posted) (map vu_id (vs_users s));
          errors = (if \<not> initial_approved \<and> \<not> ap_approved posted then [''approved''] else []) @
            (if visualisation = None then [''visualisation''] else []) @ (if approver = None then [''approver''] else [])
      in case ap_action posted of
        None \<Rightarrow> Inl ''MultiValueDictKeyError''
      | Some action \<Rightarrow> Inr (case (errors, visualisation, approver) of
            ([], Some v, Some u) \<Rightarrow> Inr (if action = ''unapprove'' then False else ap_approved posted, v, u)
          | _ \<Rightarrow> Inl errors))"

text \<open>
  \<open>VisualisationApproval.save\<close>: a new row has the default \<open>approved = True\<close> initially and no date of modification,
  an old one what it was loaded with.
\<close>

definition save_approval :: "approval option \<Rightarrow> bool \<times> nat \<times> nat \<Rightarrow> unit vis_action" where
  "save_approval instance cleaned = (case cleaned of (approved, v, u) \<Rightarrow>
     let initial_approved = (case instance of None \<Rightarrow> True | Some a \<Rightarrow> va_approved a)
     in if \<not> initial_approved \<and> approved then raising ''ValueError''
        else if initial_approved = approved \<and> instance \<noteq> None then raising ''ValueError''
        else reads vs_approvals (\<lambda>rows.
          let i = (case instance of None \<Rightarrow> next_id (map va_id rows) | Some a \<Rightarrow> va_id a);
              row = \<lparr>va_id = i, va_approved = approved, va_approver = u, va_visualisation = v\<rparr>
          in bindA (writes (\<lambda>s. s\<lparr>vs_approvals :=
                 if i \<in> set (map va_id rows) then map (\<lambda>a. if va_id a = i then row else a) rows else rows @ [row]\<rparr>)) (\<lambda>_.
             writes (\<lambda>s. s\<lparr>vs_approval_events := vs_approval_events s @
               [(u, if approved then ''Visualisation approved'' else ''Visualisation unapproved'', i)]\<rparr>))))"

text \<open>The part of the request after its own approval has been looked up.\<close>

definition respond_to_approval ::
  "vis_services \<Rightarrow> gitlab_project \<Rightarrow> approval option \<Rightarrow> approval_post \<Rightarrow> answer vis_action" where
  "respond_to_approval sv p instance posted = fetches (visualisation_approval_form instance posted) (\<lambda>form. case form of
       Inr cleaned \<Rightarrow> bindA (atomic (save_approval instance cleaned)) (\<lambda>_. give (Redirect ''request.path''))
     | Inl form_errors \<Rightarrow> listing_branches sv p (\<lambda>_.
         render_visualisation p ''visualisation_approvals.html'' form_errors (if form_errors \<noteq> [] then 400 else 200)))"

definition visualisation_approvals_html_POST ::
  "vis_services \<Rightarrow> vis_user \<Rightarrow> gitlab_project \<Rightarrow> approval_post \<Rightarrow> answer vis_action" where
  "visualisation_approvals_html_POST sv user p posted = bindA (application_template_of p) (\<lambda>t.
     reads (own_approval user t) (\<lambda>instance. respond_to_approval sv p instance posted))"

definition visualisation_approvals_html_GET ::
  "vis_services \<Rightarrow> vis_user \<Rightarrow> gitlab_project \<Rightarrow> (approval list \<times> bool \<times> answer) vis_action" where
  "visualisation_approvals_html_GET sv user p = bindA (application_template_of p) (\<lambda>t.
     reads (\<lambda>s. filter (\<lambda>a. va_visualisation a = at_id t \<and> va_approved a) (vs_approvals s)) (\<lambda>approvals.
     let already_approved = (case find (\<lambda>a. va_approver a = vu_id user) approvals of None \<Rightarrow> False | Some a \<Rightarrow> va_approved a)
     in listing_branches sv p (\<lambda>_. bindA (render_visualisation p ''visualisation_approvals.html'' [] 200) (\<lambda>a.
        give (approvals, already_approved, a)))))"

end
