(* ===== verification/VisualisationPublishing.thy ===== *)
theory VisualisationPublishing
  imports VisualisationPages
begin

text \<open>
  The catalogue item, the datasets and the publication of a visualisation, and the requests of all pages.
\<close>

section \<open>The catalogue item\<close>

record item_post =
  ip_short_description :: string
  ip_description :: string
  ip_enquiries_contact :: string
  ip_secondary_enquiries_contact :: string
  ip_information_asset_manager :: string
  ip_information_asset_owner :: string
  ip_licence :: string
  ip_retention_policy :: string
  ip_personal_data :: string
  ip_restrictions_on_usage :: string
  ip_user_access_type :: string
  ip_eligibility_criteria :: "string list"

text \<open>
  A text field: stripped, then the errors of a missing required value or of a value longer than the column. A field
  cleans to a value or to an error of that field.
\<close>

definition clean_text :: "bool \<Rightarrow> nat option \<Rightarrow> string \<Rightarrow> string option" where
  "clean_text required max_length value =
     (let v = strip value in
      if required \<and> v = [] then None
      else case max_length of None \<Rightarrow> Some v | Some n \<Rightarrow> if n < length v then None else Some v)"

definition email_model_choice ::
  "(string \<Rightarrow> bool) \<Rightarrow> vis_user list \<Rightarrow> string \<Rightarrow> exc + nat option option" where
  "email_model_choice valid users value =
     (if value = [] then Inr (Some None)
      else if \<not> valid (lower value) then Inr None
      else case get_row (\<lambda>u. vu_email u = lower value) users of
        Inr u \<Rightarrow> Inr (Some (Some (vu_id u)))
      | Inl e \<Rightarrow> if e = ''DoesNotExist'' then Inr None else Inl e)"

fun access_of_value :: "string \<Rightarrow> user_access_type option" where
  "access_of_value v = (if v = ''OPEN'' then Some OPEN
     else if v = ''REQUIRES_AUTHENTICATION'' then Some REQUIRES_AUTHENTICATION
     else if v = ''REQUIRES_AUTHORIZATION'' then Some REQUIRES_AUTHORIZATION else None)"

text \<open>
  \<open>DWSplitArrayField\<close>: blank entries are taken out and put at the end, and the trailing ones removed. Each
  of the five parts is stripped, and fits the column.
\<close>

definition pad_blanks :: "nat \<Rightarrow> string list \<Rightarrow> string list" where
  "pad_blanks n values = (let vs = filter (\<lambda>v. v \<noteq> []) values in vs @ replicate (n - length vs) [])"

definition split_array_clean :: "nat \<Rightarrow> string list \<Rightarrow> string list option" where
  "split_array_clean n values =
     (let cleaned = map strip (pad_blanks n values);
          vs = rev (dropWhile (\<lambda>v. v = []) (rev cleaned))
      in if list_all (\<lambda>v. length v \<le> 256) vs then Some vs else None)"

definition errors_of :: "(string \<times> bool) list \<Rightarrow> string list" where
  "errors_of fs = map fst (filter (\<lambda>(_, ok). \<not> ok) fs)"

definition visualisations_ui_catalogue_item_form ::
  "vis_services \<Rightarrow> vis_user list \<Rightarrow> vis_item \<Rightarrow> item_post \<Rightarrow> exc + (string list + vis_item)" where
  "visualisations_ui_catalogue_item_form sv users item posted =
     (let contact = email_model_choice (sv_email_address sv) users in
      case contact (ip_enquiries_contact posted) of Inl e \<Rightarrow> Inl e | Inr c1 \<Rightarrow>
      case contact (ip_secondary_enquiries_contact posted) of Inl e \<Rightarrow> Inl e | Inr c2 \<Rightarrow>
      case contact (ip_information_asset_manager posted) of Inl e \<Rightarrow> Inl e | Inr c3 \<Rightarrow>
      case contact (ip_information_asset_owner posted) of Inl e \<Rightarrow> Inl e | Inr c4 \<Rightarrow>
      let short_description = clean_text True (Some 255) (ip_short_description posted);
          licence = clean_text False (Some 256) (ip_licence posted);
          personal_data = clean_text False (Some 128) (ip_personal_data posted);
          access = access_of_value (ip_user_access_type posted);
          criteria = split_array_clean 5 (ip_eligibility_criteria posted);
          errors = errors_of [(''short_description'', short_description \<noteq> None), (''enquiries_contact'', c1 \<noteq> None),
            (''secondary_enquiries_contact'', c2 \<noteq> None), (''information_asset_manager'', c3 \<noteq> None),
            (''information_asset_owner'', c4 \<noteq> None), (''licence'', licence \<noteq> None),
            (''personal_data'', personal_data \<noteq> None), (''user_access_type'', access \<noteq> None),
            (''eligibility_criteria'', criteria \<noteq> None)]
      in Inr (case (short_description, c1, c2, c3, c4, licence, personal_data, access, criteria) of
        (Some sd, Some c1, Some c2, Some c3, Some c4, Some l, Some pd, Some a, Some cr) \<Rightarrow> Inr
          (item\<lparr>vi_short_description := sd, vi_description := strip (ip_description posted), vi_enquiries_contact := c1,
             vi_secondary_enquiries_contact := c2, vi_information_asset_manager := c3, vi_information_asset_owner := c4,
             vi_licence := l, vi_retention_policy := strip (ip_retention_policy posted), vi_personal_data := pd,
             vi_restrictions_on_usage := strip (ip_restrictions_on_usage posted), vi_access := a,
             vi_eligibility_criteria := cr\<rparr>)
      | _ \<Rightarrow> Inl errors))"

definition save_item :: "vis_item \<Rightarrow> unit vis_action" where
  "save_item i = writes (\<lambda>s. s\<lparr>vs_items := map (\<lambda>j. if vi_id j = vi_id i then i else j) (vs_items s)\<rparr>)"

definition access_value :: "user_access_type \<Rightarrow> string" where
  "access_value a = (case a of OPEN \<Rightarrow> ''OPEN'' | REQUIRES_AUTHENTICATION \<Rightarrow> ''REQUIRES_AUTHENTICATION''
     | REQUIRES_AUTHORIZATION \<Rightarrow> ''REQUIRES_AUTHORIZATION'')"

definition template_by_id :: "nat \<Rightarrow> vis_state \<Rightarrow> exc + application_template" where
  "template_by_id i s = get_row (\<lambda>t. at_id t = i) (vs_templates s)"

definition visualisation_catalogue_item_html_GET :: "vis_services \<Rightarrow> gitlab_project \<Rightarrow> answer vis_action" where
  "visualisation_catalogue_item_html_GET sv p =
     bindA (get_visualisation_catalogue_item_for_gitlab_project p) (\<lambda>i. the_item i (\<lambda>_.
       listing_branches sv p (\<lambda>_. render_visualisation p ''visualisation_catalogue_item.html'' [] 200)))"

definition visualisation_catalogue_item_html_POST ::
  "vis_services \<Rightarrow> vis_user \<Rightarrow> gitlab_project \<Rightarrow> item_post \<Rightarrow> answer vis_action" where
  "visualisation_catalogue_item_html_POST sv user p posted =
     bindA (get_visualisation_catalogue_item_for_gitlab_project p) (\<lambda>i. the_item i (\<lambda>item.
       fetches (\<lambda>s. visualisations_ui_catalogue_item_form sv (vs_users s) item posted) (\<lambda>form. case form of
         Inr catalogue_item \<Rightarrow>
           bindA (atomic (bindA (save_item catalogue_item) (\<lambda>_.
             if vi_access item \<noteq> vi_access catalogue_item
             then fetches (template_by_id (vi_template item)) (\<lambda>t.
               log_action (vu_id user) ''user'' (at_id t) (''Changed user_access_type on '' @ at_nice_name t @ '' to: '' @
                 access_value (vi_access catalogue_item)))
             else give ()))) (\<lambda>_. give (Redirect ''visualisations:catalogue-item''))
       | Inl form_errors \<Rightarrow> listing_branches sv p (\<lambda>_.
           render_visualisation p ''visualisation_catalogue_item.html'' form_errors
             (if form_errors \<noteq> [] then 400 else 200)))))"

section \<open>Datasets\<close>

text \<open>
  The tables and reference datasets of the catalogue, and the ids that \<open>MasterDataset.objects.get\<close> finds. Which
  visualisations may use a dataset is in \<open>vs_dataset_access\<close>.
\<close>

record dataset_sources =
  so_tables :: "source_table list"
  so_refs :: "reference_dataset list"
  so_masters :: "nat list"

definition tables_in :: "(nat \<times> nat) list \<Rightarrow> source_table list \<Rightarrow> source_table list" where
  "tables_in permitted tables = map (\<lambda>x. let d = st_dataset x in
     x\<lparr>st_dataset := d\<lparr>ds_template_permissions := map snd (filter (\<lambda>(i, _). i = ds_id d) permitted)\<rparr>\<rparr>) tables"

definition entry_dataset :: "table_entry \<Rightarrow> nat \<times> string \<times> user_access_type" where
  "entry_dataset e = snd (snd (snd e))"

definition entry_key :: "table_entry \<Rightarrow> nat \<times> string \<times> string" where
  "entry_key e = (fst (entry_dataset e), fst (snd e), fst (snd (snd e)))"

definition entry_id :: "table_entry \<Rightarrow> nat" where
  "entry_id e = fst (entry_dataset e)"

definition entry_access :: "table_entry \<Rightarrow> user_access_type" where
  "entry_access e = snd (snd (entry_dataset e))"

text \<open>\<open>_without_duplicates_preserve_order\<close> with its key.\<close>

fun without_duplicates_by :: "('x \<Rightarrow> 'k) \<Rightarrow> 'k set \<Rightarrow> 'x list \<Rightarrow> 'x list" where
  "without_duplicates_by key seen [] = []"
| "without_duplicates_by key seen (x # xs) =
     (if key x \<in> seen then without_duplicates_by key seen xs
      else x # without_duplicates_by key (insert (key x) seen) xs)"

record listed_dataset =
  ld_id :: nat
  ld_name :: string
  ld_access :: user_access_type
  ld_selectable :: bool
  ld_selected :: bool

definition selectable_ids :: "table_entry list \<Rightarrow> nat list" where
  "selectable_ids source_tables_user =
     map entry_id (filter (\<lambda>e. entry_access e \<in> {REQUIRES_AUTHORIZATION, OPEN}) source_tables_user)"

definition datasets_of :: "table_entry list \<Rightarrow> table_entry list \<Rightarrow> (listed_dataset \<times> table_entry list) list" where
  "datasets_of source_tables_user source_tables_app =
     (let selectable_dataset_ids = selectable_ids source_tables_user;
          selected_dataset_ids = map entry_id source_tables_app;
          source_tables = without_duplicates_by entry_key {} (source_tables_user @ source_tables_app);
          listed = (\<lambda>e. \<lparr>ld_id = entry_id e, ld_name = fst (snd (entry_dataset e)), ld_access = entry_access e,
            ld_selectable = entry_id e \<in> set selectable_dataset_ids,
            ld_selected = entry_id e \<in> set selected_dataset_ids\<rparr>);
          tables_sorted_by_dataset = sort_key (\<lambda>e. (fst (snd (entry_dataset e)), entry_key e)) source_tables
      in groupby listed tables_sorted_by_dataset)"

definition datasets_for ::
  "dataset_sources \<Rightarrow> data_user \<Rightarrow> application_template \<Rightarrow> vis_state \<Rightarrow> exc + (listed_dataset \<times> table_entry list) list" where
  "datasets_for so user t s =
     (let tables = tables_in (vs_dataset_access s) (so_tables so) in
      case source_tables_for_user tables (so_refs so) user of
        None \<Rightarrow> Inl ''IndexError''
      | Some source_tables_user \<Rightarrow> Inr (datasets_of source_tables_user (source_tables_for_app tables (so_refs so) t)))"

definition master_dataset :: "dataset_sources \<Rightarrow> nat \<Rightarrow> vis_state \<Rightarrow> exc + nat" where
  "master_dataset so i s = (if i \<in> set (so_masters so) then Inr i else Inl ''MasterDataset.DoesNotExist'')"

definition dataset_logs :: "data_user \<Rightarrow> application_template \<Rightarrow> nat \<Rightarrow> string \<Rightarrow> string \<Rightarrow> unit vis_action" where
  "dataset_logs user t i message1 message2 =
     bindA (log_action (du_id user) ''visualisationtemplate'' (at_id t) (message1 @ str_nat i @ '') using the visualisation UI''))
       (\<lambda>_. log_action (du_id user) ''masterdataset'' i
         (message2 @ at_nice_name t @ '' ('' @ str_nat (at_id t) @ '') using the visualisation UI''))"

definition give_dataset_access :: "dataset_sources \<Rightarrow> data_user \<Rightarrow> application_template \<Rightarrow> nat \<Rightarrow> unit vis_action" where
  "give_dataset_access so user t dataset_id = fetches (master_dataset so dataset_id) (\<lambda>i.
     rescuing (atomic (bindA (reads vs_dataset_access (\<lambda>rows.
           if (i, at_id t) \<in> set rows then raising ''IntegrityError''
           else writes (\<lambda>s. s\<lparr>vs_dataset_access := rows @ [(i, at_id t)]\<rparr>))) (\<lambda>_.
         dataset_logs user t i ''Gave access to dataset ('' ''Gave access from ''))) (\<lambda>e. e = ''IntegrityError'') (\<lambda>_. give ()))"

definition remove_dataset_access :: "dataset_sources \<Rightarrow> data_user \<Rightarrow> application_template \<Rightarrow> nat \<Rightarrow> unit vis_action" where
  "remove_dataset_access so user t dataset_id = fetches (master_dataset so dataset_id) (\<lambda>i.
     rescuing (atomic (bindA (reads vs_dataset_access (\<lambda>rows.
           if (i, at_id t) \<notin> set rows then raising ''DoesNotExist''
           else writes (\<lambda>s. s\<lparr>vs_dataset_access := removeAll (i, at_id t) rows\<rparr>))) (\<lambda>_.
         dataset_logs user t i ''Removed access to the dataset ('' ''Removed access from ''))) (\<lambda>e. e = ''DoesNotExist'') (\<lambda>_. give ()))"

definition dataset_changes :: "listed_dataset list \<Rightarrow> nat list \<Rightarrow> nat list \<times> nat list" where
  "dataset_changes datasets selected_dataset_ids =
     (let previously_selected = map ld_id (filter ld_selected datasets);
          selectable = map ld_id (filter ld_selectable datasets)
      in (filter (\<lambda>i. i \<in> set selectable \<and> i \<notin> set previously_selected) selected_dataset_ids,
          filter (\<lambda>i. i \<in> set selectable \<and> i \<notin> set selected_dataset_ids) previously_selected))"

definition visualisation_datasets_html_GET ::
  "vis_services \<Rightarrow> dataset_sources \<Rightarrow> data_user \<Rightarrow> gitlab_project \<Rightarrow> ((listed_dataset \<times> table_entry list) list \<times> answer) vis_action" where
  "visualisation_datasets_html_GET sv so user p = bindA (application_template_of p) (\<lambda>t.
     fetches (datasets_for so user t) (\<lambda>datasets. listing_branches sv p (\<lambda>_.
       bindA (render_visualisation p ''visualisation_datasets.html'' [] 200) (\<lambda>a. give (datasets, a)))))"

definition visualisation_datasets_html_POST ::
  "dataset_sources \<Rightarrow> data_user \<Rightarrow> gitlab_project \<Rightarrow> nat list \<Rightarrow> answer vis_action" where
  "visualisation_datasets_html_POST so user p selected_dataset_ids = bindA (application_template_of p) (\<lambda>t.
     fetches (datasets_for so user t) (\<lambda>datasets.
       let (to_give, to_remove) = dataset_changes (map fst datasets) selected_dataset_ids in
       bindA (each (give_dataset_access so user t) to_give) (\<lambda>_.
       bindA (each (remove_dataset_access so user t) to_remove) (\<lambda>_.
       give (Redirect ''visualisations:datasets'')))))"

section \<open>Publication\<close>

definition approvals_of :: "nat \<Rightarrow> vis_state \<Rightarrow> approval list" where
  "approvals_of template_id s = filter (\<lambda>a. va_visualisation a = template_id \<and> va_approved a) (vs_approvals s)"

definition visualisation_is_approved :: "nat \<Rightarrow> vis_state \<Rightarrow> bool" where
  "visualisation_is_approved template_id s \<longleftrightarrow> length (approvals_of template_id s) \<ge> 2"

definition visualisation_catalogue_item_is_complete :: "vis_item \<Rightarrow> bool" where
  "visualisation_catalogue_item_is_complete i \<longleftrightarrow>
     vi_name i \<noteq> [] \<and> vi_slug i \<noteq> [] \<and> vi_short_description i \<noteq> [] \<and> vi_description i \<noteq> [] \<and>
     vi_enquiries_contact i \<noteq> None \<and> vi_secondary_enquiries_contact i \<noteq> None \<and>
     vi_information_asset_owner i \<noteq> None \<and> vi_information_asset_manager i \<noteq> None \<and> vi_licence i \<noteq> [] \<and>
     vi_retention_policy i \<noteq> [] \<and> vi_restrictions_on_usage i \<noteq> [] \<and> vi_personal_data i \<noteq> []"

definition render_visualisation_publish_html :: "vis_services \<Rightarrow> gitlab_project \<Rightarrow> string list \<Rightarrow> answer vis_action" where
  "render_visualisation_publish_html sv p errors =
     listing_branches sv p (\<lambda>_. render_visualisation p ''visualisation_publish.html'' errors 200)"

definition not_approved_error :: string where
  "not_approved_error = ''The visualisation must be approved by two developers before it can be published.''"

definition set_published_on_catalogue_item ::
  "vis_services \<Rightarrow> vis_user \<Rightarrow> gitlab_project \<Rightarrow> vis_item \<Rightarrow> bool \<Rightarrow> answer vis_action" where
  "set_published_on_catalogue_item sv user p catalogue_item publish =
     atomic (fetches (template_by_id (vi_template catalogue_item)) (\<lambda>t.
       reads (visualisation_is_approved (at_id t)) (\<lambda>visualisation_approved.
       let visualisation_published = at_visible t;
           catalogue_item_complete = visualisation_catalogue_item_is_complete catalogue_item;
           error = (\<lambda>e. render_visualisation_publish_html sv p [e])
       in if \<not> publish \<or> (visualisation_approved \<and> visualisation_published \<and> catalogue_item_complete)
          then bindA (save_item (catalogue_item\<lparr>vi_published := publish\<rparr>)) (\<lambda>_.
               bindA (log_action (vu_id user) ''user'' (vi_id catalogue_item)
                 ((if publish then ''Published '' else ''Unpublished '') @ vi_name catalogue_item)) (\<lambda>_.
               give (Redirect ''request.path'')))
          else if \<not> visualisation_approved then error not_approved_error
          else if \<not> visualisation_published
          then error ''The visualisation must be published before you can add it to the catalogue.''
          else if \<not> catalogue_item_complete
          then error ''You must complete all fields of the catalogue item before it can be published.''
          else raising ''Exception'')))"

definition save_template :: "application_template \<Rightarrow> unit vis_action" where
  "save_template t = writes (\<lambda>s. s\<lparr>vs_templates := map (\<lambda>u. if at_id u = at_id t then t else u) (vs_templates s)\<rparr>)"

definition set_published_on_visualisation ::
  "vis_services \<Rightarrow> vis_user \<Rightarrow> gitlab_project \<Rightarrow> application_template \<Rightarrow> bool \<Rightarrow> answer vis_action" where
  "set_published_on_visualisation sv user p t publish =
     atomic (reads (visualisation_is_approved (at_id t)) (\<lambda>visualisation_approved.
       if \<not> publish \<or> visualisation_approved
       then bindA (save_template (t\<lparr>at_visible := publish\<rparr>)) (\<lambda>_.
            bindA (log_action (vu_id user) ''user'' (at_id t)
              ((if publish then ''Published '' else ''Unpublished '') @ at_nice_name t)) (\<lambda>_.
            give (Redirect ''request.path'')))
       else if \<not> visualisation_approved then render_visualisation_publish_html sv p [not_approved_error]
       else raising ''Exception''))"

definition visualisation_publish_html_GET :: "vis_services \<Rightarrow> gitlab_project \<Rightarrow> answer vis_action" where
  "visualisation_publish_html_GET sv p =
     bindA (get_visualisation_catalogue_item_for_gitlab_project p) (\<lambda>i. the_item i (\<lambda>_.
       render_visualisation_publish_html sv p []))"

definition visualisation_publish_html_POST :: "vis_services \<Rightarrow> vis_user \<Rightarrow> gitlab_project \<Rightarrow> string \<Rightarrow> answer vis_action" where
  "visualisation_publish_html_POST sv user p posted_action = bindA (application_template_of p) (\<lambda>t.
     let action = lower posted_action in
     bindA (get_visualisation_catalogue_item_for_gitlab_project p) (\<lambda>i.
       if action = ''publish-catalogue'' then the_item i (\<lambda>i. set_published_on_catalogue_item sv user p i True)
       else if action = ''unpublish-catalogue'' then the_item i (\<lambda>i. set_published_on_catalogue_item sv user p i False)
       else if action = ''publish-visualisation'' then set_published_on_visualisation sv user p t True
       else if action = ''unpublish-visualisation'' then set_published_on_visualisation sv user p t False
       else give (Refused 400)))"

section \<open>Requests\<close>

datatype vis_request =
    SeeBranch string
  | Release "string option"
  | SeeUsers
  | RemoveUser "nat option"
  | GiveAccess "(string \<times> string) option" "string option"
  | SeeItem
  | ChangeItem item_post
  | SeeApprovals
  | Approve approval_post
  | SeeDatasets data_user
  | ChangeDatasets data_user "nat list"
  | SeePublication
  | Publish string

text \<open>The handler that a view reaches through its gate.\<close>

fun handler :: "vis_services \<Rightarrow> dataset_sources \<Rightarrow> vis_user \<Rightarrow> gitlab_project \<Rightarrow> vis_request \<Rightarrow> answer vis_action" where
  "handler sv so user p (SeeBranch b) = bindA (visualisation_branch_html_GET sv p b) (\<lambda>(_, a). give a)"
| "handler sv so user p (Release c) = visualisation_branch_html_POST sv p c"
| "handler sv so user p SeeUsers = bindA (visualisation_users_with_access_html_GET sv p) (\<lambda>(_, a). give a)"
| "handler sv so user p (RemoveUser u) = visualisation_users_with_access_html_POST user p u"
| "handler sv so user p (GiveAccess token e) = visualisation_users_give_access_html_POST sv user p token e"
| "handler sv so user p SeeItem = visualisation_catalogue_item_html_GET sv p"
| "handler sv so user p (ChangeItem x) = visualisation_catalogue_item_html_POST sv user p x"
| "handler sv so user p SeeApprovals = bindA (visualisation_approvals_html_GET sv user p) (\<lambda>(_, _, a). give a)"
| "handler sv so user p (Approve x) = visualisation_approvals_html_POST sv user p x"
| "handler sv so user p (SeeDatasets u) = bindA (visualisation_datasets_html_GET sv so u p) (\<lambda>(_, a). give a)"
| "handler sv so user p (ChangeDatasets u ids) = visualisation_datasets_html_POST so u p ids"
| "handler sv so user p SeePublication = visualisation_publish_html_GET sv p"
| "handler sv so user p (Publish a) = visualisation_publish_html_POST sv user p a"

end
