(* ===== verification/VisualisationFacts.thy ===== *)
theory VisualisationFacts
  imports VisualisationPublishing
begin

text \<open>
  What the requests of the developers' pages leave alone, and what they bring about: nothing becomes visible or
  published but by the two actions that say so, approvals change only by the form of approvals, and access to
  datasets changes as posted.
\<close>

section \<open>Looking up a project\<close>

text \<open>At most, a template that is not visible and an item that is not published are added.\<close>

definition extends :: "vis_state \<Rightarrow> vis_state \<Rightarrow> bool" where
  "extends s s' \<longleftrightarrow> (\<exists>ts xs. list_all (\<lambda>t. \<not> at_visible t) ts \<and> list_all (\<lambda>i. \<not> vi_published i) xs \<and>
     s' = s\<lparr>vs_templates := vs_templates s @ ts, vs_items := vs_items s @ xs\<rparr>)"

lemma extends_refl: "extends s s"
  unfolding extends_def by (rule exI [of _ "[]"], rule exI [of _ "[]"]) simp

lemma extends_trans: "extends s t \<Longrightarrow> extends t u \<Longrightarrow> extends s u"
proof -
  assume "extends s t" "extends t u"
  then obtain ts xs ts' xs' where
      "list_all (\<lambda>t. \<not> at_visible t) (ts @ ts')" "list_all (\<lambda>i. \<not> vi_published i) (xs @ xs')"
      "u = s\<lparr>vs_templates := vs_templates s @ ts @ ts', vs_items := vs_items s @ xs @ xs'\<rparr>"
    by (fastforce simp: extends_def)
  then show ?thesis unfolding extends_def by blast
qed

lemma preorder_extends [simp]: "preorder extends"
  unfolding preorder_def using extends_refl extends_trans by blast

lemma create_template_extends: "relates extends (create_template p name)"
proof (rule relates_wp)
  fix s
  have "extends s (s\<lparr>vs_templates := vs_templates s @ [t]\<rparr>)" if "\<not> at_visible t" for t
    unfolding extends_def using that by (intro exI [of _ "[t]"] exI [of _ "[]"]) simp
  then show "wp (create_template p name) (\<lambda>r s'. extends s s') s"
    by (simp add: create_template_def Let_def extends_refl new_template_def)
qed

lemma create_item_extends: "relates extends (create_item p name t)"
proof (rule relates_wp)
  fix s
  have "extends s (s\<lparr>vs_items := vs_items s @ [i]\<rparr>)" if "\<not> vi_published i" for i
    unfolding extends_def using that by (intro exI [of _ "[]"] exI [of _ "[i]"]) simp
  then show "wp (create_item p name t) (\<lambda>r s'. extends s s') s"
    by (simp add: create_item_def Let_def extends_refl new_item_def split: option.split)
qed

lemma try_names_extends: "relates extends (try_names p names)"
  by (induction p names rule: try_names.induct)
    (auto simp: create_with_name_def intro!: relates create_template_extends create_item_extends)

lemma application_template_of_extends: "relates extends (application_template_of p)"
  by (auto simp: application_template_of_def intro!: relates try_names_extends)

lemma get_item_extends: "relates extends (get_visualisation_catalogue_item_for_gitlab_project p)"
  by (auto simp: get_visualisation_catalogue_item_for_gitlab_project_def intro!: relates application_template_of_extends)

lemma render_extends: "relates extends (render_visualisation p h es n)"
  by (auto simp: render_visualisation_def the_item_def intro!: relates get_item_extends)

lemma relates_the_item [relates]: "preorder R \<Longrightarrow> (\<And>x. relates R (k x)) \<Longrightarrow> relates R (the_item i k)"
  by (auto simp: the_item_def intro!: relates)

lemma relates_listing_branches [relates]: "preorder R \<Longrightarrow> (\<And>x. relates R (k x)) \<Longrightarrow> relates R (listing_branches sv p k)"
  by (auto simp: listing_branches_def intro!: relates)

lemma publish_page_extends: "relates extends (render_visualisation_publish_html sv p es)"
  by (auto simp: render_visualisation_publish_html_def intro!: relates render_extends)

lemma relates_mono: "relates R m \<Longrightarrow> (\<And>s s'. R s s' \<Longrightarrow> R' s s') \<Longrightarrow> relates R' m"
  by (auto simp: relates_def)

lemmas extending = application_template_of_extends get_item_extends render_extends publish_page_extends

section \<open>What is visible and published\<close>

definition shown :: "vis_state \<Rightarrow> (nat + nat) set" where
  "shown s = Inl ` at_id ` {t \<in> set (vs_templates s). at_visible t} \<union>
     Inr ` vi_id ` {i \<in> set (vs_items s). vi_published i}"

definition shows_no_more :: "vis_state \<Rightarrow> vis_state \<Rightarrow> bool" where
  "shows_no_more s s' \<longleftrightarrow> shown s' \<subseteq> shown s"

definition approvals_kept :: "vis_state \<Rightarrow> vis_state \<Rightarrow> bool" where
  "approvals_kept s s' \<longleftrightarrow> vs_approvals s' = vs_approvals s"

lemma preorders [simp]: "preorder shows_no_more" "preorder approvals_kept"
  by (auto simp: preorder_def shows_no_more_def approvals_kept_def)

lemma extends_shows_no_more: "extends s s' \<Longrightarrow> shows_no_more s s'"
  by (auto simp: extends_def shows_no_more_def shown_def list_all_iff)

lemma extends_approvals_kept: "extends s s' \<Longrightarrow> approvals_kept s s'"
  by (auto simp: extends_def approvals_kept_def)

lemma extends_implies: "relates extends m \<Longrightarrow> relates shows_no_more m" "relates extends m \<Longrightarrow> relates approvals_kept m"
  using extends_shows_no_more extends_approvals_kept by (auto simp: relates_def)

lemmas shows_no_more_extending = extending [THEN extends_implies(1)]
lemmas approvals_kept_extending = extending [THEN extends_implies(2)]

lemma writes_shows_no_more:
  "(\<And>s. vs_templates (f s) = vs_templates s) \<Longrightarrow> (\<And>s. vs_items (f s) = vs_items s) \<Longrightarrow> relates shows_no_more (writes f)"
  by (rule relates_writes) (simp add: shows_no_more_def shown_def)

lemma writes_approvals_kept: "(\<And>s. vs_approvals (f s) = vs_approvals s) \<Longrightarrow> relates approvals_kept (writes f)"
  by (rule relates_writes) (simp add: approvals_kept_def)

lemma log_keeps [relates]: "relates shows_no_more (log_action u k i m)" "relates approvals_kept (log_action u k i m)"
  unfolding log_action_def by (rule writes_shows_no_more writes_approvals_kept; simp)+

lemmas page_defs = visualisation_branch_html_GET_def visualisation_branch_html_POST_def
  visualisation_users_with_access_html_GET_def visualisation_users_with_access_html_POST_def
  visualisation_users_give_access_html_POST_def visualisation_catalogue_item_html_GET_def
  visualisation_approvals_html_GET_def visualisation_datasets_html_GET_def visualisation_datasets_html_POST_def
  visualisation_publish_html_GET_def stop_spawner_and_application_row_def create_user_permission_def
  delete_user_permission_def give_dataset_access_def remove_dataset_access_def dataset_logs_def

lemma relates_list [relates]:
  "relates R m \<Longrightarrow> (\<And>x xs. relates R (f x xs)) \<Longrightarrow> relates R (case y of [] \<Rightarrow> m | x # xs \<Rightarrow> f x xs)"
  by (cases y) auto

text \<open>Requests that neither approve nor publish nor change the item.\<close>

definition ordinary :: "vis_request \<Rightarrow> bool" where
  "ordinary r \<longleftrightarrow> (case r of ChangeItem _ \<Rightarrow> False | Approve _ \<Rightarrow> False | Publish _ \<Rightarrow> False | _ \<Rightarrow> True)"

lemma ordinary_shows_no_more: "ordinary r \<Longrightarrow> relates shows_no_more (handler sv so user p r)"
  by (cases r) (auto simp: ordinary_def page_defs Let_def intro!: relates shows_no_more_extending writes_shows_no_more)

lemma ordinary_approvals_kept: "ordinary r \<Longrightarrow> relates approvals_kept (handler sv so user p r)"
  by (cases r) (auto simp: ordinary_def page_defs Let_def intro!: relates approvals_kept_extending writes_approvals_kept)

section \<open>Publication\<close>

lemma find_template: "get_row c ts = Inr t \<Longrightarrow> t \<in> set ts"
  by (simp add: get_row_Some)

text \<open>The item that a page works on is the one in the database.\<close>

lemma wp_get_item: "wp (get_visualisation_catalogue_item_for_gitlab_project p)
    (\<lambda>r s'. extends s s' \<and> (\<forall>i. r = Inr (Some i) \<longrightarrow> i \<in> set (vs_items s'))) s"
proof (rule wp_conj [OF wp_relates [OF get_item_extends]])
  show "wp (get_visualisation_catalogue_item_for_gitlab_project p) (\<lambda>r s'. \<forall>i. r = Inr (Some i) \<longrightarrow> i \<in> set (vs_items s')) s"
    unfolding get_visualisation_catalogue_item_for_gitlab_project_def wp_bindA
    by (rule wp_conseq [OF wp_relates [OF application_template_of_extends]])
      (auto dest: get_row_Some split: sum.split)
qed

lemma wp_template: "wp (application_template_of p) (\<lambda>r s'. extends s s') s"
  by (rule wp_relates [OF application_template_of_extends])

lemma shown_save_item:
  "shown (s\<lparr>vs_items := map (\<lambda>j. if vi_id j = vi_id i then i else j) (vs_items s)\<rparr>) \<subseteq>
     (if vi_published i then insert (Inr (vi_id i)) (shown s) else shown s)"
  by (auto simp: shown_def)

lemma shown_save_template:
  "shown (s\<lparr>vs_templates := map (\<lambda>u. if at_id u = at_id t then t else u) (vs_templates s)\<rparr>) \<subseteq>
     (if at_visible t then insert (Inl (at_id t)) (shown s) else shown s)"
  by (auto simp: shown_def)

lemma form_keeps: "visualisations_ui_catalogue_item_form sv us i x = Inr (Inr j) \<Longrightarrow>
    vi_id j = vi_id i \<and> vi_template j = vi_template i \<and> vi_published j = vi_published i"
  by (auto simp: visualisations_ui_catalogue_item_form_def Let_def split: sum.splits option.splits)

lemma change_item_shows_no_more: "relates shows_no_more (visualisation_catalogue_item_html_POST sv user p x)"
proof (rule relates_wp)
  fix s
  show "wp (visualisation_catalogue_item_html_POST sv user p x) (\<lambda>r. shows_no_more s) s"
    unfolding visualisation_catalogue_item_html_POST_def
  proof (rule wp_bind [OF wp_get_item], goal_cases)
    case (1 e s1)
    then show ?case by (simp add: extends_shows_no_more)
  next
    case (2 found s1)
    then have t: "shows_no_more s s2" if "shows_no_more s1 s2" for s2
      using that extends_shows_no_more by (fastforce simp: shows_no_more_def)
    have f: "wp (listing_branches sv p (\<lambda>_. render_visualisation p h es n)) (\<lambda>r. shows_no_more s) s1" for h es n
      by (rule wp_conseq [OF wp_relates t]) (auto intro!: relates shows_no_more_extending)
    have w: "shows_no_more s1 (s1\<lparr>vs_items := map (\<lambda>k. if vi_id k = vi_id j then j else k) (vs_items s1), vs_log := l\<rparr>)"
      if "i \<in> set (vs_items s1)" "visualisations_ui_catalogue_item_form sv (vs_users s1) i x = Inr (Inr j)" for i j l
      using form_keeps [OF that(2)] that(1) by (auto simp: shows_no_more_def shown_def split: if_splits)
    have w': "shows_no_more s1 (s1\<lparr>vs_items := map (\<lambda>k. if vi_id k = vi_id j then j else k) (vs_items s1)\<rparr>)"
      if "i \<in> set (vs_items s1)" "visualisations_ui_catalogue_item_form sv (vs_users s1) i x = Inr (Inr j)" for i j
      using w [OF that, of "vs_log s1"] by simp
    from 2 t [of s1] show ?case
      by (auto simp: the_item_def save_item_def log_action_def shows_no_more_def [of s1 s1] split: sum.split option.split
          intro!: t [OF w] t [OF w'] f)
  qed
qed

text \<open>Only the two actions that publish show more, and only what is approved.\<close>

definition publishes :: "gitlab_project \<Rightarrow> vis_request \<Rightarrow> bool" where
  "publishes p r \<longleftrightarrow> (case r of Publish a \<Rightarrow> lower a \<in> {''publish-catalogue'', ''publish-visualisation''} | _ \<Rightarrow> False)"

definition shows_approved :: "vis_state \<Rightarrow> vis_state \<Rightarrow> bool" where
  "shows_approved s s' \<longleftrightarrow>
     (\<forall>t. Inl t \<in> shown s' \<longrightarrow> Inl t \<in> shown s \<or> visualisation_is_approved t s) \<and>
     (\<forall>i. Inr i \<in> shown s' \<longrightarrow> Inr i \<in> shown s \<or> (\<exists>item \<in> set (vs_items s'). vi_id item = i \<and>
       visualisation_is_approved (vi_template item) s \<and> Inl (vi_template item) \<in> shown s \<and>
       visualisation_catalogue_item_is_complete item))"

lemma shows_no_more_approved: "shows_no_more s s' \<Longrightarrow> shows_approved s s'"
  by (auto simp: shows_no_more_def shows_approved_def)

lemma approved_cong: "vs_approvals s = vs_approvals s' \<Longrightarrow> visualisation_is_approved t s = visualisation_is_approved t s'"
  by (simp add: visualisation_is_approved_def approvals_of_def)

lemma shows_approved_after: "extends s s1 \<Longrightarrow> shows_approved s1 s2 \<Longrightarrow> shows_approved s s2"
proof -
  assume e: "extends s s1" and a: "shows_approved s1 s2"
  have k: "visualisation_is_approved t s1 = visualisation_is_approved t s" for t
    using e by (intro approved_cong) (auto simp: extends_def)
  have "shown s \<subseteq> shown s1" using e by (auto simp: extends_def shown_def)
  then have "shown s1 = shown s" using extends_shows_no_more [OF e] by (simp add: shows_no_more_def)
  then show ?thesis using a by (simp add: shows_approved_def k)
qed

lemma set_visualisation_shows_approved: "relates shows_approved (set_published_on_visualisation sv user p t b)"
proof (rule relates_wp)
  fix s
  have "shows_approved s s" by (simp add: shows_approved_def)
  moreover have "shows_approved s (s\<lparr>vs_templates := map (\<lambda>u. if at_id u = at_id t then t\<lparr>at_visible := b\<rparr> else u) (vs_templates s),
      vs_log := l\<rparr>)" if "b \<longrightarrow> visualisation_is_approved (at_id t) s" for l
    using that by (auto simp: shows_approved_def shown_def)
  moreover have "wp (render_visualisation_publish_html sv p es) Q s" if "\<And>r s'. shows_approved s s' \<Longrightarrow> Q r s'" for es Q
    by (rule wp_conseq [OF wp_relates [OF shows_no_more_extending(4)] that]) (rule shows_no_more_approved)
  ultimately show "wp (set_published_on_visualisation sv user p t b) (\<lambda>r. shows_approved s) s"
    by (auto simp: set_published_on_visualisation_def save_template_def log_action_def split: sum.split)
qed

lemma set_item_shows_approved:
  assumes "i \<in> set (vs_items s)"
  shows "wp (set_published_on_catalogue_item sv user p i b) (\<lambda>r. shows_approved s) s"
proof -
  have "shows_approved s s" by (simp add: shows_approved_def)
  moreover have "shows_approved s (s\<lparr>vs_items := map (\<lambda>j. if vi_id j = vi_id i then i\<lparr>vi_published := c\<rparr> else j) (vs_items s),
      vs_log := l\<rparr>)"
    if "c \<longrightarrow> visualisation_is_approved (at_id t) s \<and> at_visible t \<and> visualisation_catalogue_item_is_complete i"
      "template_by_id (vi_template i) s = Inr t" for l t c
  proof -
    have t: "t \<in> set (vs_templates s)" "at_id t = vi_template i"
      using get_row_Some [OF that(2) [unfolded template_by_id_def]] by simp_all
    let ?i = "i\<lparr>vi_published := c\<rparr>" and ?s' = "s\<lparr>vs_items := map (\<lambda>j. if vi_id j = vi_id i then i\<lparr>vi_published := c\<rparr> else j) (vs_items s),
      vs_log := l\<rparr>"
    have "shown ?s' \<subseteq> (if c then insert (Inr (vi_id i)) (shown s) else shown s)"
      by (auto simp: shown_def)
    moreover have "?i \<in> set (vs_items ?s')" using assms by (auto simp: image_iff intro!: bexI [of _ i])
    moreover have "c \<Longrightarrow> visualisation_is_approved (vi_template ?i) s \<and> Inl (vi_template ?i) \<in> shown s \<and>
        visualisation_catalogue_item_is_complete ?i \<and> vi_id ?i = vi_id i"
      using that(1) t by (auto simp: shown_def visualisation_catalogue_item_is_complete_def image_iff)
    ultimately show ?thesis unfolding shows_approved_def by (cases c; fastforce)
  qed
  moreover have "wp (render_visualisation_publish_html sv p es) Q s" if "\<And>r s'. shows_approved s s' \<Longrightarrow> Q r s'" for es Q
    by (rule wp_conseq [OF wp_relates [OF shows_no_more_extending(4)] that]) (rule shows_no_more_approved)
  ultimately show ?thesis
    by (cases b) (auto simp: set_published_on_catalogue_item_def save_item_def log_action_def Let_def split: sum.split)
qed

lemma publish_shows_approved: "relates shows_approved (visualisation_publish_html_POST sv user p a)"
proof (rule relates_wp)
  fix s
  have n: "shows_approved s s'" if "extends s s'" for s'
    using that by (intro shows_no_more_approved extends_shows_no_more)
  show "wp (visualisation_publish_html_POST sv user p a) (\<lambda>r. shows_approved s) s"
    unfolding visualisation_publish_html_POST_def Let_def
  proof (rule wp_bind [OF wp_template], goal_cases)
    case (2 t s1)
    show ?case
    proof (rule wp_bind [OF wp_get_item], goal_cases)
      case (1 e s2)
      with 2 n show ?case by (blast intro: extends_trans)
    next
      case (2 i s2)
      then have e: "extends s s2" using \<open>extends s s1\<close> by (blast intro: extends_trans)
      then have n2: "shows_approved s s2" by (rule n)
      have it: "wp (the_item i (\<lambda>i. set_published_on_catalogue_item sv user p i b)) (\<lambda>r. shows_approved s) s2" for b
        using 2 n2 by (auto simp: the_item_def split: option.split
            intro!: wp_conseq [OF set_item_shows_approved shows_approved_after [OF e]])
      have ip: "wp (set_published_on_visualisation sv user p t b) (\<lambda>r. shows_approved s) s2" for b
        by (rule wp_conseq [OF wp_relates [OF set_visualisation_shows_approved] shows_approved_after [OF e]])
      show ?case using it ip n2 by simp
    qed
  qed (auto intro: n)
qed

lemma requests_show_approved: "relates shows_approved (handler sv so user p r)"
proof (cases "ordinary r")
  case True
  then show ?thesis using ordinary_shows_no_more relates_mono shows_no_more_approved by metis
next
  case False
  have a: "relates shows_no_more (visualisation_approvals_html_POST sv user p x)" for x
    by (auto simp: visualisation_approvals_html_POST_def respond_to_approval_def save_approval_def Let_def
        intro!: relates shows_no_more_extending writes_shows_no_more)
  with False show ?thesis
    by (cases r) (auto simp: ordinary_def intro!: publish_shows_approved
        intro: relates_mono [OF change_item_shows_no_more shows_no_more_approved] relates_mono [OF a shows_no_more_approved])
qed

end
