(* ===== verification/VisualisationRuns.thy ===== *)
theory VisualisationRuns
  imports VisualisationFacts
begin

text \<open>
  Sequences of requests of the developers' pages: who has approved what, what has been published since, and which
  datasets a visualisation may use.
\<close>

section \<open>Approvals\<close>

definition approvers :: "nat \<Rightarrow> vis_state \<Rightarrow> nat list" where
  "approvers t s = map va_approver (approvals_of t s)"

text \<open>Nobody approves a visualisation twice.\<close>

definition distinct_approvers :: "vis_state \<Rightarrow> bool" where
  "distinct_approvers s \<longleftrightarrow> distinct (map (\<lambda>a. (va_approver a, va_visualisation a)) (filter va_approved (vs_approvals s)))"

lemma distinct_approvers_of: "distinct_approvers s \<Longrightarrow> distinct (approvers t s)"
proof -
  assume d: "distinct_approvers s"
  have "approvals_of t s = filter (\<lambda>a. va_visualisation a = t) (filter va_approved (vs_approvals s))"
    by (simp add: approvals_of_def conj_commute)
  moreover have "distinct (filter va_approved (vs_approvals s))"
    and i: "inj_on (\<lambda>a. (va_approver a, va_visualisation a)) (set (filter va_approved (vs_approvals s)))"
    using d by (simp_all add: distinct_approvers_def distinct_map)
  ultimately have "distinct (approvals_of t s)" by (metis distinct_filter)
  with i show ?thesis
    by (auto simp: approvers_def approvals_of_def distinct_map intro!: inj_onI dest: inj_onD)
qed

lemma distinct_withdrawn: "distinct (map f (filter P rows)) \<Longrightarrow> \<not> P row \<Longrightarrow>
    distinct (map f (filter P (map (\<lambda>a. if g a = i then row else a) rows)))"
proof (induction rows)
  case (Cons a rows)
  have "set (filter P (map (\<lambda>a. if g a = i then row else a) rows)) \<subseteq> set (filter P rows)"
    using Cons.prems(2) by auto
  moreover have "distinct (map f (filter P rows))" using Cons.prems(1) by (cases "P a") auto
  ultimately show ?case using Cons by (auto simp del: set_filter)
qed simp

text \<open>
  A form of approvals that is posted as it was rendered: in the name of the user, for the visualisation of the page.
\<close>

definition as_rendered :: "vis_user \<Rightarrow> gitlab_project \<Rightarrow> vis_request \<Rightarrow> vis_state \<Rightarrow> bool" where
  "as_rendered user p r s = (case r of
     Approve x \<Rightarrow> ap_approver x = Some (vu_id user) \<and>
       (case application_template_of p s of (Inr t, _) \<Rightarrow> ap_visualisation x = Some (at_id t) | _ \<Rightarrow> True)
   | _ \<Rightarrow> True)"

lemma own_approval_None:
  assumes "own_approval user t s = None" "a \<in> set (vs_approvals s)" "va_approved a" "va_approver a = vu_id user"
  shows "va_visualisation a \<noteq> at_id t"
  using assms by (auto simp: own_approval_def find_None_iff)

lemma own_approval_Some: "own_approval user t s = Some a \<Longrightarrow>
    a \<in> set (vs_approvals s) \<and> va_approved a \<and> va_approver a = vu_id user \<and> va_visualisation a = at_id t"
  unfolding own_approval_def find_Some_iff by (metis (mono_tags, lifting) mem_Collect_eq nth_mem set_filter)

lemma save_approval_distinct:
  assumes "distinct_approvers s" "instance = own_approval user t s"
    "visualisation_approval_form instance x s = Inr (Inr cleaned)"
    "ap_approver x = Some (vu_id user)" "ap_visualisation x = Some (at_id t)"
  shows "wp (save_approval instance cleaned) (\<lambda>r s'. distinct_approvers s') s"
proof (cases "instance")
  case None
  obtain b where c: "cleaned = (b, at_id t, vu_id user)"
    using assms(3-5) by (auto simp: visualisation_approval_form_def choice_def Let_def split: option.splits if_splits list.splits)
  have "next_id (map va_id (vs_approvals s)) \<notin> va_id ` set (vs_approvals s)"
    using next_id_new [of _ "map va_id (vs_approvals s)"] by fastforce
  moreover have "(vu_id user, at_id t) \<notin> (\<lambda>a. (va_approver a, va_visualisation a)) ` {a \<in> set (vs_approvals s). va_approved a}"
    using own_approval_None [of user t s] None assms(2) by (metis (mono_tags, lifting) Pair_inject imageE mem_Collect_eq)
  ultimately show ?thesis using None c assms(1)
    by (cases b) (auto simp: save_approval_def Let_def distinct_approvers_def)
next
  case (Some a)
  then have "va_approved a" using own_approval_Some assms(2) by metis
  with Some assms(1) show ?thesis
    by (auto simp: save_approval_def Let_def distinct_approvers_def distinct_withdrawn split: prod.split)
qed

lemma approve_distinct:
  assumes "distinct_approvers s" "as_rendered user p (Approve x) s"
  shows "wp (visualisation_approvals_html_POST sv user p x) (\<lambda>r s'. distinct_approvers s') s"
proof -
  have k: "distinct_approvers s'" if "approvals_kept s1 s'" "distinct_approvers s1" for s1 s'
    using that by (simp add: approvals_kept_def distinct_approvers_def)
  obtain r s1 where e: "application_template_of p s = (r, s1)" by fastforce
  have "approvals_kept s s1"
    using e extends_implies(2) [OF application_template_of_extends] by (auto dest: relatesD)
  with assms(1) have s1: "distinct_approvers s1" by (rule k [rotated])
  have l: "wp (listing_branches sv p (\<lambda>_. render_visualisation p h es n)) (\<lambda>r s'. distinct_approvers s') s1" for h es n
    by (rule wp_conseq [OF wp_relates [of approvals_kept]])
      (auto intro!: relates approvals_kept_extending intro: k s1)
  have "case r of Inl e \<Rightarrow> True | Inr t \<Rightarrow>
      wp (respond_to_approval sv p (own_approval user t s1) x) (\<lambda>r s'. distinct_approvers s') s1"
  proof (cases r)
    case (Inr t)
    with assms(2) e have x: "ap_approver x = Some (vu_id user)" "ap_visualisation x = Some (at_id t)"
      by (simp_all add: as_rendered_def)
    have "wp (save_approval (own_approval user t s1) c) (\<lambda>r s'. distinct_approvers s') s1"
      if "visualisation_approval_form (own_approval user t s1) x s1 = Inr (Inr c)" for c
      using save_approval_distinct [OF s1 refl that x] .
    then have "wp (save_approval (own_approval user t s1) c)
       (\<lambda>r s'. case r of Inl e \<Rightarrow> distinct_approvers s1 | Inr x \<Rightarrow> distinct_approvers s') s1"
      if "visualisation_approval_form (own_approval user t s1) x s1 = Inr (Inr c)" for c
      using that by (auto elim!: wp_conseq simp: s1 split: sum.split)
    with Inr s1 l show ?thesis
      by (auto simp: respond_to_approval_def split: sum.split elim!: wp_conseq)
  qed simp
  with e s1 show ?thesis
    by (auto simp: visualisation_approvals_html_POST_def wp_def bindA_def reads_def split: sum.splits)
qed

section \<open>Sequences of requests\<close>

record visit =
  vt_services :: vis_services
  vt_sources :: dataset_sources
  vt_user :: vis_user
  vt_project :: gitlab_project
  vt_request :: vis_request

definition serve :: "visit \<Rightarrow> vis_state \<Rightarrow> vis_state" where
  "serve v s = snd (handler (vt_services v) (vt_sources v) (vt_user v) (vt_project v) (vt_request v) s)"

definition serve_all :: "visit list \<Rightarrow> vis_state \<Rightarrow> vis_state" where
  "serve_all = fold serve"

primrec all_as_rendered :: "visit list \<Rightarrow> vis_state \<Rightarrow> bool" where
  "all_as_rendered [] s \<longleftrightarrow> True"
| "all_as_rendered (v # vs) s \<longleftrightarrow> as_rendered (vt_user v) (vt_project v) (vt_request v) s \<and> all_as_rendered vs (serve v s)"

definition approved_by_two :: "nat \<Rightarrow> vis_state \<Rightarrow> bool" where
  "approved_by_two t s \<longleftrightarrow> (\<exists>u w. u \<noteq> w \<and> {u, w} \<subseteq> set (approvers t s))"

lemma serve_shows_approved: "shows_approved s (serve v s)"
  using requests_show_approved by (simp add: serve_def relates_def)

lemma serve_distinct:
  assumes "distinct_approvers s" "as_rendered (vt_user v) (vt_project v) (vt_request v) s"
  shows "distinct_approvers (serve v s)"
proof -
  have k: "distinct_approvers s'" if "approvals_kept s s'" for s'
    using that assms(1) by (simp add: approvals_kept_def distinct_approvers_def)
  have o: "relates approvals_kept (visualisation_catalogue_item_html_POST sv user p x)"
      "relates approvals_kept (visualisation_publish_html_POST sv user p a)" for sv user p x a
    by (auto simp: visualisation_catalogue_item_html_POST_def visualisation_publish_html_POST_def Let_def
        set_published_on_catalogue_item_def set_published_on_visualisation_def save_item_def save_template_def
        intro!: relates approvals_kept_extending writes_approvals_kept)
  show ?thesis
  proof (cases "\<exists>x. vt_request v = Approve x")
    case True
    then obtain x where x: "vt_request v = Approve x" by blast
    with assms(2) have "as_rendered (vt_user v) (vt_project v) (Approve x) s" by simp
    from approve_distinct [OF assms(1) this] x show ?thesis by (simp add: serve_def wp_def case_prod_beta)
  next
    case False
    then have "relates approvals_kept (handler (vt_services v) (vt_sources v) (vt_user v) (vt_project v) (vt_request v))"
    proof (cases "ordinary (vt_request v)")
      case o': False
      with False o show ?thesis by (cases "vt_request v") (auto simp: ordinary_def)
    qed (rule ordinary_approvals_kept)
    then show ?thesis by (intro k) (simp add: serve_def relates_def)
  qed
qed

lemma all_distinct: "distinct_approvers s \<Longrightarrow> all_as_rendered vs s \<Longrightarrow> distinct_approvers (serve_all vs s)"
  by (induction vs arbitrary: s) (auto simp: serve_all_def serve_distinct)

lemma all_as_rendered_append: "all_as_rendered (as @ bs) s \<longleftrightarrow> all_as_rendered as s \<and> all_as_rendered bs (serve_all as s)"
  by (induction as arbitrary: s) (auto simp: serve_all_def)

lemma first_crossing: "P (fold f vs s) \<Longrightarrow> \<not> P s \<Longrightarrow> \<exists>as v bs. vs = as @ v # bs \<and> \<not> P (fold f as s) \<and> P (f v (fold f as s))"
proof (induction vs arbitrary: s)
  case (Cons v vs)
  show ?case
  proof (cases "P (f v s)")
    case True
    with Cons.prems show ?thesis by (intro exI [of _ "[]"] exI [of _ v] exI [of _ vs]) simp
  next
    case False
    with Cons.prems obtain as w bs where
        "vs = as @ w # bs \<and> \<not> P (fold f as (f v s)) \<and> P (f w (fold f as (f v s)))"
      using Cons.IH [of "f v s"] by auto
    then show ?thesis by (intro exI [of _ "v # as"] exI [of _ w] exI [of _ bs]) simp
  qed
qed simp

lemma two_approvers: "distinct_approvers s \<Longrightarrow> visualisation_is_approved t s \<Longrightarrow> approved_by_two t s"
proof -
  assume "distinct_approvers s" "visualisation_is_approved t s"
  then have d: "distinct (approvers t s)" and l: "length (approvers t s) \<ge> 2"
    using distinct_approvers_of [of s t] by (simp_all add: visualisation_is_approved_def approvers_def)
  then obtain u w us where "approvers t s = u # w # us" by (cases "approvers t s"; cases "tl (approvers t s)") auto
  with d show ?thesis by (auto simp: approved_by_two_def)
qed

text \<open>What is shown in the end was shown first by a request in a state in which two people had approved it.\<close>

lemma shown_was_approved:
  assumes "shown s = {}" "distinct_approvers s" "all_as_rendered vs s" "x \<in> shown (serve_all vs s)"
  shows "\<exists>as v bs. vs = as @ v # bs \<and> x \<notin> shown (serve_all as s) \<and> x \<in> shown (serve v (serve_all as s)) \<and>
    distinct_approvers (serve_all as s)"
proof -
  obtain as v bs where a: "vs = as @ v # bs" "x \<notin> shown (serve_all as s)" "x \<in> shown (serve v (serve_all as s))"
    using first_crossing [of "\<lambda>s. x \<in> shown s" serve vs s] assms(1,4) by (auto simp: serve_all_def)
  moreover have "distinct_approvers (serve_all as s)"
    using assms(2,3) a(1) by (intro all_distinct) (simp_all add: all_as_rendered_append)
  ultimately show ?thesis by blast
qed

section \<open>Datasets\<close>

lemma give_wp: "wp (give_dataset_access so user t d) (\<lambda>r s'. r = Inr () \<longrightarrow>
    set (vs_dataset_access s') = insert (d, at_id t) (set (vs_dataset_access s))) s"
  by (auto simp: give_dataset_access_def dataset_logs_def log_action_def master_dataset_def)

lemma remove_wp: "wp (remove_dataset_access so user t d) (\<lambda>r s'. r = Inr () \<longrightarrow>
    set (vs_dataset_access s') = set (vs_dataset_access s) - {(d, at_id t)}) s"
  by (auto simp: remove_dataset_access_def dataset_logs_def log_action_def master_dataset_def)

lemma each_give_wp: "wp (each (give_dataset_access so user t) ds) (\<lambda>r s'. r = Inr () \<longrightarrow>
    set (vs_dataset_access s') = set (vs_dataset_access s) \<union> (\<lambda>d. (d, at_id t)) ` set ds) s"
proof (induction ds arbitrary: s)
  case (Cons d ds)
  show ?case unfolding each.simps
    by (rule wp_bind [OF give_wp]) (auto intro: wp_conseq [OF Cons.IH])
qed simp

lemma each_remove_wp: "wp (each (remove_dataset_access so user t) ds) (\<lambda>r s'. r = Inr () \<longrightarrow>
    set (vs_dataset_access s') = set (vs_dataset_access s) - (\<lambda>d. (d, at_id t)) ` set ds) s"
proof (induction ds arbitrary: s)
  case (Cons d ds)
  show ?case unfolding each.simps
    by (rule wp_bind [OF remove_wp]) (auto intro: wp_conseq [OF Cons.IH])
qed simp

lemma without_duplicates_keys: "key ` set (without_duplicates_by key seen xs) = key ` set xs - seen"
  by (induction key seen xs rule: without_duplicates_by.induct) auto

lemma listed_ids: "set (map fst (datasets_of us as)) \<subseteq>
    {l. ld_selectable l = (ld_id l \<in> set (selectable_ids us)) \<and> ld_selected l = (ld_id l \<in> entry_id ` set as)}"
  "ld_id ` set (map fst (datasets_of us as)) = entry_id ` (set us \<union> set as)"
proof -
  have k: "entry_id = fst \<circ> entry_key" by (auto simp: entry_id_def entry_key_def)
  show "set (map fst (datasets_of us as)) \<subseteq>
    {l. ld_selectable l = (ld_id l \<in> set (selectable_ids us)) \<and> ld_selected l = (ld_id l \<in> entry_id ` set as)}"
    unfolding datasets_of_def Let_def set_map groupby_fst by (simp add: image_subset_iff)
  have "ld_id ` set (map fst (datasets_of us as)) = entry_id ` set (without_duplicates_by entry_key {} (us @ as))"
    unfolding datasets_of_def Let_def set_map groupby_fst by (simp add: image_image)
  also have "\<dots> = fst ` entry_key ` set (us @ as)"
    unfolding k image_comp [symmetric] without_duplicates_keys by simp
  finally show "ld_id ` set (map fst (datasets_of us as)) = entry_id ` (set us \<union> set as)"
    by (simp add: k image_comp image_Un)
qed

lemma changes_of_datasets:
  assumes "dataset_changes (map fst (datasets_of us as)) posted = (to_give, to_remove)"
  shows "set to_give = {d \<in> set posted. d \<in> set (selectable_ids us) \<and> d \<notin> entry_id ` set as}"
    and "set to_remove = {d \<in> entry_id ` set as. d \<in> set (selectable_ids us) \<and> d \<notin> set posted}"
proof -
  let ?l = "map fst (datasets_of us as)"
  have g: "set (map ld_id (filter P ls)) = {d \<in> ld_id ` set ls. d \<in> S}"
    if "\<And>l. l \<in> set ls \<Longrightarrow> P l = (ld_id l \<in> S)" for P ls S
    using that by auto
  have u: "{d \<in> X \<union> Y. d \<in> Y} = Y" for X Y :: "nat set" by auto
  have "set (map ld_id (filter ld_selected ?l)) = {d \<in> ld_id ` set ?l. d \<in> entry_id ` set as}"
    by (rule g) (use listed_ids(1) [of us as] in blast)
  then have 1: "set (map ld_id (filter ld_selected ?l)) = entry_id ` set as"
    unfolding listed_ids(2) image_Un u .
  have 3: "set (map ld_id (filter ld_selectable ?l)) = {d \<in> ld_id ` set ?l. d \<in> set (selectable_ids us)}"
    by (rule g) (use listed_ids(1) [of us as] in blast)
  have sub: "set (selectable_ids us) \<subseteq> entry_id ` set us"
    unfolding selectable_ids_def set_map set_filter by (rule image_mono) simp
  have "{d \<in> X \<union> Y. d \<in> S} = S" if "S \<subseteq> X" for X Y S :: "nat set" using that by auto
  from this [OF sub, of "entry_id ` set as"] have "{d \<in> ld_id ` set ?l. d \<in> set (selectable_ids us)} = set (selectable_ids us)"
    unfolding listed_ids(2) image_Un .
  then have 2: "set (map ld_id (filter ld_selectable ?l)) = set (selectable_ids us)" by (rule trans [OF 3])
  have "to_give = filter (\<lambda>i. i \<in> set (selectable_ids us) \<and> i \<notin> entry_id ` set as) posted"
    and "to_remove = filter (\<lambda>i. i \<in> set (selectable_ids us) \<and> i \<notin> set posted) (map ld_id (filter ld_selected ?l))"
    using assms unfolding dataset_changes_def Let_def 1 2 by simp_all
  then show "set to_give = {d \<in> set posted. d \<in> set (selectable_ids us) \<and> d \<notin> entry_id ` set as}"
    and "set to_remove = {d \<in> entry_id ` set as. d \<in> set (selectable_ids us) \<and> d \<notin> set posted}"
    by (auto simp only: set_filter 1)
qed

text \<open>What a request that ends without an exception does.\<close>

lemma datasets_POST_access:
  assumes "visualisation_datasets_html_POST so user p posted s = (Inr a, s')"
    and "application_template_of p s = (Inr t, s1)"
    and "source_tables_for_user (tables_in (vs_dataset_access s) (so_tables so)) (so_refs so) user = Some us"
    and "as = source_tables_for_app (tables_in (vs_dataset_access s) (so_tables so)) (so_refs so) t"
  shows "set (vs_dataset_access s') = set (vs_dataset_access s) \<union>
      {(d, at_id t) |d. d \<in> set posted \<and> d \<in> set (selectable_ids us) \<and> d \<notin> entry_id ` set as} -
      {(d, at_id t) |d. d \<in> entry_id ` set as \<and> d \<in> set (selectable_ids us) \<and> d \<notin> set posted}"
proof -
  have "extends s s1" using assms(2) application_template_of_extends by (auto dest: relatesD)
  then have d: "vs_dataset_access s1 = vs_dataset_access s" by (auto simp: extends_def)
  obtain to_give to_remove where c: "dataset_changes (map fst (datasets_of us as)) posted = (to_give, to_remove)"
    by fastforce
  have "wp (bindA (each (give_dataset_access so user t) to_give) (\<lambda>_.
       bindA (each (remove_dataset_access so user t) to_remove) (\<lambda>_.
       give (Redirect ''visualisations:datasets'')))) (\<lambda>r s'. \<forall>a. r = Inr a \<longrightarrow>
      set (vs_dataset_access s') = set (vs_dataset_access s1) \<union> (\<lambda>d. (d, at_id t)) ` set to_give - (\<lambda>d. (d, at_id t)) ` set to_remove) s1"
    by (rule wp_bind [OF each_give_wp], simp, rule wp_bind [OF each_remove_wp]) auto
  with assms c d have "set (vs_dataset_access s') = set (vs_dataset_access s) \<union> (\<lambda>d. (d, at_id t)) ` set to_give -
      (\<lambda>d. (d, at_id t)) ` set to_remove"
    by (auto simp: visualisation_datasets_html_POST_def bindA_def fetches_def datasets_for_def wp_def Let_def
        split: prod.splits)
  then show ?thesis unfolding changes_of_datasets [OF c] by (auto simp: image_def)
qed

end
