(* ===== verification/VisualisationNames.thy ===== *)
theory VisualisationNames
  imports Visualisations
begin

text \<open>
  The name that a project without a template gets: a part of a host and of a path, which the proxy and the API read
  back as the new visualisation unless it ends like the id of a user.
\<close>

section \<open>Dashes\<close>

fun double_dash :: "string \<Rightarrow> bool" where
  "double_dash (c # d # cs) = (c = CHR ''-'' \<and> d = CHR ''-'' \<or> double_dash (d # cs))"
| "double_dash cs = False"

lemma double_dashI: "double_dash (a @ ''--'' @ b)"
proof (induction a)
  case (Cons c a)
  then show ?case by (cases "a @ ''--'' @ b") auto
qed (cases b; simp)

lemma no_dash: "CHR ''-'' \<notin> set ds \<Longrightarrow> \<not> double_dash ds \<and> \<not> double_dash (CHR ''-'' # ds)"
proof (induction ds)
  case (Cons d ds)
  then show ?case by (cases ds) auto
qed simp

lemma double_dash_append: "\<not> double_dash s \<Longrightarrow> s \<noteq> [] \<Longrightarrow> last s \<noteq> CHR ''-'' \<Longrightarrow> CHR ''-'' \<notin> set ds \<Longrightarrow>
    \<not> double_dash (s @ CHR ''-'' # ds)"
proof (induction s)
  case (Cons c s)
  then show ?case using no_dash [of ds] by (cases s) auto
qed simp

lemma collapse_Nil [simp]: "collapse_dashes s = [] \<longleftrightarrow> s = []"
  by (induction s rule: collapse_dashes.induct) auto

lemma collapse_hd: "s \<noteq> [] \<Longrightarrow> hd (collapse_dashes s) = hd s"
  by (induction s rule: collapse_dashes.induct) auto

lemma collapse_last: "s \<noteq> [] \<Longrightarrow> last (collapse_dashes s) = last s"
  by (induction s rule: collapse_dashes.induct) auto

lemma collapse_set: "set (collapse_dashes s) = set s"
  by (induction s rule: collapse_dashes.induct) auto

lemma collapse_single: "\<not> double_dash (collapse_dashes s)"
proof (induction s rule: collapse_dashes.induct)
  case (1 c d cs)
  then show ?case using collapse_hd [of "d # cs"] by (cases "collapse_dashes (d # cs)") auto
qed auto

lemma rstrip_char_last: "rstrip_char c a = [] \<or> last (rstrip_char c a) \<noteq> c"
  using hd_dropWhile [of "\<lambda>x. x = c" "rev a"] by (auto simp: rstrip_char_def last_rev)

lemma rstrip_char_hd: "a = [] \<or> hd a \<noteq> c \<Longrightarrow> rstrip_char c a = [] \<or> hd (rstrip_char c a) \<noteq> c"
  by (cases a) (auto simp: rstrip_char_def dropWhile_append3)

lemma strip_dashes_ends: "strip_dashes s = [] \<or> hd (strip_dashes s) \<noteq> CHR ''-'' \<and> last (strip_dashes s) \<noteq> CHR ''-''"
  using rstrip_char_last [of "CHR ''-''" "dropWhile (\<lambda>c. c = CHR ''-'') s"]
    rstrip_char_hd [of "dropWhile (\<lambda>c. c = CHR ''-'') s" "CHR ''-''"] hd_dropWhile [of "\<lambda>c. c = CHR ''-''" s]
  unfolding strip_dashes_def by blast

lemma strip_dashes_set: "set (strip_dashes s) \<subseteq> set s"
  unfolding strip_dashes_def rstrip_char_def by (metis set_dropWhileD set_rev subsetI)

section \<open>The root of the name\<close>

lemma root_safe: "list_all safe_char (path_and_dns_safe_root name)"
  using strip_dashes_set by (fastforce simp: path_and_dns_safe_root_def Let_def list_all_iff collapse_set)

lemma root_single: "\<not> double_dash (path_and_dns_safe_root name)"
  by (simp add: path_and_dns_safe_root_def Let_def collapse_single)

lemma root_ends: "path_and_dns_safe_root name = [] \<or>
    hd (path_and_dns_safe_root name) \<noteq> CHR ''-'' \<and> last (path_and_dns_safe_root name) \<noteq> CHR ''-''"
proof -
  have "collapse_dashes (strip_dashes s) = [] \<or> hd (collapse_dashes (strip_dashes s)) \<noteq> CHR ''-'' \<and>
      last (collapse_dashes (strip_dashes s)) \<noteq> CHR ''-''" for s
    using strip_dashes_ends [of s] by (cases "strip_dashes s = []") (simp_all add: collapse_hd collapse_last)
  then show ?thesis by (simp add: path_and_dns_safe_root_def Let_def)
qed

lemma str_nat_safe: "list_all safe_char (str_nat n)" "CHR ''-'' \<notin> set (str_nat n)"
proof -
  have "\<forall>d \<in> set [0..<10]. safe_char (digit_char d) \<and> digit_char d \<noteq> CHR ''-''" by code_simp
  then show "list_all safe_char (str_nat n)" "CHR ''-'' \<notin> set (str_nat n)"
    using str_nat_digits [of n] by (fastforce simp: list_all_iff)+
qed

lemma safe_names_safe: "n \<in> set (safe_names (path_and_dns_safe_root name)) \<Longrightarrow> list_all safe_char n \<and> \<not> double_dash n"
proof -
  assume "n \<in> set (safe_names (path_and_dns_safe_root name))"
  then obtain i where i: "n = path_and_dns_safe_root name @ (if i = 0 then [] else ''-'' @ str_nat i)"
    by (auto simp: safe_names_def)
  have "\<not> double_dash (CHR ''-'' # str_nat i)" using no_dash str_nat_safe(2) by simp
  moreover have "\<not> double_dash (path_and_dns_safe_root name @ CHR ''-'' # str_nat i)" if "path_and_dns_safe_root name \<noteq> []"
    using that root_single [of name] root_ends [of name] str_nat_safe(2) [of i] by (intro double_dash_append) simp_all
  ultimately have "\<not> double_dash n"
    using i root_single [of name] by (cases "path_and_dns_safe_root name = []") (simp_all split: if_splits)
  moreover have "list_all safe_char n"
    using i root_safe [of name] str_nat_safe(1) [of i] by (simp add: safe_char_def [of "CHR ''-''"])
  ultimately show ?thesis by simp
qed

section \<open>Reading the host\<close>

lemma no_commit: "\<not> double_dash s \<Longrightarrow> split_id s ''--'' = (s, None)"
proof -
  assume d: "\<not> double_dash s"
  have "find_sep (rev ''--'') (rev s) = None"
  proof (rule ccontr)
    assume "find_sep (rev ''--'') (rev s) \<noteq> None"
    then obtain a b where "rev s = a @ rev ''--'' @ b" using find_sep_Some by fastforce
    then have "s = rev b @ ''--'' @ rev a" by (metis append_assoc rev_append rev_rev_ident)
    with d double_dashI show False by metis
  qed
  then show ?thesis by (simp add: split_id_def rpartition_def)
qed

lemma no_user: "\<not> is_8_char_hex (snd (rpartition s ''-'')) \<Longrightarrow> split_id s ''-'' = (s, None)"
  by (auto simp: split_id_def split: prod.split)

lemma host_read_back:
  assumes "\<not> double_dash (at_host_basename t)" "\<not> is_8_char_hex (snd (rpartition (at_host_basename t) ''-''))"
    and "at_type t = VISUALISATION" "at_host_basename t \<notin> set (map at_host_basename ts)"
  shows "application_template_tag_user_commit_from_host (ts @ [t]) (at_host_basename t) =
    Inr (t, Some (at_host_basename t), None, None)"
proof -
  have "filter (\<lambda>u. at_type u = VISUALISATION \<and> at_host_basename u = at_host_basename t) ts = []"
    using assms(4) by (auto simp: filter_empty_conv image_iff)
  then show ?thesis
    using assms by (simp add: application_template_tag_user_commit_from_host_def matching_templates_def no_commit no_user)
qed

section \<open>Creating it\<close>

lemma create_with_name_Inr:
  assumes "create_with_name p n s = (Inr t, s')"
  shows "n \<notin> set (map at_host_basename (vs_templates s)) \<and> at_host_basename t = n \<and> at_type t = VISUALISATION \<and>
    \<not> at_visible t \<and> vs_templates s' = vs_templates s @ [t] \<and>
    (\<exists>i. vs_items s' = vs_items s @ [i] \<and> vi_template i = at_id t \<and> vi_slug i = n \<and> \<not> vi_published i) \<and> length n \<le> 50"
  using assms by (auto simp: create_with_name_def create_template_def create_item_def action_defs Let_def
      new_template_def new_item_def split: if_splits option.splits sum.splits prod.splits)

lemma create_with_name_Inl: "create_with_name p n s = (Inl e, s') \<Longrightarrow> s' = s"
  by (auto simp: create_with_name_def atomic_def split: prod.splits sum.splits)

lemma try_names_creates:
  assumes "template_of_project p s = Inl ''DoesNotExist''" "try_names p names s = (Inr t, s')"
  shows "\<exists>n \<in> set names. create_with_name p n s = (Inr t, s')"
  using assms
proof (induction p names rule: try_names.induct)
  case (2 p n names)
  obtain r s1 where c: "create_with_name p n s = (r, s1)" by fastforce
  show ?case
  proof (cases r)
    case (Inl e)
    with c create_with_name_Inl have "s1 = s" by blast
    with 2 c Inl show ?thesis
      by (cases "names = []") (auto simp: rescuing_def fetches_def raising_def split: if_splits)
  next
    case (Inr u)
    with c 2 show ?thesis by (auto simp: rescuing_def)
  qed
qed (simp add: raising_def)

end
