(* ===== verification/VisualisationProperties.thy ===== *)
theory VisualisationProperties
  imports VisualisationRuns VisualisationNames
begin

text \<open>
  What the developers' pages guarantee, with the inputs that show where they do not.
\<close>

section \<open>Samples\<close>

definition sample_vis_project :: gitlab_project where
  "sample_vis_project = \<lparr>gp_id = 7, gp_name = ''My App'', gp_description = Some ''About'', gp_default_branch = ''main''\<rparr>"

definition sample_vis_user :: "nat \<Rightarrow> vis_user" where
  "sample_vis_user i = \<lparr>vu_id = i, vu_email = ''u'' @ str_nat i @ ''@x.uk'', vu_name = ''U'' @ str_nat i\<rparr>"

definition sample_vis_state :: vis_state where
  "sample_vis_state = \<lparr>vs_users = map sample_vis_user [1, 2, 3], vs_templates = [], vs_items = [], vs_approvals = [],
     vs_approval_events = [], vs_access = [], vs_dataset_access = [], vs_instances = [], vs_stops = [], vs_tags = [],
     vs_log = [], vs_mails = [], vs_tickets = []\<rparr>"

definition sample_vis_services :: vis_services where
  "sample_vis_services = \<lparr>sv_branches = Inr [], sv_tags_for_tag = (\<lambda>_. []), sv_retag = Inr (),
     sv_email_address = (\<lambda>e. CHR ''@'' \<in> set e), sv_ticket = Inr (), sv_mail = Inr ()\<rparr>"

definition sample_sources :: dataset_sources where
  "sample_sources = \<lparr>so_tables = [\<lparr>st_id = 1, st_database = 1, st_schema = ''s'', st_table = ''t'',
       st_dataset = \<lparr>ds_id = 5, ds_name = ''D'', ds_access = REQUIRES_AUTHORIZATION, ds_published = True, ds_deleted = False,
         ds_email_domains = [], ds_user_permissions = [1], ds_template_permissions = []\<rparr>\<rparr>],
     so_refs = [], so_masters = [5]\<rparr>"

definition sample_visit :: "nat \<Rightarrow> vis_request \<Rightarrow> visit" where
  "sample_visit u r = \<lparr>vt_services = sample_vis_services, vt_sources = sample_sources, vt_user = sample_vis_user u,
     vt_project = sample_vis_project, vt_request = r\<rparr>"

definition approving :: "nat \<Rightarrow> approval_post" where
  "approving u = \<lparr>ap_approved = True, ap_visualisation = Some 1, ap_approver = Some u, ap_action = Some ''approve''\<rparr>"

section \<open>Who gets to a page\<close>






section \<open>Publication\<close>

text \<open>
  C35: start with nothing published and nobody having approved anything twice, and let people post the form of approvals as it
  is rendered for them. Then every visualisation that is visible has been made so by a request before which two different
  people had approved it, and every catalogue item that is published has been by a request before which the same
  held of its visualisation, which was visible by then, while the item was complete.
\<close>

theorem published_visualisations_were_approved_by_two:
  assumes "shown s = {}" "distinct_approvers s" "all_as_rendered vs s"
  shows "(\<forall>t. Inl t \<in> shown (serve_all vs s) \<longrightarrow>
      (\<exists>as v bs. vs = as @ v # bs \<and> Inl t \<in> shown (serve v (serve_all as s)) - shown (serve_all as s) \<and>
        approved_by_two t (serve_all as s))) \<and>
    (\<forall>i. Inr i \<in> shown (serve_all vs s) \<longrightarrow>
      (\<exists>as v bs item. vs = as @ v # bs \<and> Inr i \<in> shown (serve v (serve_all as s)) - shown (serve_all as s) \<and>
        item \<in> set (vs_items (serve v (serve_all as s))) \<and> vi_id item = i \<and>
        visualisation_catalogue_item_is_complete item \<and> Inl (vi_template item) \<in> shown (serve_all as s) \<and>
        approved_by_two (vi_template item) (serve_all as s)))"
proof (intro conjI allI impI)
  fix t assume "Inl t \<in> shown (serve_all vs s)"
  from shown_was_approved [OF assms this] obtain as v bs where
    "vs = as @ v # bs" "Inl t \<notin> shown (serve_all as s)" "Inl t \<in> shown (serve v (serve_all as s))"
    "distinct_approvers (serve_all as s)" by blast
  moreover from this serve_shows_approved [of "serve_all as s" v] have "visualisation_is_approved t (serve_all as s)"
    unfolding shows_approved_def by blast
  ultimately show "\<exists>as v bs. vs = as @ v # bs \<and> Inl t \<in> shown (serve v (serve_all as s)) - shown (serve_all as s) \<and>
        approved_by_two t (serve_all as s)" using two_approvers by blast
next
  fix i assume "Inr i \<in> shown (serve_all vs s)"
  from shown_was_approved [OF assms this] obtain as v bs where v:
    "vs = as @ v # bs" "Inr i \<notin> shown (serve_all as s)" "Inr i \<in> shown (serve v (serve_all as s))"
    "distinct_approvers (serve_all as s)" by blast
  with serve_shows_approved [of "serve_all as s" v] obtain item where
    "item \<in> set (vs_items (serve v (serve_all as s)))" "vi_id item = i" "visualisation_is_approved (vi_template item) (serve_all as s)"
    "Inl (vi_template item) \<in> shown (serve_all as s)" "visualisation_catalogue_item_is_complete item"
    unfolding shows_approved_def by blast
  with v two_approvers show "\<exists>as v bs item. vs = as @ v # bs \<and>
        Inr i \<in> shown (serve v (serve_all as s)) - shown (serve_all as s) \<and>
        item \<in> set (vs_items (serve v (serve_all as s))) \<and> vi_id item = i \<and>
        visualisation_catalogue_item_is_complete item \<and> Inl (vi_template item) \<in> shown (serve_all as s) \<and>
        approved_by_two (vi_template item) (serve_all as s)" by blast
qed

definition sample_visits :: "visit list" where
  "sample_visits = [sample_visit 1 (Approve (approving 1)), sample_visit 2 (Approve (approving 2)),
     sample_visit 3 (Publish ''publish-visualisation'')]"

theorem published_visualisations_were_approved_by_two_witness:
  "\<exists>as v bs. sample_visits = as @ v # bs \<and>
     Inl 1 \<in> shown (serve v (serve_all as sample_vis_state)) - shown (serve_all as sample_vis_state) \<and>
     approved_by_two 1 (serve_all as sample_vis_state)"
proof -
  have "shown sample_vis_state = {}" "distinct_approvers sample_vis_state"
    by (simp_all add: shown_def sample_vis_state_def distinct_approvers_def)
  moreover have "all_as_rendered sample_visits sample_vis_state" by code_simp
  moreover have "Inl 1 \<in> shown (serve_all sample_visits sample_vis_state)" by code_simp
  ultimately show ?thesis using published_visualisations_were_approved_by_two by blast
qed

text \<open>
  Neither proviso can go. The form takes the approver from the browser, so one person who may develop the
  visualisation approves it twice, once in somebody else's name.
\<close>

definition forged_visits :: "visit list" where
  "forged_visits = [sample_visit 1 (Approve (approving 2)), sample_visit 1 (Approve (approving 1)),
     sample_visit 1 (Publish ''publish-visualisation'')]"

theorem one_person_publishes_alone:
  "list_all (\<lambda>v. vu_id (vt_user v) = 1) forged_visits \<and> Inl 1 \<in> shown (serve_all forged_visits sample_vis_state)"
  by code_simp

text \<open>
  Two posts of the same form that both look for an approval of their user before either is saved give this user two
  approvals, which the count takes for two people.
\<close>

theorem overlapping_posts_approve_twice:
  assumes "own_approval user t s = None" "at_id t \<in> set (map at_id (vs_templates s))" "vu_id user \<in> set (map vu_id (vs_users s))"
    and "ap_approved x" "ap_visualisation x = Some (at_id t)" "ap_approver x = Some (vu_id user)" "ap_action x = Some ''approve''"
  shows "visualisation_is_approved (at_id t)
    (snd (respond_to_approval sv p None x (snd (respond_to_approval sv p None x s))))"
proof -
  have r: "snd (respond_to_approval sv p None x s') = s'\<lparr>vs_approvals := vs_approvals s' @
        [\<lparr>va_id = next_id (map va_id (vs_approvals s')), va_approved = True, va_approver = vu_id user, va_visualisation = at_id t\<rparr>],
      vs_approval_events := vs_approval_events s' @ [(vu_id user, ''Visualisation approved'', next_id (map va_id (vs_approvals s')))]\<rparr>"
    if "vs_templates s' = vs_templates s" "vs_users s' = vs_users s" for s'
    using assms that next_id_new [of _ "map va_id (vs_approvals s')"]
    by (auto simp: respond_to_approval_def visualisation_approval_form_def choice_def save_approval_def action_defs Let_def)
  show ?thesis by (subst r; subst r) (simp_all add: visualisation_is_approved_def approvals_of_def)
qed

text \<open>A visualisation stays visible when its approvals are withdrawn.\<close>

theorem withdrawal_leaves_it_visible:
  "let s = serve_all (sample_visits @ [sample_visit 1 (Approve ((approving 1)\<lparr>ap_action := Some ''unapprove''\<rparr>)),
        sample_visit 2 (Approve ((approving 2)\<lparr>ap_action := Some ''unapprove''\<rparr>))]) sample_vis_state
   in approvals_of 1 s = [] \<and> Inl 1 \<in> shown s"
  by code_simp

text \<open>A published item stays published when its fields are emptied.\<close>

theorem published_items_may_be_emptied:
  assumes "visualisations_ui_catalogue_item_form sv us i x = Inr (Inr j)" "vi_published i" "strip (ip_licence x) = []"
  shows "vi_published j \<and> \<not> visualisation_catalogue_item_is_complete j"
proof -
  have "vi_licence j = strip (ip_licence x)"
    using assms(1) by (auto simp: visualisations_ui_catalogue_item_form_def clean_text_def Let_def
        split: sum.splits option.splits if_splits)
  with assms form_keeps [OF assms(1)] show ?thesis by (simp add: visualisation_catalogue_item_is_complete_def)
qed

section \<open>Datasets\<close>

text \<open>The tables of one dataset hold the same row of it, and no reference dataset has the id of a dataset.\<close>

definition consistent_sources :: "dataset_sources \<Rightarrow> bool" where
  "consistent_sources so \<longleftrightarrow> list_all (\<lambda>x. list_all (\<lambda>y. ds_id (st_dataset x) = ds_id (st_dataset y) \<longrightarrow>
     st_dataset x = st_dataset y) (so_tables so) \<and> list_all (\<lambda>r. rd_uuid r \<noteq> ds_id (st_dataset x)) (so_refs so)) (so_tables so)"

lemma entry_id_source [simp]: "entry_id (source_entry x) = ds_id (st_dataset x)"
  by (simp add: entry_id_def entry_dataset_def source_entry_def)

lemma entry_access_source [simp]: "entry_access (source_entry x) = ds_access (st_dataset x)"
  by (simp add: entry_access_def entry_dataset_def source_entry_def)

lemma reference_entry_ids: "e \<in> set (reference_entries c rs) \<Longrightarrow> \<exists>r \<in> set rs. entry_id e = rd_uuid r"
  by (auto simp: reference_entries_def map_filter_def entry_id_def entry_dataset_def split: if_splits)


lemma consistent_reference:
  assumes "consistent_sources so" "x \<in> set (so_tables so)" "e \<in> set (reference_entries c (so_refs so))"
  shows "entry_id e \<noteq> ds_id (st_dataset x)"
proof -
  obtain r where "r \<in> set (so_refs so)" "entry_id e = rd_uuid r" using reference_entry_ids [OF assms(3)] by blast
  with assms(1,2) show ?thesis unfolding consistent_sources_def list_all_iff by metis
qed

lemma consistent_dataset:
  "consistent_sources so \<Longrightarrow> x \<in> set (so_tables so) \<Longrightarrow> y \<in> set (so_tables so) \<Longrightarrow>
    ds_id (st_dataset y) = ds_id (st_dataset x) \<Longrightarrow> st_dataset y = st_dataset x"
  unfolding consistent_sources_def list_all_iff by metis




lemma selected_iff:
  assumes "consistent_sources so" "x \<in> set (so_tables so)" "ds_access (st_dataset x) = REQUIRES_AUTHORIZATION"
  shows "ds_id (st_dataset x) \<in> entry_id ` set (source_tables_for_app (tables_in ps (so_tables so)) (so_refs so) t) \<longleftrightarrow>
    ds_published (st_dataset x) \<and> \<not> ds_deleted (st_dataset x) \<and> (ds_id (st_dataset x), at_id t) \<in> set ps"
proof -
  note r = consistent_reference [OF assms(1,2)] and s = consistent_dataset [OF assms(1,2)]
  have "ds_id (st_dataset x) \<in> entry_id ` set (source_tables_for_app (tables_in ps (so_tables so)) (so_refs so) t) \<longleftrightarrow>
      (\<exists>y \<in> set (so_tables so). ds_published (st_dataset y) \<and> \<not> ds_deleted (st_dataset y) \<and>
        (ds_access (st_dataset y) \<noteq> REQUIRES_AUTHORIZATION \<or> (ds_id (st_dataset y), at_id t) \<in> set ps) \<and>
        ds_id (st_dataset y) = ds_id (st_dataset x))"
  proof -
    have "ds_id (st_dataset x) \<notin> entry_id ` set (reference_entries c (so_refs so))" for c
      using r [where c = c] by (metis imageE)
    then show ?thesis
      unfolding source_tables_for_app_def set_append image_Un Un_iff tables_in_def req_authentication_def Let_def
      by (auto simp: filter_map comp_def image_image image_iff) (metis user_access_type.exhaust)+
  qed
  with s assms(2,3) show ?thesis by metis
qed




text \<open>
  An unpublished dataset, which only a superuser sees, is listed as not selected even when the visualisation has access
  to it; no posted form takes the access away.
\<close>

theorem access_to_unpublished_datasets_stays:
  assumes "visualisation_datasets_html_POST so user p posted s = (Inr a, s')" "application_template_of p s = (Inr t, s1)"
    and "py_index (split (du_email user) ''@'') 1 = Some domain" "consistent_sources so"
    and "x \<in> set (so_tables so)" "ds_access (st_dataset x) = REQUIRES_AUTHORIZATION" "\<not> ds_published (st_dataset x)"
    and "(ds_id (st_dataset x), at_id t) \<in> set (vs_dataset_access s)"
  shows "(ds_id (st_dataset x), at_id t) \<in> set (vs_dataset_access s')"
proof -
  let ?tables = "tables_in (vs_dataset_access s) (so_tables so)"
  obtain us where u: "source_tables_for_user ?tables (so_refs so) user = Some us"
    using assms(3) by (simp add: user_tables)
  from selected_iff [OF assms(4-6)] assms(7,8) datasets_POST_access [OF assms(1,2) u refl] show ?thesis by auto
qed

section \<open>Names\<close>

text \<open>
  C37: the template that is made for a new project is not visible and has a name of lower case letters, digits and single dashes that
  no template had, which is also the slug of its unpublished catalogue item; and its host is read back as this visualisation,
  unless what follows the last dash reads as the id of a user.
\<close>

theorem new_visualisations_have_readable_hosts:
  assumes "template_of_project p s = Inl ''DoesNotExist''" "application_template_of p s = (Inr t, s')"
  shows "list_all safe_char (at_host_basename t) \<and> length (at_host_basename t) \<le> 50 \<and>
    at_host_basename t \<notin> set (map at_host_basename (vs_templates s)) \<and> vs_templates s' = vs_templates s @ [t] \<and> \<not> at_visible t \<and>
    (\<exists>i. vs_items s' = vs_items s @ [i] \<and> vi_template i = at_id t \<and> vi_slug i = at_host_basename t \<and> \<not> vi_published i) \<and>
    (is_8_char_hex (snd (rpartition (at_host_basename t) ''-'')) \<or>
     application_template_tag_user_commit_from_host (vs_templates s') (at_host_basename t) =
       Inr (t, Some (at_host_basename t), None, None))"
proof -
  obtain n where n: "n \<in> set (safe_names (path_and_dns_safe_root (gp_name p)))" "create_with_name p n s = (Inr t, s')"
  proof -
    have "try_names p (safe_names (path_and_dns_safe_root (gp_name p))) s = (Inr t, s')"
      using assms by (simp add: application_template_of_def rescuing_def fetches_def)
    from try_names_creates [OF assms(1) this] that show thesis by blast
  qed
  from create_with_name_Inr [OF n(2)] safe_names_safe [OF n(1)] host_read_back [of t "vs_templates s"] show ?thesis by auto
qed

theorem new_visualisations_have_readable_hosts_witness:
  "template_of_project sample_vis_project sample_vis_state = Inl ''DoesNotExist'' \<and>
   at_host_basename (new_template sample_vis_project ''my-app'' 1) \<notin> set (map at_host_basename (vs_templates sample_vis_state))"
proof -
  have 1: "template_of_project sample_vis_project sample_vis_state = Inl ''DoesNotExist''" by code_simp
  have 2: "application_template_of sample_vis_project sample_vis_state =
      (Inr (new_template sample_vis_project ''my-app'' 1), snd (application_template_of sample_vis_project sample_vis_state))"
    by code_simp
  from 1 new_visualisations_have_readable_hosts [OF 1 2] show ?thesis by blast
qed

text \<open>
  A visualisation whose name ends like the id of a user, as a date in digits does, has a host that no request finds.
\<close>

theorem dated_visualisations_are_unreachable:
  assumes "b \<noteq> []" "hex_id u" "\<not> double_dash (b @ ''-'' @ u)" "\<not> list_ex (\<lambda>t. at_type t = TOOL \<and> at_host_basename t = b) ts"
  shows "application_template_tag_user_commit_from_host ts (b @ ''-'' @ u) = Inl DoesNotExist"
  using assms split_user [OF assms(1,2)] no_commit [OF assms(3)]
  by (auto simp: application_template_tag_user_commit_from_host_def matching_templates_def list_ex_iff
      filter_empty_conv split: list.split)

theorem dated_visualisations_are_unreachable_witness:
  "application_template_tag_user_commit_from_host [new_template sample_vis_project (path_and_dns_safe_root ''Report 20210131'') 1]
     (path_and_dns_safe_root ''Report 20210131'') = Inl DoesNotExist"
proof -
  have "path_and_dns_safe_root ''Report 20210131'' = ''report'' @ ''-'' @ ''20210131''" by code_simp
  moreover have "hex_id ''20210131''" "\<not> double_dash (''report'' @ ''-'' @ ''20210131'')" by code_simp+
  ultimately show ?thesis
    using dated_visualisations_are_unreachable [of "''report''" "''20210131''"] by (simp add: new_template_def)
qed

text \<open>
  A project without a description has no pages: each of the twenty insertions fails, for the same reason. Nor has one
  whose name is longer than a slug may be.
\<close>

theorem projects_without_pages:
  "fst (application_template_of (sample_vis_project\<lparr>gp_description := None\<rparr>) sample_vis_state) = Inl ''IntegrityError''"
  "fst (application_template_of (sample_vis_project\<lparr>gp_name := replicate 51 CHR ''a''\<rparr>) sample_vis_state) = Inl ''DataError''"
  by (code_simp, code_simp)

end
