(* ===== verification/AccessRequests.thy ===== *)
theory AccessRequests
  imports Actions AppInstances
begin

text \<open>
  \<open>apps/request_access\<close>, \<open>apps/request_data\<close> and \<open>zendesk.py\<close>: the pages on which people ask for access to a catalogue
  item or to tools, or for new data. Each is a series of forms that ends in a ticket. Who may see a catalogue item
  is in \<open>find_dataset_or_visualisation\<close> of \<open>apps/datasets/utils.py\<close>.
\<close>

section \<open>The catalogue\<close>

datatype dataset_type = REFERENCE | MASTER | DATACUT | VISUALISATION_TYPE

text \<open>
  A dataset or a visualisation, with the ids of the users it is shared with. \<open>ce_contacts\<close> are the addresses of the
  enquiries contact and of the second one, and \<open>ce_gitlab\<close> is the project of a visualisation that has a template.
\<close>

record catalogue_entry =
  ce_id :: nat
  ce_type :: dataset_type
  ce_name :: string
  ce_published :: bool
  ce_deleted :: bool
  ce_access :: user_access_type
  ce_user_permissions :: "nat list"
  ce_email_domains :: "string list"
  ce_owner :: "string option"
  ce_manager :: "string option"
  ce_contacts :: "string option \<times> string option"
  ce_gitlab :: "int option"

record web_user =
  wu_id :: nat
  wu_email :: string
  wu_first_name :: string
  wu_last_name :: string
  wu_is_superuser :: bool
  wu_permissions :: "string list"

definition has_perm :: "web_user \<Rightarrow> string \<Rightarrow> bool" where
  "has_perm user p \<longleftrightarrow> wu_is_superuser user \<or> p \<in> set (wu_permissions user)"

fun dataset_type_to_manage_unpublished_permission_codename :: "dataset_type \<Rightarrow> string" where
  "dataset_type_to_manage_unpublished_permission_codename REFERENCE = ''datasets.manage_unpublished_reference_datasets''"
| "dataset_type_to_manage_unpublished_permission_codename MASTER = ''datasets.manage_unpublished_master_datasets''"
| "dataset_type_to_manage_unpublished_permission_codename DATACUT = ''datasets.manage_unpublished_datacut_datasets''"
| "dataset_type_to_manage_unpublished_permission_codename VISUALISATION_TYPE = ''datasets.manage_unpublished_visualisations''"

definition live :: "catalogue_entry list \<Rightarrow> nat \<Rightarrow> exc + catalogue_entry" where
  "live entries i = (case filter (\<lambda>e. ce_id e = i \<and> \<not> ce_deleted e) entries of e # _ \<Rightarrow> Inr e | [] \<Rightarrow> Inl ''Http404'')"

definition find_dataset :: "catalogue_entry list \<Rightarrow> nat \<Rightarrow> web_user \<Rightarrow> exc + catalogue_entry" where
  "find_dataset datasets dataset_uuid user = (case live datasets dataset_uuid of Inl e \<Rightarrow> Inl e | Inr d \<Rightarrow>
     if has_perm user (dataset_type_to_manage_unpublished_permission_codename (ce_type d)) then Inr d
     else if \<not> ce_published d then Inl ''Http404'' else Inr d)"

definition find_visualisation :: "catalogue_entry list \<Rightarrow> nat \<Rightarrow> web_user \<Rightarrow> exc + catalogue_entry" where
  "find_visualisation visualisations i user = (case live visualisations i of Inl e \<Rightarrow> Inl e | Inr v \<Rightarrow>
     if has_perm user (dataset_type_to_manage_unpublished_permission_codename VISUALISATION_TYPE) then Inr v
     else if \<not> ce_published v then Inl ''Http404'' else Inr v)"

record catalogue =
  ca_datasets :: "catalogue_entry list"
  ca_visualisations :: "catalogue_entry list"
  ca_references :: "catalogue_entry list"

definition find_dataset_or_visualisation :: "catalogue \<Rightarrow> nat \<Rightarrow> web_user \<Rightarrow> exc + catalogue_entry" where
  "find_dataset_or_visualisation c model_id user =
     (if model_id \<in> set (map ce_id (ca_datasets c)) then find_dataset (ca_datasets c) model_id user
      else find_visualisation (ca_visualisations c) model_id user)"

definition find_dataset_or_visualisation_for_bookmark :: "catalogue \<Rightarrow> nat \<Rightarrow> exc + catalogue_entry" where
  "find_dataset_or_visualisation_for_bookmark c model_id =
     (if model_id \<in> set (map ce_id (ca_datasets c)) then live (ca_datasets c) model_id
      else if model_id \<in> set (map ce_id (ca_references c)) then live (ca_references c) model_id
      else live (ca_visualisations c) model_id)"

text \<open>\<open>user_has_access\<close> of datasets and of visualisations, which are the same.\<close>

definition user_has_access :: "catalogue_entry \<Rightarrow> web_user \<Rightarrow> exc + bool" where
  "user_has_access e user = (case py_index (split (wu_email user) ''@'') 1 of None \<Rightarrow> Inl ''IndexError''
     | Some user_email_domain \<Rightarrow> Inr (ce_access e \<in> {REQUIRES_AUTHENTICATION, OPEN} \<or>
         wu_id user \<in> set (ce_user_permissions e) \<or> user_email_domain \<in> set (ce_email_domains e)))"

section \<open>Rows\<close>

text \<open>Texts that may be null are empty when they are null.\<close>

record access_request =
  rq_id :: nat
  rq_requester :: nat
  rq_catalogue_item_id :: "nat option"
  rq_contact_email :: string
  rq_reason_for_access :: string
  rq_training_screenshot :: string
  rq_spss_and_stata :: bool
  rq_line_manager_email_address :: string
  rq_reason_for_spss_and_stata :: string
  rq_zendesk_reference_number :: string

definition new_access_request :: "nat \<Rightarrow> nat \<Rightarrow> nat option \<Rightarrow> access_request" where
  "new_access_request i user item = \<lparr>rq_id = i, rq_requester = user, rq_catalogue_item_id = item, rq_contact_email = [],
     rq_reason_for_access = [], rq_training_screenshot = [], rq_spss_and_stata = False, rq_line_manager_email_address = [],
     rq_reason_for_spss_and_stata = [], rq_zendesk_reference_number = []\<rparr>"

datatype journey = TOOLS_ACCESS | DATASET_ACCESS | DATASET_AND_TOOLS_ACCESS

definition journey :: "access_request \<Rightarrow> journey option" where
  "journey r = (if rq_contact_email r = [] \<and> rq_training_screenshot r \<noteq> [] then Some TOOLS_ACCESS
     else if rq_contact_email r \<noteq> [] \<and> rq_training_screenshot r = [] then Some DATASET_ACCESS
     else if rq_contact_email r \<noteq> [] \<and> rq_training_screenshot r \<noteq> [] then Some DATASET_AND_TOOLS_ACCESS
     else None)"

fun human_readable_journey :: "journey option \<Rightarrow> string" where
  "human_readable_journey (Some TOOLS_ACCESS) = ''Tools access''"
| "human_readable_journey (Some DATASET_ACCESS) = ''Dataset access''"
| "human_readable_journey (Some DATASET_AND_TOOLS_ACCESS) = ''Both dataset and tools access''"
| "human_readable_journey None = ''None''"

record ticket =
  tk_subject :: string
  tk_about :: "nat option"
  tk_requester :: string
  tk_text :: "string list"
  tk_comment :: "string list"
  tk_tag :: "string option"

text \<open>
  \<open>as_tickets\<close> is what Zendesk has, \<open>as_numbers\<close> the answers it will give to the next calls, and \<open>as_mails\<close> the addressees
  of mails with the number of the ticket that their link holds.
\<close>

record data_request =
  dr_id :: nat
  dr_requester :: nat
  dr_requester_role :: string
  dr_name_of_owner_or_manager :: string
  dr_data_description :: string
  dr_data_purpose :: string
  dr_data_location :: string
  dr_data_licence :: string
  dr_security_classification :: string
  dr_submitted :: bool
  dr_zendesk_ticket_id :: string

record access_state =
  as_users :: "web_user list"
  as_catalogue :: catalogue
  as_requests :: "access_request list"
  as_data_requests :: "data_request list"
  as_tickets :: "ticket list"
  as_mails :: "(string \<times> string) list"
  as_events :: "(nat \<times> string \<times> nat option \<times> string) list"

type_synonym 'a access_action = "(access_state, 'a) action"

text \<open>What Zendesk and GOV.UK Notify answer.\<close>

record ticket_services =
  ts_create :: "exc + string"
  ts_update :: "exc + unit"
  ts_mail :: "string \<Rightarrow> exc + unit"

section \<open>Tickets\<close>

definition get_username :: "web_user \<Rightarrow> string" where
  "get_username user = wu_first_name user @ '' '' @ wu_last_name user"

text \<open>The lines of the description that depend on the request, and those of the private comment.\<close>

definition build_ticket_description_text :: "web_user \<Rightarrow> access_request \<Rightarrow> string option \<Rightarrow> string list" where
  "build_ticket_description_text requester r item =
     [''Username:   '' @ get_username requester, ''Journey:    '' @ human_readable_journey (journey r),
      ''Dataset:    '' @ (case item of None \<Rightarrow> ''None'' | Some n \<Rightarrow> n), ''SSO Login:  '' @ wu_email requester]"

definition build_private_comment_text :: "catalogue_entry \<Rightarrow> string list" where
  "build_private_comment_text e =
     (let asset_owner_text = ''None''; asset_manager_text = ''None'';
          asset_owner_text = (case ce_owner e of Some iao \<Rightarrow> iao | None \<Rightarrow> asset_owner_text);
          asset_owner_text = (case ce_manager e of Some iam \<Rightarrow> iam | None \<Rightarrow> asset_owner_text)
      in [''Information Asset Owner: '' @ asset_owner_text, ''Information Asset Manager: '' @ asset_manager_text])"

definition create_ticket :: "ticket_services \<Rightarrow> ticket \<Rightarrow> string access_action" where
  "create_ticket ts t = (case ts_create ts of Inl e \<Rightarrow> raising e | Inr i \<Rightarrow>
     bindA (writes (\<lambda>s. s\<lparr>as_tickets := as_tickets s @ [t]\<rparr>)) (\<lambda>_. give i))"

definition create_zendesk_ticket :: "ticket_services \<Rightarrow> web_user \<Rightarrow> access_request \<Rightarrow> catalogue_entry option \<Rightarrow> string access_action" where
  "create_zendesk_ticket ts requester r item =
     (let private_comment = (case item of None \<Rightarrow> [] | Some e \<Rightarrow> build_private_comment_text e);
          username = get_username requester;
          subject = ''Access Request for '' @ (case item of None \<Rightarrow> username | Some e \<Rightarrow> ce_name e)
      in bindA (create_ticket ts \<lparr>tk_subject = subject, tk_about = Some (rq_id r), tk_requester = wu_email requester,
             tk_text = build_ticket_description_text requester r (map_option ce_name item), tk_comment = private_comment,
             tk_tag = None\<rparr>) (\<lambda>i.
         case ts_update ts of Inl e \<Rightarrow> raising e | Inr _ \<Rightarrow> give i))"

definition create_support_request ::
  "ticket_services \<Rightarrow> web_user \<Rightarrow> string \<Rightarrow> nat option \<Rightarrow> string list \<Rightarrow> string option \<Rightarrow> string option \<Rightarrow> string access_action" where
  "create_support_request ts user email about message tag subject =
     create_ticket ts \<lparr>tk_subject = (case subject of None \<Rightarrow> ''Data Workspace Support Request'' | Some x \<Rightarrow> x), tk_about = about,
       tk_requester = email, tk_text = message, tk_comment = [], tk_tag = tag\<rparr>"

text \<open>The contacts are a set: here in the order in which they are added, without repetition.\<close>

definition contacts_of :: "catalogue_entry \<Rightarrow> string list" where
  "contacts_of e = remdups (List.map_filter id [fst (ce_contacts e), snd (ce_contacts e)])"

definition notify_visualisation_access_request ::
  "ticket_services \<Rightarrow> web_user \<Rightarrow> access_request \<Rightarrow> catalogue_entry \<Rightarrow> string access_action" where
  "notify_visualisation_access_request ts user r e =
     bindA (create_support_request ts user (wu_email user) (Some (rq_id r))
       [''Data visualisation: '' @ ce_name e, ''Requestor '' @ wu_email user, rq_reason_for_access r,
        ''Data visualisation owner: '' @ (case fst (ce_contacts e) of None \<Rightarrow> ''Not set'' | Some c \<Rightarrow> c),
        ''Secondary contact: '' @ (case snd (ce_contacts e) of None \<Rightarrow> ''Not set'' | Some c \<Rightarrow> c)]
       (Some ''visualisation-access-request'') (Some (''Data visualisation access request received - '' @ ce_name e)))
     (\<lambda>ticket_reference.
       bindA (each (\<lambda>contact. case ts_mail ts contact of Inl e \<Rightarrow> raising e
           | Inr _ \<Rightarrow> writes (\<lambda>s. s\<lparr>as_mails := as_mails s @ [(contact, ticket_reference)]\<rparr>)) (contacts_of e)) (\<lambda>_.
       give ticket_reference))"

section \<open>Access requests\<close>

datatype access_page =
    To string "nat option"
  | Shown string

definition user_has_tools_access :: "web_user \<Rightarrow> bool" where
  "user_has_tools_access user \<longleftrightarrow> ''applications.start_all_applications'' \<in> set (wu_permissions user)"

definition catalogue_item_of_request :: "web_user \<Rightarrow> nat option \<Rightarrow> access_state \<Rightarrow> exc + catalogue_entry option" where
  "catalogue_item_of_request user item s = (case item of None \<Rightarrow> Inr None
     | Some i \<Rightarrow> map_sum id Some (find_dataset_or_visualisation (as_catalogue s) i user))"

definition create_request :: "access_request \<Rightarrow> nat access_action" where
  "create_request r = reads (\<lambda>s. next_id (map rq_id (as_requests s))) (\<lambda>i.
     bindA (writes (\<lambda>s. s\<lparr>as_requests := as_requests s @ [r\<lparr>rq_id := i\<rparr>]\<rparr>)) (\<lambda>_. give i))"

definition save_request :: "access_request \<Rightarrow> unit access_action" where
  "save_request r = writes (\<lambda>s. s\<lparr>as_requests := map (\<lambda>q. if rq_id q = rq_id r then r else q) (as_requests s)\<rparr>)"

text \<open>
  \<open>DatasetAccessRequest\<close>. The posted form is \<open>None\<close> for a GET; both of its fields are required, stripped, and the address
  fits its column.
\<close>

definition dataset_access_request_form :: "string \<times> string \<Rightarrow> (string \<times> string) option" where
  "dataset_access_request_form posted = (let contact_email = strip (fst posted); reason = strip (snd posted) in
     if contact_email = [] \<or> 256 < length contact_email \<or> reason = [] then None else Some (contact_email, reason))"

definition dataset_access_request ::
  "web_user \<Rightarrow> nat option \<Rightarrow> (string \<times> string) option \<Rightarrow> access_page access_action" where
  "dataset_access_request user dataset_uuid posted =
     fetches (catalogue_item_of_request user dataset_uuid) (\<lambda>item.
     fetches (\<lambda>_. case item of None \<Rightarrow> Inr True | Some e \<Rightarrow> user_has_access e user) (\<lambda>user_has_dataset_access.
       if user_has_dataset_access \<and> \<not> user_has_tools_access user
       then bindA (create_request (new_access_request 0 (wu_id user) (map_option ce_id item))) (\<lambda>pk. give (To ''tools-1'' (Some pk)))
       else if user_has_dataset_access then give (Shown ''request_access/you_have_access.html'')
       else case item of None \<Rightarrow> raising ''KeyError'' | Some e \<Rightarrow>
         (case Option.bind posted dataset_access_request_form of
            None \<Rightarrow> give (Shown ''request_access/dataset.html'')
          | Some (contact_email, reason) \<Rightarrow>
              bindA (create_request ((new_access_request 0 (wu_id user) (Some (ce_id e)))
                \<lparr>rq_contact_email := contact_email, rq_reason_for_access := reason\<rparr>)) (\<lambda>pk.
              give (if user_has_tools_access user \<or> ce_type e \<in> {VISUALISATION_TYPE, DATACUT}
                then To ''summary-page'' (Some pk) else To ''tools-1'' (Some pk))))))"

text \<open>\<open>get_object\<close>, and the mixin that hides other people's requests.\<close>

definition get_request :: "nat \<Rightarrow> access_state \<Rightarrow> exc + access_request" where
  "get_request pk s = (case get_row (\<lambda>r. rq_id r = pk) (as_requests s) of Inl e \<Rightarrow> Inl ''Http404'' | Inr r \<Rightarrow> Inr r)"

definition own_request :: "web_user \<Rightarrow> nat \<Rightarrow> access_state \<Rightarrow> exc + access_request" where
  "own_request user pk s = (case get_request pk s of Inl e \<Rightarrow> Inl e
     | Inr r \<Rightarrow> if rq_requester r \<noteq> wu_id user then Inl ''Http404'' else Inr r)"

definition dataset_access_request_update :: "web_user \<Rightarrow> nat \<Rightarrow> string \<times> string \<Rightarrow> access_page access_action" where
  "dataset_access_request_update user pk posted = fetches (own_request user pk) (\<lambda>r.
     case dataset_access_request_form posted of None \<Rightarrow> give (Shown ''request_access/dataset.html'')
     | Some (contact_email, reason) \<Rightarrow>
         let r' = r\<lparr>rq_contact_email := contact_email, rq_reason_for_access := reason\<rparr>
         in bindA (save_request r') (\<lambda>_.
            give (if journey r' = Some DATASET_ACCESS then To ''summary-page'' (Some pk) else To ''tools-1'' (Some pk))))"

text \<open>A file that is not posted anew stays as it is; without any the form is invalid.\<close>

definition tools_access_request_part1 :: "web_user \<Rightarrow> nat \<Rightarrow> string option \<Rightarrow> access_page access_action" where
  "tools_access_request_part1 user pk posted = fetches (own_request user pk) (\<lambda>r.
     let screenshot = (case posted of Some f \<Rightarrow> f | None \<Rightarrow> rq_training_screenshot r)
     in if screenshot = [] then give (Shown ''request_access/tools_1.html'')
        else bindA (save_request (r\<lparr>rq_training_screenshot := screenshot\<rparr>)) (\<lambda>_. give (To ''tools-2'' (Some pk))))"

definition tools_access_request_part2 :: "web_user \<Rightarrow> nat \<Rightarrow> string \<Rightarrow> access_page access_action" where
  "tools_access_request_part2 user pk posted = fetches (own_request user pk) (\<lambda>r.
     let spss_and_stata = (posted \<noteq> [] \<and> lower posted \<notin> {''false'', ''0''})
     in bindA (save_request (r\<lparr>rq_spss_and_stata := spss_and_stata\<rparr>)) (\<lambda>_.
        give (To (if spss_and_stata then ''tools-3'' else ''summary-page'') (Some pk))))"

definition tools_access_request_part3 :: "nat \<Rightarrow> string \<times> string \<Rightarrow> access_page access_action" where
  "tools_access_request_part3 pk posted = fetches (get_request pk) (\<lambda>r.
     let line_manager = strip (fst posted); reason = strip (snd posted)
     in if line_manager = [] \<or> 256 < length line_manager \<or> reason = [] then give (Shown ''request_access/tools_3.html'')
        else bindA (save_request (r\<lparr>rq_line_manager_email_address := line_manager, rq_reason_for_spss_and_stata := reason\<rparr>))
          (\<lambda>_. give (To ''summary-page'' (Some pk))))"

definition access_request_summary_page :: "web_user \<Rightarrow> nat \<Rightarrow> bool \<Rightarrow> access_page access_action" where
  "access_request_summary_page user pk is_post = fetches (own_request user pk) (\<lambda>r.
     if is_post then give (To ''confirmation-page'' (Some pk))
     else fetches (catalogue_item_of_request user (rq_catalogue_item_id r)) (\<lambda>_. give (Shown ''request_access/summary.html'')))"

definition user_row :: "nat \<Rightarrow> access_state \<Rightarrow> exc + web_user" where
  "user_row i s = get_row (\<lambda>u. wu_id u = i) (as_users s)"

text \<open>Visualisations with a template are for their contacts to share, everything else is for the support team.\<close>

definition request_ticket ::
  "ticket_services \<Rightarrow> web_user \<Rightarrow> web_user \<Rightarrow> access_request \<Rightarrow> catalogue_entry option \<Rightarrow> string access_action" where
  "request_ticket ts user requester r item = (case item of
       Some e \<Rightarrow> if ce_type e = VISUALISATION_TYPE \<and> ce_gitlab e \<noteq> None
         then notify_visualisation_access_request ts user r e
         else create_zendesk_ticket ts requester r item
     | None \<Rightarrow> create_zendesk_ticket ts requester r item)"

definition note_reference :: "web_user \<Rightarrow> access_request \<Rightarrow> catalogue_entry option \<Rightarrow> string \<Rightarrow> unit access_action" where
  "note_reference user r item reference =
     bindA (save_request (r\<lparr>rq_zendesk_reference_number := reference\<rparr>)) (\<lambda>_.
     writes (\<lambda>s. s\<lparr>as_events := as_events s @ [(wu_id user,
       if item = None then ''Tools access request'' else ''Dataset access request'', map_option ce_id item, reference)]\<rparr>))"

definition raise_ticket :: "ticket_services \<Rightarrow> web_user \<Rightarrow> access_request \<Rightarrow> unit access_action" where
  "raise_ticket ts user r = fetches (catalogue_item_of_request user (rq_catalogue_item_id r)) (\<lambda>item.
     fetches (user_row (rq_requester r)) (\<lambda>requester.
     bindA (request_ticket ts user requester r item) (note_reference user r item)))"

definition access_request_confirmation_page :: "ticket_services \<Rightarrow> web_user \<Rightarrow> nat \<Rightarrow> access_page access_action" where
  "access_request_confirmation_page ts user pk = fetches (own_request user pk) (\<lambda>r.
     bindA (if rq_zendesk_reference_number r \<noteq> [] then give () else raise_ticket ts user r) (\<lambda>_.
     fetches (catalogue_item_of_request user (rq_catalogue_item_id r)) (\<lambda>_.
     give (Shown ''request_access/confirmation-page.html''))))"

end
