(* ===== verification/DataRequests.thy ===== *)
theory DataRequests
  imports AccessRequests
begin

text \<open>
  \<open>apps/request_data\<close>: the pages on which people ask for new data, their order, and the ticket at the end.
\<close>

section \<open>Pages\<close>

datatype data_page =
    Request_index
  | Who_are_you
  | Owner_or_manager
  | Describe_data
  | Purpose_of_data
  | Security_classification
  | Location_of_data
  | Licence_of_data
  | Check_answers
  | Confirmation_page

definition role_values :: "string list" where
  "role_values = [''IAO'', ''IAM'', ''other'']"

definition classification_values :: "string list" where
  "classification_values = [''official'', ''commercially-sensitive'', ''personal'', ''locsen'', ''secret'', ''top-secret'', ''unknown'']"

definition is_owner_or_manager :: "data_request \<Rightarrow> bool" where
  "is_owner_or_manager r \<longleftrightarrow> dr_requester_role r \<in> {''IAM'', ''IAO''}"

text \<open>\<open>get_success_url\<close>, with and without \<open>change\<close> in the query; the flag says whether the next address has it.\<close>

fun success_page :: "data_page \<Rightarrow> bool \<Rightarrow> data_request \<Rightarrow> data_page \<times> bool" where
  "success_page Who_are_you change r =
     (if change
      then if \<not> is_owner_or_manager r \<and> dr_name_of_owner_or_manager r = [] then (Owner_or_manager, True) else (Check_answers, False)
      else if is_owner_or_manager r then (Describe_data, False) else (Owner_or_manager, False))"
| "success_page Owner_or_manager change r = (if change then Check_answers else Describe_data, False)"
| "success_page Describe_data change r = (if change then Check_answers else Purpose_of_data, False)"
| "success_page Purpose_of_data change r = (if change then Check_answers else Security_classification, False)"
| "success_page Security_classification change r = (if change then Check_answers else Location_of_data, False)"
| "success_page Location_of_data change r = (if change then Check_answers else Licence_of_data, False)"
| "success_page p change r = (Check_answers, False)"

text \<open>The links back.\<close>

fun back_page :: "data_page \<Rightarrow> bool \<Rightarrow> data_request \<Rightarrow> data_page" where
  "back_page Check_answers change r = Location_of_data"
| "back_page p True r = Check_answers"
| "back_page Who_are_you change r = Request_index"
| "back_page Owner_or_manager change r = Who_are_you"
| "back_page Describe_data change r = (if is_owner_or_manager r then Who_are_you else Owner_or_manager)"
| "back_page Purpose_of_data change r = Describe_data"
| "back_page Security_classification change r = Purpose_of_data"
| "back_page Location_of_data change r = Licence_of_data"
| "back_page Licence_of_data change r = Security_classification"
| "back_page p change r = p"

text \<open>The form of a page, on the posted value: the row that is saved, or \<open>None\<close> when the form is invalid.\<close>

fun data_form :: "data_page \<Rightarrow> string \<Rightarrow> data_request \<Rightarrow> data_request option" where
  "data_form Who_are_you v r = (if v \<in> set role_values then Some (r\<lparr>dr_requester_role := v\<rparr>) else None)"
| "data_form Owner_or_manager v r = (if length (strip v) \<le> 256 then Some (r\<lparr>dr_name_of_owner_or_manager := strip v\<rparr>) else None)"
| "data_form Describe_data v r = (if strip v \<noteq> [] then Some (r\<lparr>dr_data_description := strip v\<rparr>) else None)"
| "data_form Purpose_of_data v r = (if strip v \<noteq> [] then Some (r\<lparr>dr_data_purpose := strip v\<rparr>) else None)"
| "data_form Security_classification v r =
     (if v \<in> set classification_values then Some (r\<lparr>dr_security_classification := v\<rparr>) else None)"
| "data_form Location_of_data v r = Some (r\<lparr>dr_data_location := strip v\<rparr>)"
| "data_form Licence_of_data v r = (if strip v \<noteq> [] then Some (r\<lparr>dr_data_licence := strip v\<rparr>) else None)"
| "data_form p v r = None"

section \<open>Views\<close>

datatype data_answer =
    Go data_page nat bool
  | Form data_page
  | Bad_request

definition request_data_post :: "web_user \<Rightarrow> data_answer access_action" where
  "request_data_post user = reads (\<lambda>s. next_id (map dr_id (as_data_requests s))) (\<lambda>i.
     bindA (writes (\<lambda>s. s\<lparr>as_data_requests := as_data_requests s @ [\<lparr>dr_id = i, dr_requester = wu_id user,
       dr_requester_role = [], dr_name_of_owner_or_manager = [], dr_data_description = [], dr_data_purpose = [],
       dr_data_location = [], dr_data_licence = [], dr_security_classification = [], dr_submitted = False,
       dr_zendesk_ticket_id = []\<rparr>]\<rparr>)) (\<lambda>_. give (Go Who_are_you i False)))"

definition get_data_request :: "nat \<Rightarrow> access_state \<Rightarrow> exc + data_request" where
  "get_data_request pk s = (case get_row (\<lambda>r. dr_id r = pk) (as_data_requests s) of Inl e \<Rightarrow> Inl ''Http404'' | Inr r \<Rightarrow> Inr r)"

definition save_data_request :: "data_request \<Rightarrow> unit access_action" where
  "save_data_request r =
     writes (\<lambda>s. s\<lparr>as_data_requests := map (\<lambda>q. if dr_id q = dr_id r then r else q) (as_data_requests s)\<rparr>)"

text \<open>An \<open>UpdateView\<close> of these pages.\<close>

definition update_data_request :: "data_page \<Rightarrow> bool \<Rightarrow> nat \<Rightarrow> string \<Rightarrow> data_answer access_action" where
  "update_data_request p change pk v = fetches (get_data_request pk) (\<lambda>r. case data_form p v r of
       None \<Rightarrow> give (Form p)
     | Some r' \<Rightarrow> bindA (save_data_request r') (\<lambda>_. case success_page p change r' of (q, c) \<Rightarrow> give (Go q pk c)))"

text \<open>\<open>clean_fields\<close>: the fields that may not be blank, the choices and the lengths.\<close>

definition fields_are_clean :: "data_request \<Rightarrow> bool" where
  "fields_are_clean r \<longleftrightarrow> dr_requester_role r \<in> set role_values \<and> length (dr_name_of_owner_or_manager r) \<le> 256 \<and>
     dr_data_description r \<noteq> [] \<and> dr_data_purpose r \<noteq> [] \<and> dr_security_classification r \<in> set classification_values"

definition provided :: "string \<Rightarrow> string" where
  "provided v = (if v = [] then ''[not provided]'' else v)"

definition data_request_message :: "web_user \<Rightarrow> data_request \<Rightarrow> string list" where
  "data_request_message requester r =
     [dr_requester_role r, provided (dr_name_of_owner_or_manager r), provided (dr_data_description r),
      provided (dr_data_purpose r), provided (dr_data_location r), provided (dr_security_classification r),
      provided (dr_data_licence r), get_username requester, wu_email requester]"

definition check_answers_post :: "ticket_services \<Rightarrow> nat \<Rightarrow> data_answer access_action" where
  "check_answers_post ts pk = fetches (get_data_request pk) (\<lambda>r.
     if dr_submitted r then give (Go Confirmation_page pk False)
     else if \<not> fields_are_clean r then give Bad_request
     else fetches (user_row (dr_requester r)) (\<lambda>requester.
       bindA (create_support_request ts requester (wu_email requester) (Some pk) (data_request_message requester r)
         (Some ''request-for-data'') (Some ''Request for new dataset on Data Workspace'')) (\<lambda>ticket_id.
       bindA (save_data_request (r\<lparr>dr_submitted := True, dr_zendesk_ticket_id := ticket_id\<rparr>)) (\<lambda>_.
       give (Go Confirmation_page pk False)))))"

end
