(* ===== verification/AccessProperties.thy ===== *)
theory AccessProperties
  imports DataRequests
begin

text \<open>
  What the requests for access and for data guarantee: whose requests a page changes, how many tickets a request ends
  in, and that the pages lead there.
\<close>

section \<open>Visits\<close>

datatype access_visit =
    Ask "nat option" "(string \<times> string) option"
  | Change_dataset nat "string \<times> string"
  | Tools_1 nat "string option"
  | Tools_2 nat string
  | Tools_3 nat "string \<times> string"
  | Summary nat bool
  | Confirmation nat

fun visit_page :: "ticket_services \<Rightarrow> web_user \<Rightarrow> access_visit \<Rightarrow> access_page access_action" where
  "visit_page ts user (Ask i x) = dataset_access_request user i x"
| "visit_page ts user (Change_dataset pk x) = dataset_access_request_update user pk x"
| "visit_page ts user (Tools_1 pk x) = tools_access_request_part1 user pk x"
| "visit_page ts user (Tools_2 pk x) = tools_access_request_part2 user pk x"
| "visit_page ts user (Tools_3 pk x) = tools_access_request_part3 pk x"
| "visit_page ts user (Summary pk x) = access_request_summary_page user pk x"
| "visit_page ts user (Confirmation pk) = access_request_confirmation_page ts user pk"

section \<open>Other people's requests\<close>

definition others :: "nat \<Rightarrow> access_state \<Rightarrow> access_request list" where
  "others u s = filter (\<lambda>r. rq_requester r \<noteq> u) (as_requests s)"

lemma get_row_unique:
  assumes "get_row c rows = Inr r" "q \<in> set rows" "c q"
  shows "q = r"
proof -
  have "filter c rows = [r]" using assms(1) by (auto simp: get_row_def split: list.splits)
  moreover have "q \<in> set (filter c rows)" using assms(2,3) by simp
  ultimately show ?thesis by simp
qed

lemma get_request_unique: "get_request pk s = Inr r \<Longrightarrow> q \<in> set (as_requests s) \<Longrightarrow> rq_id q = pk \<Longrightarrow> q = r"
  by (auto simp: get_request_def dest: get_row_unique split: sum.splits)

lemma get_request_Some: "get_request pk s = Inr r \<Longrightarrow> r \<in> set (as_requests s) \<and> rq_id r = pk"
  by (auto simp: get_request_def dest: get_row_Some split: sum.splits)

lemma own_request_Inr: "own_request user pk s = Inr r \<longleftrightarrow> get_request pk s = Inr r \<and> rq_requester r = wu_id user"
  by (auto simp: own_request_def split: sum.splits if_splits)

text \<open>A saved row takes the place of the one that was loaded.\<close>

lemma others_saved:
  assumes "\<And>q. q \<in> set rows \<Longrightarrow> rq_id q = rq_id r \<Longrightarrow> rq_requester q = u" "rq_requester r = u"
  shows "filter (\<lambda>q. rq_requester q \<noteq> u) (map (\<lambda>q. if rq_id q = rq_id r then r else q) rows) =
    filter (\<lambda>q. rq_requester q \<noteq> u) rows"
  using assms by (induction rows) auto

lemma wp_save_request:
  assumes "get_request (rq_id r) s = Inr q" "rq_requester q = u" "rq_requester r = u"
  shows "wp (save_request r) (\<lambda>_ s'. others u s' = others u s) s"
proof -
  have "filter (\<lambda>q. rq_requester q \<noteq> u) (map (\<lambda>q. if rq_id q = rq_id r then r else q) (as_requests s)) =
    filter (\<lambda>q. rq_requester q \<noteq> u) (as_requests s)"
    by (rule others_saved) (use get_request_unique [OF assms(1)] assms(2,3) in blast)+
  then show ?thesis by (simp add: save_request_def others_def)
qed

lemma create_ticket_requests: "wp (create_ticket ts t) (\<lambda>_ s'. as_requests s' = as_requests s) s"
  by (simp add: create_ticket_def split: sum.split)

lemma send_mails_requests:
  "relates (\<lambda>s s'. as_requests s' = as_requests s \<and> as_tickets s' = as_tickets s \<and> as_data_requests s' = as_data_requests s)
     (each (\<lambda>contact. case ts_mail ts contact of Inl e \<Rightarrow> raising e
       | Inr _ \<Rightarrow> writes (\<lambda>s. s\<lparr>as_mails := as_mails s @ [(contact, i)]\<rparr>)) cs)"
  by (auto simp: preorder_def intro!: relates relates_writes)

text \<open>
  A ticket that is asked for: requests stay as they are, at most one ticket is added, and if the calls after its creation do
  not fail, it is added exactly when its number is returned.
\<close>

definition access_tag :: "ticket \<Rightarrow> bool" where
  "access_tag t \<longleftrightarrow> tk_tag t \<noteq> Some ''request-for-data''"

definition reliable :: "ticket_services \<Rightarrow> bool" where
  "reliable ts \<longleftrightarrow> ts_create ts \<noteq> Inr [] \<and> ts_update ts = Inr () \<and> (\<forall>c. ts_mail ts c = Inr ())"

definition ticketed :: "ticket_services \<Rightarrow> nat \<Rightarrow> access_state \<Rightarrow> exc + string \<Rightarrow> access_state \<Rightarrow> bool" where
  "ticketed ts i s r s' \<longleftrightarrow> as_requests s' = as_requests s \<and>
     ((\<exists>t. as_tickets s' = as_tickets s @ [t] \<and> tk_about t = Some i \<and> access_tag t) \<and>
        (reliable ts \<longrightarrow> (\<exists>n. r = Inr n \<and> n \<noteq> [])) \<or>
      as_tickets s' = as_tickets s \<and> (\<exists>e. r = Inl e))"

lemma request_ticket_wp: "wp (request_ticket ts user requester r item) (ticketed ts (rq_id r) s) s"
proof -
  have z: "wp (create_zendesk_ticket ts requester r item) (ticketed ts (rq_id r) s) s"
    by (auto simp: create_zendesk_ticket_def Let_def create_ticket_def ticketed_def reliable_def access_tag_def split: sum.split)
  have "wp (notify_visualisation_access_request ts user r e) (ticketed ts (rq_id r) s) s" for e
  proof -
    have m: "reliable ts \<Longrightarrow> wp (each (\<lambda>contact. case ts_mail ts contact of Inl e \<Rightarrow> raising e
       | Inr _ \<Rightarrow> writes (\<lambda>s. s\<lparr>as_mails := as_mails s @ [(contact, i)]\<rparr>)) cs) (\<lambda>r _. r = Inr ()) s" for cs i s
      by (induction cs arbitrary: s) (auto simp: reliable_def)
    note m' = wp_conj [OF wp_relates [OF send_mails_requests]]
    have "wp (each (\<lambda>contact. case ts_mail ts contact of Inl e \<Rightarrow> raising e
         | Inr _ \<Rightarrow> writes (\<lambda>s. s\<lparr>as_mails := as_mails s @ [(contact, i)]\<rparr>)) cs)
       (\<lambda>r s'. as_requests s' = as_requests s \<and> as_tickets s' = as_tickets s \<and> (reliable ts \<longrightarrow> r = Inr ())) s" for cs i s
    proof (cases "reliable ts")
      case True
      show ?thesis by (rule wp_conseq [OF m' [OF m [OF True]]]) simp
    qed (rule wp_conseq [OF wp_relates [OF send_mails_requests]], simp)
    note w = this
    show ?thesis unfolding notify_visualisation_access_request_def create_support_request_def create_ticket_def
      by (auto simp: reliable_def access_tag_def ticketed_def split: sum.split intro!: wp_conseq [OF w])
  qed
  with z show ?thesis by (auto simp: request_ticket_def split: option.split)
qed

lemma create_request_others: "rq_requester r = u \<Longrightarrow> wp (create_request r) (\<lambda>_ s'. others u s' = others u s) s"
  by (simp add: create_request_def others_def)

lemma ask_keeps_others: "wp (dataset_access_request user i x) (\<lambda>_ s'. others (wu_id user) s' = others (wu_id user) s) s"
  by (auto simp: dataset_access_request_def new_access_request_def split: sum.split option.split
      intro!: wp_conseq [OF create_request_others])

lemma raise_ticket_keeps_others:
  assumes "own_request user pk s = Inr r"
  shows "wp (raise_ticket ts user r) (\<lambda>_ s'. others (wu_id user) s' = others (wu_id user) s) s"
proof -
  have "wp (bindA (request_ticket ts user requester r item) (note_reference user r item))
    (\<lambda>_ s'. others (wu_id user) s' = others (wu_id user) s) s" for requester item
  proof (rule wp_bind [OF request_ticket_wp], goal_cases)
    case (2 reference s1)
    let ?r = "r\<lparr>rq_zendesk_reference_number := reference\<rparr>"
    have "get_request (rq_id ?r) s1 = Inr r"
      using 2 assms get_request_Some [of pk s r] by (simp add: own_request_Inr get_request_def ticketed_def)
    then have "wp (save_request ?r) (\<lambda>_ s'. others (wu_id user) s' = others (wu_id user) s1) s1"
      using assms by (intro wp_save_request [where q = r]) (simp_all add: own_request_Inr)
    moreover have "others (wu_id user) s1 = others (wu_id user) s" using 2 by (simp add: others_def ticketed_def)
    ultimately show ?case by (auto simp: note_reference_def others_def split: sum.split elim!: wp_conseq)
  qed (simp add: others_def ticketed_def)
  then show ?thesis by (simp add: raise_ticket_def split: sum.split del: wp_bindA)
qed

lemma confirmation_keeps_others:
  "wp (access_request_confirmation_page ts user pk) (\<lambda>_ s'. others (wu_id user) s' = others (wu_id user) s) s"
  by (auto simp: access_request_confirmation_page_def split: sum.split
      intro!: wp_conseq [OF raise_ticket_keeps_others])

lemma updates_keep_others:
  "wp (dataset_access_request_update user pk x) (\<lambda>_ s'. others (wu_id user) s' = others (wu_id user) s) s"
  "wp (tools_access_request_part1 user pk f) (\<lambda>_ s'. others (wu_id user) s' = others (wu_id user) s) s"
  "wp (tools_access_request_part2 user pk v) (\<lambda>_ s'. others (wu_id user) s' = others (wu_id user) s) s"
proof -
  have k: "wp (save_request r') Q s" if "own_request user pk s = Inr r" "rq_id r' = rq_id r" "rq_requester r' = rq_requester r"
    "\<And>r s'. others (wu_id user) s' = others (wu_id user) s \<Longrightarrow> Q r s'" for r r' Q
    using that get_request_Some [of pk s r] by (intro wp_conseq [OF wp_save_request [of r' s r]]) (auto simp: own_request_Inr)
  show "wp (dataset_access_request_update user pk x) (\<lambda>_ s'. others (wu_id user) s' = others (wu_id user) s) s"
    "wp (tools_access_request_part1 user pk f) (\<lambda>_ s'. others (wu_id user) s' = others (wu_id user) s) s"
    "wp (tools_access_request_part2 user pk v) (\<lambda>_ s'. others (wu_id user) s' = others (wu_id user) s) s"
    by (auto simp: dataset_access_request_update_def tools_access_request_part1_def tools_access_request_part2_def Let_def
        split: sum.split option.split intro!: k)
qed

text \<open>
  C38: whatever a visitor posts, requests of other people stay as they are on every page but the third about tools.
\<close>

theorem access_requests_are_kept_apart:
  assumes "\<not> (\<exists>pk x. v = Tools_3 pk x)"
  shows "others (wu_id user) (snd (visit_page ts user v s)) = others (wu_id user) s"
proof -
  have "wp (visit_page ts user v) (\<lambda>_ s'. others (wu_id user) s' = others (wu_id user) s) s"
    using assms by (cases v) (auto intro: ask_keeps_others updates_keep_others confirmation_keeps_others
        simp: access_request_summary_page_def split: sum.split)
  then show ?thesis by (simp add: wp_def case_prod_beta)
qed

section \<open>One ticket\<close>

definition access_tickets :: "nat \<Rightarrow> access_state \<Rightarrow> ticket list" where
  "access_tickets i s = filter (\<lambda>t. tk_about t = Some i \<and> access_tag t) (as_tickets s)"











section \<open>Samples, and what does not hold\<close>

definition sample_web_user :: "nat \<Rightarrow> web_user" where
  "sample_web_user i = \<lparr>wu_id = i, wu_email = ''u@x.uk'', wu_first_name = ''A'', wu_last_name = ''B'', wu_is_superuser = False,
     wu_permissions = []\<rparr>"

definition sample_access_state :: access_state where
  "sample_access_state = \<lparr>as_users = [sample_web_user 1, sample_web_user 2],
     as_catalogue = \<lparr>ca_datasets = [], ca_visualisations = [], ca_references = []\<rparr>, as_requests = [], as_data_requests = [],
     as_tickets = [], as_mails = [], as_events = []\<rparr>"

definition working :: ticket_services where
  "working = \<lparr>ts_create = Inr ''7'', ts_update = Inr (), ts_mail = (\<lambda>_. Inr ())\<rparr>"



theorem access_requests_are_kept_apart_witness:
  "others 2 (snd (visit_page working (sample_web_user 2) (Tools_1 1 (Some ''f''))
     (snd (visit_page working (sample_web_user 1) (Ask None None) sample_access_state)))) =
   others 2 (snd (visit_page working (sample_web_user 1) (Ask None None) sample_access_state))"
  using access_requests_are_kept_apart [of "Tools_1 1 (Some ''f'')" "sample_web_user 2" working
      "snd (visit_page working (sample_web_user 1) (Ask None None) sample_access_state)"]
  by (simp add: sample_web_user_def)



text \<open>The third page about tools takes anybody's request.\<close>

theorem third_tools_page_is_open:
  "others 2 (snd (visit_page working (sample_web_user 2) (Tools_3 1 (''m@x.uk'', ''r''))
     (snd (visit_page working (sample_web_user 1) (Ask None None) sample_access_state)))) \<noteq>
   others 2 (snd (visit_page working (sample_web_user 1) (Ask None None) sample_access_state))"
  by code_simp

text \<open>When the comment on a new ticket fails, its number is lost, and the next visit of the page makes another ticket.\<close>

theorem failed_comments_repeat_tickets:
  "length (access_tickets 1 (fold (\<lambda>ts s. snd (visit_page ts (sample_web_user 1) (Confirmation 1) s))
     [working\<lparr>ts_update := Inl ''APIException''\<rparr>, working]
     (snd (visit_page working (sample_web_user 1) (Ask None None) sample_access_state)))) = 2"
  by code_simp

text \<open>The private comment never names the manager as such, and names the manager in place of the owner.\<close>

theorem comments_confuse_owner_and_manager:
  "build_private_comment_text e = [''Information Asset Owner: '' @ (case ce_manager e of Some m \<Rightarrow> m | None \<Rightarrow>
     case ce_owner e of Some i \<Rightarrow> i | None \<Rightarrow> ''None''), ''Information Asset Manager: None'']"
  by (simp add: build_private_comment_text_def split: option.split)

section \<open>Requests for data\<close>

text \<open>Answers to the pages that their forms accept.\<close>

definition answers_fit :: "(data_page \<Rightarrow> string) \<Rightarrow> bool" where
  "answers_fit answers \<longleftrightarrow> answers Who_are_you \<in> set role_values \<and> length (strip (answers Owner_or_manager)) \<le> 256 \<and>
     strip (answers Describe_data) \<noteq> [] \<and> strip (answers Purpose_of_data) \<noteq> [] \<and>
     answers Security_classification \<in> set classification_values \<and> strip (answers Licence_of_data) \<noteq> []"

text \<open>Somebody who fills in each page and follows it to the next, and the pages they have filled in.\<close>

fun fill_in :: "nat \<Rightarrow> (data_page \<Rightarrow> string) \<Rightarrow> data_page \<Rightarrow> nat \<Rightarrow> access_state \<Rightarrow> data_page list \<times> access_state" where
  "fill_in 0 answers p pk s = ([], s)"
| "fill_in (Suc n) answers p pk s =
     (if p = Check_answers then ([], s) else case update_data_request p False pk (answers p) s of
        (Inr (Go q _ _), s') \<Rightarrow> (case fill_in n answers q pk s' of (ps, s'') \<Rightarrow> (p # ps, s''))
      | (_, s') \<Rightarrow> ([p], s'))"

lemma get_row_replace: "get_row (\<lambda>r. dr_id r = i) rows = Inr r \<Longrightarrow> dr_id r' = i \<Longrightarrow>
    get_row (\<lambda>r. dr_id r = i) (map (\<lambda>q. if dr_id q = i then r' else q) rows) = Inr r'"
proof -
  assume g: "get_row (\<lambda>r. dr_id r = i) rows = Inr r" and i: "dr_id r' = i"
  have "filter (\<lambda>r. dr_id r = i) (map (\<lambda>q. if dr_id q = i then r' else q) rows) = map (\<lambda>_. r') (filter (\<lambda>r. dr_id r = i) rows)"
    using i by (induction rows) auto
  moreover have "filter (\<lambda>r. dr_id r = i) rows = [r]" using g by (auto simp: get_row_def split: list.splits)
  ultimately show ?thesis by (simp add: get_row_def)
qed

lemma update_step:
  assumes "get_data_request pk s = Inr r" "data_form p v r = Some r'" "dr_id r' = pk"
  shows "\<exists>s'. update_data_request p c pk v s = (Inr (Go (fst (success_page p c r')) pk (snd (success_page p c r'))), s') \<and>
    get_data_request pk s' = Inr r' \<and> as_tickets s' = as_tickets s \<and> as_users s' = as_users s"
proof -
  have "get_row (\<lambda>r. dr_id r = pk) (as_data_requests s) = Inr r"
    using assms(1) by (auto simp: get_data_request_def split: sum.splits)
  then show ?thesis
    using assms get_row_replace [of pk "as_data_requests s" r r']
    by (simp add: update_data_request_def save_data_request_def action_defs case_prod_beta) (simp add: get_data_request_def)
qed

text \<open>\<open>reaches answers pk us rq n p s ps\<close>: from page \<open>p\<close>, at most \<open>n\<close> pages lead to the check of the answers with a clean row.\<close>

definition reaches :: "(data_page \<Rightarrow> string) \<Rightarrow> nat \<Rightarrow> nat \<Rightarrow> data_page \<Rightarrow> access_state \<Rightarrow> data_page list \<Rightarrow> bool" where
  "reaches answers pk n p s ps \<longleftrightarrow> (\<exists>s' r'. fill_in n answers p pk s = (ps, s') \<and> get_data_request pk s' = Inr r' \<and>
     fields_are_clean r' \<and> \<not> dr_submitted r' \<and> as_tickets s' = as_tickets s \<and> as_users s' = as_users s \<and>
     (\<forall>r. get_data_request pk s = Inr r \<longrightarrow> dr_requester r' = dr_requester r))"

lemma reached_step:
  assumes "get_data_request pk s = Inr r" "data_form p (answers p) r = Some r'" "dr_id r' = pk" "p \<noteq> Check_answers"
    "dr_requester r' = dr_requester r"
    "\<And>s'. get_data_request pk s' = Inr r' \<Longrightarrow> reaches answers pk n (fst (success_page p False r')) s' ps"
  shows "reaches answers pk (Suc n) p s (p # ps)"
proof -
  obtain s1 where u: "update_data_request p False pk (answers p) s =
      (Inr (Go (fst (success_page p False r')) pk (snd (success_page p False r'))), s1)"
    "get_data_request pk s1 = Inr r'" "as_tickets s1 = as_tickets s" "as_users s1 = as_users s"
    using update_step [OF assms(1-3)] by blast
  from assms(6) [OF u(2)] u assms(1,4,5) show ?thesis by (auto simp: reaches_def split: prod.split)
qed

lemma reaches_check:
  "get_data_request pk s = Inr r \<Longrightarrow> fields_are_clean r \<Longrightarrow> \<not> dr_submitted r \<Longrightarrow> reaches answers pk (Suc n) Check_answers s []"
  by (simp add: reaches_def)

definition pages_in_order :: "(data_page \<Rightarrow> string) \<Rightarrow> data_page list" where
  "pages_in_order answers = Who_are_you # (if answers Who_are_you = ''other'' then [Owner_or_manager] else []) @
     [Describe_data, Purpose_of_data, Security_classification, Location_of_data, Licence_of_data]"

lemma pages_reach_check:
  assumes fit: "answers_fit answers" and r: "get_data_request pk s = Inr r" "dr_id r = pk" "\<not> dr_submitted r"
    "length (dr_name_of_owner_or_manager r) \<le> 256"
  shows "reaches answers pk 8 Who_are_you s (pages_in_order answers)"
proof -
  note fs = fit [unfolded answers_fit_def]
  have licence: "reaches answers pk (Suc (Suc n)) Licence_of_data s [Licence_of_data]"
    if "get_data_request pk s = Inr r" "dr_id r = pk" "\<not> dr_submitted r" "fields_are_clean r" for s r n
    by (rule reached_step [OF that(1), where r' = "r\<lparr>dr_data_licence := strip (answers Licence_of_data)\<rparr>"])
      (rule reaches_check, assumption | use that fs in \<open>simp add: fields_are_clean_def\<close>)+
  have location: "reaches answers pk (Suc (Suc (Suc n))) Location_of_data s [Location_of_data, Licence_of_data]"
    if "get_data_request pk s = Inr r" "dr_id r = pk" "\<not> dr_submitted r" "fields_are_clean r" for s r n
    by (rule reached_step [OF that(1), where r' = "r\<lparr>dr_data_location := strip (answers Location_of_data)\<rparr>"])
      (rule licence, assumption | use that fs in \<open>simp add: fields_are_clean_def\<close>)+
  have security: "reaches answers pk (Suc (Suc (Suc (Suc n)))) Security_classification s
      [Security_classification, Location_of_data, Licence_of_data]"
    if "get_data_request pk s = Inr r" "dr_id r = pk" "\<not> dr_submitted r" "dr_requester_role r \<in> set role_values"
      "length (dr_name_of_owner_or_manager r) \<le> 256" "dr_data_description r \<noteq> []" "dr_data_purpose r \<noteq> []" for s r n
    by (rule reached_step [OF that(1), where r' = "r\<lparr>dr_security_classification := answers Security_classification\<rparr>"])
      (rule location, assumption | use that fs in \<open>simp add: fields_are_clean_def\<close>)+
  have purpose: "reaches answers pk (Suc (Suc (Suc (Suc (Suc n))))) Purpose_of_data s
      [Purpose_of_data, Security_classification, Location_of_data, Licence_of_data]"
    if "get_data_request pk s = Inr r" "dr_id r = pk" "\<not> dr_submitted r" "dr_requester_role r \<in> set role_values"
      "length (dr_name_of_owner_or_manager r) \<le> 256" "dr_data_description r \<noteq> []" for s r n
    by (rule reached_step [OF that(1), where r' = "r\<lparr>dr_data_purpose := strip (answers Purpose_of_data)\<rparr>"])
      (rule security, assumption | use that fs in simp)+
  have describe: "reaches answers pk (Suc (Suc (Suc (Suc (Suc (Suc n)))))) Describe_data s
      [Describe_data, Purpose_of_data, Security_classification, Location_of_data, Licence_of_data]"
    if "get_data_request pk s = Inr r" "dr_id r = pk" "\<not> dr_submitted r" "dr_requester_role r \<in> set role_values"
      "length (dr_name_of_owner_or_manager r) \<le> 256" for s r n
    by (rule reached_step [OF that(1), where r' = "r\<lparr>dr_data_description := strip (answers Describe_data)\<rparr>"])
      (rule purpose, assumption | use that fs in simp)+
  have owner: "reaches answers pk (Suc (Suc (Suc (Suc (Suc (Suc (Suc n))))))) Owner_or_manager s
      [Owner_or_manager, Describe_data, Purpose_of_data, Security_classification, Location_of_data, Licence_of_data]"
    if "get_data_request pk s = Inr r" "dr_id r = pk" "\<not> dr_submitted r" "dr_requester_role r \<in> set role_values" for s r n
    by (rule reached_step [OF that(1), where r' = "r\<lparr>dr_name_of_owner_or_manager := strip (answers Owner_or_manager)\<rparr>"])
      (rule describe, assumption | use that fs in simp)+
  let ?r = "r\<lparr>dr_requester_role := answers Who_are_you\<rparr>"
  have roles: "is_owner_or_manager ?r \<longleftrightarrow> answers Who_are_you \<noteq> ''other''"
    using fs by (auto simp: role_values_def is_owner_or_manager_def)
  have first: "reaches answers pk (Suc (Suc (Suc (Suc (Suc (Suc (Suc (Suc 0)))))))) Who_are_you s (Who_are_you # ps)"
    if "\<And>s'. get_data_request pk s' = Inr ?r \<Longrightarrow>
      reaches answers pk (Suc (Suc (Suc (Suc (Suc (Suc (Suc 0))))))) (if is_owner_or_manager ?r then Describe_data else Owner_or_manager) s' ps" for ps
    by (rule reached_step [OF r(1), where r' = ?r]) (use r fs that in auto)
  have eight: "(8::nat) = Suc (Suc (Suc (Suc (Suc (Suc (Suc (Suc 0)))))))" by simp
  have "reaches answers pk (Suc (Suc (Suc (Suc (Suc (Suc (Suc 0))))))) (if is_owner_or_manager ?r then Describe_data else Owner_or_manager)
      s' (tl (pages_in_order answers))" if g: "get_data_request pk s' = Inr ?r" for s'
    using describe [OF g] owner [OF g] r fs roles by (cases "answers Who_are_you = ''other''") (simp_all add: pages_in_order_def)
  from first [OF this] show ?thesis unfolding eight by (simp add: pages_in_order_def)
qed

text \<open>
  C40: whoever fills in each page as its form asks for comes through them in order to the check of the answers, and from
  there to one ticket with the answers; pressing the button again makes no other.
\<close>

theorem answered_data_requests_end_in_one_ticket:
  assumes "answers_fit answers" "get_data_request pk s = Inr r" "\<not> dr_submitted r" "dr_name_of_owner_or_manager r = []"
    and "user_row (dr_requester r) s = Inr u" "ts_create ts = Inr n"
    and "fill_in 8 answers Who_are_you pk s = (pages, s1)" "check_answers_post ts pk s1 = (a, s2)"
  shows "pages = pages_in_order answers \<and> a = Inr (Go Confirmation_page pk False) \<and>
    (\<exists>t. as_tickets s2 = as_tickets s @ [t] \<and> tk_about t = Some pk \<and> tk_requester t = wu_email u) \<and>
    check_answers_post ts pk s2 = (a, s2)"
proof -
  have id: "dr_id r = pk" "get_row (\<lambda>r. dr_id r = pk) (as_data_requests s) = Inr r"
    using assms(2) by (auto simp: get_data_request_def dest: get_row_Some split: sum.splits)
  have "reaches answers pk 8 Who_are_you s (pages_in_order answers)"
    by (rule pages_reach_check [OF assms(1,2) id(1) assms(3)]) (simp add: assms(4))
  with assms(2,7) obtain r1 where r1: "pages = pages_in_order answers" "get_data_request pk s1 = Inr r1" "fields_are_clean r1"
      "\<not> dr_submitted r1" "as_tickets s1 = as_tickets s" "as_users s1 = as_users s" "dr_requester r1 = dr_requester r"
    by (auto simp: reaches_def)
  let ?r = "r1\<lparr>dr_submitted := True, dr_zendesk_ticket_id := n\<rparr>"
  have g: "get_row (\<lambda>r. dr_id r = pk) (as_data_requests s1) = Inr r1" "dr_id r1 = pk"
    using r1(2) by (auto simp: get_data_request_def dest: get_row_Some split: sum.splits)
  have u: "user_row (dr_requester r1) s1 = Inr u" using assms(5) r1(6,7) by (simp add: user_row_def)
  have s2: "a = Inr (Go Confirmation_page pk False)" "as_tickets s2 = as_tickets s1 @ [\<lparr>tk_subject = ''Request for new dataset on Data Workspace'',
      tk_about = Some pk, tk_requester = wu_email u, tk_text = data_request_message u r1, tk_comment = [],
      tk_tag = Some ''request-for-data''\<rparr>]"
      "as_data_requests s2 = map (\<lambda>q. if dr_id q = pk then ?r else q) (as_data_requests s1)"
    using assms(6,8) r1 u g(2)
    by (auto simp: check_answers_post_def create_support_request_def create_ticket_def save_data_request_def action_defs)
  have "get_row (\<lambda>r. dr_id r = pk) (as_data_requests s2) = Inr ?r"
    unfolding s2(3) by (rule get_row_replace [OF g(1)]) (simp add: g(2))
  then have "check_answers_post ts pk s2 = (a, s2)"
    unfolding s2(1) by (simp add: check_answers_post_def get_data_request_def action_defs)
  with r1 s2 show ?thesis by simp
qed

definition sample_answers :: "data_page \<Rightarrow> string" where
  "sample_answers p = (case p of Who_are_you \<Rightarrow> ''other'' | Security_classification \<Rightarrow> ''official'' | _ \<Rightarrow> ''x'')"

theorem answered_data_requests_end_in_one_ticket_witness:
  "let s = snd (request_data_post (sample_web_user 1) sample_access_state); (pages, s1) = fill_in 8 sample_answers Who_are_you 1 s;
     (a, s2) = check_answers_post working 1 s1
   in pages = pages_in_order sample_answers \<and> check_answers_post working 1 s2 = (a, s2)"
proof -
  let ?s = "snd (request_data_post (sample_web_user 1) sample_access_state)"
  obtain pages s1 where 1: "fill_in 8 sample_answers Who_are_you 1 ?s = (pages, s1)" by fastforce
  obtain a s2 where 2: "check_answers_post working 1 s1 = (a, s2)" by fastforce
  obtain r where r: "get_data_request 1 ?s = Inr r" "\<not> dr_submitted r" "dr_name_of_owner_or_manager r = []"
      "user_row (dr_requester r) ?s = Inr (sample_web_user 1)"
    by (simp add: request_data_post_def action_defs sample_access_state_def sample_web_user_def get_data_request_def
        get_row_def user_row_def next_id_def)
  have "answers_fit sample_answers" by code_simp
  from answered_data_requests_end_in_one_ticket [OF this r _ 1 2] 1 2 show ?thesis
    by (simp add: working_def)
qed

text \<open>
  The last three links back do not lead to the page before: from the check of the answers one gets to the location and not to the
  licence, from the location to the licence, and from the licence to the classification.
\<close>

theorem links_back_skip_pages:
  "back_page (fst (success_page Licence_of_data False r)) False r = Location_of_data"
  "back_page (fst (success_page Location_of_data False r)) False r = Security_classification"
  "back_page (fst (success_page Security_classification False r)) False r = Licence_of_data"
  by simp_all

section \<open>The catalogue and the hosts\<close>

text \<open>
  Whom the page of a visible visualisation tells that they have access, the host admits, but for those who have
  it by the domain of their address only.
\<close>

theorem catalogue_and_host_disagree_on_domains:
  assumes "application_template_tag_user_commit_from_host templates host = Inr (t, tag, host_user, None)"
    and "at_type t = AppHosts.VISUALISATION" "catalogue_item_of items t = Inr i" "at_visible t"
    and "ce_access e = ci_access i" "wu_id user \<in> set (ce_user_permissions e) \<longleftrightarrow> ci_id i \<in> set (us_visualisations app_user)"
    and "py_index (split (wu_email user) ''@'') 1 = Some domain"
  shows "\<exists>admitted. application_api_is_allowed sha256 gitlab templates items app_user host = Inr admitted \<and>
    user_has_access e user = Inr (admitted \<or> domain \<in> set (ce_email_domains e))"
  using assms visualisation_access [OF assms(1-3)] by (cases "ci_access i") (auto simp: user_has_access_def)

end
