(* ===== verification/Spec2Isabelle.thy ===== *)
theory Spec2Isabelle
  imports ProxyProperties AppProperties DataProperties ToolAccess MaintenanceProperties QuickSight ActivityStream
    QueryLogs Reports DatasetApi ReferenceProperties Mailing Metadata GridQuery
    VisualisationProperties AccessProperties
begin

text \<open>
  Data Workspace gives the staff of a department access to data: a catalogue of datasets, tools such as
  JupyterLab that run in containers of their own, and visualisations. Its core is the proxy in front of all
  parts (\<open>src/dataworkspace/proxy.py\<close>) and the admin application behind it, a Django project
  (\<open>src/dataworkspace/dataworkspace\<close>) with a database of its own and celery tasks. Both are modelled here.

  \<^bold>\<open>Parts.\<close> The proxy authenticates each request by single sign-on, basic authentication, Hawk or not at all,
  checks the address of the client against a list of networks, and hands the request on: to the admin
  application, to a mirror of a package repository, to Superset, or to the application that the host names.
  For applications it asks the API of the admin application, which keeps one row per instance and host and
  lets a spawner start the container. Before a tool starts, its user gets credentials for the databases,
  with privileges on exactly the tables that the catalogue allows. Tasks stop idle applications, drop the
  database users they have left behind, bring the data sources of QuickSight in line, read users from the
  activity stream, and record who has queried which table.

  \<^bold>\<open>Conventions.\<close> Theory \<open>Prelude\<close> models what the sources use of Python's strings, numbers, dictionaries, JSON
  and URLs. A string is a list of characters below 256. Code that is not in the repository (AWS, GitLab,
  PostgreSQL, Redis, Elasticsearch, the Hawk library, SHA-256, the JSON codec, the reading of dates) is a
  parameter: a field of a record of libraries, or a service. Logging and pauses are left out.
  There are two ways to call services. A coroutine of the proxy is a value of type \<open>pio\<close> (theory \<open>ProxyIO\<close>): it
  does HTTP requests, Redis commands and writes to the client, and is run in an environment that answers
  them; the judgement with the rules \<open>hoare\<close> speaks of all environments. A function of the admin application
  that talks to other parties is a value of type \<open>prog\<close> (theory \<open>Effects\<close>): a tree of calls, run by \<open>exec\<close> against
  services that may answer anything, with the history of calls and answers as its trace; \<open>spec\<close>, \<open>keeps\<close>,
  \<open>calls_only\<close> and \<open>calls_at_most\<close> are its judgements, with one rule per construct. An exception is the name of
  its class; \<open>want\<close> marks the places where Python raises because a key or an index is missing.
  Views whose point is what they do to the rows of the database are of type \<open>action\<close> (theory \<open>Actions\<close>): functions from
  the rows to an outcome and the rows after it, where \<open>atomic\<close> rolls back on an exception and everything else stays
  written; \<open>wp\<close> computes what has to hold before them, and \<open>relates\<close> carries a relation between the rows before and after.

  \<^bold>\<open>The proxy.\<close> \<open>Env\<close>: \<open>normalise_environment\<close> of \<open>utils.py\<close>, the settings of all programs. \<open>IpAddress\<close>: networks on
  words of 32 bits. \<open>ProxyConfig\<close>: the settings of the proxy and its content security policies. \<open>ProxyRequest\<close>:
  the classes of requests and the headers that are passed on. \<open>ProxyHandlers\<close>: \<open>handle\<close>, \<open>handle_application\<close> and
  the others. \<open>ProxyAuth\<close>: the middlewares for authentication and the whole application \<open>proxy_app\<close>.
  \<open>ProxySession\<close>: \<open>proxy_session.py\<close>. The remaining theories hold facts: \<open>ProxyHandling\<close> on what handlers may
  cause, \<open>ProxyGates\<close> and \<open>ProxyGuards\<close> on what comes before a protected handler runs, \<open>ProxySso\<close> on the redirects
  of single sign-on, \<open>ProxySharing\<close> on sessions shared by concurrent requests (a step relation), and
  \<open>ProxyProperties\<close> the properties.

  \<^bold>\<open>Applications.\<close> \<open>AppHosts\<close>: which template, user and commit a host stands for. \<open>AppInstances\<close>: who may use it,
  the rows of instances and the handlers of the API with their interleavings (a step relation; each request
  reads and writes in separate steps). \<open>Spawner\<close>: \<open>FargateSpawner.spawn\<close> with its waiting loops: 900 looks at
  a pipeline, 60 at an address, 10 attempts at a role and 6 at stopping a task, as in the code, hence at most
  987 calls besides those for database users. \<open>SpawnerState\<close>: the state and stop of a task, tags of images, the
  spawner for local processes. \<open>ToolAccess\<close>: the tasks \<open>spawn\<close> and \<open>stop\<close>, roles of AWS and the check in GitLab.
  \<open>AppProperties\<close>: the properties.

  \<^bold>\<open>Data access.\<close> \<open>DataAccess\<close>: names of database users and the tables a user or an application may read.
  \<open>Sql\<close>: the statements, their effect on privileges, and \<open>LIKE\<close>. \<open>Credentials\<close>: \<open>new_private_database_credentials\<close>;
  \<open>CredentialsFacts\<close>: its effect on privileges and the discipline of its lock. \<open>Streaming\<close>: downloads, as a producer
  and a consumer around a queue of one item, and their CSV. \<open>DataProperties\<close>: the properties. \<open>DatasetApi\<close>: the
  API that gives out the rows of a dataset in pages, and a client that follows them.

  \<^bold>\<open>Reference datasets.\<close> \<open>ReferenceData\<close>: their rows and fields, the class that is made for the records, and the copy
  in an external database. \<open>ReferenceMethods\<close>: what saves and deletes datasets, fields and records, and the upload
  of a CSV file; methods take and return their objects, as these keep what is assigned to them before an exception.
  The facts: \<open>ReferenceClasses\<close> on which links between datasets let the classes be made, \<open>ReferenceSync\<close> on what a
  synchronisation leaves in the external table, \<open>ReferenceVersions\<close> on version numbers over the life of a dataset
  (the relation \<open>life\<close>), with the rules \<open>mspec\<close> and \<open>mcalls\<close> for methods, \<open>ReferenceUploads\<close> on logs of uploads and links
  that are refused. \<open>ReferenceProperties\<close>: the properties.

  \<^bold>\<open>Changes and the grid.\<close> \<open>Notifications\<close>: changelogs of tables and queries, and the task that mails subscribers about
  changes; \<open>Mailing\<close>: any number of runs of the task at the same time (the relation \<open>mailing\<close>; the phases that \<open>flows\<close>
  assigns to the points of a run say what it may call), and the properties. \<open>Metadata\<close>: the tasks that note when datasets
  have changed. \<open>GridQuery\<close>: the query behind the data grid, what it is composed of, and which rows it selects compared
  with what the filters mean.

  \<^bold>\<open>Visualisations.\<close> The developers' pages of \<open>apps/applications/views.py\<close>. \<open>Visualisations\<close>: the rows, the gate before every
  page, and the template and catalogue item that a new project gets. \<open>VisualisationPages\<close>: releases, users with access, and
  approvals, with \<open>VisualisationApproval.save\<close> and its form. \<open>VisualisationPublishing\<close>: the form of the catalogue item, the
  datasets a visualisation may use, publication, and all requests as one \<open>handler\<close>. \<open>VisualisationFacts\<close> and \<open>VisualisationRuns\<close>
  show which requests can make something visible, how approvals evolve over a sequence of requests, and what a saved form
  of datasets changes; \<open>VisualisationNames\<close>: names and hosts. \<open>VisualisationProperties\<close>: the properties.

  \<^bold>\<open>Requests.\<close> \<open>AccessRequests\<close>: who may see a catalogue item, the pages on which people ask for access, and the
  tickets they end in. \<open>DataRequests\<close>: the pages on which they ask for new data. \<open>AccessProperties\<close>: whose requests a page
  changes, how many tickets there are, and that the pages lead to one; where catalogue and hosts disagree.

  \<^bold>\<open>Tasks.\<close> \<open>Maintenance\<close> and \<open>MaintenanceProperties\<close>: idle applications, times of tasks, unused database users.
  \<open>Accounts\<close>: \<open>create_user_from_sso\<close>, with what other requests do between its steps. \<open>ActivityStream\<close>: users of the
  activity stream. \<open>QuickSight\<close>: data sources and dashboards. \<open>QueryLogs\<close>: the audit log of queries, with Python's
  \<open>csv.reader\<close> and the patterns of ignored statements. \<open>Reports\<close>: what is sent to dashboards and to Slack.

  \<^bold>\<open>Fuel.\<close> Loops that follow what a service sends, page by page, have fuel and fail with an exception of their
  own when it runs out: \<open>sync_all\<close> of \<open>QuickSight\<close>, \<open>fetch_pages\<close> of \<open>ActivityStream\<close>, \<open>fetch_portions\<close> of
  \<open>QueryLogs\<close>, \<open>log_events\<close> of \<open>Reports\<close>. The properties about them are of safety and hold for every amount;
  more fuel than a run has used makes no difference to it (\<open>sync_all_fuel\<close>). The client \<open>follow\<close> of \<open>DatasetApi\<close> needs
  one more than the number of rows. \<open>get_record_model_class\<close> has the depth of the stack of Python as its fuel: any
  depth beyond the longest chain of links is enough. All other loops are bounded or
  run over lists, and end.

  \<^bold>\<open>Not modelled.\<close> Pages of the admin site, forms, templates, scripts of the front end, migrations, settings of
  third-party programs and tests. The manifest lists each part with its reason.
\<close>

end
